(* ===== verification/Prelude.thy ===== *)
theory Prelude
  imports Main "HOL-Library.Word" "HOL-Library.AList"
begin

text \<open>
  Shared vocabulary of the development: machine integers, the standard containers the
  Rust code uses (\<open>HashMap\<close>, \<open>HashSet\<close>, the bounded \<open>mpsc\<close> channel) and a contract for
  components that are driven by a sequence of events.

  \<^item> A \<open>HashMap\<close> is an association list with distinct keys. The order of the list is the
    iteration order of the map, which the standard library leaves open; no theorem of the
    development depends on it.
  \<^item> A bounded channel is its buffered messages, its capacity and a flag that says
    whether the receiver is gone. \<open>try_send\<close> has the three outcomes of the Rust API.
  \<^item> An \<^emph>\<open>event machine\<close> is a step function into \<open>option\<close>; \<open>None\<close> stands for a panic.
\<close>

section \<open>Machine integers\<close>

type_synonym u8 = "8 word"
type_synonym u16 = "16 word"
type_synonym u32 = "32 word"
type_synonym u64 = "64 word"
type_synonym bytes = "u8 list"

text \<open>
  An \<open>Instant\<close> is a number of nanoseconds since an arbitrary origin, a \<open>Duration\<close> a number
  of nanoseconds. \<open>duration_since\<close> saturates at zero.
\<close>

type_synonym instant = int

definition from_secs :: "int \<Rightarrow> int" where
  "from_secs n = n * 1000000000"

definition duration_since :: "instant \<Rightarrow> instant \<Rightarrow> int" where
  "duration_since now t = max 0 (now - t)"

definition u64_saturating_add :: "u64 \<Rightarrow> u64 \<Rightarrow> u64" where
  "u64_saturating_add a b = (if unat a + unat b < 2 ^ 64 then a + b else - 1)"

definition u64_saturating_sub :: "u64 \<Rightarrow> u64 \<Rightarrow> u64" where
  "u64_saturating_sub a b = (if b \<le> a then a - b else 0)"

lemma u64_saturating_add_ge: "a \<le> u64_saturating_add a b"
proof (cases "unat a + unat b < 2 ^ 64")
  case True
  then show ?thesis
    by (simp add: u64_saturating_add_def word_le_nat_alt unat_word_ariths)
next
  case False
  then show ?thesis by (simp add: u64_saturating_add_def)
qed

lemma u64_saturating_add_one_pos: "u64_saturating_add a 1 \<noteq> 0"
proof (cases "unat a + 1 < 2 ^ 64")
  case True
  then have "unat (a + 1) = unat a + 1"
    by (simp add: unat_word_ariths)
  then show ?thesis
    using True by (auto simp: u64_saturating_add_def)
next
  case False
  then show ?thesis by (simp add: u64_saturating_add_def)
qed

section \<open>Collections for the simplifier\<close>

named_theorems hm_simps \<open>lookup and key laws of the hash map operations\<close>
named_theorems str_simps \<open>equations of the string operations\<close>
named_theorems calc_ops \<open>definitions of the calculator actions\<close>
named_theorems router_ops \<open>definitions of the router operations\<close>

section \<open>Hash maps\<close>

type_synonym ('k, 'v) hash_map = "('k \<times> 'v) list"

definition hm_get :: "('k, 'v) hash_map \<Rightarrow> 'k \<Rightarrow> 'v option" where
  "hm_get m k = map_of m k"

definition hm_insert :: "'k \<Rightarrow> 'v \<Rightarrow> ('k, 'v) hash_map \<Rightarrow> ('k, 'v) hash_map" where
  "hm_insert k v m = AList.update k v m"

definition hm_remove :: "'k \<Rightarrow> ('k, 'v) hash_map \<Rightarrow> ('k, 'v) hash_map" where
  "hm_remove k m = AList.delete k m"

definition hm_retain :: "('k \<Rightarrow> 'v \<Rightarrow> bool) \<Rightarrow> ('k, 'v) hash_map \<Rightarrow> ('k, 'v) hash_map" where
  "hm_retain P m = filter (\<lambda>(k, v). P k v) m"

definition hm_keys :: "('k, 'v) hash_map \<Rightarrow> 'k list" where
  "hm_keys m = map fst m"

definition hm_contains :: "('k, 'v) hash_map \<Rightarrow> 'k \<Rightarrow> bool" where
  "hm_contains m k = (hm_get m k \<noteq> None)"

definition hm_len :: "('k, 'v) hash_map \<Rightarrow> nat" where
  "hm_len m = length m"

definition hm_wf :: "('k, 'v) hash_map \<Rightarrow> bool" where
  "hm_wf m = distinct (hm_keys m)"

text \<open>
  The contract of a finite map: what a lookup returns after each update, how the update
  changes the number of entries, and that updates keep the representation invariant.
\<close>

locale finite_map_iface =
  fixes get :: "'m \<Rightarrow> 'k \<Rightarrow> 'v option"
    and put :: "'k \<Rightarrow> 'v \<Rightarrow> 'm \<Rightarrow> 'm"
    and del :: "'k \<Rightarrow> 'm \<Rightarrow> 'm"
    and keep :: "('k \<Rightarrow> 'v \<Rightarrow> bool) \<Rightarrow> 'm \<Rightarrow> 'm"
    and len :: "'m \<Rightarrow> nat"
    and wf :: "'m \<Rightarrow> bool"
  assumes get_put: "get (put k v m) k' = (if k' = k then Some v else get m k')"
    and get_del: "get (del k m) k' = (if k' = k then None else get m k')"
    and get_keep: "wf m \<Longrightarrow> get (keep P m) k =
          (case get m k of None \<Rightarrow> None | Some v \<Rightarrow> if P k v then Some v else None)"
    and wf_put: "wf m \<Longrightarrow> wf (put k v m)"
    and wf_del: "wf m \<Longrightarrow> wf (del k m)"
    and wf_keep: "wf m \<Longrightarrow> wf (keep P m)"
    and len_card: "wf m \<Longrightarrow> len m = card {k. get m k \<noteq> None}"
    and finite_get: "finite {k. get m k \<noteq> None}"
begin

lemma len_put:
  assumes "wf m"
  shows "len (put k v m) = (if get m k = None then Suc (len m) else len m)"
proof -
  have "{x. get (put k v m) x \<noteq> None} = insert k {x. get m x \<noteq> None}"
    by (auto simp: get_put)
  then show ?thesis
    using assms finite_get [of m]
    by (simp add: len_card wf_put card_insert_if)
qed

lemma len_del:
  assumes "wf m"
  shows "len (del k m) = (if get m k = None then len m else len m - 1)"
proof -
  have "{x. get (del k m) x \<noteq> None} = {x. get m x \<noteq> None} - {k}"
    by (auto simp: get_del)
  then show ?thesis
    using assms finite_get [of m]
    by (simp add: len_card wf_del card_Diff_singleton_if)
qed

lemma len_mono:
  assumes "wf m" and "wf m'" and "\<And>k. get m k \<noteq> None \<Longrightarrow> get m' k \<noteq> None"
  shows "len m \<le> len m'"
  using assms finite_get [of m'] by (auto simp: len_card intro!: card_mono)

lemma len_keep: "wf m \<Longrightarrow> len (keep P m) \<le> len m"
  by (rule len_mono) (auto simp: wf_keep get_keep split: option.splits)

text \<open>Making room before inserting a fresh key keeps a table within its capacity.\<close>

lemma len_evict_put:
  assumes "wf m" and "len m \<le> cap" and "0 < cap"
    and "get m k = None" and "cap \<le> len m \<Longrightarrow> get m old \<noteq> None"
  shows "len (put k v (if cap \<le> len m then del old m else m)) \<le> cap"
  using assms by (auto simp: len_put len_del wf_del get_del)

end

lemma hm_get_update: "hm_get (hm_insert k v m) k' = (if k' = k then Some v else hm_get m k')"
  by (simp add: hm_get_def hm_insert_def update_conv')

lemma hm_get_remove: "hm_get (hm_remove k m) k' = (if k' = k then None else hm_get m k')"
  by (simp add: hm_get_def hm_remove_def delete_conv')

lemma hm_dom: "{k. hm_get m k \<noteq> None} = set (hm_keys m)"
  by (auto simp: hm_get_def hm_keys_def map_of_eq_None_iff)

lemma map_of_filter_distinct:
  "distinct (map fst m) \<Longrightarrow> map_of (filter (\<lambda>(k, v). P k v) m) k =
     (case map_of m k of None \<Rightarrow> None | Some v \<Rightarrow> if P k v then Some v else None)"
proof (induction m)
  case (Cons p m)
  obtain k' v where p: "p = (k', v)" by force
  have "map_of m k' = None"
    using Cons.prems p by (simp add: map_of_eq_None_iff)
  then show ?case
    using Cons p by (auto split: option.splits)
qed simp

interpretation hm: finite_map_iface hm_get hm_insert hm_remove hm_retain hm_len hm_wf
proof
  fix k k' :: 'a and v :: 'b and m :: "('a, 'b) hash_map" and P
  show "hm_get (hm_insert k v m) k' = (if k' = k then Some v else hm_get m k')"
    by (rule hm_get_update)
  show "hm_get (hm_remove k m) k' = (if k' = k then None else hm_get m k')"
    by (rule hm_get_remove)
  show "finite {k. hm_get m k \<noteq> None}"
    unfolding hm_dom by simp
  assume wf: "hm_wf m"
  show "hm_get (hm_retain P m) k =
      (case hm_get m k of None \<Rightarrow> None | Some v \<Rightarrow> if P k v then Some v else None)"
    using wf by (simp add: hm_get_def hm_retain_def hm_wf_def hm_keys_def map_of_filter_distinct)
  show "hm_wf (hm_insert k v m)"
    using wf by (simp add: hm_wf_def hm_insert_def hm_keys_def distinct_update)
  show "hm_wf (hm_remove k m)"
    using wf by (simp add: hm_wf_def hm_remove_def hm_keys_def distinct_delete)
  show "hm_wf (hm_retain P m)"
    using wf by (simp add: hm_wf_def hm_retain_def hm_keys_def distinct_map_filter)
  show "hm_len m = card {k. hm_get m k \<noteq> None}"
    using wf distinct_card [of "hm_keys m"] unfolding hm_dom
    by (simp add: hm_len_def hm_wf_def hm_keys_def)
qed

lemma hm_empty [simp]: "hm_get [] k = None" "hm_wf []" "hm_len [] = 0"
  by (simp_all add: hm_get_def hm_wf_def hm_keys_def hm_len_def)

lemma hm_keys_insert [hm_simps]: "set (hm_keys (hm_insert k v m)) = insert k (set (hm_keys m))"
  by (simp add: hm_keys_def hm_insert_def dom_update)

lemma hm_keys_remove [hm_simps]: "set (hm_keys (hm_remove k m)) = set (hm_keys m) - {k}"
  by (auto simp: hm_keys_def hm_remove_def delete_keys simp flip: set_map)

lemma hm_keys_retain: "set (hm_keys (hm_retain P m)) \<subseteq> set (hm_keys m)"
  by (auto simp: hm_keys_def hm_retain_def)

lemma hm_keys_retain_key [hm_simps]:
  "set (hm_keys (hm_retain (\<lambda>k _. P k) m)) = {k \<in> set (hm_keys m). P k}"
  by (auto simp: hm_keys_def hm_retain_def)

lemma hm_keys_get: "k \<in> set (hm_keys m) \<longleftrightarrow> hm_get m k \<noteq> None"
  using hm_dom [of m] by blast

lemmas hm_gets [hm_simps] = hm.get_put hm.get_del
lemmas hm_wfs [simp, intro] = hm.wf_put hm.wf_del hm.wf_keep

subsection \<open>The oldest entry\<close>

text \<open>
  \<open>iter().min_by_key(..)\<close>: the first entry, in iteration order, whose key is minimal.
\<close>

fun hm_min_by :: "('v \<Rightarrow> 't :: linorder) \<Rightarrow> ('k, 'v) hash_map \<Rightarrow> ('k \<times> 'v) option" where
  "hm_min_by f [] = None"
| "hm_min_by f (kv # m) =
     (case hm_min_by f m of
        None \<Rightarrow> Some kv
      | Some kv' \<Rightarrow> if f (snd kv') < f (snd kv) then Some kv' else Some kv)"

lemma hm_min_by_None: "hm_min_by f m = None \<longleftrightarrow> m = []"
  by (cases m) (auto split: option.splits if_splits)

lemma hm_min_by_Some:
  "hm_min_by f m = Some kv \<Longrightarrow> kv \<in> set m \<and> (\<forall>kv' \<in> set m. f (snd kv) \<le> f (snd kv'))"
proof (induction m arbitrary: kv)
  case (Cons p m)
  then show ?case
  proof (cases "hm_min_by f m")
    case None
    then show ?thesis using Cons.prems by (simp add: hm_min_by_None)
  next
    case (Some q)
    then show ?thesis
      using Cons.prems Cons.IH [OF Some] by (fastforce split: if_splits)
  qed
qed simp

lemma hm_min_by_get: "hm_min_by f m = Some (k, v) \<Longrightarrow> hm_get m k \<noteq> None"
  using hm_keys_get [of k m] by (drule_tac hm_min_by_Some) (force simp: hm_keys_def)

subsection \<open>Tables that evict their oldest entry\<close>

text \<open>
  The contract of a bounded table: before a fresh key is inserted into a full table, one
  present entry, chosen by \<open>victim\<close>, is removed.
\<close>

locale evicting_table = finite_map_iface get put del keep len wf
  for get :: "'m \<Rightarrow> 'k \<Rightarrow> 'v option" and put :: "'k \<Rightarrow> 'v \<Rightarrow> 'm \<Rightarrow> 'm" and del :: "'k \<Rightarrow> 'm \<Rightarrow> 'm"
    and keep :: "('k \<Rightarrow> 'v \<Rightarrow> bool) \<Rightarrow> 'm \<Rightarrow> 'm" and len :: "'m \<Rightarrow> nat" and wf :: "'m \<Rightarrow> bool" +
  fixes victim :: "'m \<Rightarrow> 'k option"
  assumes victim_None: "victim m = None \<Longrightarrow> len m = 0"
    and victim_Some: "victim m = Some k \<Longrightarrow> get m k \<noteq> None"
begin

lemma insert_evict_wf: "wf m \<Longrightarrow> wf (put k v (if cap \<le> len m then case victim m of Some old \<Rightarrow> del old m | None \<Rightarrow> m else m))"
  by (auto simp: wf_put wf_del split: option.split)

lemma insert_evict_bound:
  assumes "wf m" and "len m \<le> cap" and "0 < cap" and "get m k = None"
  shows "len (put k v (if cap \<le> len m then case victim m of Some old \<Rightarrow> del old m | None \<Rightarrow> m else m)) \<le> cap"
proof (cases "victim m")
  case None
  then show ?thesis
    using assms victim_None [OF None] by (simp add: len_put)
next
  case (Some old)
  then show ?thesis
    using len_evict_put [OF assms, of old v] victim_Some [OF Some]
    by (simp split: if_splits)
qed

text \<open>The new entry is there, and at most the victim is gone.\<close>

lemma insert_evict_get:
  "get (put k v (if cap \<le> len m then case victim m of Some old \<Rightarrow> del old m | None \<Rightarrow> m else m))
       k' =
     (if k' = k then Some v
      else if cap \<le> len m \<and> victim m = Some k' then None else get m k')"
  by (auto simp: get_put get_del split: option.splits)

end

definition hm_oldest :: "('v \<Rightarrow> 't :: linorder) \<Rightarrow> ('k, 'v) hash_map \<Rightarrow> 'k option" where
  "hm_oldest f m = map_option fst (hm_min_by f m)"

interpretation ev: evicting_table hm_get hm_insert hm_remove hm_retain hm_len hm_wf "hm_oldest f" for f
  by unfold_locales
    (auto simp: hm_oldest_def hm_min_by_None hm_len_def dest: hm_min_by_get)

definition hm_insert_evict ::
    "('v \<Rightarrow> 't :: linorder) \<Rightarrow> nat \<Rightarrow> 'k \<Rightarrow> 'v \<Rightarrow> ('k, 'v) hash_map \<Rightarrow> ('k, 'v) hash_map" where
  "hm_insert_evict f cap k v m =
     hm_insert k v
       (if hm_len m \<ge> cap then case hm_oldest f m of Some old \<Rightarrow> hm_remove old m | None \<Rightarrow> m else m)"

lemmas hm_insert_evict_wf = ev.insert_evict_wf [folded hm_insert_evict_def]
lemmas hm_insert_evict_bound = ev.insert_evict_bound [folded hm_insert_evict_def]
lemmas hm_insert_evict_get = ev.insert_evict_get [folded hm_insert_evict_def]

lemma hm_oldest_least:
  assumes "hm_wf m" and "hm_oldest f m = Some k" and "hm_get m k' = Some v'"
  shows "\<exists>v. hm_get m k = Some v \<and> f v \<le> f v'"
proof -
  obtain v where v: "hm_min_by f m = Some (k, v)"
    using assms(2) by (auto simp: hm_oldest_def)
  then have "(k, v) \<in> set m" and least: "\<forall>kv \<in> set m. f v \<le> f (snd kv)"
    using hm_min_by_Some [OF v] by auto
  then have "hm_get m k = Some v"
    using assms(1) by (simp add: hm_get_def hm_wf_def hm_keys_def)
  moreover have "(k', v') \<in> set m"
    using assms(3) by (simp add: hm_get_def map_of_SomeD)
  ultimately show ?thesis
    using least by force
qed

section \<open>Hash sets\<close>

type_synonym 'k hash_set = "'k list"

definition hs_insert :: "'k \<Rightarrow> 'k hash_set \<Rightarrow> 'k hash_set" where
  "hs_insert k s = (if k \<in> set s then s else s @ [k])"

definition hs_remove :: "'k \<Rightarrow> 'k hash_set \<Rightarrow> 'k hash_set" where
  "hs_remove k s = removeAll k s"

lemma hs_set [hm_simps, simp]:
  "set (hs_insert k s) = insert k (set s)"
  "set (hs_remove k s) = set s - {k}"
  by (auto simp: hs_insert_def hs_remove_def)

lemma hs_distinct [simp]:
  "distinct s \<Longrightarrow> distinct (hs_insert k s)"
  "distinct s \<Longrightarrow> distinct (hs_remove k s)"
  by (auto simp: hs_insert_def hs_remove_def distinct_removeAll)

lemma hs_length:
  "length (hs_insert k s) = (if k \<in> set s then length s else Suc (length s))"
  "length (hs_remove k s) \<le> length s"
  by (auto simp: hs_insert_def hs_remove_def)

section \<open>Bounded channels\<close>

record 'm chan =
  ch_buf :: "'m list"
  ch_cap :: nat
  ch_closed :: bool

datatype send_error = Full | Closed

definition chan_new :: "nat \<Rightarrow> 'm chan" where
  "chan_new cap = \<lparr>ch_buf = [], ch_cap = cap, ch_closed = False\<rparr>"

definition try_send :: "'m \<Rightarrow> 'm chan \<Rightarrow> send_error + 'm chan" where
  "try_send x c =
     (if ch_closed c then Inl Closed
      else if ch_cap c \<le> length (ch_buf c) then Inl Full
      else Inr (c\<lparr>ch_buf := ch_buf c @ [x]\<rparr>))"

definition chan_wf :: "'m chan \<Rightarrow> bool" where
  "chan_wf c = (length (ch_buf c) \<le> ch_cap c)"

text \<open>
  The contract of a bounded queue: a send is refused or appends exactly one message, and
  the queue never holds more than its capacity.
\<close>

locale bounded_queue =
  fixes send :: "'x \<Rightarrow> 'q \<Rightarrow> 'e + 'q"
    and content :: "'q \<Rightarrow> 'x list"
    and cap :: "'q \<Rightarrow> nat"
  assumes send_ok: "send x q = Inr q' \<Longrightarrow> content q' = content q @ [x] \<and> cap q' = cap q"
    and send_room: "send x q = Inr q' \<Longrightarrow> length (content q) < cap q"
begin

lemma send_within: "send x q = Inr q' \<Longrightarrow> length (content q') \<le> cap q'"
  using send_ok send_room by fastforce

lemma send_mem: "send x q = Inr q' \<Longrightarrow> y \<in> set (content q') \<longleftrightarrow> y = x \<or> y \<in> set (content q)"
  using send_ok by fastforce

end

interpretation ch: bounded_queue try_send ch_buf ch_cap
  by unfold_locales (auto simp: try_send_def split: if_splits)

lemma try_send_wf: "chan_wf c \<Longrightarrow> try_send x c = Inr c' \<Longrightarrow> chan_wf c'"
  using ch.send_within by (auto simp: chan_wf_def)

section \<open>Event machines\<close>

text \<open>
  A component that reacts to one event at a time. Its step may panic (\<open>None\<close>). What
  holds initially and is kept by every admissible step holds after every run, and a step
  that cannot panic on the invariant makes every run panic-free.
\<close>

fun run_steps :: "('s \<Rightarrow> 'e \<Rightarrow> 's option) \<Rightarrow> 's \<Rightarrow> 'e list \<Rightarrow> 's option" where
  "run_steps step s [] = Some s"
| "run_steps step s (e # es) = (case step s e of None \<Rightarrow> None | Some s' \<Rightarrow> run_steps step s' es)"

lemma run_steps_append:
  "run_steps step s (xs @ ys) =
     (case run_steps step s xs of None \<Rightarrow> None | Some s' \<Rightarrow> run_steps step s' ys)"
  by (induction xs arbitrary: s) (auto split: option.splits)

locale event_machine =
  fixes step :: "'s \<Rightarrow> 'e \<Rightarrow> 's option"
    and admissible :: "'e \<Rightarrow> bool"
    and inv :: "'s \<Rightarrow> bool"
  assumes step_inv: "inv s \<Longrightarrow> admissible e \<Longrightarrow> step s e = Some s' \<Longrightarrow> inv s'"
begin

lemma run_inv: "inv s \<Longrightarrow> list_all admissible es \<Longrightarrow> run_steps step s es = Some s' \<Longrightarrow> inv s'"
proof (induction es arbitrary: s)
  case (Cons e es)
  then show ?case
    by (auto split: option.splits dest: step_inv)
qed simp

text \<open>
  A panic of a run is the panic of one of its steps, taken in a state that satisfies the
  invariant.
\<close>

lemma run_panic:
  "inv s \<Longrightarrow> list_all admissible es \<Longrightarrow> run_steps step s es = None \<Longrightarrow>
     \<exists>s' e. inv s' \<and> e \<in> set es \<and> step s' e = None"
proof (induction es arbitrary: s)
  case (Cons e es)
  show ?case
  proof (cases "step s e")
    case None
    then show ?thesis using Cons.prems by auto
  next
    case (Some s1)
    then have "inv s1"
      using Cons.prems by (auto intro: step_inv)
    moreover have "list_all admissible es" and "run_steps step s1 es = None"
      using Cons.prems Some by auto
    ultimately obtain s' e' where "inv s'" "e' \<in> set es" "step s' e' = None"
      using Cons.IH by blast
    then show ?thesis by auto
  qed
qed simp

end

end
