(* ===== verification/Rust_Str.thy ===== *)
theory Rust_Str
  imports Prelude
begin

text \<open>
  Rust strings. A \<open>str\<close> is its UTF-8 encoding, so \<open>len()\<close> counts bytes; a model string
  is the list of those bytes (a HOL \<open>char\<close> is one byte). Operations that work on
  characters go through \<open>utf8_chars\<close>, which cuts the bytes into the encodings of the
  successive characters.
\<close>

section \<open>Characters\<close>

abbreviation byte :: "nat \<Rightarrow> char" where
  "byte n \<equiv> char_of n"

abbreviation code :: "char \<Rightarrow> nat" where
  "code c \<equiv> of_char c"

text \<open>The number of bytes of a character, from its first byte.\<close>

definition utf8_width :: "char \<Rightarrow> nat" where
  "utf8_width c =
     (if code c < 0x80 then 1 else if code c < 0xE0 then 2 else if code c < 0xF0 then 3 else 4)"

lemma utf8_width_pos [simp]: "0 < utf8_width c"
  by (simp add: utf8_width_def)

function utf8_chars :: "string \<Rightarrow> string list" where
  "utf8_chars [] = []"
| "utf8_chars (c # cs) =
     (c # take (utf8_width c - 1) cs) # utf8_chars (drop (utf8_width c - 1) cs)"
  by pat_completeness auto
termination
  by (relation "measure length") auto

definition ascii :: "string \<Rightarrow> bool" where
  "ascii s = list_all (\<lambda>c. code c < 0x80) s"

lemma concat_utf8_chars [simp]: "concat (utf8_chars s) = s"
  by (induction s rule: utf8_chars.induct) auto

lemma utf8_chars_ascii: "ascii s \<Longrightarrow> utf8_chars s = map (\<lambda>c. [c]) s"
proof (induction s)
  case (Cons c s)
  then have "utf8_width c = 1"
    by (simp add: ascii_def utf8_width_def)
  then show ?case
    using Cons by (simp add: ascii_def)
qed simp

lemma ascii_simps [str_simps]:
  "ascii []" "ascii (c # s) \<longleftrightarrow> code c < 0x80 \<and> ascii s" "ascii (s @ t) \<longleftrightarrow> ascii s \<and> ascii t"
  by (auto simp: ascii_def)

text \<open>The code point of a character, from its encoding.\<close>

definition char_code :: "string \<Rightarrow> nat" where
  "char_code ch =
     (case map code ch of
        [a] \<Rightarrow> a
      | [a, b] \<Rightarrow> (a mod 32) * 64 + b mod 64
      | [a, b, c] \<Rightarrow> (a mod 16) * 4096 + (b mod 64) * 64 + c mod 64
      | [a, b, c, d] \<Rightarrow> (a mod 8) * 262144 + (b mod 64) * 4096 + (c mod 64) * 64 + d mod 64
      | _ \<Rightarrow> 0)"

text \<open>\<open>char::is_control\<close>: the code points 0--31 and 127--159.\<close>

definition is_control :: "string \<Rightarrow> bool" where
  "is_control ch =
     (case ch of
        [a] \<Rightarrow> code a < 0x20 \<or> code a = 0x7F
      | [a, b] \<Rightarrow> code a = 0xC2 \<and> 0x80 \<le> code b \<and> code b \<le> 0x9F
      | _ \<Rightarrow> False)"

text \<open>\<open>char::is_whitespace\<close>: the code points with the Unicode property \<open>White_Space\<close>.\<close>

definition is_whitespace :: "string \<Rightarrow> bool" where
  "is_whitespace ch =
     (case map code ch of
        [a] \<Rightarrow> (9 \<le> a \<and> a \<le> 13) \<or> a = (32 :: nat)
      | [a, b] \<Rightarrow> a = 0xC2 \<and> (b = 0x85 \<or> b = 0xA0)
      | [a, b, c] \<Rightarrow>
          (a = 0xE1 \<and> b = 0x9A \<and> c = 0x80)
          \<or> (a = 0xE2 \<and> b = 0x80 \<and> ((0x80 \<le> c \<and> c \<le> 0x8A) \<or> c = 0xA8 \<or> c = 0xA9 \<or> c = 0xAF))
          \<or> (a = 0xE2 \<and> b = 0x81 \<and> c = 0x9F)
          \<or> (a = 0xE3 \<and> b = 0x80 \<and> c = 0x80)
      | _ \<Rightarrow> False)"

section \<open>Operations on \<open>str\<close> and \<open>String\<close>\<close>

definition str_trim :: "string \<Rightarrow> string" where
  "str_trim s =
     concat (rev (dropWhile is_whitespace (rev (dropWhile is_whitespace (utf8_chars s)))))"

definition any_control :: "string \<Rightarrow> bool" where
  "any_control s = list_ex is_control (utf8_chars s)"

text \<open>\<open>to_ascii_lowercase\<close> changes the bytes of \<open>A\<close> to \<open>Z\<close> only.\<close>

definition to_ascii_lowercase :: "string \<Rightarrow> string" where
  "to_ascii_lowercase s =
     map (\<lambda>c. if 65 \<le> code c \<and> code c \<le> 90 then byte (code c + 32) else c) s"

fun strip_prefix :: "string \<Rightarrow> string \<Rightarrow> string option" where
  "strip_prefix [] s = Some s"
| "strip_prefix (p # ps) [] = None"
| "strip_prefix (p # ps) (c # cs) = (if p = c then strip_prefix ps cs else None)"

lemma strip_prefix_Some: "strip_prefix p s = Some r \<longleftrightarrow> s = p @ r"
  by (induction p s rule: strip_prefix.induct) auto

lemma strip_prefix_None: "strip_prefix p s = None \<longleftrightarrow> (\<nexists>r. s = p @ r)"
  using strip_prefix_Some [of p s] by (metis not_None_eq)

definition starts_with :: "string \<Rightarrow> string \<Rightarrow> bool" where
  "starts_with s p = (strip_prefix p s \<noteq> None)"

text \<open>\<open>trim_end_matches\<close> with a one-byte character.\<close>

definition trim_end_matches :: "char \<Rightarrow> string \<Rightarrow> string" where
  "trim_end_matches c s = rev (dropWhile (\<lambda>x. x = c) (rev s))"

text \<open>\<open>String::pop\<close> drops the last character.\<close>

definition str_pop :: "string \<Rightarrow> string" where
  "str_pop s = concat (butlast (utf8_chars s))"

lemma str_pop_ascii: "ascii s \<Longrightarrow> str_pop s = butlast s"
  by (simp add: str_pop_def utf8_chars_ascii map_butlast [symmetric])

text \<open>\<open>char::from(u8)\<close> is the code point of that number; pushing it appends its UTF-8.\<close>

definition push_latin1 :: "nat \<Rightarrow> string \<Rightarrow> string" where
  "push_latin1 n s =
     s @ (if n < 0x80 then [byte n] else [byte (0xC0 + n div 64), byte (0x80 + n mod 64)])"

text \<open>\<open>str::find\<close> with a one-byte character, splitting around the first occurrence.\<close>

fun split_at_char :: "char \<Rightarrow> string \<Rightarrow> (string \<times> string) option" where
  "split_at_char c [] = None"
| "split_at_char c (x # xs) =
     (if x = c then Some ([], xs)
      else map_option (\<lambda>(a, b). (x # a, b)) (split_at_char c xs))"

lemma split_at_char_Some: "split_at_char c s = Some (a, b) \<Longrightarrow> s = a @ c # b \<and> c \<notin> set a"
  by (induction s arbitrary: a) (auto split: if_splits)

lemma split_at_char_None: "split_at_char c s = None \<longleftrightarrow> c \<notin> set s"
  by (induction s) auto

lemma trim_end_matches_decomp:
  obtains n where "s = trim_end_matches c s @ replicate n c"
proof -
  have "rev s = takeWhile (\<lambda>x. x = c) (rev s) @ dropWhile (\<lambda>x. x = c) (rev s)"
    by simp
  then have "s = rev (dropWhile (\<lambda>x. x = c) (rev s)) @ rev (takeWhile (\<lambda>x. x = c) (rev s))"
    by (metis rev_append rev_rev_ident)
  moreover have "rev (takeWhile (\<lambda>x. x = c) (rev s))
      = replicate (length (takeWhile (\<lambda>x. x = c) (rev s))) c"
    by (rule replicate_eqI [symmetric, THEN sym]) (auto dest: set_takeWhileD)
  ultimately show thesis
    using that by (metis trim_end_matches_def)
qed

lemma trim_end_matches_last: "trim_end_matches c s \<noteq> [] \<Longrightarrow> last (trim_end_matches c s) \<noteq> c"
proof -
  assume "trim_end_matches c s \<noteq> []"
  then have "dropWhile (\<lambda>x. x = c) (rev s) \<noteq> []"
    by (simp add: trim_end_matches_def)
  then have "hd (dropWhile (\<lambda>x. x = c) (rev s)) \<noteq> c"
    using hd_dropWhile by blast
  then show ?thesis
    using \<open>dropWhile (\<lambda>x. x = c) (rev s) \<noteq> []\<close> by (simp add: trim_end_matches_def last_rev)
qed

lemma trim_end_matches_id: "s = [] \<or> last s \<noteq> c \<Longrightarrow> trim_end_matches c s = s"
  by (cases s rule: rev_cases) (auto simp: trim_end_matches_def)

lemma set_trim_end_matches: "set (trim_end_matches c s) \<subseteq> set s"
  by (auto simp: trim_end_matches_def dest: set_dropWhileD)

lemma length_trim_end_matches: "length (trim_end_matches c s) \<le> length s"
  using length_dropWhile_le [of _ "rev s"] by (simp add: trim_end_matches_def)

section \<open>Decimal digits\<close>

definition is_digit :: "char \<Rightarrow> bool" where
  "is_digit c = (48 \<le> code c \<and> code c \<le> (57 :: nat))"

definition digit_val :: "char \<Rightarrow> nat" where
  "digit_val c = code c - 48"

definition digit_char :: "nat \<Rightarrow> char" where
  "digit_char n = byte (48 + n)"

lemma code_byte [simp]: "n < 256 \<Longrightarrow> code (byte n) = n"
  by (simp add: of_char_of)

lemma digit_char_props [simp]:
  assumes "d < 10"
  shows "is_digit (digit_char d)" and "digit_val (digit_char d) = d"
    and "code (digit_char d) = 48 + d"
  using assms by (simp_all add: is_digit_def digit_char_def digit_val_def)

lemma digit_val_less: "is_digit c \<Longrightarrow> digit_val c < 10"
  by (auto simp: is_digit_def digit_val_def)

text \<open>
  The decimal numeral of a non-negative integer, as \<open>to_string\<close> prints it, and the value
  of a list of digits. Both are over \<open>int\<close>, so that examples evaluate in binary.
\<close>

function num_to_string :: "int \<Rightarrow> string" where
  "num_to_string n =
     (if n < 10 then [digit_char (nat n)]
      else num_to_string (n div 10) @ [digit_char (nat (n mod 10))])"
  by pat_completeness auto
termination
  by (relation "measure nat") auto

declare num_to_string.simps [simp del]

definition digits_val :: "nat list \<Rightarrow> int" where
  "digits_val ds = foldl (\<lambda>a d. 10 * a + int d) 0 ds"

definition string_val :: "string \<Rightarrow> int" where
  "string_val s = digits_val (map digit_val s)"

lemma digits_val_snoc [simp]: "digits_val (ds @ [d]) = 10 * digits_val ds + int d"
  by (simp add: digits_val_def)

lemma digits_val_Nil [simp]: "digits_val [] = 0"
  by (simp add: digits_val_def)

lemma digits_val_append: "digits_val (xs @ ys) = digits_val xs * 10 ^ length ys + digits_val ys"
  by (induction ys rule: rev_induct) (simp_all flip: append_assoc add: algebra_simps)

lemma digits_val_nonneg: "0 \<le> digits_val ds"
  by (induction ds rule: rev_induct) auto

lemma digits_val_less: "\<forall>d \<in> set ds. d < 10 \<Longrightarrow> digits_val ds < 10 ^ length ds"
  by (induction ds rule: rev_induct) auto

lemma num_to_string_digits: "list_all is_digit (num_to_string n) \<and> num_to_string n \<noteq> []"
  if "0 \<le> n"
  using that
proof (induction n rule: num_to_string.induct)
  case (1 n)
  show ?case
    by (subst (1 2) num_to_string.simps) (use 1 in \<open>auto\<close>)
qed

lemma string_val_num_to_string: "0 \<le> n \<Longrightarrow> string_val (num_to_string n) = n"
proof (induction n rule: num_to_string.induct)
  case (1 n)
  show ?case
    by (subst num_to_string.simps)
      (use 1 in \<open>auto simp: string_val_def digits_val_def\<close>)
qed

end
