(* ===== verification/Token.thy ===== *)
theory Token
  imports Rust_Str
begin

text \<open>
  The vocabulary of the calculator: \<open>src/core/token.rs\<close> (operators, errors, vocal
  events) and \<open>src/core/action.rs\<close> (the serializable actions). Values are of the type
  \<open>'d\<close> of decimals, which belongs to the \<open>rust_decimal\<close> crate and stays a parameter.
  Texts outside ASCII are written as their UTF-8 bytes.
\<close>

datatype binary_op = Add | Subtract | Multiply | Divide

definition utf8 :: "nat list \<Rightarrow> string" where
  "utf8 bs = map byte bs"

fun symbol :: "binary_op \<Rightarrow> string" where
  "symbol Add = ''+''"
| "symbol Subtract = ''-''"
| "symbol Multiply = utf8 [0xC3, 0x97]"
| "symbol Divide = utf8 [0xC3, 0xB7]"

datatype calc_error = DivideByZero | NegativeSquareRoot | Overflow

fun calc_error_to_string :: "calc_error \<Rightarrow> string" where
  "calc_error_to_string DivideByZero =
     utf8 [0xE4, 0xB8, 0x8D, 0xE8, 0x83, 0xBD, 0xE9, 0x99, 0xA4, 0xE4, 0xBB, 0xA5,
           0xE9, 0x9B, 0xB6]"
| "calc_error_to_string NegativeSquareRoot =
     utf8 [0xE8, 0xBE, 0x93, 0xE5, 0x85, 0xA5, 0xE6, 0x97, 0xA0, 0xE6, 0x95, 0x88]"
| "calc_error_to_string Overflow = utf8 [0xE6, 0xBA, 0xA2, 0xE5, 0x87, 0xBA]"

text \<open>Operators and errors are finite, so that statements about all of them can be evaluated.\<close>

instantiation binary_op :: enum
begin

definition enum_binary_op :: "binary_op list" where
  "enum_binary_op = [Add, Subtract, Multiply, Divide]"

definition enum_all_binary_op :: "(binary_op \<Rightarrow> bool) \<Rightarrow> bool" where
  "enum_all_binary_op P = list_all P (Enum.enum :: binary_op list)"

definition enum_ex_binary_op :: "(binary_op \<Rightarrow> bool) \<Rightarrow> bool" where
  "enum_ex_binary_op P = list_ex P (Enum.enum :: binary_op list)"

instance
proof
  have all: "op \<in> set Enum.enum" for op :: binary_op
    by (cases op) (simp_all add: enum_binary_op_def)
  then show "(UNIV :: binary_op set) = set Enum.enum" by blast
  show "distinct (Enum.enum :: binary_op list)" by (simp add: enum_binary_op_def)
  show "Enum.enum_all P \<longleftrightarrow> Ball (UNIV :: binary_op set) P" "Enum.enum_ex P \<longleftrightarrow> Bex (UNIV :: binary_op set) P" for P
    using all by (auto simp: enum_all_binary_op_def enum_ex_binary_op_def list_all_iff list_ex_iff)
qed

end

instantiation calc_error :: enum
begin

definition enum_calc_error :: "calc_error list" where
  "enum_calc_error = [DivideByZero, NegativeSquareRoot, Overflow]"

definition enum_all_calc_error :: "(calc_error \<Rightarrow> bool) \<Rightarrow> bool" where
  "enum_all_calc_error P = list_all P (Enum.enum :: calc_error list)"

definition enum_ex_calc_error :: "(calc_error \<Rightarrow> bool) \<Rightarrow> bool" where
  "enum_ex_calc_error P = list_ex P (Enum.enum :: calc_error list)"

instance
proof
  have all: "e \<in> set Enum.enum" for e :: calc_error
    by (cases e) (simp_all add: enum_calc_error_def)
  then show "(UNIV :: calc_error set) = set Enum.enum" by blast
  show "distinct (Enum.enum :: calc_error list)" by (simp add: enum_calc_error_def)
  show "Enum.enum_all P \<longleftrightarrow> Ball (UNIV :: calc_error set) P" "Enum.enum_ex P \<longleftrightarrow> Bex (UNIV :: calc_error set) P" for P
    using all by (auto simp: enum_all_calc_error_def enum_ex_calc_error_def list_all_iff list_ex_iff)
qed

end

text \<open>No two operators and no two errors are shown alike.\<close>

lemma inj_enum: "inj f \<longleftrightarrow> distinct (map f (Enum.enum :: 'a :: enum list))"
  by (simp add: distinct_map enum_distinct enum_UNIV)

lemma symbols_distinct: "inj symbol"
  by (simp add: inj_enum enum_binary_op_def utf8_def)

lemma error_texts_distinct: "inj calc_error_to_string"
  by (simp add: inj_enum enum_calc_error_def utf8_def)

datatype 'd vocal_event =
    V_Digit u8
  | V_DecimalPoint
  | V_Operator binary_op
  | V_Equals
  | V_Percent
  | V_MU
  | V_SquareRoot
  | V_Backspace
  | V_Clear
  | V_AllClear
  | V_MemoryRecall
  | V_MemoryAdd
  | V_MemorySubtract
  | V_MemoryClear
  | V_SignNegative
  | V_SignPositive
  | V_Error calc_error
  | V_Result 'd

datatype calc_action =
    A_Digit u8
  | A_DecimalPoint
  | A_Operator binary_op
  | A_Equals
  | A_Percent
  | A_Mu
  | A_SquareRoot
  | A_Backspace
  | A_Clear
  | A_AllClear
  | A_PlusMinus
  | A_MemoryRecall
  | A_MemoryAdd
  | A_MemorySubtract
  | A_MemoryClear

text \<open>
  \<open>Router::valid_action\<close>: the schema check every dispatched action passes first.
\<close>

definition valid_action :: "calc_action \<Rightarrow> bool" where
  "valid_action action = (case action of A_Digit d \<Rightarrow> \<not> d > 9 | _ \<Rightarrow> True)"

section \<open>The decimal type\<close>

text \<open>
  The operations of \<open>rust_decimal::Decimal\<close> the program calls. The arithmetic operators
  panic when the result cannot be represented, which is \<open>None\<close> here; \<open>from_str\<close> and
  \<open>sqrt\<close> return \<open>None\<close> where the crate returns \<open>Err\<close> and \<open>None\<close>. \<open>d_eq\<close> is the
  numeric equality of \<open>PartialEq\<close>.
\<close>

record 'd decimal_ops =
  d_zero :: 'd
  d_one :: 'd
  d_hundred :: 'd
  d_add :: "'d \<Rightarrow> 'd \<Rightarrow> 'd option"
  d_sub :: "'d \<Rightarrow> 'd \<Rightarrow> 'd option"
  d_mul :: "'d \<Rightarrow> 'd \<Rightarrow> 'd option"
  d_div :: "'d \<Rightarrow> 'd \<Rightarrow> 'd option"
  d_neg :: "'d \<Rightarrow> 'd"
  d_sqrt :: "'d \<Rightarrow> 'd option"
  d_is_sign_negative :: "'d \<Rightarrow> bool"
  d_eq :: "'d \<Rightarrow> 'd \<Rightarrow> bool"
  d_from_str :: "string \<Rightarrow> 'd option"
  d_to_string :: "'d \<Rightarrow> string"

text \<open>
  A \<^emph>\<open>plain\<close> decimal text: an optional sign, digits, and optionally a point followed by
  digits. This is the documented output format of \<open>Decimal::to_string\<close>.
\<close>

definition unsigned_plain :: "string \<Rightarrow> bool" where
  "unsigned_plain s =
     (case split_at_char CHR ''.'' s of
        None \<Rightarrow> s \<noteq> [] \<and> list_all is_digit s
      | Some (a, b) \<Rightarrow> a \<noteq> [] \<and> list_all is_digit a \<and> b \<noteq> [] \<and> list_all is_digit b)"

definition plain_decimal :: "string \<Rightarrow> bool" where
  "plain_decimal s =
     (case strip_prefix ''-'' s of None \<Rightarrow> unsigned_plain s | Some r \<Rightarrow> unsigned_plain r)"

text \<open>
  The documented facts about \<open>Decimal\<close> that some theorems rely on, each on its own.
\<close>

definition prints_plain :: "'d decimal_ops \<Rightarrow> bool" where
  "prints_plain D = (\<forall>v. plain_decimal (d_to_string D v))"

definition rejects_exponent :: "'d decimal_ops \<Rightarrow> bool" where
  "rejects_exponent D = (\<forall>s. CHR ''e'' \<in> set s \<longrightarrow> d_from_str D s = None)"

lemma digits_no_char: "list_all is_digit s \<Longrightarrow> \<not> is_digit c \<Longrightarrow> c \<notin> set s"
  by (auto simp: list_all_iff)

lemma not_digit [simp]: "\<not> is_digit CHR ''.''" "\<not> is_digit CHR ''-''" "\<not> is_digit CHR ''e''"
  by (simp_all add: is_digit_def)

lemma split_at_char_append: "c \<notin> set a \<Longrightarrow> split_at_char c (a @ c # b) = Some (a, b)"
  by (induction a) auto

lemma unsigned_plain_join:
  assumes "list_all is_digit u" "u \<noteq> []" "list_all is_digit w" "w \<noteq> []"
  shows "unsigned_plain (u @ CHR ''.'' # w)" and "strip_prefix ''-'' (u @ CHR ''.'' # w) = None"
proof -
  show "unsigned_plain (u @ CHR ''.'' # w)"
    using assms digits_no_char [OF assms(1), of "CHR ''.''"]
    by (simp add: unsigned_plain_def split_at_char_append)
  show "strip_prefix ''-'' (u @ CHR ''.'' # w) = None"
    using assms digits_no_char [OF assms(1), of "CHR ''-''"] by (cases u) auto
qed

end
