(* ===== verification/Format.thy ===== *)
theory Format
  imports Complex_Main Token
begin

text \<open>
  Number formatting, \<open>src/core/format.rs\<close>: \<open>normalize\<close> strips trailing zeros,
  \<open>format_display\<close> switches to scientific notation beyond 14 characters and
  \<open>format_for_speech\<close> never does. The detour of \<open>format_scientific\<close> through \<open>f64\<close> is
  modelled exactly on the texts it is given: \<open>f64_of_ratio\<close> rounds to 53 bits, ties to
  even, and \<open>fmt_e9\<close> prints ten significant digits, ties to even.
\<close>

section \<open>normalize\<close>

definition normalize :: "string \<Rightarrow> string" where
  "normalize s =
     (if CHR ''.'' \<in> set s then
        (let trimmed = trim_end_matches CHR ''.'' (trim_end_matches CHR ''0'' s)
         in if trimmed = [] \<or> trimmed = ''-'' then ''0'' else trimmed)
      else s)"

definition format_for_speech :: "'d decimal_ops \<Rightarrow> 'd \<Rightarrow> string" where
  "format_for_speech D value = normalize (d_to_string D value)"

section \<open>64-bit floating point, as far as it is used\<close>

text \<open>\<open>round_div p q\<close> is the integer nearest to \<open>p / q\<close>, ties to even.\<close>

definition round_div :: "int \<Rightarrow> int \<Rightarrow> int" where
  "round_div p q =
     (let d = p div q; r = p mod q
      in if 2 * r < q then d else if q < 2 * r then d + 1 else if even d then d else d + 1)"

function bit_len :: "int \<Rightarrow> int" where
  "bit_len n = (if n \<le> 0 then 0 else 1 + bit_len (n div 2))"
  by pat_completeness auto
termination
  by (relation "measure nat") auto

declare bit_len.simps [simp del]

text \<open>
  The finite double \<open>m * 2 ^ e\<close> nearest to the positive ratio \<open>p / q\<close>: \<open>e\<close> is chosen so
  that the quotient has 53 bits. Decimal values stay far inside the exponent range.
\<close>

definition scale2 :: "int \<Rightarrow> int \<Rightarrow> int \<Rightarrow> int \<times> int" where
  "scale2 p q e = (if 0 \<le> e then (p, q * 2 ^ nat e) else (p * 2 ^ nat (- e), q))"

definition f64_of_ratio :: "int \<Rightarrow> int \<Rightarrow> int \<times> int" where
  "f64_of_ratio p q =
     (let e0 = bit_len p - bit_len q - 53;
          e = (let (p0, q0) = scale2 p q e0 in if q0 * 2 ^ 53 \<le> p0 then e0 + 1 else e0);
          (p', q') = scale2 p q e
      in (round_div p' q', e))"

text \<open>
  \<open>str::parse::<f64>\<close> on plain decimal texts: the sign and the double. The exponent,
  infinity and NaN forms do not occur, since the text comes from \<open>Decimal::to_string\<close>.
\<close>

definition parse_ratio :: "string \<Rightarrow> (bool \<times> int \<times> int) option" where
  "parse_ratio s =
     (if plain_decimal s then
        (let (neg, u) = (case strip_prefix ''-'' s of None \<Rightarrow> (False, s) | Some r \<Rightarrow> (True, r));
             (a, b) = (case split_at_char CHR ''.'' u of None \<Rightarrow> (u, []) | Some ab \<Rightarrow> ab)
         in Some (neg, string_val (a @ b), 10 ^ length b))
      else None)"

text \<open>
  \<open>format!("{:.9e}", f)\<close> for \<open>f = m * 2 ^ e\<close> with \<open>m > 0\<close>.
\<close>

function dec_len :: "int \<Rightarrow> int" where
  "dec_len n = (if n < 10 then 1 else 1 + dec_len (n div 10))"
  by pat_completeness auto
termination
  by (relation "measure nat") auto

declare dec_len.simps [simp del]

definition scale10 :: "int \<Rightarrow> int \<Rightarrow> int \<Rightarrow> int \<times> int" where
  "scale10 p q x = (if 0 \<le> x then (p, q * 10 ^ nat x) else (p * 10 ^ nat (- x), q))"

definition int_to_string :: "int \<Rightarrow> string" where
  "int_to_string x = (if x < 0 then CHR ''-'' # num_to_string (- x) else num_to_string x)"

definition fmt_e9 :: "bool \<Rightarrow> int \<times> int \<Rightarrow> string" where
  "fmt_e9 neg f =
     (let (p, q) = scale2 (fst f) 1 (- snd f);
          x0 = dec_len p - dec_len q;
          x = (let (p0, q0) = scale10 p q x0 in if q0 \<le> p0 then x0 else x0 - 1);
          (p', q') = scale10 p q (x - 9);
          n = round_div p' q';
          (n, x) = (if n = 10 ^ 10 then (10 ^ 9, x + 1) else (n, x));
          ds = num_to_string n
      in (if neg then ''-'' else []) @ take 1 ds @ ''.'' @ drop 1 ds @ ''e'' @ int_to_string x)"

section \<open>format\_scientific and format\_display\<close>

definition format_scientific :: "'d decimal_ops \<Rightarrow> 'd \<Rightarrow> string" where
  "format_scientific D value =
     (case parse_ratio (d_to_string D value) of
        None \<Rightarrow> ''0''
      | Some (neg, p, q) \<Rightarrow>
          if p = 0 then ''0''
          else
            (let s = fmt_e9 neg (f64_of_ratio p q)
             in case split_at_char CHR ''e'' s of
                  Some (mantissa, exponent) \<Rightarrow>
                    trim_end_matches CHR ''.'' (trim_end_matches CHR ''0'' mantissa)
                    @ CHR ''e'' # exponent
                | None \<Rightarrow> s))"

definition format_display :: "'d decimal_ops \<Rightarrow> 'd \<Rightarrow> string" where
  "format_display D value =
     (let s = normalize (d_to_string D value)
      in if length s \<le> 14 then s else format_scientific D value)"

section \<open>normalize keeps the number\<close>

text \<open>A plain decimal is a sign, an integer part and a possibly empty fraction.\<close>

definition decimal_text :: "bool \<Rightarrow> string \<Rightarrow> string \<Rightarrow> string" where
  "decimal_text neg a b = (if neg then ''-'' else []) @ a @ (if b = [] then [] else CHR ''.'' # b)"

definition digit_parts :: "string \<Rightarrow> string \<Rightarrow> bool" where
  "digit_parts a b = (a \<noteq> [] \<and> list_all is_digit a \<and> list_all is_digit b)"

lemma decimal_text_integer [simp]: "decimal_text False a [] = a"
  by (simp add: decimal_text_def)

lemma digit_parts_no_char:
  assumes "digit_parts a b" and "\<not> is_digit c"
  shows "c \<notin> set a" and "c \<notin> set b"
  using assms digits_no_char [of a c] digits_no_char [of b c] by (auto simp: digit_parts_def)

lemma split_decimal_text:
  assumes "digit_parts a b"
  shows "strip_prefix ''-'' (decimal_text neg a b) = (if neg then Some (decimal_text False a b) else None)"
    and "split_at_char CHR ''.'' (decimal_text False a b) = (if b = [] then None else Some (a, b))"
proof -
  have "CHR ''-'' \<notin> set a" and dot: "CHR ''.'' \<notin> set a" and "a \<noteq> []"
    using digit_parts_no_char [OF assms] assms by (auto simp: digit_parts_def)
  then show "strip_prefix ''-'' (decimal_text neg a b)
      = (if neg then Some (decimal_text False a b) else None)"
    by (cases a) (auto simp: decimal_text_def)
  show "split_at_char CHR ''.'' (decimal_text False a b) = (if b = [] then None else Some (a, b))"
    using dot split_at_char_None [of "CHR ''.''" a] by (simp add: decimal_text_def split_at_char_append)
qed

lemma unsigned_plain_iff: "unsigned_plain s \<longleftrightarrow> (\<exists>a b. digit_parts a b \<and> s = decimal_text False a b)"
proof
  assume "unsigned_plain s"
  then show "\<exists>a b. digit_parts a b \<and> s = decimal_text False a b"
    by (cases "split_at_char CHR ''.'' s")
      (force simp: unsigned_plain_def digit_parts_def decimal_text_def dest: split_at_char_Some)+
next
  assume "\<exists>a b. digit_parts a b \<and> s = decimal_text False a b"
  then obtain a b where "digit_parts a b" and "s = decimal_text False a b" by blast
  then show "unsigned_plain s"
    using split_decimal_text(2) [of a b]
    by (cases "b = []") (auto simp: unsigned_plain_def digit_parts_def decimal_text_def)
qed

lemma plain_decimal_iff: "plain_decimal s \<longleftrightarrow> (\<exists>neg a b. digit_parts a b \<and> s = decimal_text neg a b)"
proof
  assume "plain_decimal s"
  then consider "strip_prefix ''-'' s = None" "unsigned_plain s"
    | r where "s = CHR ''-'' # r" "unsigned_plain r"
    by (cases "strip_prefix ''-'' s") (auto simp: plain_decimal_def strip_prefix_Some)
  then show "\<exists>neg a b. digit_parts a b \<and> s = decimal_text neg a b"
  proof cases
    case 1
    then show ?thesis unfolding unsigned_plain_iff by blast
  next
    case (2 r)
    then obtain a b where "digit_parts a b" "r = decimal_text False a b"
      unfolding unsigned_plain_iff by blast
    then have "digit_parts a b \<and> s = decimal_text True a b"
      using 2 by (simp add: decimal_text_def)
    then show ?thesis by blast
  qed
next
  assume "\<exists>neg a b. digit_parts a b \<and> s = decimal_text neg a b"
  then obtain neg a b where "digit_parts a b" and "s = decimal_text neg a b" by blast
  then show "plain_decimal s"
    using split_decimal_text(1) [of a b neg] unsigned_plain_iff [of "decimal_text False a b"]
    by (cases neg) (auto simp: plain_decimal_def)
qed

lemma trim_end_matches_append:
  "trim_end_matches c (xs @ ys) =
     (if trim_end_matches c ys = [] then trim_end_matches c xs else xs @ trim_end_matches c ys)"
  by (auto simp: trim_end_matches_def dropWhile_append)

lemma trim_end_matches_keep: "c \<notin> set s \<Longrightarrow> trim_end_matches c s = s"
  by (cases s rule: rev_cases) (auto simp: trim_end_matches_def)

text \<open>On a plain text, \<open>normalize\<close> drops exactly the trailing zeros of the fraction.\<close>

lemma normalize_decimal_text:
  assumes "digit_parts a b"
  shows "normalize (decimal_text neg a b) = decimal_text neg a (trim_end_matches CHR ''0'' b)"
proof (cases "b = []")
  case True
  then show ?thesis
    using digit_parts_no_char(1) [OF assms, of "CHR ''.''"]
    by (auto simp: normalize_def decimal_text_def trim_end_matches_def)
next
  case False
  let ?p = "(if neg then ''-'' else []) @ a" and ?b = "trim_end_matches CHR ''0'' b"
  have dots: "CHR ''.'' \<notin> set a" "CHR ''.'' \<notin> set ?b" and a: "a \<noteq> []" "a \<noteq> ''-''"
    using digit_parts_no_char [OF assms, of "CHR ''.''"] digit_parts_no_char(1) [OF assms, of "CHR ''-''"]
      set_trim_end_matches [of "CHR ''0''" b] assms
    by (auto simp: digit_parts_def)
  have point: "trim_end_matches CHR ''0'' ''.'' = ''.''" "trim_end_matches CHR ''.'' ''.'' = []"
    by (simp_all add: trim_end_matches_def)
  have "decimal_text neg a b = ?p @ ''.'' @ b"
    using False by (simp add: decimal_text_def)
  then have "trim_end_matches CHR ''0'' (decimal_text neg a b) = ?p @ ''.'' @ ?b"
    using trim_end_matches_append [of "CHR ''0''" "?p @ ''.''" b]
      trim_end_matches_append [of "CHR ''0''" ?p "''.''"] point
    by (auto simp: trim_end_matches_append)
  moreover have "trim_end_matches CHR ''.'' (?p @ ''.'' @ ?b)
      = (if ?b = [] then ?p else ?p @ ''.'' @ ?b)"
    using trim_end_matches_keep [OF dots(2)] trim_end_matches_keep [of "CHR ''.''" ?p] dots(1) point
      trim_end_matches_append [of "CHR ''.''" "?p @ ''.''" ?b]
      trim_end_matches_append [of "CHR ''.''" ?p "''.''"]
    by (auto split: if_splits)
  moreover have "CHR ''.'' \<in> set (decimal_text neg a b)"
    using False by (simp add: decimal_text_def)
  ultimately show ?thesis
    using a by (cases a) (auto simp: normalize_def decimal_text_def Let_def)
qed

text \<open>The parts of a text: its sign, its integer digits and its fraction digits.\<close>

definition decimal_parts :: "string \<Rightarrow> bool \<times> string \<times> string" where
  "decimal_parts s =
     (let (neg, u) = (case strip_prefix ''-'' s of None \<Rightarrow> (False, s) | Some r \<Rightarrow> (True, r))
      in case split_at_char CHR ''.'' u of None \<Rightarrow> (neg, u, []) | Some (a, b) \<Rightarrow> (neg, a, b))"

lemma decimal_parts_text: "digit_parts a b \<Longrightarrow> decimal_parts (decimal_text neg a b) = (neg, a, b)"
  using split_decimal_text [of a b] by (cases neg) (simp_all add: decimal_parts_def)

lemma parse_ratio_text:
  assumes "digit_parts a b"
  shows "parse_ratio (decimal_text neg a b) = Some (neg, string_val (a @ b), 10 ^ length b)"
proof -
  have "plain_decimal (decimal_text neg a b)"
    using assms plain_decimal_iff by blast
  then show ?thesis
    using split_decimal_text [OF assms] by (cases neg) (simp_all add: parse_ratio_def)
qed

lemma digit_parts_trim: "digit_parts a b \<Longrightarrow> digit_parts a (trim_end_matches c b)"
  using set_trim_end_matches [of c b] by (auto simp: digit_parts_def list_all_iff)

lemma string_val_zeros: "string_val (s @ replicate n CHR ''0'') = string_val s * 10 ^ n"
proof -
  have "digits_val (replicate n (digit_val CHR ''0'')) = 0"
    by (induction n) (simp_all add: digit_val_def digits_val_def replicate_append_same [symmetric])
  then show ?thesis
    by (simp add: string_val_def digits_val_append)
qed

text \<open>
  On the text of a decimal, \<open>normalize\<close> returns a plain decimal text of the same
  sign and the same value, without trailing zeros in the fraction and without a dangling
  point, and normalizing again changes nothing.
\<close>

theorem normalize_exact:
  assumes "plain_decimal s"
  shows "plain_decimal (normalize s)
    \<and> (\<exists>neg p q p' q'. parse_ratio s = Some (neg, p, q) \<and> parse_ratio (normalize s) = Some (neg, p', q')
         \<and> p' * q = p * q')
    \<and> (CHR ''.'' \<in> set (normalize s) \<longrightarrow> last (normalize s) \<noteq> CHR ''0'' \<and> last (normalize s) \<noteq> CHR ''.'')
    \<and> normalize (normalize s) = normalize s"
proof -
  obtain neg a b where ab: "digit_parts a b" and s: "s = decimal_text neg a b"
    using assms plain_decimal_iff by blast
  let ?b = "trim_end_matches CHR ''0'' b"
  have ab': "digit_parts a ?b" and n: "normalize s = decimal_text neg a ?b"
    using ab by (simp_all add: digit_parts_trim normalize_decimal_text s)
  obtain k where b: "b = ?b @ replicate k CHR ''0''"
    by (rule trim_end_matches_decomp)
  have "string_val (a @ ?b) * 10 ^ length b = string_val (a @ b) * 10 ^ length ?b"
    by (subst (1 3) b) (simp add: string_val_zeros power_add flip: append_assoc)
  moreover have "last (normalize s) \<noteq> CHR ''0'' \<and> last (normalize s) \<noteq> CHR ''.''"
    if "CHR ''.'' \<in> set (normalize s)"
  proof -
    have "?b \<noteq> []"
      using that digit_parts_no_char(1) [OF ab, of "CHR ''.''"]
      by (auto simp: n decimal_text_def split: if_splits)
    moreover from this have "last ?b \<in> set ?b"
      by (rule last_in_set)
    then have "last ?b \<noteq> CHR ''.''"
      using digit_parts_no_char(2) [OF ab', of "CHR ''.''"] by (metis not_digit(1))
    ultimately show ?thesis
      using trim_end_matches_last [of "CHR ''0''" b] by (simp add: n decimal_text_def)
  qed
  moreover have "trim_end_matches CHR ''0'' ?b = ?b"
    using trim_end_matches_last [of "CHR ''0''" b] by (intro trim_end_matches_id) blast
  ultimately show ?thesis
    using ab ab' plain_decimal_iff parse_ratio_text [OF ab, of neg] parse_ratio_text [OF ab', of neg]
    by (auto simp: n s normalize_decimal_text)
qed

theorem normalize_exact_witness: "plain_decimal (normalize ''-20.500'')"
proof -
  have "plain_decimal ''-20.500''" by code_simp
  then show ?thesis using normalize_exact by blast
qed

lemma format_for_speech_text:
  assumes "prints_plain D"
  obtains neg a b where "digit_parts a b" and "format_for_speech D v = decimal_text neg a b"
proof -
  obtain neg a b where "digit_parts a b" and "d_to_string D v = decimal_text neg a b"
    using assms unfolding prints_plain_def plain_decimal_iff by blast
  then show thesis
    using that [OF digit_parts_trim] normalize_decimal_text by (simp add: format_for_speech_def)
qed

end
