(* ===== verification/Decimal_Instance.thy ===== *)
theory Decimal_Instance
  imports Format
begin

text \<open>
  A concrete decimal type for evaluating the model on examples: fixed-point numbers with
  four decimals, held as an integer, that overflow at 96 bits as the crate's mantissa
  does. It instantiates the decimal parameter in witnesses and in concrete runs; no
  theorem about the program is restricted to it.
\<close>

definition fx_bound :: int where
  "fx_bound = 2 ^ 96"

definition fx_check :: "int \<Rightarrow> int option" where
  "fx_check v = (if \<bar>v\<bar> < fx_bound then Some v else None)"

function isqrt :: "int \<Rightarrow> int" where
  "isqrt n =
     (if n \<le> 0 then 0
      else (let r = 2 * isqrt (n div 4) in if (r + 1) * (r + 1) \<le> n then r + 1 else r))"
  by pat_completeness auto
termination
  by (relation "measure nat") auto

declare isqrt.simps [simp del]

definition fx_to_string :: "int \<Rightarrow> string" where
  "fx_to_string v =
     (let a = \<bar>v\<bar>; f = num_to_string (a mod 10000)
      in (if v < 0 then ''-'' else []) @ num_to_string (a div 10000) @ ''.''
         @ replicate (4 - length f) CHR ''0'' @ f)"

definition fx_from_unsigned :: "string \<Rightarrow> int option" where
  "fx_from_unsigned s =
     (let (a, b) = (case split_at_char CHR ''.'' s of None \<Rightarrow> (s, []) | Some ab \<Rightarrow> ab)
      in if a \<noteq> [] \<and> list_all is_digit a \<and> list_all is_digit b \<and> length b \<le> 4
         then fx_check (string_val (a @ b) * 10 ^ (4 - length b))
         else None)"

definition fx_from_str :: "string \<Rightarrow> int option" where
  "fx_from_str s =
     (case strip_prefix ''-'' s of
        None \<Rightarrow> fx_from_unsigned s
      | Some r \<Rightarrow> map_option uminus (fx_from_unsigned r))"

definition fx_ops :: "int decimal_ops" where
  "fx_ops =
     \<lparr>d_zero = 0, d_one = 10000, d_hundred = 1000000,
      d_add = (\<lambda>a b. fx_check (a + b)),
      d_sub = (\<lambda>a b. fx_check (a - b)),
      d_mul = (\<lambda>a b. fx_check (a * b div 10000)),
      d_div = (\<lambda>a b. if b = 0 then None else fx_check (a * 10000 div b)),
      d_neg = uminus,
      d_sqrt = (\<lambda>a. if a < 0 then None else Some (isqrt (a * 10000))),
      d_is_sign_negative = (\<lambda>a. a < 0),
      d_eq = (=),
      d_from_str = fx_from_str,
      d_to_string = fx_to_string\<rparr>"

lemma fx_ops_simps [simp]:
  "d_zero fx_ops = 0" "d_one fx_ops = 10000" "d_hundred fx_ops = 1000000"
  "d_add fx_ops a b = fx_check (a + b)" "d_sub fx_ops a b = fx_check (a - b)"
  "d_mul fx_ops a b = fx_check (a * b div 10000)"
  "d_div fx_ops a b = (if b = 0 then None else fx_check (a * 10000 div b))"
  "d_neg fx_ops a = - a" "d_is_sign_negative fx_ops a = (a < 0)"
  "d_eq fx_ops a b = (a = b)"
  "d_from_str fx_ops = fx_from_str" "d_to_string fx_ops = fx_to_string"
  by (simp_all add: fx_ops_def)

lemma fx_prints_plain: "prints_plain fx_ops"
  unfolding prints_plain_def
proof
  fix v :: int
  define u where "u = num_to_string (\<bar>v\<bar> div 10000)"
  define f where "f = num_to_string (\<bar>v\<bar> mod 10000)"
  define w where "w = replicate (4 - length f) CHR ''0'' @ f"
  have u: "list_all is_digit u" "u \<noteq> []" and f: "list_all is_digit f" "f \<noteq> []"
    using num_to_string_digits by (auto simp: u_def f_def)
  have w: "list_all is_digit w" "w \<noteq> []"
    using f by (auto simp: w_def list_all_iff is_digit_def)
  have "fx_to_string v = (if v < 0 then ''-'' else []) @ u @ CHR ''.'' # w"
    by (simp add: fx_to_string_def Let_def u_def f_def w_def del: abs_of_neg abs_of_nonneg)
  then show "plain_decimal (d_to_string fx_ops v)"
    using unsigned_plain_join [OF u w] by (simp add: plain_decimal_def)
qed

lemma fx_rejects_exponent: "rejects_exponent fx_ops"
  unfolding rejects_exponent_def
proof (intro allI impI)
  fix s :: string
  assume e: "CHR ''e'' \<in> set s"
  have bad: "fx_from_unsigned r = None" if r: "CHR ''e'' \<in> set r" for r
  proof (cases "split_at_char CHR ''.'' r")
    case None
    then show ?thesis
      using r digits_no_char [of r "CHR ''e''"] by (auto simp: fx_from_unsigned_def)
  next
    case (Some ab)
    then obtain a b where ab: "ab = (a, b)" "r = a @ CHR ''.'' # b"
      using split_at_char_Some by (metis surj_pair)
    then have "CHR ''e'' \<in> set a \<or> CHR ''e'' \<in> set b"
      using r by auto
    then show ?thesis
      using Some ab digits_no_char [of a "CHR ''e''"] digits_no_char [of b "CHR ''e''"]
      by (auto simp: fx_from_unsigned_def)
  qed
  show "d_from_str fx_ops s = None"
  proof (cases "strip_prefix ''-'' s")
    case None
    then show ?thesis using e bad by (simp add: fx_from_str_def)
  next
    case (Some r)
    then have "CHR ''e'' \<in> set r"
      using e by (simp add: strip_prefix_Some)
    then show ?thesis using Some bad by (simp add: fx_from_str_def)
  qed
qed

end
