(* ===== verification/Calculator.thy ===== *)
theory Calculator
  imports Decimal_Instance "HOL-Library.Monad_Syntax"
begin

text \<open>
  The immediate-execution calculator, \<open>src/core/calculator.rs\<close>. \<open>calculator\<close> is the
  struct, \<open>calc_result\<close> what every action returns, and there is one definition per
  method. A method returns \<open>None\<close> exactly where the Rust method panics: the arithmetic
  operators of \<open>Decimal\<close> on overflow, and the digit arithmetic \<open>b'0' + d\<close> of \<open>digit\<close>,
  which is checked arithmetic on \<open>u8\<close>.
\<close>

section \<open>State\<close>

record 'd calc_result =
  r_display :: string
  r_history :: string
  r_memory_indicator :: string
  r_is_error :: bool
  r_events :: "'d vocal_event list"

datatype calc_state = Idle | Input | OpPending | Evaluated | Error

datatype 'd mu_ctx = MuNone | Waiting 'd | Done 'd 'd

record 'd calculator =
  c_input :: string
  c_acc :: 'd
  c_pending :: "binary_op option"
  c_last_operand :: 'd
  c_last_op :: "binary_op option"
  c_memory :: 'd
  c_state :: calc_state
  c_mu :: "'d mu_ctx"
  c_history :: string

definition calc_new :: "'d decimal_ops \<Rightarrow> 'd calculator" where
  "calc_new D =
     \<lparr>c_input = [], c_acc = d_zero D, c_pending = None, c_last_operand = d_zero D,
      c_last_op = None, c_memory = d_zero D, c_state = Idle, c_mu = MuNone, c_history = []\<rparr>"

definition calc_reset :: "'d decimal_ops \<Rightarrow> 'd calculator \<Rightarrow> 'd calculator" where
  "calc_reset D c = calc_new D"

definition reset_from_snapshot ::
    "'d decimal_ops \<Rightarrow> string \<Rightarrow> string \<Rightarrow> string \<Rightarrow> bool \<Rightarrow> 'd calculator \<Rightarrow> 'd calculator" where
  "reset_from_snapshot D display history memory_indicator is_error c =
     (let c = (if is_error then c\<lparr>c_state := Error, c_acc := d_zero D\<rparr>
               else c\<lparr>c_state := Evaluated,
                      c_acc := (case d_from_str D display of Some v \<Rightarrow> v | None \<Rightarrow> d_zero D)\<rparr>);
          c = c\<lparr>c_input := [], c_pending := None, c_last_operand := d_zero D,
                c_last_op := None, c_mu := MuNone, c_history := history\<rparr>
      in if memory_indicator = [] then c\<lparr>c_memory := d_zero D\<rparr> else c)"

section \<open>Helpers\<close>

definition display_value :: "'d decimal_ops \<Rightarrow> 'd calculator \<Rightarrow> 'd" where
  "display_value D c =
     (if c_input c = [] then c_acc c
      else case d_from_str D (c_input c) of Some v \<Rightarrow> v | None \<Rightarrow> c_acc c)"

definition error_text :: string where
  "error_text = utf8 [0xE9, 0x94, 0x99, 0xE8, 0xAF, 0xAF]"

definition calc_result_of ::
    "'d decimal_ops \<Rightarrow> 'd calculator \<Rightarrow> 'd vocal_event list \<Rightarrow> 'd calc_result" where
  "calc_result_of D c events =
     \<lparr>r_display =
        (if c_state c = Error then error_text
         else if c_input c = [] then
           (if c_state c = Idle then ''0'' else format_display D (c_acc c))
         else c_input c),
      r_history = c_history c,
      r_memory_indicator = (if \<not> d_eq D (c_memory c) (d_zero D) then ''M'' else []),
      r_is_error = (c_state c = Error),
      r_events = events\<rparr>"

type_synonym 'd calc_outcome = "('d calculator \<times> 'd calc_result) option"

definition ret ::
    "'d decimal_ops \<Rightarrow> 'd calculator \<Rightarrow> 'd vocal_event list \<Rightarrow> 'd calc_outcome" where
  "ret D c events = Some (c, calc_result_of D c events)"

definition enter_error ::
    "'d decimal_ops \<Rightarrow> 'd calculator \<Rightarrow> calc_error \<Rightarrow> 'd calc_outcome" where
  "enter_error D c err =
     ret D (c\<lparr>c_state := Error, c_history := calc_error_to_string err\<rparr>) [V_Error err]"

definition do_binary ::
    "'d decimal_ops \<Rightarrow> 'd \<Rightarrow> binary_op \<Rightarrow> 'd \<Rightarrow> (calc_error + 'd) option" where
  "do_binary D lhs op rhs =
     (case op of
        Add \<Rightarrow> map_option Inr (d_add D lhs rhs)
      | Subtract \<Rightarrow> map_option Inr (d_sub D lhs rhs)
      | Multiply \<Rightarrow> map_option Inr (d_mul D lhs rhs)
      | Divide \<Rightarrow>
          if d_eq D rhs (d_zero D) then Some (Inl DivideByZero)
          else map_option Inr (d_div D lhs rhs))"

definition eval_pending :: "'d decimal_ops \<Rightarrow> 'd calculator \<Rightarrow> (calc_error + 'd) option" where
  "eval_pending D c =
     (let rhs = display_value D c
      in case c_pending c of
           Some op \<Rightarrow> do_binary D (c_acc c) op rhs
         | None \<Rightarrow> Some (Inr rhs))"

section \<open>Actions\<close>

definition digit :: "'d decimal_ops \<Rightarrow> u8 \<Rightarrow> 'd calculator \<Rightarrow> 'd calc_outcome" where
  "digit D d c =
     (if c_state c = Error then ret D c []
      else
        let c = (if c_state c = Evaluated \<or> c_state c = Idle \<or> c_state c = OpPending
                 then c\<lparr>c_input := [], c_state := Input\<rparr> else c)
        in if 48 + unat d < 256
           then ret D (c\<lparr>c_input := push_latin1 (48 + unat d) (c_input c)\<rparr>) [V_Digit d]
           else None)"

definition decimal_point :: "'d decimal_ops \<Rightarrow> 'd calculator \<Rightarrow> 'd calc_outcome" where
  "decimal_point D c =
     (if c_state c = Error then ret D c []
      else
        let c = (if c_state c = Evaluated \<or> c_state c = Idle \<or> c_state c = OpPending
                 then c\<lparr>c_input := ''0.'', c_state := Input\<rparr>
                 else if CHR ''.'' \<notin> set (c_input c) then
                   (if c_input c = [] then c\<lparr>c_input := ''0.''\<rparr>
                    else c\<lparr>c_input := c_input c @ ''.''\<rparr>)
                 else c)
        in ret D c [V_DecimalPoint])"

definition operator :: "'d decimal_ops \<Rightarrow> binary_op \<Rightarrow> 'd calculator \<Rightarrow> 'd calc_outcome" where
  "operator D op c =
     (if c_state c = Error then ret D c []
      else
        let finish = (\<lambda>c. ret D (c\<lparr>c_pending := Some op, c_state := OpPending, c_mu := MuNone\<rparr>)
                              [V_Operator op])
        in if c_state c = Input \<or> c_state c = Evaluated then
             (case eval_pending D c of
                None \<Rightarrow> None
              | Some (Inl e) \<Rightarrow> enter_error D c e
              | Some (Inr val) \<Rightarrow>
                  finish (c\<lparr>c_acc := val, c_input := [],
                            c_history := format_display D val @ '' '' @ symbol op\<rparr>))
           else if c_state c = OpPending then
             finish (c\<lparr>c_history := format_display D (c_acc c) @ '' '' @ symbol op\<rparr>)
           else finish c)"

text \<open>The tail of \<open>equals\<close>: evaluate \<open>acc op rhs\<close> and remember the operation.\<close>

definition equals_apply ::
    "'d decimal_ops \<Rightarrow> 'd \<Rightarrow> binary_op \<Rightarrow> 'd calculator \<Rightarrow> 'd calc_outcome" where
  "equals_apply D rhs op c =
     (case do_binary D (c_acc c) op rhs of
        None \<Rightarrow> None
      | Some (Inr val) \<Rightarrow>
          ret D (c\<lparr>c_history := format_display D (c_acc c) @ '' '' @ symbol op @ '' ''
                               @ format_display D rhs @ '' = '',
                   c_acc := val, c_input := [], c_last_operand := rhs, c_last_op := Some op,
                   c_pending := None, c_state := Evaluated, c_mu := MuNone\<rparr>)
            [V_Equals, V_Result val]
      | Some (Inl e) \<Rightarrow> enter_error D c e)"

definition equals :: "'d decimal_ops \<Rightarrow> 'd calculator \<Rightarrow> 'd calc_outcome" where
  "equals D c =
     (if c_state c = Error then ret D c []
      else
        case c_mu c of
          Done cost sell \<Rightarrow>
            (case d_sub D sell cost of
               None \<Rightarrow> None
             | Some profit \<Rightarrow>
                 ret D (c\<lparr>c_acc := profit, c_input := [], c_state := Evaluated,
                          c_history := format_display D sell @ '' = '',
                          c_last_operand := cost, c_last_op := None, c_mu := MuNone\<rparr>)
                   [V_Equals, V_Result profit])
        | _ \<Rightarrow>
            if c_state c = Evaluated then
              (case c_last_op c of
                 Some op \<Rightarrow> equals_apply D (c_last_operand c) op c
               | None \<Rightarrow> ret D c [V_Equals])
            else
              (case c_pending c of
                 Some op \<Rightarrow>
                   equals_apply D (if c_input c = [] then c_acc c else display_value D c) op c
               | None \<Rightarrow> ret D (c\<lparr>c_state := Evaluated, c_last_op := None\<rparr>) [V_Equals]))"

text \<open>The value \<open>percent\<close> computes outside a mark-up calculation.\<close>

definition percent_value :: "'d decimal_ops \<Rightarrow> 'd calculator \<Rightarrow> (calc_error + 'd) option" where
  "percent_value D c =
     (let b = display_value D c; acc = c_acc c
      in case c_pending c of
           Some Add \<Rightarrow>
             do {m \<leftarrow> d_mul D acc b; q \<leftarrow> d_div D m (d_hundred D); map_option Inr (d_add D acc q)}
         | Some Subtract \<Rightarrow>
             do {m \<leftarrow> d_mul D acc b; q \<leftarrow> d_div D m (d_hundred D); map_option Inr (d_sub D acc q)}
         | Some Multiply \<Rightarrow>
             do {m \<leftarrow> d_mul D acc b; map_option Inr (d_div D m (d_hundred D))}
         | Some Divide \<Rightarrow>
             do {pct \<leftarrow> d_div D b (d_hundred D);
                 if d_eq D pct (d_zero D) then Some (Inl DivideByZero)
                 else map_option Inr (d_div D acc pct)}
         | None \<Rightarrow> map_option Inr (d_div D b (d_hundred D)))"

definition percent :: "'d decimal_ops \<Rightarrow> 'd calculator \<Rightarrow> 'd calc_outcome" where
  "percent D c =
     (if c_state c = Error then ret D c []
      else
        case c_mu c of
          Waiting cost \<Rightarrow>
            (let rate = display_value D c
             in do {
               r \<leftarrow> d_div D rate (d_hundred D);
               denom \<leftarrow> d_sub D (d_one D) r;
               if d_eq D denom (d_zero D) then enter_error D c DivideByZero
               else do {
                 sell \<leftarrow> d_div D cost denom;
                 ret D (c\<lparr>c_acc := sell, c_input := [], c_state := Evaluated,
                          c_history := ''MU: '' @ format_display D cost @ '' / (1 - ''
                                       @ format_display D rate @ ''%)'',
                          c_mu := Done cost sell, c_pending := None\<rparr>)
                   [V_Percent, V_Result sell]
               }
             })
        | _ \<Rightarrow>
            (case percent_value D c of
               None \<Rightarrow> None
             | Some (Inl e) \<Rightarrow> enter_error D c e
             | Some (Inr result) \<Rightarrow>
                 ret D (c\<lparr>c_acc := result, c_input := [], c_pending := None,
                          c_state := Evaluated\<rparr>)
                   [V_Percent, V_Result result]))"

definition mu :: "'d decimal_ops \<Rightarrow> 'd calculator \<Rightarrow> 'd calc_outcome" where
  "mu D c =
     (if c_state c = Error then ret D c []
      else ret D (c\<lparr>c_mu := Waiting (display_value D c), c_input := [],
                    c_state := OpPending\<rparr>) [V_MU])"

definition square_root :: "'d decimal_ops \<Rightarrow> 'd calculator \<Rightarrow> 'd calc_outcome" where
  "square_root D c =
     (if c_state c = Error then ret D c []
      else
        let val = display_value D c
        in if d_is_sign_negative D val then enter_error D c NegativeSquareRoot
           else case d_sqrt D val of
                  Some rt \<Rightarrow>
                    ret D (c\<lparr>c_acc := rt, c_input := [], c_state := Evaluated\<rparr>)
                      [V_SquareRoot, V_Result rt]
                | None \<Rightarrow> enter_error D c Overflow)"

definition backspace :: "'d decimal_ops \<Rightarrow> 'd calculator \<Rightarrow> 'd calc_outcome" where
  "backspace D c =
     (if c_state c = Error then ret D c []
      else
        let c = (if c_state c = Input \<and> c_input c \<noteq> [] then
                   (let input = str_pop (c_input c)
                    in if input = [] \<or> input = ''-'' \<or> input = ''-0''
                       then c\<lparr>c_input := [], c_state := Idle\<rparr>
                       else c\<lparr>c_input := input\<rparr>)
                 else c)
        in ret D c [V_Backspace])"

definition clear :: "'d decimal_ops \<Rightarrow> 'd calculator \<Rightarrow> 'd calc_outcome" where
  "clear D c =
     (if c_state c = Error then ret D c []
      else ret D (c\<lparr>c_input := [], c_state := Idle\<rparr>) [V_Clear])"

definition all_clear :: "'d decimal_ops \<Rightarrow> 'd calculator \<Rightarrow> 'd calc_outcome" where
  "all_clear D c = ret D (calc_reset D c) [V_AllClear]"

definition plus_minus :: "'d decimal_ops \<Rightarrow> 'd calculator \<Rightarrow> 'd calc_outcome" where
  "plus_minus D c =
     (if c_state c = Error then ret D c []
      else if c_state c = Input \<and> c_input c \<noteq> [] then
        (if hd (c_input c) = CHR ''-''
         then ret D (c\<lparr>c_input := tl (c_input c)\<rparr>) [V_SignPositive]
         else ret D (c\<lparr>c_input := CHR ''-'' # c_input c\<rparr>) [V_SignNegative])
      else
        let c = c\<lparr>c_acc := d_neg D (c_acc c)\<rparr>
        in if d_is_sign_negative D (c_acc c) then ret D c [V_SignNegative]
           else ret D c [V_SignPositive])"

definition memory_recall :: "'d decimal_ops \<Rightarrow> 'd calculator \<Rightarrow> 'd calc_outcome" where
  "memory_recall D c =
     (if c_state c = Error then ret D c []
      else ret D (c\<lparr>c_acc := c_memory c, c_input := [], c_state := Evaluated\<rparr>)
             [V_MemoryRecall, V_Result (c_memory c)])"

definition memory_add :: "'d decimal_ops \<Rightarrow> 'd calculator \<Rightarrow> 'd calc_outcome" where
  "memory_add D c =
     (if c_state c = Error then ret D c []
      else case d_add D (c_memory c) (display_value D c) of
             None \<Rightarrow> None
           | Some m \<Rightarrow> ret D (c\<lparr>c_memory := m, c_state := Evaluated\<rparr>) [V_MemoryAdd])"

definition memory_subtract :: "'d decimal_ops \<Rightarrow> 'd calculator \<Rightarrow> 'd calc_outcome" where
  "memory_subtract D c =
     (if c_state c = Error then ret D c []
      else case d_sub D (c_memory c) (display_value D c) of
             None \<Rightarrow> None
           | Some m \<Rightarrow> ret D (c\<lparr>c_memory := m, c_state := Evaluated\<rparr>) [V_MemorySubtract])"

definition memory_clear :: "'d decimal_ops \<Rightarrow> 'd calculator \<Rightarrow> 'd calc_outcome" where
  "memory_clear D c =
     (if c_state c = Error then ret D c []
      else ret D (c\<lparr>c_memory := d_zero D, c_state := Evaluated\<rparr>) [V_MemoryClear])"

fun calc_dispatch :: "'d decimal_ops \<Rightarrow> calc_action \<Rightarrow> 'd calculator \<Rightarrow> 'd calc_outcome" where
  "calc_dispatch D (A_Digit d) c = digit D d c"
| "calc_dispatch D A_DecimalPoint c = decimal_point D c"
| "calc_dispatch D (A_Operator op) c = operator D op c"
| "calc_dispatch D A_Equals c = equals D c"
| "calc_dispatch D A_Percent c = percent D c"
| "calc_dispatch D A_Mu c = mu D c"
| "calc_dispatch D A_SquareRoot c = square_root D c"
| "calc_dispatch D A_Backspace c = backspace D c"
| "calc_dispatch D A_Clear c = clear D c"
| "calc_dispatch D A_AllClear c = all_clear D c"
| "calc_dispatch D A_PlusMinus c = plus_minus D c"
| "calc_dispatch D A_MemoryRecall c = memory_recall D c"
| "calc_dispatch D A_MemoryAdd c = memory_add D c"
| "calc_dispatch D A_MemorySubtract c = memory_subtract D c"
| "calc_dispatch D A_MemoryClear c = memory_clear D c"

text \<open>Pressing a sequence of keys, and what the last one displays.\<close>

definition calc_step :: "'d decimal_ops \<Rightarrow> 'd calculator \<Rightarrow> calc_action \<Rightarrow> 'd calculator option" where
  "calc_step D c a = map_option fst (calc_dispatch D a c)"

definition press ::
    "'d decimal_ops \<Rightarrow> 'd calculator \<Rightarrow> calc_action list \<Rightarrow> 'd calculator option" where
  "press D c as = run_steps (calc_step D) c as"

definition shown :: "'d decimal_ops \<Rightarrow> 'd calculator \<Rightarrow> string" where
  "shown D c = r_display (calc_result_of D c [])"

section \<open>Well-formed input\<close>

text \<open>
  What a user can have typed: an optional minus sign, at least one digit, and possibly a
  point and further digits.
\<close>

definition typed_unsigned :: "string \<Rightarrow> bool" where
  "typed_unsigned s =
     (case split_at_char CHR ''.'' s of
        None \<Rightarrow> s \<noteq> [] \<and> list_all is_digit s
      | Some (a, b) \<Rightarrow> a \<noteq> [] \<and> list_all is_digit a \<and> list_all is_digit b)"

definition typed_number :: "string \<Rightarrow> bool" where
  "typed_number s =
     (case strip_prefix ''-'' s of None \<Rightarrow> typed_unsigned s | Some r \<Rightarrow> typed_unsigned r)"

definition calc_inv :: "'d calculator \<Rightarrow> bool" where
  "calc_inv c =
     ((c_input c = [] \<or> typed_number (c_input c))
      \<and> (c_state c = Input \<longrightarrow> c_input c \<noteq> [])
      \<and> (c_state c = Idle \<or> c_state c = OpPending \<longrightarrow> c_input c = []))"

lemma typed_unsigned_iff:
  "typed_unsigned s \<longleftrightarrow>
     (\<exists>a b. a \<noteq> [] \<and> list_all is_digit a \<and> list_all is_digit b \<and> (s = a \<or> s = a @ CHR ''.'' # b))"
proof
  assume s: "typed_unsigned s"
  show "\<exists>a b. a \<noteq> [] \<and> list_all is_digit a \<and> list_all is_digit b \<and> (s = a \<or> s = a @ CHR ''.'' # b)"
  proof (cases "split_at_char CHR ''.'' s")
    case None
    with s show ?thesis
      by (intro exI [of _ s] exI [of _ "[]"]) (simp add: typed_unsigned_def)
  next
    case (Some ab)
    with s split_at_char_Some [of _ s "fst ab" "snd ab"] show ?thesis
      by (intro exI [of _ "fst ab"] exI [of _ "snd ab"]) (auto simp: typed_unsigned_def)
  qed
next
  assume "\<exists>a b. a \<noteq> [] \<and> list_all is_digit a \<and> list_all is_digit b \<and> (s = a \<or> s = a @ CHR ''.'' # b)"
  then obtain a b where ab: "a \<noteq> []" "list_all is_digit a" "list_all is_digit b"
    and s: "s = a \<or> s = a @ CHR ''.'' # b" by blast
  have "CHR ''.'' \<notin> set a"
    using digits_no_char [OF ab(2)] by simp
  then have "split_at_char CHR ''.'' a = None" "split_at_char CHR ''.'' (a @ CHR ''.'' # b) = Some (a, b)"
    by (simp_all add: split_at_char_None split_at_char_append)
  with ab s show "typed_unsigned s"
    by (auto simp: typed_unsigned_def)
qed

lemma typed_unsigned_Cons: "typed_unsigned s \<Longrightarrow> s \<noteq> [] \<and> is_digit (hd s)"
  by (auto simp: typed_unsigned_iff list_all_iff)

lemma typed_unsigned_no_sign: "typed_unsigned s \<Longrightarrow> strip_prefix ''-'' s = None"
  using typed_unsigned_Cons [of s] by (cases s) auto

lemma typed_number_iff: "typed_number s \<longleftrightarrow> typed_unsigned s \<or> (\<exists>u. s = CHR ''-'' # u \<and> typed_unsigned u)"
  using typed_unsigned_no_sign [of s]
  by (auto simp: typed_number_def strip_prefix_Some strip_prefix_None split: option.splits)

lemma typed_unsignedI:
  "a \<noteq> [] \<Longrightarrow> list_all is_digit a \<Longrightarrow> typed_unsigned a"
  "a \<noteq> [] \<Longrightarrow> list_all is_digit a \<Longrightarrow> list_all is_digit b \<Longrightarrow> typed_unsigned (a @ CHR ''.'' # b)"
  by (rule iffD2 [OF typed_unsigned_iff], rule exI [of _ a], rule exI [of _ "[]"], simp)
    (rule iffD2 [OF typed_unsigned_iff], rule exI [of _ a], rule exI [of _ b], simp)

lemma typed_unsigned_digit: "typed_unsigned s \<Longrightarrow> is_digit d \<Longrightarrow> typed_unsigned (s @ [d])"
  by (erule iffD1 [OF typed_unsigned_iff, elim_format])
    (use typed_unsignedI(2) [where b = "_ @ [d]"] in \<open>auto intro: typed_unsignedI(1)\<close>)

lemma typed_unsigned_single: "is_digit d \<Longrightarrow> typed_unsigned [d]"
  by (rule iffD2 [OF typed_unsigned_iff], rule exI [of _ "[d]"], rule exI [of _ "[]"]) simp

lemma typed_unsigned_point:
  assumes "typed_unsigned s" and "CHR ''.'' \<notin> set s"
  shows "typed_unsigned (s @ ''.'')"
proof -
  have "s \<noteq> []" "list_all is_digit s"
    using assms split_at_char_None [of "CHR ''.''" s] by (auto simp: typed_unsigned_def)
  then show ?thesis
    by (intro iffD2 [OF typed_unsigned_iff] exI [of _ s] exI [of _ "[]"]) simp
qed

lemma typed_unsigned_butlast:
  assumes "typed_unsigned s" and "butlast s \<noteq> []"
  shows "typed_unsigned (butlast s)"
proof -
  obtain a b where ab: "a \<noteq> []" "list_all is_digit a" "list_all is_digit b"
    and s: "s = a \<or> s = a @ CHR ''.'' # b"
    using assms(1) by (auto simp: typed_unsigned_iff)
  have digits: "list_all is_digit (butlast x)" if "list_all is_digit x" for x
    using that by (auto simp: list_all_iff dest: in_set_butlastD)
  show ?thesis
    using s
  proof
    assume "s = a"
    then show ?thesis
      using assms(2) digits [OF ab(2)]
      by (intro iffD2 [OF typed_unsigned_iff] exI [of _ "butlast a"] exI [of _ "[]"]) simp
  next
    assume "s = a @ CHR ''.'' # b"
    then have "butlast s = (if b = [] then a else a @ CHR ''.'' # butlast b)"
      by (simp add: butlast_append)
    then show ?thesis
      using ab digits [OF ab(3)]
      by (intro iffD2 [OF typed_unsigned_iff] exI [of _ a] exI [of _ "butlast b"]) simp
  qed
qed

lemma digits_ascii: "list_all is_digit s \<Longrightarrow> ascii s"
  by (auto simp: list_all_iff ascii_def is_digit_def)

lemma typed_number_ascii: "typed_number s \<Longrightarrow> ascii s"
  by (auto simp: typed_number_iff typed_unsigned_iff digits_ascii ascii_simps)

lemma typed_number_props:
  assumes "typed_number s"
  shows "is_digit d \<Longrightarrow> typed_number (s @ [d])"
    and "CHR ''.'' \<notin> set s \<Longrightarrow> typed_number (s @ ''.'')"
    and "butlast s \<noteq> [] \<Longrightarrow> butlast s \<noteq> ''-'' \<Longrightarrow> typed_number (butlast s)"
    and "hd s = CHR ''-'' \<Longrightarrow> typed_number (tl s)"
    and "hd s \<noteq> CHR ''-'' \<Longrightarrow> typed_number (CHR ''-'' # s)"
proof -
  consider "typed_unsigned s" "hd s \<noteq> CHR ''-''"
    | u where "s = CHR ''-'' # u" "typed_unsigned u" "u \<noteq> []"
    using assms typed_unsigned_Cons [of s] typed_unsigned_Cons [of "tl s"]
    by (cases "hd s = CHR ''-''"; cases s) (auto simp: typed_number_iff)
  note cases = this
  show "is_digit d \<Longrightarrow> typed_number (s @ [d])"
    using cases by cases (auto simp: typed_number_iff typed_unsigned_digit)
  show "CHR ''.'' \<notin> set s \<Longrightarrow> typed_number (s @ ''.'')"
    using cases by cases (auto simp: typed_number_iff typed_unsigned_point)
  show "butlast s \<noteq> [] \<Longrightarrow> butlast s \<noteq> ''-'' \<Longrightarrow> typed_number (butlast s)"
    using cases by cases (auto simp: typed_number_iff typed_unsigned_butlast)
  show "hd s = CHR ''-'' \<Longrightarrow> typed_number (tl s)"
    using cases by cases (auto simp: typed_number_iff)
  show "hd s \<noteq> CHR ''-'' \<Longrightarrow> typed_number (CHR ''-'' # s)"
    using cases by cases (auto simp: typed_number_iff)
qed

lemma typed_number_single: "is_digit d \<Longrightarrow> typed_number [d]"
  by (simp add: typed_number_iff typed_unsigned_single)

lemma typed_number_zero_point: "typed_number ''0.''"
  using typed_number_props(2) [OF typed_number_single, of "CHR ''0''"]
  by (simp add: is_digit_def)

section \<open>Postconditions of actions\<close>

text \<open>
  \<open>post P m\<close>: if the action returns, \<open>P\<close> holds of the new state and the result. The
  equations push it through the constructs the actions are built from.
\<close>

definition post ::
    "('d calculator \<Rightarrow> 'd calc_result \<Rightarrow> bool) \<Rightarrow> 'd calc_outcome \<Rightarrow> bool" where
  "post P m = (\<forall>c r. m = Some (c, r) \<longrightarrow> P c r)"

lemma post_simps [simp]:
  "post P None"
  "post P (ret D c evs) = P c (calc_result_of D c evs)"
  "post P (Option.bind x f) = (\<forall>v. x = Some v \<longrightarrow> post P (f v))"
  by (auto simp: post_def ret_def bind_eq_Some_conv)

lemma post_if [simp]: "post P (if b then m1 else m2) = (if b then post P m1 else post P m2)"
  by simp

section \<open>Every action keeps the input well-formed\<close>

lemma push_digit:
  "valid_action (A_Digit d) \<Longrightarrow> push_latin1 (48 + unat d) s = s @ [digit_char (unat d)]"
  by (auto simp: valid_action_def push_latin1_def digit_char_def word_less_nat_alt)

lemma valid_digit: "valid_action (A_Digit d) \<longleftrightarrow> unat d < 10"
  by (auto simp: valid_action_def word_less_nat_alt)

lemmas outcome_defs = ret_def enter_error_def Let_def

lemmas action_defs [calc_ops] =
  digit_def decimal_point_def operator_def equals_def equals_apply_def percent_def mu_def
  square_root_def backspace_def clear_def all_clear_def plus_minus_def memory_recall_def
  memory_add_def memory_subtract_def memory_clear_def

lemma calc_new_inv: "calc_inv (calc_new D)"
  by (simp add: calc_inv_def calc_new_def)

abbreviation keeps_inv :: "'d calc_outcome \<Rightarrow> bool" where
  "keeps_inv m \<equiv> post (\<lambda>c' _. calc_inv c') m"

lemma digit_inv: "calc_inv c \<Longrightarrow> valid_action (A_Digit d) \<Longrightarrow> keeps_inv (digit D d c)"
  using typed_number_props(1) [of "c_input c" "digit_char (unat d)"]
  by (cases "c_state c")
    (auto simp add: digit_def Let_def push_digit valid_digit calc_inv_def typed_number_single)

lemma decimal_point_inv: "calc_inv c \<Longrightarrow> keeps_inv (decimal_point D c)"
  using typed_number_props(2) [of "c_input c"]
  by (cases "c_state c")
    (auto simp add: decimal_point_def Let_def calc_inv_def typed_number_zero_point)

lemma backspace_inv: "calc_inv c \<Longrightarrow> keeps_inv (backspace D c)"
  using typed_number_props(3) [of "c_input c"] str_pop_ascii [OF typed_number_ascii, of "c_input c"]
  by (cases "c_state c") (auto simp add: backspace_def Let_def calc_inv_def)

lemma plus_minus_inv: "calc_inv c \<Longrightarrow> keeps_inv (plus_minus D c)"
  using typed_number_props(4,5) [of "c_input c"] typed_number_iff [of "c_input c"]
    typed_unsigned_Cons [of "tl (c_input c)"] typed_unsigned_Cons [of "c_input c"]
  by (cases "c_state c") (auto simp add: plus_minus_def Let_def calc_inv_def)

lemma operator_inv: "calc_inv c \<Longrightarrow> keeps_inv (operator D op c)"
  by (cases "c_state c")
    (auto simp add: operator_def Let_def enter_error_def calc_inv_def split: option.split sum.split)

lemma equals_apply_inv: "calc_inv c \<Longrightarrow> keeps_inv (equals_apply D rhs op c)"
  by (simp add: equals_apply_def enter_error_def calc_inv_def split: option.split sum.split)

lemma equals_inv: "calc_inv c \<Longrightarrow> keeps_inv (equals D c)"
proof -
  assume inv: "calc_inv c"
  then have "keeps_inv (ret D (c\<lparr>c_state := Evaluated, c_last_op := None\<rparr>) evs)"
    and "keeps_inv (ret D (c\<lparr>c_acc := p, c_input := [], c_state := Evaluated, c_history := h,
           c_last_operand := k, c_last_op := None, c_mu := MuNone\<rparr>) evs)" for evs p h k
    by (simp_all add: calc_inv_def)
  then show ?thesis
    using inv by (simp add: equals_def equals_apply_inv split: option.split mu_ctx.split)
qed

lemma other_actions_inv:
  assumes "calc_inv c"
  shows "keeps_inv (percent D c)"
    and "keeps_inv (mu D c)" and "keeps_inv (square_root D c)" and "keeps_inv (clear D c)"
    and "keeps_inv (all_clear D c)" and "keeps_inv (memory_recall D c)"
    and "keeps_inv (memory_add D c)" and "keeps_inv (memory_subtract D c)"
    and "keeps_inv (memory_clear D c)"
  using assms
  by (simp_all add: action_defs enter_error_def Let_def calc_inv_def calc_reset_def calc_new_def
      split: option.split sum.split mu_ctx.split)

lemma calc_dispatch_post: "calc_inv c \<Longrightarrow> valid_action a \<Longrightarrow> keeps_inv (calc_dispatch D a c)"
  by (cases a) (simp_all add: digit_inv decimal_point_inv backspace_inv plus_minus_inv
      operator_inv equals_inv other_actions_inv)

lemma calc_dispatch_inv:
  "calc_inv c \<Longrightarrow> valid_action a \<Longrightarrow> calc_dispatch D a c = Some (c', r) \<Longrightarrow> calc_inv c'"
  using calc_dispatch_post by (fastforce simp: post_def)

lemma reset_from_snapshot_inv: "calc_inv (reset_from_snapshot D display history mem err c)"
  by (simp add: reset_from_snapshot_def calc_inv_def Let_def)

interpretation cm: event_machine "calc_step D" valid_action calc_inv for D
  by unfold_locales (auto simp: calc_step_def dest: calc_dispatch_inv)

section \<open>The error state\<close>

lemma error_absorbing:
  "c_state c = Error \<Longrightarrow> a \<noteq> A_AllClear \<Longrightarrow> calc_dispatch D a c = ret D c []"
  by (cases a) (simp_all add: action_defs)

lemma all_clear_resets: "calc_dispatch D A_AllClear c = ret D (calc_new D) [V_AllClear]"
  by (simp add: all_clear_def calc_reset_def)

section \<open>Memory\<close>

definition changes_memory :: "calc_action \<Rightarrow> bool" where
  "changes_memory a =
     (a = A_MemoryAdd \<or> a = A_MemorySubtract \<or> a = A_MemoryClear \<or> a = A_AllClear)"

lemma memory_frame_post:
  "\<not> changes_memory a \<Longrightarrow> post (\<lambda>c' _. c_memory c' = c_memory c) (calc_dispatch D a c)"
  by (cases a) (simp_all add: changes_memory_def action_defs enter_error_def Let_def
      split: option.split sum.split mu_ctx.split)

lemma memory_frame:
  "\<not> changes_memory a \<Longrightarrow> calc_dispatch D a c = Some (c', r) \<Longrightarrow> c_memory c' = c_memory c"
  using memory_frame_post by (fastforce simp: post_def)

section \<open>What an action reports\<close>

lemma dispatch_result:
  "calc_dispatch D a c = Some (c', r) \<Longrightarrow> r = calc_result_of D c' (r_events r)"
proof -
  have "post (\<lambda>c' r. r = calc_result_of D c' (r_events r)) (calc_dispatch D a c)"
    by (cases a) (simp_all add: action_defs enter_error_def Let_def calc_result_of_def
        split: option.split sum.split mu_ctx.split)
  then show "calc_dispatch D a c = Some (c', r) \<Longrightarrow> r = calc_result_of D c' (r_events r)"
    by (simp add: post_def)
qed

section \<open>Panics\<close>

text \<open>
  Where the arithmetic can fail. \<open>overflow_on D xs\<close> says that an operation on two of the
  values \<open>xs\<close> has no result, where a division by zero does not count: dividing by zero is
  undefined for every decimal type, and the calculator must not attempt it.
\<close>

definition overflow_on :: "'d decimal_ops \<Rightarrow> 'd list \<Rightarrow> bool" where
  "overflow_on D xs =
     list_ex (\<lambda>x. list_ex (\<lambda>y. d_add D x y = None \<or> d_sub D x y = None \<or> d_mul D x y = None
        \<or> (\<not> d_eq D y (d_zero D) \<and> d_div D x y = None)) xs) xs"

text \<open>The values themselves, and everything one operation makes of two of them.\<close>

definition results :: "'d decimal_ops \<Rightarrow> 'd list \<Rightarrow> 'd list" where
  "results D xs = xs @ List.map_filter (\<lambda>r. r)
     (concat (map (\<lambda>x. concat (map (\<lambda>y. [d_add D x y, d_sub D x y, d_mul D x y, d_div D x y]) xs)) xs))"

text \<open>The values a calculator holds, its display included.\<close>

definition held :: "'d decimal_ops \<Rightarrow> 'd calculator \<Rightarrow> 'd list" where
  "held D c = [c_acc c, display_value D c, c_last_operand c, c_memory c]
     @ (case c_mu c of MuNone \<Rightarrow> [] | Waiting cost \<Rightarrow> [cost] | Done cost sell \<Rightarrow> [cost, sell])"

text \<open>
  The operands a key may use: for \<open>%\<close>, which computes up to three operations in a row, the
  held values, one, a hundred, and what two operations make of them; for the other keys only
  the held values.
\<close>

definition operands :: "'d decimal_ops \<Rightarrow> calc_action \<Rightarrow> 'd calculator \<Rightarrow> 'd list" where
  "operands D k c =
     (if k = A_Percent then results D (results D (d_one D # d_hundred D # held D c)) else held D c)"

lemma overflow_onI:
  assumes "x \<in> set xs" and "y \<in> set xs"
    and "d_add D x y = None \<or> d_sub D x y = None \<or> d_mul D x y = None
      \<or> (\<not> d_eq D y (d_zero D) \<and> d_div D x y = None)"
  shows "overflow_on D xs"
  unfolding overflow_on_def list_ex_iff using assms by blast

lemma results_keep: "x \<in> set xs \<Longrightarrow> x \<in> set (results D xs)"
  by (simp add: results_def)

lemma in_set_map_filter: "z \<in> set (List.map_filter f xs) \<longleftrightarrow> (\<exists>x\<in>set xs. f x = Some z)"
  by (induction xs) (auto split: option.splits)

lemma results_op:
  assumes "x \<in> set xs" and "y \<in> set xs"
    and "d_add D x y = Some z \<or> d_sub D x y = Some z \<or> d_mul D x y = Some z \<or> d_div D x y = Some z"
  shows "z \<in> set (results D xs)"
proof -
  have "Some z \<in> set [d_add D x y, d_sub D x y, d_mul D x y, d_div D x y]"
    using assms(3) by auto
  then have "\<exists>x\<in>set xs. \<exists>y\<in>set xs. Some z \<in> set [d_add D x y, d_sub D x y, d_mul D x y, d_div D x y]"
    by (intro bexI [OF _ assms(1)] bexI [OF _ assms(2)])
  then have "Some z \<in> set (concat (map (\<lambda>x. concat (map (\<lambda>y.
      [d_add D x y, d_sub D x y, d_mul D x y, d_div D x y]) xs)) xs))" (is "_ \<in> set ?rs")
    by simp
  then have "z \<in> set (List.map_filter (\<lambda>r. r) ?rs)"
    unfolding in_set_map_filter by (rule bexI [rotated]) (rule refl)
  then show ?thesis
    unfolding results_def by simp
qed

lemma held_simps:
  "c_acc c \<in> set (held D c)" "display_value D c \<in> set (held D c)"
  "c_last_operand c \<in> set (held D c)" "c_memory c \<in> set (held D c)"
  "c_mu c = Waiting cost \<Longrightarrow> cost \<in> set (held D c)"
  "c_mu c = Done cost sell \<Longrightarrow> cost \<in> set (held D c)"
  "c_mu c = Done cost sell \<Longrightarrow> sell \<in> set (held D c)"
  by (simp_all add: held_def)

lemma do_binary_None:
  "do_binary D x op y = None \<Longrightarrow> x \<in> set xs \<Longrightarrow> y \<in> set xs \<Longrightarrow> overflow_on D xs"
  by (rule overflow_onI [of x _ y]) (auto simp: do_binary_def split: binary_op.splits if_splits)

lemma eval_pending_None: "eval_pending D c = None \<Longrightarrow> overflow_on D (held D c)"
  using do_binary_None [OF _ held_simps(1,2)]
  by (auto simp: eval_pending_def Let_def split: option.splits)

text \<open>The chains of operations of \<open>%\<close>.\<close>

lemma three_operations:
  assumes "a \<in> set xs" and "b \<in> set xs" and "h \<in> set xs" and "\<not> d_eq D h (d_zero D)"
    and "d_mul D a b = None \<or> (\<exists>m. d_mul D a b = Some m \<and> (d_div D m h = None
       \<or> (\<exists>q. d_div D m h = Some q \<and> (d_add D a q = None \<or> d_sub D a q = None))))"
  shows "overflow_on D (results D (results D xs))"
proof -
  have in2: "x \<in> set (results D (results D xs))" if "x \<in> set (results D xs)" for x
    using that by (rule results_keep)
  have keep2: "x \<in> set (results D (results D xs))" if "x \<in> set xs" for x
    using results_keep [OF that] by (rule in2)
  show ?thesis
  proof (cases "d_mul D a b")
    case None
    then show ?thesis
      using overflow_onI [OF keep2 [OF assms(1)] keep2 [OF assms(2)]] by simp
  next
    case (Some m)
    then have m: "m \<in> set (results D xs)" using results_op [OF assms(1,2)] by simp
    show ?thesis
    proof (cases "d_div D m h")
      case None
      then show ?thesis
        using overflow_onI [OF in2 [OF m] keep2 [OF assms(3)]] assms(4) by simp
    next
      case (Some q)
      then have q: "q \<in> set (results D (results D xs))"
        using results_op [OF m results_keep [OF assms(3)]] by simp
      have "d_add D a q = None \<or> d_sub D a q = None"
        using assms(5) \<open>d_mul D a b = Some m\<close> Some by simp
      then show ?thesis
        using overflow_onI [OF keep2 [OF assms(1)] q] by auto
    qed
  qed
qed

lemma percent_overflow:
  assumes "percent D c = None" and "\<not> d_eq D (d_hundred D) (d_zero D)"
  shows "overflow_on D (operands D A_Percent c)"
proof -
  let ?xs = "d_one D # d_hundred D # held D c"
  have hundred: "d_hundred D \<in> set ?xs" and one: "d_one D \<in> set ?xs" and acc: "c_acc c \<in> set ?xs"
    and disp: "display_value D c \<in> set ?xs"
    by (simp_all add: held_simps)
  have keep2: "x \<in> set (results D (results D ?xs))" if "x \<in> set ?xs" for x
    using results_keep [OF results_keep [OF that]] .
  have run: "c_state c \<noteq> Error" using assms(1) by (auto simp: percent_def ret_def)
  have first: ?thesis if "d_div D (display_value D c) (d_hundred D) = None"
    using overflow_onI [OF keep2 [OF disp] keep2 [OF hundred]] that assms(2)
    by (simp add: operands_def)
  show ?thesis
  proof (cases "\<exists>cost. c_mu c = Waiting cost")
    case True
    then obtain cost where mu: "c_mu c = Waiting cost" by blast
    have cost: "cost \<in> set ?xs" using mu by (simp add: held_simps)
    show ?thesis
    proof (cases "d_div D (display_value D c) (d_hundred D)")
      case (Some r)
      then have r: "r \<in> set (results D ?xs)" using results_op [OF disp hundred] by blast
      show ?thesis
      proof (cases "d_sub D (d_one D) r")
        case None
        then show ?thesis
          using overflow_onI [OF keep2 [OF one] results_keep [OF r]] by (simp add: operands_def)
      next
        case (Some d)
        then have d: "d \<in> set (results D (results D ?xs))"
          using results_op [OF results_keep [OF one] r] by blast
        have "\<not> d_eq D d (d_zero D)" "d_div D cost d = None"
          using assms(1) run mu \<open>d_div D (display_value D c) (d_hundred D) = Some r\<close> Some
          by (auto simp: percent_def Let_def ret_def enter_error_def bind_eq_None_conv split: if_splits)
        then show ?thesis
          using overflow_onI [OF keep2 [OF cost] d] by (simp add: operands_def)
      qed
    qed (rule first)
  next
    case False
    then have none: "percent_value D c = None"
      using assms(1) run
      by (auto simp: percent_def outcome_defs split: mu_ctx.splits option.splits sum.splits)
    show ?thesis
    proof (cases "c_pending c = Some Divide")
      case True
      show ?thesis
      proof (cases "d_div D (display_value D c) (d_hundred D)")
        case (Some pct)
        then have "pct \<in> set (results D (results D ?xs))"
          using results_keep [OF results_op [OF disp hundred]] by blast
        moreover have "\<not> d_eq D pct (d_zero D)" "d_div D (c_acc c) pct = None"
          using none True Some by (auto simp: percent_value_def Let_def split: if_splits)
        ultimately show ?thesis
          using overflow_onI [OF keep2 [OF acc]] by (simp add: operands_def)
      qed (rule first)
    next
      case False
      consider "c_pending c = None" | op where "c_pending c = Some op" "op \<noteq> Divide"
        using False by (cases "c_pending c") auto
      then show ?thesis
      proof cases
        case 1
        then show ?thesis using none by (intro first) (simp add: percent_value_def Let_def)
      next
        case 2
        then have "d_mul D (c_acc c) (display_value D c) = None
            \<or> (\<exists>m. d_mul D (c_acc c) (display_value D c) = Some m \<and> (d_div D m (d_hundred D) = None
            \<or> (\<exists>q. d_div D m (d_hundred D) = Some q
                 \<and> (d_add D (c_acc c) q = None \<or> d_sub D (c_acc c) q = None))))"
          using none
          by (cases op; cases "d_mul D (c_acc c) (display_value D c)";
              cases "d_div D (the (d_mul D (c_acc c) (display_value D c))) (d_hundred D)")
            (simp_all add: percent_value_def Let_def)
        then show ?thesis
          using three_operations [OF acc disp hundred assms(2)] by (simp add: operands_def)
      qed
    qed
  qed
qed

lemma equals_apply_None: "equals_apply D rhs op c = None \<Longrightarrow> do_binary D (c_acc c) op rhs = None"
  by (auto simp: equals_apply_def ret_def enter_error_def split: option.splits sum.splits)

lemma equals_overflow:
  assumes "equals D c = None"
  shows "overflow_on D (held D c)"
proof -
  have apply_op: "overflow_on D (held D c)"
    if "equals_apply D rhs op c = None" "rhs \<in> set (held D c)" for rhs op
    using do_binary_None [OF equals_apply_None [OF that(1)] held_simps(1) that(2)] .
  have run: "c_state c \<noteq> Error" using assms by (auto simp: equals_def ret_def)
  show ?thesis
  proof (cases "\<exists>cost sell. c_mu c = Done cost sell")
    case True
    then obtain cost sell where mu: "c_mu c = Done cost sell" by blast
    then have "d_sub D sell cost = None"
      using run assms by (cases "d_sub D sell cost") (simp_all add: equals_def ret_def)
    then show ?thesis
      using overflow_onI [OF held_simps(7) [OF mu] held_simps(6) [OF mu]] by blast
  next
    case False
    then have eq: "equals D c =
        (if c_state c = Evaluated
         then (case c_last_op c of Some op \<Rightarrow> equals_apply D (c_last_operand c) op c
               | None \<Rightarrow> ret D c [V_Equals])
         else (case c_pending c of
                 Some op \<Rightarrow> equals_apply D (if c_input c = [] then c_acc c else display_value D c) op c
               | None \<Rightarrow> ret D (c\<lparr>c_state := Evaluated, c_last_op := None\<rparr>) [V_Equals]))"
      using run unfolding equals_def by (cases "c_mu c") simp_all
    show ?thesis
      using assms unfolding eq
      by (cases "c_last_op c"; cases "c_pending c")
        (auto simp: ret_def held_simps intro: apply_op split: if_splits)
  qed
qed

text \<open>The keys that calculate with what the calculator holds.\<close>

fun calculating :: "calc_action \<Rightarrow> bool" where
  "calculating (A_Operator op) = True"
| "calculating A_Equals = True"
| "calculating A_Percent = True"
| "calculating A_MemoryAdd = True"
| "calculating A_MemorySubtract = True"
| "calculating _ = False"

lemma dispatch_panic:
  assumes "calc_dispatch D a c = None" and "valid_action a" and "\<not> d_eq D (d_hundred D) (d_zero D)"
  shows "calculating a \<and> c_state c \<noteq> Error \<and> overflow_on D (operands D a c)"
proof (cases a)
  case (A_Digit d)
  then show ?thesis
    using assms by (auto simp: digit_def outcome_defs valid_digit split: if_splits)
next
  case A_Percent
  then show ?thesis
    using assms percent_overflow [of D c] by (auto simp: percent_def ret_def)
next
  case (A_Operator op)
  then show ?thesis
    using assms eval_pending_None [of D c]
    by (auto simp: operator_def operands_def outcome_defs split: if_splits option.splits sum.splits)
next
  case A_Equals
  then show ?thesis
    using assms equals_overflow [of D c] by (auto simp: equals_def operands_def ret_def)
next
  case A_MemoryAdd
  then show ?thesis
    using assms(1) overflow_onI [OF held_simps(4,2), of D c D]
    by (auto simp: memory_add_def operands_def outcome_defs split: if_splits option.splits)
next
  case A_MemorySubtract
  then show ?thesis
    using assms(1) overflow_onI [OF held_simps(4,2), of D c D]
    by (auto simp: memory_subtract_def operands_def outcome_defs split: if_splits option.splits)
qed (use assms in \<open>auto simp: action_defs outcome_defs split: if_splits option.splits\<close>)

end
