(* ===== verification/Calculator_Theorems.thy ===== *)
theory Calculator_Theorems
  imports Calculator
begin

text \<open>
  What a user of the calculator can rely on, stated over key sequences. The reference
  semantics are small: \<open>chain_eval\<close> evaluates a chain of operations from left to right,
  \<open>repeat_eval\<close> applies one operation again and again, and \<open>mark_up\<close> is the selling price
  for a cost and a margin. The theorems relate the key-by-key state machine of
  \<open>calculator.rs\<close> to them, including the error and the panic outcomes.
\<close>

section \<open>Typing a number\<close>

definition key_of :: "char \<Rightarrow> calc_action" where
  "key_of ch = (if ch = CHR ''.'' then A_DecimalPoint else A_Digit (word_of_nat (digit_val ch)))"

definition type_text :: "string \<Rightarrow> calc_action list" where
  "type_text s = map key_of s"

text \<open>The value of a typed text.\<close>

definition number_of :: "'d decimal_ops \<Rightarrow> string \<Rightarrow> 'd" where
  "number_of D s = (case d_from_str D s of Some v \<Rightarrow> v | None \<Rightarrow> d_zero D)"

definition readable :: "'d decimal_ops \<Rightarrow> string \<Rightarrow> bool" where
  "readable D s = (typed_unsigned s \<and> d_from_str D s \<noteq> None)"

lemma press_Nil [simp]: "press D c [] = Some c"
  by (simp add: press_def)

lemma press_Cons:
  "press D c (a # as) = (case calc_dispatch D a c of None \<Rightarrow> None | Some (c', r) \<Rightarrow> press D c' as)"
  by (auto simp: press_def calc_step_def split: option.splits)

lemma press_append:
  "press D c (as @ bs) = (case press D c as of None \<Rightarrow> None | Some c' \<Rightarrow> press D c' bs)"
  unfolding press_def by (rule run_steps_append)

lemma press_Some: "press D c as = Some c' \<Longrightarrow> press D c (as @ bs) = press D c' bs"
  by (simp add: press_append)

lemma press_ret: "calc_dispatch D a c = ret D c' evs \<Longrightarrow> press D c (a # as) = press D c' as"
  by (simp add: press_Cons ret_def)

lemma push_digit_char:
  assumes "is_digit ch"
  shows "push_latin1 (48 + unat (word_of_nat (digit_val ch) :: u8)) s = s @ [ch]"
    and "48 + unat (word_of_nat (digit_val ch) :: u8) < 256"
proof -
  have v: "unat (word_of_nat (digit_val ch) :: u8) = digit_val ch"
    using digit_val_less [OF assms] by (simp add: unat_of_nat)
  have "byte (48 + digit_val ch) = ch"
    using assms by (simp add: is_digit_def digit_val_def)
  then show "push_latin1 (48 + unat (word_of_nat (digit_val ch) :: u8)) s = s @ [ch]"
    using digit_val_less [OF assms] by (simp add: v push_latin1_def)
  show "48 + unat (word_of_nat (digit_val ch) :: u8) < 256"
    using digit_val_less [OF assms] by (simp add: v)
qed

lemma press_continue:
  assumes "c_state c = Input" and "c_input c \<noteq> []"
    and "list_all (\<lambda>ch. is_digit ch \<or> ch = CHR ''.'') s"
    and "count_list (c_input c @ s) CHR ''.'' \<le> 1"
  shows "press D c (type_text s) = Some (c\<lparr>c_input := c_input c @ s\<rparr>)"
  using assms
proof (induction s arbitrary: c)
  case (Cons ch s)
  let ?c = "c\<lparr>c_input := c_input c @ [ch]\<rparr>"
  have step: "\<exists>evs. calc_dispatch D (key_of ch) c = ret D ?c evs"
  proof (cases "ch = CHR ''.''")
    case True
    then have "CHR ''.'' \<notin> set (c_input c)"
      using Cons.prems(4) by (simp add: count_list_0_iff)
    then show ?thesis
      using True Cons.prems by (auto simp: key_of_def decimal_point_def)
  next
    case False
    then show ?thesis
      using Cons.prems push_digit_char [of ch] by (auto simp: key_of_def digit_def)
  qed
  then have "press D c (type_text (ch # s)) = press D ?c (type_text s)"
    by (auto simp: type_text_def press_ret)
  also have "\<dots> = Some (c\<lparr>c_input := c_input c @ ch # s\<rparr>)"
    using Cons.prems Cons.IH [of ?c] by simp
  finally show ?case .
qed (simp add: type_text_def)

lemma typed_unsigned_chars:
  assumes "typed_unsigned s"
  shows "list_all (\<lambda>ch. is_digit ch \<or> ch = CHR ''.'') s" and "count_list s CHR ''.'' \<le> 1"
proof -
  obtain a b where ab: "list_all is_digit a" "list_all is_digit b" "s = a \<or> s = a @ CHR ''.'' # b"
    using assms by (auto simp: typed_unsigned_iff)
  then show "list_all (\<lambda>ch. is_digit ch \<or> ch = CHR ''.'') s"
    by (auto simp: list_all_iff)
  show "count_list s CHR ''.'' \<le> 1"
    using ab(3) digits_no_char [OF ab(1), of "CHR ''.''"] digits_no_char [OF ab(2), of "CHR ''.''"]
    by (auto simp: count_list_0_iff)
qed

lemma press_type:
  assumes "typed_unsigned s" and "c_state c \<noteq> Error" and "c_state c \<noteq> Input"
  shows "press D c (type_text s) = Some (c\<lparr>c_state := Input, c_input := s\<rparr>)"
proof -
  obtain d s' where s: "s = d # s'" "is_digit d"
    using typed_unsigned_Cons [OF assms(1)] by (cases s) auto
  then have "d \<noteq> CHR ''.''" by auto
  let ?c = "c\<lparr>c_state := Input, c_input := [d]\<rparr>"
  have "calc_dispatch D (key_of d) c = ret D ?c [V_Digit (word_of_nat (digit_val d))]"
    using assms(2,3) push_digit_char [OF s(2)] \<open>d \<noteq> CHR ''.''\<close>
    by (cases "c_state c") (simp_all add: key_of_def digit_def)
  then have "press D c (type_text s) = press D ?c (type_text s')"
    by (simp add: type_text_def s press_ret)
  also have "\<dots> = Some (c\<lparr>c_state := Input, c_input := s\<rparr>)"
    using press_continue [of ?c s' D] typed_unsigned_chars [OF assms(1)] s by simp
  finally show ?thesis .
qed

lemma press_error:
  "c_state c = Error \<Longrightarrow> A_AllClear \<notin> set ks \<Longrightarrow> press D c ks = Some c"
  by (induction ks) (auto simp: error_absorbing press_ret)

lemma type_text_not_clear [simp]: "A_AllClear \<notin> set (type_text s)"
  by (auto simp: type_text_def key_of_def)

lemma display_value_typed:
  "readable D s \<Longrightarrow> c_input c = s \<Longrightarrow> display_value D c = number_of D s"
  using typed_unsigned_Cons [of s]
  by (auto simp: readable_def display_value_def number_of_def split: option.split)

section \<open>Reference semantics\<close>

text \<open>
  What one operation of a chain is, independently of the code: the operation on the two
  numbers in the order they were typed, and an error instead of a division by zero.
\<close>

fun apply_op ::
    "'d decimal_ops \<Rightarrow> binary_op \<Rightarrow> 'd \<Rightarrow> 'd \<Rightarrow> (calc_error + 'd) option" where
  "apply_op D Add a b = map_option Inr (d_add D a b)"
| "apply_op D Subtract a b = map_option Inr (d_sub D a b)"
| "apply_op D Multiply a b = map_option Inr (d_mul D a b)"
| "apply_op D Divide a b =
     (if d_eq D b (d_zero D) then Some (Inl DivideByZero) else map_option Inr (d_div D a b))"

fun chain_eval ::
    "'d decimal_ops \<Rightarrow> 'd \<Rightarrow> (binary_op \<times> 'd) list \<Rightarrow> (calc_error + 'd) option" where
  "chain_eval D acc [] = Some (Inr acc)"
| "chain_eval D acc ((op, v) # rest) =
     (case apply_op D op acc v of
        None \<Rightarrow> None
      | Some (Inl e) \<Rightarrow> Some (Inl e)
      | Some (Inr acc') \<Rightarrow> chain_eval D acc' rest)"

lemma do_binary_apply_op: "do_binary D a op b = apply_op D op a b"
  by (cases op) (simp_all add: do_binary_def)

fun chain_keys :: "(binary_op \<times> string) list \<Rightarrow> calc_action list" where
  "chain_keys [] = []"
| "chain_keys ((op, s) # rest) = A_Operator op # type_text s @ chain_keys rest"

text \<open>What the user sees of a calculator at rest: an error message, or a value and its text.\<close>

definition outcome :: "'d decimal_ops \<Rightarrow> 'd calculator \<Rightarrow> string + 'd \<times> string" where
  "outcome D c = (if c_state c = Error then Inl (c_history c) else Inr (c_acc c, shown D c))"

definition expected :: "'d decimal_ops \<Rightarrow> calc_error + 'd \<Rightarrow> string + 'd \<times> string" where
  "expected D r =
     (case r of Inl e \<Rightarrow> Inl (calc_error_to_string e) | Inr v \<Rightarrow> Inr (v, format_display D v))"

lemma outcome_error:
  "outcome D (c\<lparr>c_state := Error, c_history := calc_error_to_string e\<rparr>) = expected D (Inl e)"
  by (simp add: outcome_def expected_def)

lemma outcome_value:
  "c_state c = Evaluated \<Longrightarrow> c_input c = [] \<Longrightarrow> outcome D c = expected D (Inr (c_acc c))"
  by (simp add: outcome_def expected_def shown_def calc_result_of_def)

lemma chain_keys_not_clear [simp]: "A_AllClear \<notin> set (chain_keys rest)"
  by (induction rest rule: chain_keys.induct) auto

text \<open>The value of a chain written in the texts the user types.\<close>

definition chain_values :: "'d decimal_ops \<Rightarrow> (binary_op \<times> string) list \<Rightarrow> (binary_op \<times> 'd) list" where
  "chain_values D rest = map (\<lambda>(op, s). (op, number_of D s)) rest"

lemma chain_values_simps [simp]:
  "chain_values D [] = []"
  "chain_values D ((op, s) # rest) = (op, number_of D s) # chain_values D rest"
  by (simp_all add: chain_values_def)

definition chain_readable :: "'d decimal_ops \<Rightarrow> (binary_op \<times> string) list \<Rightarrow> bool" where
  "chain_readable D rest = list_all (\<lambda>(op, s). readable D s) rest"

lemma chain_readable_simps [simp]:
  "chain_readable D []"
  "chain_readable D ((op, s) # rest) \<longleftrightarrow> readable D s \<and> chain_readable D rest"
  by (simp_all add: chain_readable_def)

lemma press_enter_error:
  "calc_dispatch D a c = enter_error D c e \<Longrightarrow> A_AllClear \<notin> set ks \<Longrightarrow>
     map_option (outcome D) (press D c (a # ks)) = Some (expected D (Inl e))"
  by (simp add: press_Cons enter_error_def ret_def press_error outcome_error)

text \<open>From a pending operator, the typed operands and the final \<open>=\<close> fold the chain.\<close>

lemma press_chain:
  assumes "c_state c = OpPending" and "c_mu c = MuNone" and "c_pending c = Some op"
    and "readable D s" and "chain_readable D rest"
  shows "map_option (outcome D) (press D c (type_text s @ chain_keys rest @ [A_Equals]))
     = map_option (expected D) (chain_eval D (c_acc c) ((op, number_of D s) # chain_values D rest))"
  using assms
proof (induction rest arbitrary: c op s)
  case Nil
  let ?c = "c\<lparr>c_state := Input, c_input := s\<rparr>"
  have typed: "press D c (type_text s) = Some ?c" and ne: "s \<noteq> []"
    using Nil press_type [of s c D] typed_unsigned_Cons [of s] by (auto simp: readable_def)
  have eq: "calc_dispatch D A_Equals ?c = equals_apply D (number_of D s) op ?c"
    using Nil ne display_value_typed [of D s ?c] by (simp add: equals_def)
  show ?case
  proof (cases "apply_op D op (c_acc c) (number_of D s)")
    case None
    then show ?thesis using eq by (simp add: press_append typed press_Cons equals_apply_def do_binary_apply_op)
  next
    case (Some r)
    then show ?thesis
      using eq press_enter_error [of D A_Equals ?c _ "[]"]
      by (cases r) (simp_all add: press_append typed press_Cons equals_apply_def do_binary_apply_op ret_def
          outcome_value)
  qed
next
  case (Cons p rest)
  obtain op' s' where p: "p = (op', s')" by force
  let ?c = "c\<lparr>c_state := Input, c_input := s\<rparr>"
  have typed: "press D c (type_text s) = Some ?c"
    using Cons.prems press_type [of s c D] by (auto simp: readable_def)
  have ev: "eval_pending D ?c = apply_op D op (c_acc c) (number_of D s)"
    using Cons.prems display_value_typed [of D s ?c] by (simp add: eval_pending_def do_binary_apply_op)
  show ?case
  proof (cases "apply_op D op (c_acc c) (number_of D s)")
    case None
    then show ?thesis by (simp add: p press_append typed press_Cons operator_def ev)
  next
    case (Some r)
    show ?thesis
    proof (cases r)
      case (Inl e)
      then have "calc_dispatch D (A_Operator op') ?c = enter_error D ?c e"
        using Some by (simp add: operator_def ev)
      then show ?thesis
        using Some Inl press_enter_error [of D "A_Operator op'" ?c e
            "type_text s' @ chain_keys rest @ [A_Equals]"]
        by (simp add: p press_append typed)
    next
      case (Inr w)
      define c2 where "c2 = ?c\<lparr>c_acc := w, c_input := [],
          c_history := format_display D w @ '' '' @ symbol op', c_pending := Some op',
          c_state := OpPending, c_mu := MuNone\<rparr>"
      have "calc_dispatch D (A_Operator op') ?c = ret D c2 [V_Operator op']"
        using Some Inr by (simp add: operator_def ev c2_def)
      then have "press D ?c (A_Operator op' # type_text s' @ chain_keys rest @ [A_Equals])
          = press D c2 (type_text s' @ chain_keys rest @ [A_Equals])"
        by (rule press_ret)
      then show ?thesis
        using Cons.IH [of c2 op' s'] Cons.prems Some Inr
        by (simp add: p press_append typed c2_def)
    qed
  qed
qed

lemma press_first_operand:
  assumes "c_state c = Idle \<or> c_state c = Evaluated" and "c_pending c = None" and "readable D s"
  shows "\<exists>c'. press D c (type_text s @ [A_Operator op]) = Some c'
     \<and> c_state c' = OpPending \<and> c_mu c' = MuNone \<and> c_pending c' = Some op
     \<and> c_acc c' = number_of D s"
proof -
  let ?c = "c\<lparr>c_state := Input, c_input := s\<rparr>"
  have "press D c (type_text s) = Some ?c"
    using assms press_type [of s c D] by (auto simp: readable_def)
  then show ?thesis
    using assms(2) display_value_typed [OF assms(3), of ?c]
    by (simp add: press_append press_Cons operator_def eval_pending_def ret_def)
qed

section \<open>Chains of operations\<close>

text \<open>
  C1: typing \<open>n0 op1 n1 op2 n2 ... =\<close> into a calculator at rest computes the operations
  strictly from left to right: the value and the text it shows are those of
  \<open>chain_eval\<close>; a division by zero anywhere in the chain leaves the error message and
  ignores the remaining keys; and the run panics exactly when the decimal arithmetic of
  the fold does.
\<close>

theorem chain_refines:
  assumes "c_state c = Idle \<or> c_state c = Evaluated" and "c_pending c = None"
    and "readable D s0" and "readable D s1" and "chain_readable D rest"
  shows "map_option (outcome D)
           (press D c (type_text s0 @ chain_keys ((op, s1) # rest) @ [A_Equals]))
     = map_option (expected D)
         (chain_eval D (number_of D s0) (chain_values D ((op, s1) # rest)))"
proof -
  obtain c' where c': "press D c (type_text s0 @ [A_Operator op]) = Some c'"
      "c_state c' = OpPending" "c_mu c' = MuNone" "c_pending c' = Some op"
      "c_acc c' = number_of D s0"
    using press_first_operand [OF assms(1-3)] by blast
  have "press D c (type_text s0 @ chain_keys ((op, s1) # rest) @ [A_Equals])
      = press D c ((type_text s0 @ [A_Operator op]) @ (type_text s1 @ chain_keys rest @ [A_Equals]))"
    by simp
  also have "\<dots> = press D c' (type_text s1 @ chain_keys rest @ [A_Equals])"
    by (simp only: press_append [of D c "type_text s0 @ [A_Operator op]"] c'(1) option.case)
  finally show ?thesis
    using press_chain [OF c'(2-4) assms(4,5)] c'(5) by simp
qed

theorem chain_refines_witness:
  "map_option (outcome fx_ops) (press fx_ops (calc_new fx_ops)
      (type_text ''2'' @ chain_keys [(Add, ''3''), (Multiply, ''4'')] @ [A_Equals]))
   = Some (Inr (200000, ''20''))"
proof -
  have "map_option (expected fx_ops) (chain_eval fx_ops (number_of fx_ops ''2'')
      (chain_values fx_ops [(Add, ''3''), (Multiply, ''4'')])) = Some (Inr (200000, ''20''))"
    by code_simp
  moreover have "readable fx_ops ''2'' \<and> readable fx_ops ''3''
      \<and> chain_readable fx_ops [(Multiply, ''4'')]"
    by code_simp
  ultimately show ?thesis
    using chain_refines [of "calc_new fx_ops" fx_ops "''2''" "''3''" "[(Multiply, ''4'')]" Add]
    by (simp add: calc_new_def)
qed

section \<open>Repeated equals\<close>

fun repeat_eval ::
    "'d decimal_ops \<Rightarrow> 'd \<Rightarrow> binary_op \<Rightarrow> 'd \<Rightarrow> nat \<Rightarrow> (calc_error + 'd) option" where
  "repeat_eval D acc op v n = chain_eval D acc (replicate n (op, v))"

lemma press_equals_repeat:
  assumes "c_state c = Evaluated" and "c_mu c = MuNone" and "c_last_op c = Some op"
    and "c_input c = []" and "c_last_operand c = v"
  shows "map_option (outcome D) (press D c (replicate n A_Equals))
     = map_option (expected D) (repeat_eval D (c_acc c) op v n)"
  using assms
proof (induction n arbitrary: c)
  case 0
  then show ?case by (simp add: outcome_value)
next
  case (Suc n)
  have eq: "calc_dispatch D A_Equals c = equals_apply D v op c"
    using Suc.prems by (simp add: equals_def)
  show ?case
  proof (cases "apply_op D op (c_acc c) v")
    case None
    then show ?thesis using eq by (simp add: press_Cons equals_apply_def do_binary_apply_op)
  next
    case (Some r)
    show ?thesis
    proof (cases r)
      case (Inl e)
      then show ?thesis
        using Some eq press_enter_error [of D A_Equals c e "replicate n A_Equals"]
        by (simp add: equals_apply_def do_binary_apply_op)
    next
      case (Inr w)
      then show ?thesis
        using Some eq Suc.prems by (simp add: press_Cons equals_apply_def do_binary_apply_op ret_def Suc.IH)
    qed
  qed
qed

text \<open>
  Once \<open>=\<close> has produced a result, pressing \<open>=\<close> another \<open>n\<close> times applies the last
  operation with the same right operand \<open>n\<close> more times, stopping at the first error.
\<close>

theorem repeated_equals:
  assumes "c_state c = Evaluated" and "c_mu c = MuNone" and "c_input c = []"
    and "c_last_op c = Some op"
  shows "map_option (outcome D) (press D c (replicate n A_Equals))
     = map_option (expected D) (repeat_eval D (c_acc c) op (c_last_operand c) n)"
  using press_equals_repeat [of c op "c_last_operand c" D n] assms by simp

theorem repeated_equals_witness:
  "map_option (outcome fx_ops) (press fx_ops
      ((calc_new fx_ops)\<lparr>c_acc := 50000, c_state := Evaluated, c_last_op := Some Add,
        c_last_operand := 30000\<rparr>) (replicate 4 A_Equals)) = Some (Inr (170000, ''17''))"
proof -
  have "map_option (expected fx_ops) (repeat_eval fx_ops 50000 Add 30000 4)
      = Some (Inr (170000, ''17''))"
    by code_simp
  then show ?thesis
    using repeated_equals [of "(calc_new fx_ops)\<lparr>c_acc := 50000, c_state := Evaluated,
        c_last_op := Some Add, c_last_operand := 30000\<rparr>" Add fx_ops 4]
    by (simp add: calc_new_def)
qed

section \<open>Mark-up\<close>

text \<open>The selling price for a cost and a margin in percent, and the profit.\<close>

definition mark_up :: "'d decimal_ops \<Rightarrow> 'd \<Rightarrow> 'd \<Rightarrow> (calc_error + 'd) option" where
  "mark_up D cost rate =
     do {r \<leftarrow> d_div D rate (d_hundred D);
         denom \<leftarrow> d_sub D (d_one D) r;
         if d_eq D denom (d_zero D) then Some (Inl DivideByZero)
         else map_option Inr (d_div D cost denom)}"

definition mark_up_profit :: "'d decimal_ops \<Rightarrow> 'd \<Rightarrow> 'd \<Rightarrow> (calc_error + 'd) option" where
  "mark_up_profit D cost rate =
     (case mark_up D cost rate of
        None \<Rightarrow> None
      | Some (Inl e) \<Rightarrow> Some (Inl e)
      | Some (Inr sell) \<Rightarrow> map_option Inr (d_sub D sell cost))"

lemma press_mu:
  assumes "c_state c = Idle \<or> c_state c = Evaluated" and "readable D s"
  shows "press D c (type_text s @ [A_Mu])
     = Some (c\<lparr>c_input := [], c_mu := Waiting (number_of D s), c_state := OpPending\<rparr>)"
proof -
  let ?c = "c\<lparr>c_state := Input, c_input := s\<rparr>"
  have "press D c (type_text s) = Some ?c"
    using assms press_type [of s c D] by (auto simp: readable_def)
  then show ?thesis
    using display_value_typed [OF assms(2), of ?c]
    by (simp add: press_append press_Cons mu_def ret_def)
qed

lemma percent_waiting:
  assumes "c_state c = Input" and "c_mu c = Waiting cost" and "display_value D c = rate"
  shows "case mark_up D cost rate of
      None \<Rightarrow> calc_dispatch D A_Percent c = None
    | Some (Inl e) \<Rightarrow> calc_dispatch D A_Percent c = enter_error D c e
    | Some (Inr sell) \<Rightarrow>
        \<exists>c'. calc_dispatch D A_Percent c = ret D c' [V_Percent, V_Result sell]
          \<and> c_state c' = Evaluated \<and> c_input c' = [] \<and> c_acc c' = sell
          \<and> c_mu c' = Done cost sell"
proof (cases "d_div D rate (d_hundred D)")
  case None
  then show ?thesis using assms by (simp add: mark_up_def percent_def)
next
  case (Some r)
  then show ?thesis
    using assms
    by (cases "d_sub D (d_one D) r"; cases "d_div D cost (the (d_sub D (d_one D) r))")
      (auto simp add: mark_up_def percent_def)
qed

text \<open>
  C21: \<open>cost MU rate %\<close> shows the selling price \<open>cost / (1 - rate / 100)\<close> and a
  following \<open>=\<close> shows the profit, selling price minus cost; a rate of 100 is reported as a
  division by zero.
\<close>

theorem mark_up_keys:
  assumes "c_state c = Idle \<or> c_state c = Evaluated" and "readable D cost" and "readable D rate"
  shows "map_option (outcome D) (press D c (type_text cost @ A_Mu # type_text rate @ [A_Percent]))
      = map_option (expected D) (mark_up D (number_of D cost) (number_of D rate))
    \<and> map_option (outcome D)
        (press D c (type_text cost @ A_Mu # type_text rate @ [A_Percent, A_Equals]))
      = map_option (expected D) (mark_up_profit D (number_of D cost) (number_of D rate))"
proof -
  let ?v = "number_of D cost" and ?r = "number_of D rate"
  let ?c = "c\<lparr>c_mu := Waiting ?v, c_state := Input, c_input := rate\<rparr>"
  have split: "press D c (type_text cost @ A_Mu # type_text rate @ ks) = press D ?c ks" for ks
    using assms press_mu [of c D cost] press_append [of D c "type_text cost @ [A_Mu]"]
      press_type [of rate "c\<lparr>c_input := [], c_mu := Waiting ?v, c_state := OpPending\<rparr>" D]
    by (simp add: press_append readable_def)
  have "display_value D ?c = ?r"
    using assms(3) by (rule display_value_typed) simp
  then have pc: "case mark_up D ?v ?r of
      None \<Rightarrow> calc_dispatch D A_Percent ?c = None
    | Some (Inl e) \<Rightarrow> calc_dispatch D A_Percent ?c = enter_error D ?c e
    | Some (Inr sell) \<Rightarrow>
        \<exists>c'. calc_dispatch D A_Percent ?c = ret D c' [V_Percent, V_Result sell]
          \<and> c_state c' = Evaluated \<and> c_input c' = [] \<and> c_acc c' = sell
          \<and> c_mu c' = Done ?v sell"
    by (intro percent_waiting) simp_all
  consider "mark_up D ?v ?r = None" | e where "mark_up D ?v ?r = Some (Inl e)"
    | sell where "mark_up D ?v ?r = Some (Inr sell)"
    by (metis option.exhaust sum.exhaust)
  then show ?thesis
  proof cases
    case 1
    then show ?thesis using pc by (simp add: split press_Cons mark_up_profit_def)
  next
    case (2 e)
    then show ?thesis
      using pc press_enter_error [of D A_Percent ?c e] by (simp add: split mark_up_profit_def)
  next
    case (3 sell)
    then obtain c' where c': "calc_dispatch D A_Percent ?c = ret D c' [V_Percent, V_Result sell]"
        "c_state c' = Evaluated" "c_input c' = []" "c_acc c' = sell" "c_mu c' = Done ?v sell"
      using pc by auto
    then have "press D ?c (A_Percent # ks) = press D c' ks" for ks
      by (simp add: press_ret)
    then show ?thesis
      using 3 c' by (cases "d_sub D sell ?v")
        (simp_all add: split mark_up_profit_def outcome_value press_Cons equals_def ret_def)
  qed
qed

theorem mark_up_keys_witness:
  "map_option (outcome fx_ops) (press fx_ops (calc_new fx_ops)
      (type_text ''80'' @ A_Mu # type_text ''20'' @ [A_Percent])) = Some (Inr (1000000, ''100''))"
proof -
  have "map_option (expected fx_ops) (mark_up fx_ops (number_of fx_ops ''80'')
      (number_of fx_ops ''20'')) = Some (Inr (1000000, ''100''))"
    by code_simp
  moreover have "readable fx_ops ''80'' \<and> readable fx_ops ''20''"
    by code_simp
  ultimately show ?thesis
    using mark_up_keys [of "calc_new fx_ops" fx_ops "''80''" "''20''"]
    by (simp add: calc_new_def)
qed

section \<open>Percent\<close>

text \<open>The meaning of \<open>a op b %\<close>, written as chains of the four operations.\<close>

definition percent_spec :: "'d decimal_ops \<Rightarrow> 'd \<Rightarrow> binary_op \<Rightarrow> 'd \<Rightarrow> (calc_error + 'd) option" where
  "percent_spec D a op b =
     (case op of
        Multiply \<Rightarrow> do {m \<leftarrow> d_mul D a b; map_option Inr (d_div D m (d_hundred D))}
      | Divide \<Rightarrow> do {p \<leftarrow> d_div D b (d_hundred D); apply_op D Divide a p}
      | _ \<Rightarrow> do {m \<leftarrow> d_mul D a b; p \<leftarrow> d_div D m (d_hundred D); apply_op D op a p})"

lemma percent_value_spec:
  "c_pending c = Some op \<Longrightarrow> percent_value D c = percent_spec D (c_acc c) op (display_value D c)"
  by (cases op) (simp_all add: percent_value_def percent_spec_def Let_def apply_op.simps [abs_def])

text \<open>
  \<open>a op b %\<close> adds or subtracts \<open>b\<close> percent of \<open>a\<close>, takes \<open>b\<close> percent of \<open>a\<close>, or
  divides \<open>a\<close> by \<open>b\<close> percent, with a division by zero percent reported as an error.
\<close>

theorem percent_keys:
  assumes "c_state c = Idle \<or> c_state c = Evaluated" and "c_pending c = None"
    and "readable D a" and "readable D b"
  shows "map_option (outcome D)
           (press D c (type_text a @ A_Operator op # type_text b @ [A_Percent]))
     = map_option (expected D) (percent_spec D (number_of D a) op (number_of D b))"
proof -
  obtain c' where c': "press D c (type_text a @ [A_Operator op]) = Some c'"
      "c_state c' = OpPending" "c_mu c' = MuNone" "c_pending c' = Some op"
      "c_acc c' = number_of D a"
    using press_first_operand [OF assms(1-3)] by blast
  let ?c = "c'\<lparr>c_state := Input, c_input := b\<rparr>"
  have "press D c' (type_text b) = Some ?c"
    using assms(4) c'(2) press_type [of b c' D] by (auto simp: readable_def)
  then have pr: "press D c (type_text a @ A_Operator op # type_text b @ [A_Percent])
      = press D ?c [A_Percent]"
    using press_Some [OF c'(1), of "type_text b @ [A_Percent]"] press_Some [of D c' "type_text b"]
    by simp
  have pv: "percent_value D ?c = percent_spec D (number_of D a) op (number_of D b)"
    using c' display_value_typed [OF assms(4), of ?c] percent_value_spec [of ?c op D] by simp
  show ?thesis
  proof (cases "percent_spec D (number_of D a) op (number_of D b)")
    case None
    then show ?thesis using c' pv by (simp add: pr press_Cons percent_def)
  next
    case (Some r)
    then show ?thesis
      using c' pv press_enter_error [of D A_Percent ?c _ "[]"]
      by (cases r) (simp_all add: pr press_Cons percent_def ret_def outcome_value)
  qed
qed

theorem percent_keys_witness:
  "map_option (outcome fx_ops) (press fx_ops (calc_new fx_ops)
      (type_text ''200'' @ A_Operator Subtract # type_text ''5'' @ [A_Percent]))
   = Some (Inr (1900000, ''190''))"
proof -
  have "map_option (expected fx_ops) (percent_spec fx_ops (number_of fx_ops ''200'') Subtract
      (number_of fx_ops ''5'')) = Some (Inr (1900000, ''190''))"
    by code_simp
  moreover have "readable fx_ops ''200'' \<and> readable fx_ops ''5''"
    by code_simp
  ultimately show ?thesis
    using percent_keys [of "calc_new fx_ops" fx_ops "''200''" "''5''" Subtract]
    by (simp add: calc_new_def)
qed

section \<open>Invariants over every key sequence\<close>

text \<open>
  C24: whatever keys are pressed on a new calculator, the input text is empty or a number
  a user can type (sign, digits, at most one point), it is never empty while digits are
  being entered, and it is empty at rest and after an operator.
\<close>

theorem input_well_formed:
  assumes "list_all valid_action ks" and "press D (calc_new D) ks = Some c"
  shows "calc_inv c"
  using cm.run_inv [OF calc_new_inv assms(1)] assms(2) by (simp add: press_def)

theorem input_well_formed_witness:
  "calc_inv (the (press fx_ops (calc_new fx_ops)
     [A_Digit 7, A_PlusMinus, A_DecimalPoint, A_Digit 5, A_Backspace, A_Operator Add, A_Mu]))"
proof -
  have "press fx_ops (calc_new fx_ops)
     [A_Digit 7, A_PlusMinus, A_DecimalPoint, A_Digit 5, A_Backspace, A_Operator Add, A_Mu] \<noteq> None"
    and "list_all valid_action
     [A_Digit 7, A_PlusMinus, A_DecimalPoint, A_Digit 5, A_Backspace, A_Operator Add, A_Mu]"
    by code_simp+
  then show ?thesis
    using input_well_formed [of
        "[A_Digit 7, A_PlusMinus, A_DecimalPoint, A_Digit 5, A_Backspace, A_Operator Add, A_Mu]"
        fx_ops] by (metis option.collapse)
qed

text \<open>
  In the error state every key but \<open>AC\<close> leaves the whole calculator, memory
  included, as it is, and \<open>AC\<close> gives back a new calculator.
\<close>

theorem error_until_all_clear:
  assumes "c_state c = Error" and "A_AllClear \<notin> set ks"
  shows "press D c ks = Some c \<and> press D c (ks @ [A_AllClear]) = Some (calc_new D)"
  using press_error [OF assms]
  by (simp add: press_append press_Cons all_clear_def calc_reset_def ret_def)

theorem error_until_all_clear_witness:
  "press fx_ops ((calc_new fx_ops)\<lparr>c_state := Error, c_memory := 5\<rparr>)
     [A_Digit 1, A_MemoryClear, A_Equals, A_AllClear] = Some (calc_new fx_ops)"
  using error_until_all_clear [of "(calc_new fx_ops)\<lparr>c_state := Error, c_memory := 5\<rparr>"
      "[A_Digit 1, A_MemoryClear, A_Equals]" fx_ops]
  by simp



section \<open>Memory\<close>

lemma press_memory_frame:
  "list_all (\<lambda>k. \<not> changes_memory k) ks \<Longrightarrow> press D c ks = Some c' \<Longrightarrow> c_memory c' = c_memory c"
  by (induction ks arbitrary: c)
    (auto simp: press_Cons dest: memory_frame split: option.splits)

text \<open>
  Whatever is calculated in between, as long as none of the memory keys and \<open>AC\<close> is
  pressed and no error is showing, \<open>MR\<close> brings back the number that was in memory.
\<close>

theorem memory_recall_later:
  assumes "list_all (\<lambda>k. \<not> changes_memory k) ks"
    and "press D c ks = Some c'" and "c_state c' \<noteq> Error"
  shows "map_option (outcome D) (press D c (ks @ [A_MemoryRecall]))
     = Some (expected D (Inr (c_memory c)))"
  using press_memory_frame [OF assms(1,2)] press_Some [OF assms(2)] assms(3)
  by (simp add: press_Cons memory_recall_def ret_def outcome_value)

theorem memory_recall_later_witness:
  "map_option (outcome fx_ops) (press fx_ops ((calc_new fx_ops)\<lparr>c_memory := 70000\<rparr>)
      ([A_Digit 2, A_Operator Add, A_Digit 3, A_Equals] @ [A_MemoryRecall]))
   = Some (expected fx_ops (Inr 70000))"
proof -
  let ?c = "(calc_new fx_ops)\<lparr>c_memory := 70000\<rparr>" and
      ?ks = "[A_Digit 2, A_Operator Add, A_Digit 3, A_Equals]"
  have "list_all (\<lambda>k. \<not> changes_memory k) ?ks"
    by code_simp
  moreover have "map_option (\<lambda>c. c_state c \<noteq> Error) (press fx_ops ?c ?ks) = Some True"
    by code_simp
  then obtain c' where "press fx_ops ?c ?ks = Some c'" "c_state c' \<noteq> Error"
    by (cases "press fx_ops ?c ?ks") auto
  ultimately show ?thesis
    using memory_recall_later [of ?ks fx_ops ?c c'] by simp
qed

section \<open>Editing\<close>

text \<open>
  While a number is being typed, \<open>backspace\<close> undoes the last digit or point and
  \<open>+/-\<close> undoes itself, on the whole state of the calculator. (The text \<open>-0\<close> is the one
  exception for \<open>backspace\<close>: it is cleared as a whole.)
\<close>

theorem edit_roundtrip:
  assumes "calc_inv c" and "c_state c = Input" and "c_input c \<noteq> ''-0''"
    and "valid_action (A_Digit d)"
  shows "press D c [A_Digit d, A_Backspace] = Some c
    \<and> (CHR ''.'' \<notin> set (c_input c) \<longrightarrow> press D c [A_DecimalPoint, A_Backspace] = Some c)
    \<and> press D c [A_PlusMinus, A_PlusMinus] = Some c"
proof -
  have num: "typed_number (c_input c)" and ne: "c_input c \<noteq> []"
    using assms(1,2) by (auto simp: calc_inv_def)
  have not_minus: "c_input c \<noteq> ''-''"
    using num typed_unsigned_Cons [of "[]"] typed_unsigned_Cons [of "''-''"]
    by (auto simp: typed_number_iff)
  have upd: "c\<lparr>c_input := c_input c\<rparr> = c" by simp
  have "press D (c\<lparr>c_input := c_input c @ [x]\<rparr>) [A_Backspace] = Some c"
    if "typed_number (c_input c @ [x])" for x
    using that assms(2,3) ne not_minus str_pop_ascii [OF typed_number_ascii [OF that]]
    by (simp add: press_Cons backspace_def ret_def)
  moreover have "calc_dispatch D (A_Digit d) c
      = ret D (c\<lparr>c_input := c_input c @ [digit_char (unat d)]\<rparr>) [V_Digit d]"
    using assms(2,4) by (simp add: digit_def push_digit valid_digit)
  moreover have "CHR ''.'' \<notin> set (c_input c) \<Longrightarrow> calc_dispatch D A_DecimalPoint c
      = ret D (c\<lparr>c_input := c_input c @ ''.''\<rparr>) [V_DecimalPoint]"
    using assms(2) ne by (simp add: decimal_point_def)
  moreover have "press D c [A_PlusMinus, A_PlusMinus] = Some c"
  proof (cases "hd (c_input c) = CHR ''-''")
    case True
    then have u: "typed_number (tl (c_input c))" "tl (c_input c) \<noteq> []"
        "hd (tl (c_input c)) \<noteq> CHR ''-''" "CHR ''-'' # tl (c_input c) = c_input c"
      using num ne typed_number_props(4) [OF num] typed_unsigned_Cons [of "tl (c_input c)"]
        typed_unsigned_Cons [of "c_input c"]
      by (cases "c_input c"; auto simp: typed_number_iff)+
    then show ?thesis
      using True assms(2) ne upd by (simp add: press_Cons plus_minus_def ret_def)
  next
    case False
    then show ?thesis
      using assms(2) ne upd by (simp add: press_Cons plus_minus_def ret_def)
  qed
  ultimately show ?thesis
    using typed_number_props(1,2) [OF num] assms(4)
    by (auto simp: press_ret valid_digit)
qed

theorem edit_roundtrip_witness:
  "press fx_ops ((calc_new fx_ops)\<lparr>c_state := Input, c_input := ''-12''\<rparr>) [A_Digit 3, A_Backspace]
   = Some ((calc_new fx_ops)\<lparr>c_state := Input, c_input := ''-12''\<rparr>)"
proof -
  have "calc_inv ((calc_new fx_ops)\<lparr>c_state := Input, c_input := ''-12''\<rparr>)"
    and "valid_action (A_Digit 3)"
    by code_simp+
  then show ?thesis
    using edit_roundtrip [of "(calc_new fx_ops)\<lparr>c_state := Input, c_input := ''-12''\<rparr>" 3 fx_ops]
    by simp
qed

section \<open>Behaviours worth knowing\<close>

text \<open>
  An overflow of the four operations is never reported as \<open>CalcError::Overflow\<close>:
  \<open>do_binary\<close> has no such outcome, and \<open>=\<close> on a pending operation whose result does not
  fit panics.
\<close>

theorem overflow_panics:
  assumes "c_state c = Input" and "c_mu c = MuNone" and "c_input c \<noteq> []"
    and "c_pending c = Some op" and "do_binary D (c_acc c) op (display_value D c) = None"
  shows "calc_dispatch D A_Equals c = None
    \<and> (\<forall>x o' y. do_binary D x o' y \<noteq> Some (Inl Overflow))"
  using assms
  by (auto simp: equals_def equals_apply_def do_binary_def split: binary_op.splits if_splits)

theorem overflow_panics_witness:
  "calc_dispatch fx_ops A_Equals ((calc_new fx_ops)\<lparr>c_state := Input, c_input := ''7'',
     c_acc := 2 ^ 96 - 1, c_pending := Some Add\<rparr>) = None"
proof -
  let ?c = "(calc_new fx_ops)\<lparr>c_state := Input, c_input := ''7'',
     c_acc := 2 ^ 96 - 1, c_pending := Some Add\<rparr>"
  have "do_binary fx_ops (c_acc ?c) Add (display_value fx_ops ?c) = None"
    by code_simp
  then show ?thesis
    using overflow_panics [of ?c Add fx_ops] by (simp add: calc_new_def)
qed

text \<open>
  The square root and \<open>MR\<close> overwrite the left operand of a pending operation
  instead of producing its right operand: after \<open>a op1 b sqrt op2\<close> the calculator holds
  \<open>r op1 r\<close> for the root \<open>r\<close> of \<open>b\<close>, and \<open>a\<close> is lost.
\<close>

theorem square_root_loses_operand:
  assumes "c_state c = Input" and "c_pending c = Some op1"
    and "\<not> d_is_sign_negative D (display_value D c)" and "d_sqrt D (display_value D c) = Some r"
    and "do_binary D r op1 r = Some (Inr w)"
    and "do_binary D (c_memory c) op1 (c_memory c) = Some (Inr m)"
  shows "map_option c_acc (press D c [A_SquareRoot, A_Operator op2]) = Some w
    \<and> map_option c_acc (press D c [A_MemoryRecall, A_Operator op2]) = Some m"
  using assms
  by (simp add: press_Cons square_root_def memory_recall_def operator_def ret_def
      eval_pending_def display_value_def [of D "_\<lparr>c_acc := _\<rparr>"]
      display_value_def [of D "c_acc_update _ _"] display_value_def [of D "c_state_update _ _"])

theorem square_root_loses_operand_witness:
  "map_option c_acc (press fx_ops ((calc_new fx_ops)\<lparr>c_state := Input, c_input := ''9'',
     c_acc := 20000, c_pending := Some Add\<rparr>) [A_SquareRoot, A_Operator Add]) = Some 60000"
proof -
  let ?c = "(calc_new fx_ops)\<lparr>c_state := Input, c_input := ''9'',
     c_acc := 20000, c_pending := Some Add\<rparr>"
  have "\<not> d_is_sign_negative fx_ops (display_value fx_ops ?c)"
    and "d_sqrt fx_ops (display_value fx_ops ?c) = Some 30000"
    and "do_binary fx_ops 30000 Add 30000 = Some (Inr 60000)"
    and "do_binary fx_ops (c_memory ?c) Add (c_memory ?c) = Some (Inr 0)"
    by code_simp+
  then show ?thesis
    using square_root_loses_operand [of ?c Add fx_ops 30000 60000 0 Add] by simp
qed

end
