(* ===== verification/Speech.thy ===== *)
theory Speech
  imports Decimal_Instance "HOL-Library.Monad_Syntax"
begin

text \<open>
  Number speech, \<open>src/core/speech.rs\<close>: the WAV indices of the voice assets, the indices an
  event is spoken with, and the decomposition of a number into Chinese numeral words. An
  index is a natural number, since the code only stores and compares the \<open>u16\<close> values. A
  result of \<open>None\<close> is a panic of the subtraction \<open>b - b'0'\<close> on a character below \<open>0\<close>.

  The second half is a listener: \<open>hear\<close> reads a sequence of numeral words back as a
  number by the rules of Chinese numerals and rejects everything else, and the theorems say for
  which numbers the code forms a numeral that it hears as the number that was meant.
\<close>

section \<open>Voice assets\<close>

definition WAV_LING :: nat where "WAV_LING = 0"
definition WAV_SHI :: nat where "WAV_SHI = 10"
definition WAV_BAI :: nat where "WAV_BAI = 11"
definition WAV_QIAN :: nat where "WAV_QIAN = 12"
definition WAV_WAN :: nat where "WAV_WAN = 13"
definition WAV_YI_UNIT :: nat where "WAV_YI_UNIT = 14"
definition WAV_DIVIDE :: nat where "WAV_DIVIDE = 15"
definition WAV_MULTIPLY :: nat where "WAV_MULTIPLY = 16"
definition WAV_SUBTRACT :: nat where "WAV_SUBTRACT = 17"
definition WAV_ADD :: nat where "WAV_ADD = 18"
definition WAV_DIAN :: nat where "WAV_DIAN = 19"
definition WAV_PERCENT :: nat where "WAV_PERCENT = 20"
definition WAV_BACKSPACE :: nat where "WAV_BACKSPACE = 21"
definition WAV_EQUAL :: nat where "WAV_EQUAL = 22"
definition WAV_ERROR :: nat where "WAV_ERROR = 23"
definition WAV_MEMORY :: nat where "WAV_MEMORY = 24"
definition WAV_NEGATIVE :: nat where "WAV_NEGATIVE = 25"
definition WAV_POSITIVE :: nat where "WAV_POSITIVE = 26"
definition WAV_ZERO :: nat where "WAV_ZERO = 27"
definition WAV_CLEAR :: nat where "WAV_CLEAR = 28"
definition WAV_MU :: nat where "WAV_MU = 29"
definition WAV_SQRT :: nat where "WAV_SQRT = 31"

lemmas wav_defs =
  WAV_LING_def WAV_SHI_def WAV_BAI_def WAV_QIAN_def WAV_WAN_def WAV_YI_UNIT_def WAV_DIVIDE_def
  WAV_MULTIPLY_def WAV_SUBTRACT_def WAV_ADD_def WAV_DIAN_def WAV_PERCENT_def WAV_BACKSPACE_def
  WAV_EQUAL_def WAV_ERROR_def WAV_MEMORY_def WAV_NEGATIVE_def WAV_POSITIVE_def WAV_ZERO_def
  WAV_CLEAR_def WAV_MU_def WAV_SQRT_def

section \<open>Speaking\<close>

text \<open>The functions append to \<open>out\<close>, as the code does.\<close>

definition emit_digit :: "nat \<Rightarrow> nat list \<Rightarrow> nat list" where
  "emit_digit d out = out @ [d]"

definition push :: "nat \<Rightarrow> nat list \<Rightarrow> nat list" where
  "push w out = out @ [w]"

fun speak_group :: "nat list \<Rightarrow> nat list \<Rightarrow> bool \<Rightarrow> nat list" where
  "speak_group [g0, g1, g2, g3] out is_leading =
     (let out = push WAV_QIAN (emit_digit g0 out);
          out = (if g1 \<noteq> 0 then
                   (let out = push WAV_BAI (emit_digit g1 out)
                    in if g2 \<noteq> 0 then push WAV_SHI (emit_digit g2 out)
                       else if g3 \<noteq> 0 then push WAV_LING out else out)
                 else if g2 \<noteq> 0 then push WAV_SHI (emit_digit g2 (push WAV_LING out))
                 else if g3 \<noteq> 0 then push WAV_LING out else out)
      in if g3 \<noteq> 0 then emit_digit g3 out else out)"
| "speak_group [g0, g1, g2] out is_leading =
     (let out = push WAV_BAI (emit_digit g0 out);
          out = (if g1 \<noteq> 0 then push WAV_SHI (emit_digit g1 out)
                 else if g2 \<noteq> 0 then push WAV_LING out else out)
      in if g2 \<noteq> 0 then emit_digit g2 out else out)"
| "speak_group [g0, g1] out is_leading =
     (let out = (if g0 = 1 \<and> is_leading then push WAV_SHI out
                 else push WAV_SHI (emit_digit g0 out))
      in if g1 \<noteq> 0 then emit_digit g1 out else out)"
| "speak_group [g0] out is_leading = emit_digit g0 out"
| "speak_group _ out is_leading = out"

text \<open>The part of \<open>speak_integer\<close> below the digits: the groups of 10^8, 10^4 and 1.\<close>

definition speak_last :: "nat list \<Rightarrow> nat list \<Rightarrow> bool \<Rightarrow> nat list" where
  "speak_last remaining out is_leading =
     (if length remaining > 4 then
        (let wan_len = length remaining - 4;
             out = push WAV_WAN (speak_group (take wan_len remaining) out False);
             remaining = drop wan_len remaining
         in if list_all (\<lambda>d. d = 0) remaining then out
            else
              (let out = (if hd remaining = 0 then push WAV_LING out else out)
               in speak_group remaining out is_leading))
      else speak_group remaining out is_leading)"

definition speak_digits :: "nat list \<Rightarrow> nat list \<Rightarrow> nat list" where
  "speak_digits digits out =
     (let len = length digits
      in if len = 0 then push WAV_LING out
         else if len > 12 then out @ digits
         else if len > 8 then
           (let yi_group_len = len - 8;
                out = push WAV_YI_UNIT (speak_group (take yi_group_len digits) out False);
                remaining = drop yi_group_len digits
            in if list_all (\<lambda>d. d = 0) remaining then out
               else
                 (let out = (if hd remaining = 0 then push WAV_LING out else out)
                  in speak_last remaining out (len \<le> 4)))
         else speak_last digits out (len \<le> 4))"

text \<open>\<open>b - b'0'\<close>, checked.\<close>

definition minus_zero :: "nat \<Rightarrow> nat option" where
  "minus_zero n = (if 48 \<le> n then Some (n - 48) else None)"

definition speak_integer :: "string \<Rightarrow> nat list \<Rightarrow> nat list option" where
  "speak_integer s out =
     map_option (\<lambda>digits. speak_digits digits out) (those (map (\<lambda>b. minus_zero (code b)) s))"

definition decimal_to_speech_wavs :: "'d decimal_ops \<Rightarrow> 'd \<Rightarrow> nat list option" where
  "decimal_to_speech_wavs D value =
     (let s = format_for_speech D value;
          (s, is_negative) =
            (case strip_prefix ''-'' s of Some rest \<Rightarrow> (rest, True) | None \<Rightarrow> (s, False));
          result = (if is_negative then [WAV_NEGATIVE] else []);
          (int_part, dec_part) =
            (case split_at_char CHR ''.'' s of
               Some (a, b) \<Rightarrow> (a, Some b)
             | None \<Rightarrow> (s, None))
      in case (if int_part = [] then Some (result @ [WAV_LING]) else speak_integer int_part result) of
           None \<Rightarrow> None
         | Some result \<Rightarrow>
             (case dec_part of
                None \<Rightarrow> Some result
              | Some dec \<Rightarrow>
                  if dec = [] then Some result
                  else map_option (\<lambda>ds. result @ [WAV_DIAN] @ ds)
                         (those (map (\<lambda>ch. minus_zero (char_code ch mod 65536)) (utf8_chars dec)))))"

fun event_to_wav_indices :: "'d decimal_ops \<Rightarrow> 'd vocal_event \<Rightarrow> nat list option" where
  "event_to_wav_indices D (V_Digit d) = Some [unat d]"
| "event_to_wav_indices D V_DecimalPoint = Some [WAV_DIAN]"
| "event_to_wav_indices D (V_Operator op) =
     Some [case op of Add \<Rightarrow> WAV_ADD | Subtract \<Rightarrow> WAV_SUBTRACT | Multiply \<Rightarrow> WAV_MULTIPLY
           | Divide \<Rightarrow> WAV_DIVIDE]"
| "event_to_wav_indices D V_Equals = Some [WAV_EQUAL]"
| "event_to_wav_indices D V_Percent = Some [WAV_PERCENT]"
| "event_to_wav_indices D V_MU = Some [WAV_MU]"
| "event_to_wav_indices D V_SquareRoot = Some [WAV_SQRT]"
| "event_to_wav_indices D V_Backspace = Some [WAV_BACKSPACE]"
| "event_to_wav_indices D V_Clear = Some [WAV_CLEAR]"
| "event_to_wav_indices D V_AllClear = Some [WAV_ZERO]"
| "event_to_wav_indices D V_MemoryRecall = Some [WAV_MEMORY]"
| "event_to_wav_indices D V_MemoryAdd = Some [WAV_MEMORY]"
| "event_to_wav_indices D V_MemorySubtract = Some [WAV_MEMORY]"
| "event_to_wav_indices D V_MemoryClear = Some [WAV_MEMORY]"
| "event_to_wav_indices D V_SignNegative = Some [WAV_NEGATIVE]"
| "event_to_wav_indices D V_SignPositive = Some [WAV_POSITIVE]"
| "event_to_wav_indices D (V_Error e) = Some [WAV_ERROR]"
| "event_to_wav_indices D (V_Result v) = decimal_to_speech_wavs D v"

section \<open>Listening\<close>

text \<open>
  A listener who reads Chinese numerals by their own rules, not by how the code builds them.
  Within a group of four places the units come in descending order, every unit with a digit
  from one to nine in front of it, where only a numeral's first word may be a bare ten. A zero
  is said exactly where a place is skipped before a later digit: a unit that skips a place
  without it is not understood, and neither is a zero that skips nothing, or one before a unit.
  A last digit without a unit counts ones after a zero, and otherwise the place right below the
  last unit: one hundred, zero, one is 101, and one hundred, one is 110. The state of a group is
  its value so far, the place that comes next, whether a zero has been said, and a digit that
  still waits for its unit.
\<close>

type_synonym group_state = "int \<times> int \<times> bool \<times> int option"

definition hear_unit :: "int \<Rightarrow> group_state \<Rightarrow> group_state option" where
  "hear_unit u h =
     (case h of (sect, place, zero, cur) \<Rightarrow>
        if (if zero then u < place else u = place) then
          (case cur of
             Some d \<Rightarrow> Some (sect + d * u, u div 10, False, None)
           | None \<Rightarrow> if u = 10 \<and> place = 10000 then Some (sect + 10, 1, False, None) else None)
        else None)"

definition hear_word :: "group_state \<Rightarrow> nat \<Rightarrow> group_state option" where
  "hear_word h w =
     (case h of (sect, place, zero, cur) \<Rightarrow>
        if w = WAV_LING then
          (if cur = None \<and> \<not> zero \<and> 1 < place then Some (sect, place, True, None) else None)
        else if w < 10 then
          (if cur = None \<and> 0 < place then Some (sect, place, zero, Some (int w)) else None)
        else if w = WAV_SHI then hear_unit 10 h
        else if w = WAV_BAI then hear_unit 100 h
        else if w = WAV_QIAN then hear_unit 1000 h
        else None)"

text \<open>
  The end of a group. Before one of the units 10^4 and 10^8 a bare last digit has to count
  ones; a zero with nothing after it is not understood.
\<close>

definition group_value :: "bool \<Rightarrow> group_state \<Rightarrow> int option" where
  "group_value final h =
     (case h of (sect, place, zero, cur) \<Rightarrow>
        (case cur of
           None \<Rightarrow> if zero then None else Some sect
         | Some d \<Rightarrow>
             if zero then Some (sect + d)
             else if final \<or> place = 1 then Some (sect + d * place) else None))"

definition hear_group :: "group_state \<Rightarrow> bool \<Rightarrow> nat list \<Rightarrow> int option" where
  "hear_group start final ws = Option.bind (run_steps hear_word start ws) (group_value final)"

text \<open>The first group of a numeral starts at any place; a later one at its thousands.\<close>

definition leading :: group_state where "leading = (0, 10000, True, None)"
definition following :: group_state where "following = (0, 1000, False, None)"

fun split_word :: "nat \<Rightarrow> nat list \<Rightarrow> (nat list \<times> nat list) option" where
  "split_word w [] = None"
| "split_word w (x # xs) =
     (if x = w then Some ([], xs) else map_option (\<lambda>(a, b). (x # a, b)) (split_word w xs))"

text \<open>What may follow ten thousand, and a hundred million.\<close>

definition hear_after_wan :: "nat list \<Rightarrow> int option" where
  "hear_after_wan ws = (if ws = [] then Some 0 else hear_group following True ws)"

definition hear_after_yi :: "nat list \<Rightarrow> int option" where
  "hear_after_yi ws =
     (case split_word WAV_WAN ws of
        Some (b, c) \<Rightarrow>
          do {g \<leftarrow> hear_group following False b; r \<leftarrow> hear_after_wan c; Some (10000 * g + r)}
      | None \<Rightarrow>
          (case ws of
             [] \<Rightarrow> Some 0
           | w # ws' \<Rightarrow>
               if w = WAV_LING then hear_group leading True ws'
               else if ws' = [] \<and> w < 10 then Some (10000000 * int w) else None))"

definition hear_integer :: "nat list \<Rightarrow> int option" where
  "hear_integer ws =
     (if ws = [WAV_LING] then Some 0
      else case split_word WAV_YI_UNIT ws of
        Some (a, b) \<Rightarrow>
          do {g \<leftarrow> hear_group leading False a; r \<leftarrow> hear_after_yi b; Some (100000000 * g + r)}
      | None \<Rightarrow>
          (case split_word WAV_WAN ws of
             Some (a, b) \<Rightarrow>
               do {g \<leftarrow> hear_group leading False a; r \<leftarrow> hear_after_wan b; Some (10000 * g + r)}
           | None \<Rightarrow> hear_group leading True ws))"

text \<open>
  The listener on numerals of each kind: 101 and 110, ten, 100010000, 100000005, and what is
  not understood: a thousand of nothing, a skipped place without zero, two digits in a row.
\<close>

lemma listener_examples:
  "hear_integer [1, 11, 0, 1] = Some 101" "hear_integer [1, 11, 1] = Some 110"
  "hear_integer [10] = Some 10" "hear_integer [1, 14, 0, 1, 13] = Some 100010000"
  "hear_integer [1, 14, 0, 5] = Some 100000005" "hear_integer [1, 13, 5] = Some 15000"
  "hear_integer [1, 13, 0, 12] = None" "hear_integer [1, 12, 1, 10] = None"
  "hear_integer [2, 3] = None" "hear_integer [1, 11, 0] = None"
  by code_simp+

text \<open>A whole number: sign, integer words, and the digits after the point.\<close>

definition hear :: "nat list \<Rightarrow> (bool \<times> int \<times> nat list) option" where
  "hear ws =
     (let (neg, ws) = (case ws of w # ws' \<Rightarrow> if w = WAV_NEGATIVE then (True, ws') else (False, ws)
                       | [] \<Rightarrow> (False, ws));
          a = takeWhile (\<lambda>w. w \<noteq> WAV_DIAN) ws; b = drop (Suc (length a)) ws
      in map_option (\<lambda>n. (neg, n, b)) (hear_integer a))"

section \<open>The listener hears what was spoken\<close>

lemma speak_group_append: "speak_group g (out @ xs) l = out @ speak_group g xs l"
  by (induction g xs l rule: speak_group.induct) (simp_all add: emit_digit_def push_def Let_def)

lemma speak_last_append: "speak_last ds (out @ xs) l = out @ speak_last ds xs l"
  by (simp add: speak_last_def Let_def push_def speak_group_append)

lemmas speak_group_out = speak_group_append [where xs = "[]", simplified]
lemmas speak_last_out = speak_last_append [where xs = "[]", simplified]

lemma short_list_cases:
  assumes "0 < length g" and "length g \<le> 4"
  obtains a where "g = [a]" | a b where "g = [a, b]" | a b c where "g = [a, b, c]"
    | a b c d where "g = [a, b, c, d]"
proof -
  have "length g = 1 \<or> length g = 2 \<or> length g = 3 \<or> length g = 4"
    using assms by arith
  then show thesis
    using that by (auto simp: numeral_2_eq_2 numeral_3_eq_3 length_Suc_conv
        eval_nat_numeral)
qed

lemma four_digits: "length g = 4 \<Longrightarrow> \<exists>a b c d. g = [a, b, c, d]"
  by (auto simp: length_Suc_conv eval_nat_numeral)

lemma digits_val_short:
  "digits_val [a] = int a"
  "digits_val [a, b] = 10 * int a + int b"
  "digits_val [a, b, c] = 100 * int a + 10 * int b + int c"
  "digits_val [a, b, c, d] = 1000 * int a + 100 * int b + 10 * int c + int d"
  by (simp_all add: digits_val_def)

lemmas speak_simps = emit_digit_def push_def Let_def hear_group_def hear_word_def hear_unit_def
  group_value_def wav_defs

lemma hear_four:
  assumes "list_all (\<lambda>d. d < 10) [a, b, c, d]" and "a \<noteq> 0"
  shows "hear_group following final (speak_group [a, b, c, d] [] l) = Some (digits_val [a, b, c, d])"
    and "hear_group leading final (speak_group [a, b, c, d] [] l) = Some (digits_val [a, b, c, d])"
  using assms
  by (cases "b = 0"; cases "c = 0"; cases "d = 0";
      simp add: speak_simps digits_val_short following_def leading_def)+

lemma hear_zero_twice: "hear_group following final (WAV_LING # 0 # ws) = None"
  by (simp add: speak_simps following_def)

lemma hear_following:
  assumes "length g = 4" and "list_all (\<lambda>d. d < 10) g" and "hd g \<noteq> 0"
  shows "hear_group following final (speak_group g [] l) = Some (digits_val g)"
  using four_digits [OF assms(1)] assms(2,3) hear_four(1) by auto

text \<open>A later group without thousands is not understood: its zero is said twice.\<close>

lemma hear_zero_group:
  assumes "length g = 4" and "hd g = 0"
  shows "hear_group following final (WAV_LING # speak_group g [] l) = None"
proof -
  obtain b c d where g: "g = [0, b, c, d]"
    using four_digits [OF assms(1)] assms(2) by auto
  have "speak_group g [] l = 0 # tl (speak_group g [] l)"
    by (simp add: g speak_group_out [of _ "[_]"] emit_digit_def push_def Let_def)
  then show ?thesis
    by (metis (no_types, lifting) hear_zero_twice)
qed

lemma hear_leading:
  assumes "0 < length g" and "length g \<le> 4" and "list_all (\<lambda>d. d < 10) g" and "hd g \<noteq> 0"
  shows "hear_group leading final (speak_group g [] l) = Some (digits_val g)"
  using assms(1,2)
proof (cases g rule: short_list_cases)
  case (4 a b c d)
  then show ?thesis using assms hear_four(2) by simp
qed (use assms in \<open>auto simp: speak_simps digits_val_short leading_def\<close>)

lemma digits_val_zeros: "list_all (\<lambda>d. d = 0) ds \<Longrightarrow> digits_val ds = 0"
  by (induction ds rule: rev_induct) auto

lemma digits_val_split: "digits_val ds = digits_val (take n ds) * 10 ^ (length ds - n) + digits_val (drop n ds)"
  using digits_val_append [of "take n ds" "drop n ds"] by simp

lemma list_all_parts: "list_all P ds \<Longrightarrow> list_all P (take n ds) \<and> list_all P (drop n ds)"
  by (auto simp: list_all_iff dest: in_set_takeD in_set_dropD)

text \<open>What follows a finished group: nothing, or a zero where the next group starts with one.\<close>

definition spoken_rest :: "nat list \<Rightarrow> nat list \<Rightarrow> nat list" where
  "spoken_rest ds ws =
     (if list_all (\<lambda>d. d = 0) ds then [] else (if hd ds = 0 then [WAV_LING] else []) @ ws)"

lemma speak_last_long:
  "4 < length ds \<Longrightarrow> speak_last ds [] l =
     speak_group (take (length ds - 4) ds) [] False @ WAV_WAN
       # spoken_rest (drop (length ds - 4) ds) (speak_group (drop (length ds - 4) ds) [] l)"
  by (simp add: speak_last_def Let_def push_def spoken_rest_def speak_group_append
      speak_group_out [where out = "_ # _"] speak_group_out [where out = "[_]"])

lemma speak_digits_long:
  "8 < length ds \<Longrightarrow> length ds \<le> 12 \<Longrightarrow> speak_digits ds [] =
     speak_group (take (length ds - 8) ds) [] False @ WAV_YI_UNIT
       # spoken_rest (drop (length ds - 8) ds) (speak_last (drop (length ds - 8) ds) [] False)"
  by (auto simp add: speak_digits_def Let_def push_def spoken_rest_def speak_last_append
      speak_last_out [where out = "[_]"] speak_last_out [where out = "[_, _]"])

text \<open>The words of a group are digits and units below ten thousand.\<close>

lemma speak_group_units:
  "list_all (\<lambda>d. d < 10) g \<Longrightarrow> list_all (\<lambda>w. w < 13) out \<Longrightarrow>
     list_all (\<lambda>w. w < 13) (speak_group g out l)"
  by (induction g out l rule: speak_group.induct)
    (simp_all add: emit_digit_def push_def Let_def wav_defs)

lemma speak_group_no_unit:
  assumes "list_all (\<lambda>d. d < 10) g"
  shows "WAV_WAN \<notin> set (speak_group g [] l)" "WAV_YI_UNIT \<notin> set (speak_group g [] l)"
  using speak_group_units [OF assms, of "[]" l] by (auto simp: list_all_iff wav_defs)

lemma split_word_found: "w \<notin> set xs \<Longrightarrow> split_word w (xs @ w # ys) = Some (xs, ys)"
  by (induction xs) auto

lemma split_word_missing: "w \<notin> set xs \<Longrightarrow> split_word w xs = None"
  by (induction xs) auto

text \<open>
  The numbers whose numeral the code forms correctly: each later group of four digits has
  thousands, unless nothing but zeros follows.
\<close>

definition starts_well :: "nat list \<Rightarrow> bool" where
  "starts_well ds = (list_all (\<lambda>d. d = 0) ds \<or> hd ds \<noteq> 0)"

definition well_spoken :: "nat list \<Rightarrow> bool" where
  "well_spoken ds =
     list_all (\<lambda>k. k < length ds \<longrightarrow> starts_well (drop (length ds - k) ds)) [4, 8]"

lemma hear_after_wan_spoken:
  assumes "length ds = 4" and "list_all (\<lambda>d. d < 10) ds"
  shows "hear_after_wan (spoken_rest ds (speak_group ds [] l))
    = (if starts_well ds then Some (digits_val ds) else None)"
proof (cases "list_all (\<lambda>d. d = 0) ds")
  case True
  then show ?thesis
    by (simp add: spoken_rest_def hear_after_wan_def starts_well_def digits_val_zeros)
next
  case False
  have "speak_group ds [] l \<noteq> []"
    using four_digits [OF assms(1)] by (elim exE) (simp add: emit_digit_def push_def Let_def)
  then show ?thesis
    using False hear_following [OF assms, of True l] hear_zero_group [OF assms(1), of True l]
    by (auto simp: spoken_rest_def hear_after_wan_def starts_well_def)
qed

lemma hear_after_yi_spoken:
  assumes "length ds = 8" and "list_all (\<lambda>d. d < 10) ds"
  shows "hear_after_yi (spoken_rest ds (speak_last ds [] False))
    = (if starts_well ds \<and> starts_well (drop 4 ds) then Some (digits_val ds) else None)"
proof (cases "list_all (\<lambda>d. d = 0) ds")
  case True
  then show ?thesis
    using list_all_parts [OF True, of 4]
    by (simp add: spoken_rest_def hear_after_yi_def starts_well_def digits_val_zeros)
next
  case False
  let ?a = "take 4 ds" and ?b = "drop 4 ds"
  let ?z = "if hd ds = 0 then [WAV_LING] else []"
  let ?rest = "spoken_rest ?b (speak_group ?b [] False)"
  have a: "length ?a = 4" "list_all (\<lambda>d. d < 10) ?a" "hd ?a = hd ds"
    and b: "length ?b = 4" "list_all (\<lambda>d. d < 10) ?b"
    using assms list_all_parts [OF assms(2), of 4] by (auto simp: hd_take)
  have "spoken_rest ds (speak_last ds [] False) = (?z @ speak_group ?a [] False) @ WAV_WAN # ?rest"
    using False assms(1) by (simp add: spoken_rest_def [of ds] speak_last_long)
  moreover have "WAV_WAN \<notin> set (?z @ speak_group ?a [] False)"
    using speak_group_no_unit(1) [OF a(2)] by (auto simp: wav_defs)
  ultimately have split: "split_word WAV_WAN (spoken_rest ds (speak_last ds [] False))
      = Some (?z @ speak_group ?a [] False, ?rest)"
    using split_word_found by metis
  have val: "digits_val ds = 10000 * digits_val ?a + digits_val ?b"
    using digits_val_split [of ds 4] assms(1) by simp
  show ?thesis
    using False hear_after_wan_spoken [OF b, of False]
      hear_following [OF a(1,2), of False False] hear_zero_group [OF a(1), of False False] a(3)
    unfolding hear_after_yi_def split by (auto simp: starts_well_def val)
qed

lemma hear_digits:
  assumes "0 < length ds" and "length ds \<le> 12" and "list_all (\<lambda>d. d < 10) ds"
    and "ds = [0] \<or> hd ds \<noteq> 0"
  shows "hear_integer (speak_digits ds []) = (if well_spoken ds then Some (digits_val ds) else None)"
proof (cases "ds = [0]")
  case True
  then show ?thesis
    by (simp add: hear_integer_def speak_digits_def speak_last_def emit_digit_def well_spoken_def
        digits_val_def wav_defs)
next
  case False
  then have hd: "hd ds \<noteq> 0" using assms(4) by simp
  consider "length ds \<le> 4" | "4 < length ds" "length ds \<le> 8" | "8 < length ds" by linarith
  then show ?thesis
  proof cases
    case 1
    then have eq: "speak_digits ds [] = speak_group ds [] True"
      using assms(1) by (simp add: speak_digits_def speak_last_def)
    have "speak_group ds [] True \<noteq> [WAV_LING]"
      using assms(1) 1 hd
      by (cases ds rule: short_list_cases) (auto simp: emit_digit_def push_def Let_def wav_defs)
    then show ?thesis
      using 1 hear_leading [OF assms(1) 1 assms(3) hd] speak_group_no_unit [OF assms(3)]
      by (simp add: eq hear_integer_def split_word_missing well_spoken_def)
  next
    case 2
    let ?a = "take (length ds - 4) ds" and ?b = "drop (length ds - 4) ds"
    have a: "0 < length ?a" "length ?a \<le> 4" "list_all (\<lambda>d. d < 10) ?a" "hd ?a \<noteq> 0"
      and b: "length ?b = 4" "list_all (\<lambda>d. d < 10) ?b"
      using 2 hd assms(3) list_all_parts [OF assms(3)] by (auto simp: hd_take)
    have eq: "speak_digits ds [] = speak_group ?a [] False @ WAV_WAN
        # spoken_rest ?b (speak_group ?b [] False)" (is "_ = ?x @ _ # ?y")
      using 2 assms(1) by (simp add: speak_digits_def speak_last_long Let_def)
    have yi: "WAV_YI_UNIT \<notin> set (?x @ WAV_WAN # ?y)"
      using speak_group_no_unit(2) [OF a(3)] speak_group_no_unit(2) [OF b(2)]
      by (auto simp: spoken_rest_def wav_defs)
    have ne: "?x @ WAV_WAN # ?y \<noteq> [WAV_LING]"
      by (cases ?x) (auto simp: wav_defs)
    have val: "digits_val ds = 10000 * digits_val ?a + digits_val ?b"
      using digits_val_split [of ds "length ds - 4"] 2 by simp
    have ws: "well_spoken ds = starts_well ?b"
      using 2 by (simp add: well_spoken_def)
    show ?thesis
      unfolding eq hear_integer_def split_word_missing [OF yi] ws
      using ne split_word_found [OF speak_group_no_unit(1) [OF a(3)]]
        hear_leading [OF a, of False False] hear_after_wan_spoken [OF b, of False]
      by (simp add: val)
  next
    case 3
    let ?a = "take (length ds - 8) ds" and ?b = "drop (length ds - 8) ds"
    have a: "0 < length ?a" "length ?a \<le> 4" "list_all (\<lambda>d. d < 10) ?a" "hd ?a \<noteq> 0"
      and b: "length ?b = 8" "list_all (\<lambda>d. d < 10) ?b"
      using 3 hd assms(2,3) list_all_parts [OF assms(3)] by (auto simp: hd_take)
    have eq: "speak_digits ds [] = speak_group ?a [] False @ WAV_YI_UNIT
        # spoken_rest ?b (speak_last ?b [] False)" (is "_ = ?x @ _ # ?y")
      using 3 assms(2) by (simp add: speak_digits_long)
    have ne: "?x @ WAV_YI_UNIT # ?y \<noteq> [WAV_LING]"
      by (cases ?x) (auto simp: wav_defs)
    have val: "digits_val ds = 100000000 * digits_val ?a + digits_val ?b"
      using digits_val_split [of ds "length ds - 8"] 3 by simp
    have ws: "well_spoken ds = (starts_well ?b \<and> starts_well (drop 4 ?b))"
      using 3 by (auto simp: well_spoken_def)
    show ?thesis
      unfolding eq hear_integer_def ws
      using ne split_word_found [OF speak_group_no_unit(2) [OF a(3)]]
        hear_leading [OF a, of False False] hear_after_yi_spoken [OF b]
      by (simp add: val)
  qed
qed

section \<open>Speaking a decimal\<close>

lemma minus_zero_digit: "is_digit c \<Longrightarrow> minus_zero (code c) = Some (digit_val c)"
  by (simp add: minus_zero_def is_digit_def digit_val_def)

lemma those_digits:
  "list_all is_digit s \<Longrightarrow> those (map (\<lambda>b. minus_zero (code b)) s) = Some (map digit_val s)"
  by (induction s) (auto simp: minus_zero_digit)

lemma those_chars:
  assumes "list_all is_digit s"
  shows "those (map (\<lambda>ch. minus_zero (char_code ch mod 65536)) (utf8_chars s)) = Some (map digit_val s)"
proof -
  have "ascii s"
    using assms by (auto simp: list_all_iff ascii_def is_digit_def)
  then have "map (\<lambda>ch. minus_zero (char_code ch mod 65536)) (utf8_chars s)
      = map (\<lambda>b. minus_zero (code b)) s"
    using assms by (auto simp: utf8_chars_ascii char_code_def list_all_iff is_digit_def)
  then show ?thesis using those_digits [OF assms] by simp
qed

lemma speak_digits_append: "speak_digits ds (out @ xs) = out @ speak_digits ds xs"
  by (simp add: speak_digits_def Let_def push_def speak_group_append speak_last_append)

lemmas speak_digits_out = speak_digits_append [where xs = "[]", simplified]

definition sign_words :: "bool \<Rightarrow> nat list" where
  "sign_words neg = (if neg then [WAV_NEGATIVE] else [])"

definition fraction_words :: "string \<Rightarrow> nat list" where
  "fraction_words b = (if b = [] then [] else WAV_DIAN # map digit_val b)"

lemma decimal_to_speech_wavs_text:
  assumes "digit_parts a b" and "format_for_speech D v = decimal_text neg a b"
  shows "decimal_to_speech_wavs D v
    = Some (sign_words neg @ speak_digits (map digit_val a) [] @ fraction_words b)"
proof -
  have a: "a \<noteq> []" "list_all is_digit a" "list_all is_digit b"
    using assms(1) by (auto simp: digit_parts_def)
  have "speak_integer a (sign_words neg)
      = Some (sign_words neg @ speak_digits (map digit_val a) [])"
    by (simp add: speak_integer_def those_digits [OF a(2)] speak_digits_out [of _ "sign_words neg"])
  then show ?thesis
    using split_decimal_text [OF assms(1)] a(1)
    by (cases neg)
      (simp_all add: decimal_to_speech_wavs_def assms(2) fraction_words_def those_chars [OF a(3)]
        sign_words_def Let_def)
qed

lemma digit_val_zero: "is_digit c \<Longrightarrow> digit_val c = 0 \<Longrightarrow> c = CHR ''0''"
proof -
  assume "is_digit c" and "digit_val c = 0"
  then have "code c = (48 :: nat)"
    by (simp add: digit_val_def is_digit_def)
  then have "code c = (code CHR ''0'' :: nat)"
    by simp
  then show "c = CHR ''0''"
    by (simp only: of_char_eq_iff)
qed

lemma digit_vals_less: "list_all is_digit s \<Longrightarrow> list_all (\<lambda>d. d < 10) (map digit_val s)"
  by (auto simp: list_all_iff digit_val_less)

text \<open>The words of an integer are digits and units, never the point or the sign.\<close>

lemma speak_group_words:
  "list_all (\<lambda>d. d < 10) g \<Longrightarrow> list_all (\<lambda>w. w < 15) out \<Longrightarrow>
     list_all (\<lambda>w. w < 15) (speak_group g out l)"
  by (induction g out l rule: speak_group.induct)
    (simp_all add: emit_digit_def push_def Let_def wav_defs)

lemma speak_last_words:
  assumes "list_all (\<lambda>d. d < 10) ds"
  shows "list_all (\<lambda>w. w < 15) (speak_last ds [] l)"
  using list_all_parts [OF assms, of "length ds - 4"] assms
  by (cases "4 < length ds")
    (auto simp: speak_last_def Let_def push_def speak_group_words wav_defs)

lemma speak_digits_words:
  assumes "list_all (\<lambda>d. d < 10) ds"
  shows "list_all (\<lambda>w. w < 15) (speak_digits ds [])"
proof (cases "8 < length ds \<and> length ds \<le> 12")
  case True
  then show ?thesis
    using list_all_parts [OF assms, of "length ds - 8"]
    by (auto simp: speak_digits_long spoken_rest_def speak_group_words speak_last_words wav_defs)
next
  case False
  then show ?thesis
    using assms speak_last_words [OF assms]
    by (auto simp: speak_digits_def Let_def push_def wav_defs list_all_iff)
qed

lemma hear_words:
  assumes "list_all (\<lambda>w. w < 15) ws"
  shows "hear (sign_words neg @ ws @ fraction_words b)
    = map_option (\<lambda>n. (neg, n, map digit_val b)) (hear_integer ws)"
proof -
  have "w \<in> set ws \<Longrightarrow> w < 15" for w
    using assms by (auto simp: list_all_iff)
  then have "takeWhile (\<lambda>w. w \<noteq> WAV_DIAN) (ws @ fraction_words b) = ws"
    by (subst takeWhile_append2) (fastforce simp: fraction_words_def wav_defs)+
  moreover have "drop (Suc (length ws)) (ws @ fraction_words b) = map digit_val b"
    by (simp add: fraction_words_def)
  moreover have "(case sign_words neg @ ws @ fraction_words b of
        w # ws' \<Rightarrow> if w = WAV_NEGATIVE then (True, ws')
                  else (False, sign_words neg @ ws @ fraction_words b)
      | [] \<Rightarrow> (False, sign_words neg @ ws @ fraction_words b)) = (neg, ws @ fraction_words b)"
    using \<open>\<And>w. w \<in> set ws \<Longrightarrow> w < 15\<close> [of WAV_NEGATIVE]
    by (cases neg; cases ws) (auto simp: sign_words_def fraction_words_def wav_defs)
  ultimately show ?thesis
    by (simp only: hear_def Let_def prod.case)
qed

text \<open>
  C7: speaking a number never panics. An integer part of up to twelve digits, written without
  leading zeros, is understood exactly if each later group of four digits has thousands or is
  followed by zeros only: then a listener who reads Chinese numerals by their rules hears the
  sign, the integer part and the fraction digits of the number, and otherwise the numeral that
  is spoken is not a Chinese numeral. Longer integers are spoken digit by digit.
\<close>

theorem speech_understood:
  assumes "prints_plain D" and "decimal_parts (format_for_speech D v) = (neg, a, b)"
    and "a = ''0'' \<or> hd a \<noteq> CHR ''0''"
  shows "\<exists>ws. decimal_to_speech_wavs D v = Some ws
    \<and> (if length a \<le> 12
       then hear ws = (if well_spoken (map digit_val a)
         then Some (neg, string_val a, map digit_val b) else None)
       else ws = sign_words neg @ map digit_val a @ fraction_words b)"
proof -
  obtain neg' a' b' where ab: "digit_parts a' b'" "format_for_speech D v = decimal_text neg' a' b'"
    using format_for_speech_text [OF assms(1)] .
  then have eq: "neg' = neg" "a' = a" "b' = b"
    using assms(2) decimal_parts_text [OF ab(1)] by auto
  have a: "a \<noteq> []" "list_all is_digit a"
    using ab(1) by (auto simp: eq digit_parts_def)
  then have head: "map digit_val a = [0] \<or> hd (map digit_val a) \<noteq> 0"
    using assms(3) digit_val_zero [of "hd a"] by (cases a) (auto simp: digit_val_def)
  have "hear (sign_words neg @ speak_digits (map digit_val a) [] @ fraction_words b)
      = (if well_spoken (map digit_val a) then Some (neg, string_val a, map digit_val b) else None)"
    if "length a \<le> 12"
    using hear_words [OF speak_digits_words [OF digit_vals_less [OF a(2)]]]
      hear_digits [OF _ _ digit_vals_less [OF a(2)] head] that a(1)
    by (simp add: string_val_def)
  then show ?thesis
    using decimal_to_speech_wavs_text [OF ab] a(1) by (auto simp: eq speak_digits_def)
qed

theorem speech_understood_witness:
  "(\<exists>ws. decimal_to_speech_wavs fx_ops (- 1010567810012500) = Some ws
     \<and> hear ws = Some (True, 101056781001, [2, 5]))
   \<and> (\<exists>ws. decimal_to_speech_wavs fx_ops 100010000 = Some ws \<and> hear ws = None)"
proof -
  have parts: "decimal_parts (format_for_speech fx_ops (- 1010567810012500)) = (True, ''101056781001'', ''25'')"
    "decimal_parts (format_for_speech fx_ops 100010000) = (False, ''10001'', [])"
    by code_simp+
  have vals: "string_val ''101056781001'' = 101056781001" "map digit_val ''25'' = [2, 5]"
    "well_spoken (map digit_val ''101056781001'')" "\<not> well_spoken (map digit_val ''10001'')"
    by code_simp+
  show ?thesis
    using speech_understood [OF fx_prints_plain parts(1)] speech_understood [OF fx_prints_plain parts(2)]
      vals by simp
qed

text \<open>Every event is spoken with recordings of the normal voice.\<close>

lemma spoken_indices_bounded:
  assumes "prints_plain D" and "\<And>d. ev = V_Digit d \<Longrightarrow> unat d < 10"
  shows "\<exists>ws. event_to_wav_indices D ev = Some ws \<and> list_all (\<lambda>w. w < 32) ws"
proof (cases ev)
  case (V_Result v)
  obtain neg a b where ab: "digit_parts a b" "format_for_speech D v = decimal_text neg a b"
    using format_for_speech_text [OF assms(1)] .
  then have "list_all (\<lambda>w. w < 15) (speak_digits (map digit_val a) [])"
      and "list_all (\<lambda>d. d < 10) (map digit_val b)"
    using speak_digits_words digit_vals_less by (auto simp: digit_parts_def)
  then have "list_all (\<lambda>w. w < 32)
      (sign_words neg @ speak_digits (map digit_val a) [] @ fraction_words b)"
    by (fastforce simp: list_all_iff sign_words_def fraction_words_def wav_defs)
  then show ?thesis
    using V_Result decimal_to_speech_wavs_text [OF ab] by auto
qed (use assms(2) in \<open>force simp: wav_defs split: binary_op.splits\<close>)+

text \<open>
  A group of four digits below the leading one is spoken with its thousands word
  even when the thousands digit is zero: 10001 comes out as one ten-thousand zero zero
  thousand zero one, and in general \<open>a\<close> times ten thousand plus \<open>d\<close> does.
\<close>

theorem zero_thousand_spoken:
  assumes "is_digit a" and "is_digit d" and "d \<noteq> CHR ''0''"
  shows "speak_integer [a, CHR ''0'', CHR ''0'', CHR ''0'', d] []
    = Some [digit_val a, WAV_WAN, WAV_LING, 0, WAV_QIAN, WAV_LING, digit_val d]"
proof -
  have "digit_val d \<noteq> 0"
    using digit_val_zero [OF assms(2)] assms(3) by blast
  moreover have "those (map (\<lambda>b. minus_zero (code b)) [a, CHR ''0'', CHR ''0'', CHR ''0'', d])
      = Some [digit_val a, 0, 0, 0, digit_val d]"
    using assms(1,2) those_digits [of "[a, CHR ''0'', CHR ''0'', CHR ''0'', d]"]
    by (simp add: is_digit_def digit_val_def)
  ultimately show ?thesis
    by (simp add: speak_integer_def speak_digits_def speak_last_def push_def emit_digit_def
        del: list.map)
qed

theorem zero_thousand_spoken_witness:
  "speak_integer ''10001'' [] = Some [1, 13, 0, 0, 12, 0, 1]"
proof -
  have "is_digit CHR ''1''" by code_simp
  then show ?thesis
    using zero_thousand_spoken [of "CHR ''1''" "CHR ''1''"] by (simp add: wav_defs digit_val_def)
qed

end
