(* ===== verification/Wav.thy ===== *)
theory Wav
  imports Prelude
begin

text \<open>
  WAV buffers, \<open>src/audio/convert.rs\<close> (\<open>parse_wav_info\<close>, \<open>concat_wav_buffers\<close>) and the
  header writer of \<open>src/audio/music.rs\<close>. The \<open>u16\<close> and \<open>u32\<close> fields are held as the
  natural numbers they denote; an arithmetic overflow, which is checked, is a panic and
  comes out as an outer \<open>None\<close>. Positions are \<open>usize\<close>: a position is at most the length
  of the buffer plus a \<open>u32\<close>, so that its saturating additions never saturate.
\<close>

section \<open>Little-endian fields\<close>

fun un_le :: "bytes \<Rightarrow> nat" where
  "un_le [] = 0"
| "un_le (b # bs) = unat b + 256 * un_le bs"

fun to_le :: "nat \<Rightarrow> nat \<Rightarrow> bytes" where
  "to_le 0 n = []"
| "to_le (Suc k) n = word_of_nat n # to_le k (n div 256)"

abbreviation le16 :: "nat \<Rightarrow> bytes" where
  "le16 n \<equiv> to_le 2 n"

abbreviation le32 :: "nat \<Rightarrow> bytes" where
  "le32 n \<equiv> to_le 4 n"

definition slice :: "bytes \<Rightarrow> nat \<Rightarrow> nat \<Rightarrow> bytes" where
  "slice data a n = take n (drop a data)"

text \<open>Byte string literals.\<close>

definition ascii_bytes :: "string \<Rightarrow> bytes" where
  "ascii_bytes s = map (\<lambda>c. word_of_nat (of_char c)) s"

section \<open>Parsing\<close>

record wav_info =
  audio_format :: nat
  channels :: nat
  sample_rate :: nat
  bits_per_sample :: nat
  data_offset :: nat
  data_size :: nat

function parse_chunks :: "bytes \<Rightarrow> nat \<Rightarrow> wav_info \<Rightarrow> wav_info" where
  "parse_chunks data pos info =
     (if pos + 8 \<le> length data then
        (let chunk_id = slice data pos 4;
             cs = un_le (slice data (pos + 4) 4);
             cstart = pos + 8;
             info = (if chunk_id = ascii_bytes ''fmt '' \<and> cstart + 16 \<le> length data then
                       info\<lparr>audio_format := un_le (slice data cstart 2),
                            channels := un_le (slice data (cstart + 2) 2),
                            sample_rate := un_le (slice data (cstart + 4) 4),
                            bits_per_sample := un_le (slice data (cstart + 14) 2)\<rparr>
                     else if chunk_id = ascii_bytes ''data'' then
                       info\<lparr>data_offset := cstart, data_size := cs\<rparr>
                     else info);
             pos = pos + 8 + cs
         in if cs = 0 then info else parse_chunks data pos info)
      else info)"
  by pat_completeness auto
termination
  by (relation "measure (\<lambda>(data, pos, info). length data - pos)") auto

declare parse_chunks.simps [simp del]

definition parse_wav_info :: "bytes \<Rightarrow> wav_info option" where
  "parse_wav_info data =
     (if length data < 44 \<or> slice data 0 4 \<noteq> ascii_bytes ''RIFF''
         \<or> slice data 8 4 \<noteq> ascii_bytes ''WAVE'' then None
      else
        (let info = parse_chunks data 12
               \<lparr>audio_format = 0, channels = 1, sample_rate = 44100, bits_per_sample = 16,
                data_offset = 0, data_size = 0\<rparr>
         in if data_offset info = 0 \<or> data_size info = 0
               \<or> data_offset info + data_size info > length data then None
            else Some info))"

section \<open>Writing\<close>

definition wav_header ::
    "nat \<Rightarrow> nat \<Rightarrow> nat \<Rightarrow> nat \<Rightarrow> nat \<Rightarrow> nat \<Rightarrow> nat \<Rightarrow> nat \<Rightarrow> bytes" where
  "wav_header file_size fmt chans rate byte_rate block_align bits dsize =
     ascii_bytes ''RIFF'' @ le32 file_size @ ascii_bytes ''WAVE'' @ ascii_bytes ''fmt ''
     @ le32 16 @ le16 fmt @ le16 chans @ le32 rate @ le32 byte_rate @ le16 block_align
     @ le16 bits @ ascii_bytes ''data'' @ le32 dsize"

text \<open>Checked unsigned arithmetic.\<close>

definition checked :: "nat \<Rightarrow> nat \<Rightarrow> nat option" where
  "checked w n = (if n < 2 ^ w then Some n else None)"

definition write_wav_header :: "bytes \<Rightarrow> nat \<Rightarrow> nat \<Rightarrow> nat \<Rightarrow> bytes option" where
  "write_wav_header wav file_size rate dsize =
     (case checked 32 (rate * 2) of
        None \<Rightarrow> None
      | Some byte_rate \<Rightarrow> Some (wav @ wav_header file_size 1 1 rate byte_rate 2 16 dsize))"

definition same_format :: "wav_info \<Rightarrow> wav_info \<Rightarrow> bool" where
  "same_format first info =
     (channels info = channels first \<and> sample_rate info = sample_rate first
      \<and> bits_per_sample info = bits_per_sample first)"

definition concat_infos :: "bytes list \<Rightarrow> wav_info list \<Rightarrow> bytes option" where
  "concat_infos buffers infos =
     (let first = hd infos;
          total_data_size = sum_list (map data_size infos);
          bytes_per_sample = bits_per_sample first div 8
      in case checked 16 (channels first * bytes_per_sample) of
           None \<Rightarrow> None
         | Some block_align \<Rightarrow>
             (case checked 32 (sample_rate first * block_align) of
                None \<Rightarrow> None
              | Some byte_rate \<Rightarrow>
                  (case checked 32 (36 + total_data_size mod 2 ^ 32) of
                     None \<Rightarrow> None
                   | Some file_size \<Rightarrow>
                       Some (wav_header file_size (audio_format first) (channels first)
                               (sample_rate first) byte_rate block_align (bits_per_sample first)
                               (total_data_size mod 2 ^ 32)
                             @ concat (map (\<lambda>(info, buf).
                                   if data_offset info + data_size info \<le> length buf
                                   then slice buf (data_offset info) (data_size info) else [])
                                 (zip infos buffers))))))"

definition concat_wav_buffers :: "bytes list \<Rightarrow> bytes option option" where
  "concat_wav_buffers buffers =
     (if buffers = [] then Some None
      else
        case those (map parse_wav_info buffers) of
          None \<Rightarrow> Some None
        | Some infos \<Rightarrow>
            if list_all (same_format (hd infos)) (tl infos)
            then map_option Some (concat_infos buffers infos)
            else Some None)"

section \<open>Reading back what was written\<close>

lemma un_le_to_le: "un_le (to_le k n) = n mod 256 ^ k"
proof (induction k arbitrary: n)
  case (Suc k)
  have "unat (word_of_nat n :: u8) = n mod 256"
    by (simp add: unat_of_nat)
  then show ?case
    using Suc by (simp add: mod_mult2_eq)
qed simp

lemma length_to_le [simp]: "length (to_le k n) = k"
  by (induction k arbitrary: n) auto

lemma length_ascii_bytes [simp]: "length (ascii_bytes s) = length s"
  by (simp add: ascii_bytes_def)

lemma un_le_less: "un_le bs < 256 ^ length bs"
proof (induction bs)
  case (Cons b bs)
  have "unat b < 256"
    using unsigned_less [of b] by simp
  then have "unat b + 256 * un_le bs < 256 * Suc (un_le bs)"
    by simp
  also have "\<dots> \<le> 256 * 256 ^ length bs"
    using Cons by (intro mult_left_mono) auto
  finally show ?case by simp
qed simp

lemma slice_prefix: "length xs = n \<Longrightarrow> slice (xs @ ys) 0 n = xs"
  by (simp add: slice_def)

lemma slice_skip: "length xs \<le> a \<Longrightarrow> slice (xs @ ys) a n = slice ys (a - length xs) n"
  by (simp add: slice_def)

lemma slice_field: "length xs = n \<Longrightarrow> slice xs 0 n = xs"
  by (simp add: slice_def)

lemmas slice_simps = slice_prefix slice_skip slice_field

lemma length_wav_header [simp]: "length (wav_header f a c r b l s d) = 44"
  by (simp add: wav_header_def)

lemma chunk_ids_distinct: "ascii_bytes ''data'' \<noteq> ascii_bytes ''fmt ''"
  by (simp add: ascii_bytes_def)

lemma parse_wav_header:
  assumes "fmt < 2 ^ 16" "chans < 2 ^ 16" "rate < 2 ^ 32" "bits < 2 ^ 16"
    and "0 < length body" "length body < 2 ^ 32"
  shows "parse_wav_info (wav_header fs fmt chans rate br ba bits (length body) @ body)
    = Some \<lparr>audio_format = fmt, channels = chans, sample_rate = rate, bits_per_sample = bits,
            data_offset = 44, data_size = length body\<rparr>"
proof -
  let ?data = "wav_header fs fmt chans rate br ba bits (length body) @ body"
  let ?i0 = "\<lparr>audio_format = 0, channels = 1, sample_rate = 44100, bits_per_sample = 16,
                data_offset = 0, data_size = 0\<rparr>"
  let ?i1 = "\<lparr>audio_format = fmt, channels = chans, sample_rate = rate, bits_per_sample = bits,
                data_offset = 0, data_size = 0\<rparr>"
  let ?i2 = "\<lparr>audio_format = fmt, channels = chans, sample_rate = rate, bits_per_sample = bits,
                data_offset = 44, data_size = length body\<rparr>"
  have len: "length ?data = 44 + length body" by simp
  have id0: "slice ?data 0 4 = ascii_bytes ''RIFF''" "slice ?data 8 4 = ascii_bytes ''WAVE''"
    by (simp_all add: wav_header_def slice_simps)
  have f: "slice ?data 12 4 = ascii_bytes ''fmt ''" "un_le (slice ?data 16 4) = 16"
      "un_le (slice ?data 20 2) = fmt" "un_le (slice ?data 22 2) = chans"
      "un_le (slice ?data 24 4) = rate" "un_le (slice ?data 34 2) = bits"
    using assms by (simp_all add: wav_header_def slice_simps un_le_to_le)
  have d: "slice ?data 36 4 = ascii_bytes ''data''" "un_le (slice ?data 40 4) = length body"
    using assms by (simp_all add: wav_header_def slice_simps un_le_to_le)
  have "parse_chunks ?data 12 ?i0 = parse_chunks ?data 36 ?i1"
    using len f by (subst parse_chunks.simps) (simp add: Let_def)
  also have "\<dots> = parse_chunks ?data (44 + length body) ?i2"
    using len d assms(5) chunk_ids_distinct
    by (subst parse_chunks.simps) (simp add: Let_def add.commute)
  also have "\<dots> = ?i2"
    using len by (subst parse_chunks.simps) simp
  finally have "parse_chunks ?data 12 ?i0 = ?i2" .
  then show ?thesis
    using len id0 assms(5) by (simp add: parse_wav_info_def Let_def)
qed

lemma parse_chunks_bounds:
  assumes "audio_format info < 2 ^ 16" "channels info < 2 ^ 16" "sample_rate info < 2 ^ 32"
    "bits_per_sample info < 2 ^ 16"
  shows "audio_format (parse_chunks data pos info) < 2 ^ 16
    \<and> channels (parse_chunks data pos info) < 2 ^ 16
    \<and> sample_rate (parse_chunks data pos info) < 2 ^ 32
    \<and> bits_per_sample (parse_chunks data pos info) < 2 ^ 16"
  using assms
proof (induction data pos info rule: parse_chunks.induct)
  case (1 data pos info)
  have u16: "un_le (slice data a 2) < 2 ^ 16" and u32: "un_le (slice data a 4) < 2 ^ 32" for a
    using un_le_less [of "slice data a 2"] un_le_less [of "slice data a 4"]
      power_increasing [of "length (slice data a 2)" 2 "256 :: nat"]
      power_increasing [of "length (slice data a 4)" 4 "256 :: nat"]
    by (auto simp: slice_def intro: less_le_trans)
  show ?case
    by (subst (1 2 3 4) parse_chunks.simps)
      (use 1 u16 u32 in \<open>auto simp: Let_def\<close>)
qed

lemma parse_wav_info_props:
  assumes "parse_wav_info data = Some info"
  shows "audio_format info < 2 ^ 16" "channels info < 2 ^ 16" "sample_rate info < 2 ^ 32"
    "bits_per_sample info < 2 ^ 16" "0 < data_size info"
    "data_offset info + data_size info \<le> length data"
  using assms parse_chunks_bounds [of "\<lparr>audio_format = 0, channels = 1, sample_rate = 44100,
      bits_per_sample = 16, data_offset = 0, data_size = 0\<rparr>" data 12]
  by (auto simp: parse_wav_info_def Let_def split: if_splits)

text \<open>The sample data of a buffer.\<close>

definition wav_data :: "bytes \<Rightarrow> bytes" where
  "wav_data buf =
     (case parse_wav_info buf of None \<Rightarrow> []
      | Some info \<Rightarrow> slice buf (data_offset info) (data_size info))"

lemma those_SomeD: "those xs = Some ys \<Longrightarrow> xs = map Some ys"
  by (induction xs arbitrary: ys) (auto split: option.splits)

lemma concat_body:
  assumes "those (map parse_wav_info buffers) = Some infos"
  shows "concat (map (\<lambda>(info, buf).
           if data_offset info + data_size info \<le> length buf
           then slice buf (data_offset info) (data_size info) else []) (zip infos buffers))
       = concat (map wav_data buffers)"
    and "sum_list (map data_size infos) = length (concat (map wav_data buffers))"
proof -
  have "map parse_wav_info buffers = map Some infos"
    using assms by (rule those_SomeD)
  then have "concat (map (\<lambda>(info, buf).
           if data_offset info + data_size info \<le> length buf
           then slice buf (data_offset info) (data_size info) else []) (zip infos buffers))
       = concat (map wav_data buffers)
     \<and> sum_list (map data_size infos) = length (concat (map wav_data buffers))"
  proof (induction buffers arbitrary: infos)
    case (Cons b bs)
    then obtain i rest where "infos = i # rest" "parse_wav_info b = Some i"
        "map parse_wav_info bs = map Some rest"
      by (cases infos) auto
    then show ?case
      using Cons.IH parse_wav_info_props(6) [of b i]
      by (auto simp: wav_data_def slice_def)
  qed simp
  then show "concat (map (\<lambda>(info, buf).
           if data_offset info + data_size info \<le> length buf
           then slice buf (data_offset info) (data_size info) else []) (zip infos buffers))
       = concat (map wav_data buffers)"
    and "sum_list (map data_size infos) = length (concat (map wav_data buffers))"
    by blast+
qed

text \<open>
  C22: concatenating WAV buffers gives a well-formed WAV file: when the joint data fits in
  32 bits, parsing the result gives back the common format of the inputs, and its sample
  data is the sample data of the inputs, one after the other.
\<close>

theorem concat_wav_roundtrip:
  assumes "concat_wav_buffers buffers = Some (Some out)"
    and "length (concat (map wav_data buffers)) < 2 ^ 32"
  shows "wav_data out = concat (map wav_data buffers)
    \<and> (\<exists>info. parse_wav_info out = Some info
         \<and> list_all (\<lambda>buf. \<exists>i. parse_wav_info buf = Some i \<and> same_format i info) buffers)"
proof -
  let ?body = "concat (map wav_data buffers)"
  obtain infos where those: "those (map parse_wav_info buffers) = Some infos"
    and fmt: "list_all (same_format (hd infos)) (tl infos)"
    and out: "concat_infos buffers infos = Some out" and ne: "buffers \<noteq> []"
    using assms(1) by (auto simp: concat_wav_buffers_def split: if_splits option.splits)
  note infos = those_SomeD [OF those]
  have "infos \<noteq> []"
    using ne infos by auto
  then have "\<exists>b. parse_wav_info b = Some (hd infos)"
    using infos ne by (cases infos; cases buffers) auto
  then obtain b where b: "parse_wav_info b = Some (hd infos)" by blast
  have "0 < sum_list (map data_size infos)"
    using parse_wav_info_props(5) [OF b] \<open>infos \<noteq> []\<close> by (cases infos) auto
  then have "0 < length ?body"
    by (simp only: concat_body(2) [OF those])
  moreover obtain fs br ba where "out = wav_header fs (audio_format (hd infos))
      (channels (hd infos)) (sample_rate (hd infos)) br ba (bits_per_sample (hd infos))
      (length ?body) @ ?body"
    using out assms(2) concat_body [OF those]
    by (auto simp: concat_infos_def Let_def split: option.splits)
  ultimately have parse: "parse_wav_info out = Some \<lparr>audio_format = audio_format (hd infos),
      channels = channels (hd infos), sample_rate = sample_rate (hd infos),
      bits_per_sample = bits_per_sample (hd infos), data_offset = 44, data_size = length ?body\<rparr>"
    and data: "drop 44 out = ?body"
    using parse_wav_header [OF parse_wav_info_props(1-4) [OF b]] assms(2) by simp_all
  have "same_format i (hd infos)" if "i \<in> set infos" for i
    using fmt that \<open>infos \<noteq> []\<close> by (cases infos) (auto simp: list_all_iff same_format_def)
  moreover have "\<exists>i \<in> set infos. parse_wav_info buf = Some i" if "buf \<in> set buffers" for buf
  proof -
    have "parse_wav_info buf \<in> set (map Some infos)"
      using that by (simp flip: infos)
    then show ?thesis by auto
  qed
  ultimately have "list_all (\<lambda>buf. \<exists>i. parse_wav_info buf = Some i \<and> same_format i (hd infos)) buffers"
    by (fastforce simp: list_all_iff)
  then show ?thesis
    using parse data by (simp add: wav_data_def slice_def same_format_def)
qed

theorem concat_wav_roundtrip_witness:
  "wav_data (the (the (concat_wav_buffers
     [wav_header 40 3 2 8000 32000 4 16 4 @ [1, 2, 3, 4], wav_header 38 3 2 8000 32000 4 16 2 @ [5, 6]])))
   = [1, 2, 3, 4, 5, 6]"
proof -
  let ?b1 = "wav_header 40 3 2 8000 32000 4 16 4 @ [1, 2, 3, 4]"
  let ?b2 = "wav_header 38 3 2 8000 32000 4 16 2 @ [5, 6]"
  have lens: "length [1, 2, 3, 4 :: u8] = 4" "length [5, 6 :: u8] = 2"
    by simp_all
  have p1: "parse_wav_info ?b1 = Some \<lparr>audio_format = 3, channels = 2, sample_rate = 8000,
      bits_per_sample = 16, data_offset = 44, data_size = 4\<rparr>"
    using parse_wav_header [of 3 2 8000 16 "[1, 2, 3, 4]" 40 32000 4, unfolded lens] by simp
  have p2: "parse_wav_info ?b2 = Some \<lparr>audio_format = 3, channels = 2, sample_rate = 8000,
      bits_per_sample = 16, data_offset = 44, data_size = 2\<rparr>"
    using parse_wav_header [of 3 2 8000 16 "[5, 6]" 38 32000 4, unfolded lens] by simp
  have d: "concat (map wav_data [?b1, ?b2]) = [1, 2, 3, 4, 5, 6]"
    by (simp add: wav_data_def p1 p2 slice_def)
  obtain out where out: "concat_wav_buffers [?b1, ?b2] = Some (Some out)"
    by (simp add: concat_wav_buffers_def p1 p2 same_format_def concat_infos_def Let_def checked_def)
  moreover have "length (concat (map wav_data [?b1, ?b2])) < 2 ^ 32"
    by (simp only: d) simp
  ultimately have "wav_data out = concat (map wav_data [?b1, ?b2])"
    using concat_wav_roundtrip by blast
  then show ?thesis
    by (simp only: out d option.sel)
qed

end
