(* ===== verification/Audio.thy ===== *)
theory Audio
  imports Speech Wav
begin

unbundle bit_operations_syntax

text \<open>
  Audio output, \<open>src/audio/\<close>: the playback modes, the index sequences of the normal,
  broken and music mode, and \<open>VocalAudio\<close>. The sound engine (\<open>kira\<close>) is the parameter
  \<open>kira\<close>: decoding a WAV buffer and starting a sound on the track may each fail. The
  record keeps, beside the fields of the struct, the handles that were started and those
  that were stopped.
\<close>

section \<open>Modes\<close>

datatype audio_mode = Normal | Broken | Music | Silent

fun mode_name :: "audio_mode \<Rightarrow> string" where
  "mode_name Normal = utf8 [0xE6, 0x99, 0xAE, 0xE9, 0x80, 0x9A]"
| "mode_name Broken = utf8 [0xE6, 0x90, 0x9E, 0xE6, 0x80, 0xAA]"
| "mode_name Music = utf8 [0xE9, 0x9F, 0xB3, 0xE4, 0xB9, 0x90]"
| "mode_name Silent = utf8 [0xE9, 0x9D, 0x99, 0xE9, 0x9F, 0xB3]"

fun mode_next :: "audio_mode \<Rightarrow> audio_mode" where
  "mode_next Normal = Broken"
| "mode_next Broken = Music"
| "mode_next Music = Silent"
| "mode_next Silent = Normal"

section \<open>Normal mode\<close>

fun normal_indices :: "'d decimal_ops \<Rightarrow> 'd vocal_event list \<Rightarrow> nat list option" where
  "normal_indices D [] = Some []"
| "normal_indices D (ev # evs) =
     (case event_to_wav_indices D ev of
        None \<Rightarrow> None
      | Some ws \<Rightarrow> map_option ((@) ws) (normal_indices D evs))"

section \<open>Broken mode\<close>

definition BROKEN_DIGIT_TWO :: "nat list" where "BROKEN_DIGIT_TWO = [38, 44, 52, 53]"
definition BROKEN_DIGIT_THREE :: "nat list" where "BROKEN_DIGIT_THREE = [40, 63, 66]"
definition BROKEN_DIGIT_FOUR :: "nat list" where "BROKEN_DIGIT_FOUR = [35, 45, 50, 56]"
definition BROKEN_DIGIT_FIVE :: "nat list" where "BROKEN_DIGIT_FIVE = [37, 47, 51]"
definition BROKEN_DIVIDE :: "nat list" where "BROKEN_DIVIDE = [39]"
definition BROKEN_SQRT :: "nat list" where "BROKEN_SQRT = [41, 42]"

definition NOISE_POOL :: "nat list" where
  "NOISE_POOL = [36, 43, 46, 48, 49, 54, 55, 57, 58, 59, 60, 61, 62, 64, 65, 67, 68]"

definition MAX_CORRUPTION_PROB :: u32 where
  "MAX_CORRUPTION_PROB = (- 1) div 2"

definition broken_variants_for_normal :: "nat \<Rightarrow> nat list option" where
  "broken_variants_for_normal normal_idx =
     (if normal_idx = 2 then Some BROKEN_DIGIT_TWO
      else if normal_idx = 3 then Some BROKEN_DIGIT_THREE
      else if normal_idx = 4 then Some BROKEN_DIGIT_FOUR
      else if normal_idx = 5 then Some BROKEN_DIGIT_FIVE
      else if normal_idx = 15 then Some BROKEN_DIVIDE
      else if normal_idx = 31 then Some BROKEN_SQRT
      else None)"

text \<open>The new state and the 32-bit output.\<close>

definition xorshift64 :: "u64 \<Rightarrow> u64 \<times> u32" where
  "xorshift64 state =
     (let x = (if state = 0 then 0x12345678ABCDEF01 else state);
          x = x XOR push_bit 13 x;
          x = x XOR drop_bit 7 x;
          x = x XOR push_bit 17 x
      in (x, ucast (drop_bit 32 x)))"

definition corrupt :: "nat \<Rightarrow> u32 \<Rightarrow> nat" where
  "corrupt normal_idx roll =
     (if roll < MAX_CORRUPTION_PROB then
        (case broken_variants_for_normal normal_idx of
           Some pool \<Rightarrow> pool ! (unat roll mod length pool)
         | None \<Rightarrow>
             if normal_idx < 35 then NOISE_POOL ! (unat roll mod length NOISE_POOL)
             else normal_idx)
      else normal_idx)"

fun corrupt_all :: "nat list \<Rightarrow> u64 \<Rightarrow> nat list \<times> u64" where
  "corrupt_all [] rng = ([], rng)"
| "corrupt_all (n # ns) rng =
     (let (rng, roll) = xorshift64 rng; (bs, rng) = corrupt_all ns rng
      in (corrupt n roll # bs, rng))"

fun broken_indices ::
    "'d decimal_ops \<Rightarrow> 'd vocal_event list \<Rightarrow> u64 \<Rightarrow> (nat list \<times> u64) option" where
  "broken_indices D [] rng = Some ([], rng)"
| "broken_indices D (ev # evs) rng =
     (case event_to_wav_indices D ev of
        None \<Rightarrow> None
      | Some ws \<Rightarrow>
          (let (bs, rng) = corrupt_all ws rng
           in map_option (\<lambda>(rest, rng). (bs @ rest, rng)) (broken_indices D evs rng)))"

section \<open>Music mode\<close>

definition digit_tone :: "nat \<Rightarrow> nat" where
  "digit_tone d = (if d = 0 then 0 else if d \<le> 9 then d + 6 else 7)"

fun event_tones :: "'d decimal_ops \<Rightarrow> 'd vocal_event \<Rightarrow> nat list" where
  "event_tones D (V_Digit d) = [digit_tone (unat d)]"
| "event_tones D (V_Operator op) =
     [case op of Add \<Rightarrow> 16 | Subtract \<Rightarrow> 4 | Multiply \<Rightarrow> 5 | Divide \<Rightarrow> 2]"
| "event_tones D V_DecimalPoint = [6]"
| "event_tones D V_Equals = [17]"
| "event_tones D V_Percent = [11, 14]"
| "event_tones D V_MU = [10]"
| "event_tones D V_SquareRoot = [19]"
| "event_tones D V_Backspace = [21]"
| "event_tones D V_Clear = [21]"
| "event_tones D V_AllClear = [20]"
| "event_tones D V_MemoryRecall = [9]"
| "event_tones D V_MemoryAdd = [9]"
| "event_tones D V_MemorySubtract = [9]"
| "event_tones D V_MemoryClear = [9]"
| "event_tones D V_SignNegative = [4]"
| "event_tones D V_SignPositive = [7]"
| "event_tones D (V_Error e) = [22]"
| "event_tones D (V_Result v) =
     map (\<lambda>c. digit_tone (digit_val c)) (filter is_digit (format_for_speech D v))"

definition events_to_tone_indices :: "'d decimal_ops \<Rightarrow> 'd vocal_event list \<Rightarrow> nat list" where
  "events_to_tone_indices D events = concat (map (event_tones D) events)"

section \<open>The player\<close>

record ('snd, 'h) kira =
  k_decode :: "bytes \<Rightarrow> 'snd option"
  k_play :: "'h list \<Rightarrow> 'snd \<Rightarrow> 'h option"

text \<open>The volume of a track: \<open>Decibels::SILENCE\<close> or a value.\<close>

datatype decibels = SILENCE | Decibels rat

record ('snd, 'h) vocal_audio =
  va_sounds :: "'snd list"
  va_wav_bytes :: "bytes list"
  va_tones :: "'snd list"
  va_tone_bytes :: "bytes list"
  va_mode :: audio_mode
  va_current :: "'h option"
  va_rng :: u64
  va_started :: "'h list"
  va_stopped :: "'h list"
  va_volume :: decibels

definition vec_get :: "'a list \<Rightarrow> nat \<Rightarrow> 'a option" where
  "vec_get xs i = (if i < length xs then Some (xs ! i) else None)"

definition set_mode :: "audio_mode \<Rightarrow> ('snd, 'h) vocal_audio \<Rightarrow> ('snd, 'h) vocal_audio" where
  "set_mode m a = a\<lparr>va_mode := m\<rparr>"

definition cycle_mode :: "('snd, 'h) vocal_audio \<Rightarrow> ('snd, 'h) vocal_audio" where
  "cycle_mode a = set_mode (mode_next (va_mode a)) a"

text \<open>\<open>main_track.play(data)\<close>, keeping the handle when it succeeds.\<close>

definition track_play ::
    "('snd, 'h) kira \<Rightarrow> 'snd \<Rightarrow> ('snd, 'h) vocal_audio \<Rightarrow> ('snd, 'h) vocal_audio" where
  "track_play K data a =
     (case k_play K (va_started a) data of
        Some handle \<Rightarrow> a\<lparr>va_current := Some handle, va_started := va_started a @ [handle]\<rparr>
      | None \<Rightarrow> a)"

definition play_sound ::
    "('snd, 'h) kira \<Rightarrow> nat \<Rightarrow> ('snd, 'h) vocal_audio \<Rightarrow> ('snd, 'h) vocal_audio" where
  "play_sound K idx a =
     (if idx \<ge> length (va_sounds a) then a else track_play K (va_sounds a ! idx) a)"

definition play_voice_sequence ::
    "('snd, 'h) kira \<Rightarrow> nat list \<Rightarrow> ('snd, 'h) vocal_audio \<Rightarrow> ('snd, 'h) vocal_audio option" where
  "play_voice_sequence K wav_indices a =
     (if wav_indices = [] then Some a
      else if length wav_indices = 1 then Some (play_sound K (wav_indices ! 0) a)
      else
        case concat_wav_buffers (List.map_filter (vec_get (va_wav_bytes a)) wav_indices) of
          None \<Rightarrow> None
        | Some (Some combined) \<Rightarrow>
            Some (case k_decode K combined of Some data \<Rightarrow> track_play K data a | None \<Rightarrow> a)
        | Some None \<Rightarrow> Some (play_sound K (hd wav_indices) a))"

definition play_tone_sequence ::
    "('snd, 'h) kira \<Rightarrow> nat list \<Rightarrow> ('snd, 'h) vocal_audio \<Rightarrow> ('snd, 'h) vocal_audio option" where
  "play_tone_sequence K tone_indices a =
     (let play_tone = (\<lambda>idx. case vec_get (va_tones a) idx of
                               Some data \<Rightarrow> track_play K data a | None \<Rightarrow> a)
      in if tone_indices = [] then Some a
         else if length tone_indices = 1 then Some (play_tone (tone_indices ! 0))
         else
           case concat_wav_buffers (List.map_filter (vec_get (va_tone_bytes a)) tone_indices) of
             None \<Rightarrow> None
           | Some (Some combined) \<Rightarrow>
               Some (case k_decode K combined of Some data \<Rightarrow> track_play K data a | None \<Rightarrow> a)
           | Some None \<Rightarrow> Some (play_tone (hd tone_indices)))"

definition play_events ::
    "'d decimal_ops \<Rightarrow> ('snd, 'h) kira \<Rightarrow> 'd vocal_event list \<Rightarrow>
     ('snd, 'h) vocal_audio \<Rightarrow> ('snd, 'h) vocal_audio option" where
  "play_events D K events a =
     (if va_mode a = Silent then Some a
      else
        let a = (case va_current a of
                   Some handle \<Rightarrow> a\<lparr>va_stopped := va_stopped a @ [handle]\<rparr>
                 | None \<Rightarrow> a);
            a = a\<lparr>va_current := None\<rparr>
        in case va_mode a of
             Normal \<Rightarrow>
               (case normal_indices D events of
                  None \<Rightarrow> None
                | Some indices \<Rightarrow> play_voice_sequence K indices a)
           | Broken \<Rightarrow>
               (case broken_indices D events (va_rng a) of
                  None \<Rightarrow> None
                | Some (indices, rng) \<Rightarrow> play_voice_sequence K indices (a\<lparr>va_rng := rng\<rparr>))
           | Music \<Rightarrow> play_tone_sequence K (events_to_tone_indices D events) a
           | Silent \<Rightarrow> Some a)"

section \<open>The generator\<close>

lemma push_bit_fixed: "x = push_bit n x \<Longrightarrow> x = push_bit (k * n) x" for x :: "'a :: len word"
proof (induction k)
  case (Suc k)
  have "push_bit (Suc k * n) x = push_bit n (push_bit (k * n) x)"
    by (simp only: push_bit_push_bit mult_Suc add.commute)
  then show ?case using Suc by metis
qed simp

lemma drop_bit_fixed: "x = drop_bit n x \<Longrightarrow> x = drop_bit (k * n) x" for x :: "'a :: len word"
proof (induction k)
  case (Suc k)
  have "drop_bit (Suc k * n) x = drop_bit n (drop_bit (k * n) x)"
    by (simp only: drop_bit_drop_bit mult_Suc add.commute)
  then show ?case using Suc by metis
qed simp

lemma xor_zero:
  fixes x y :: u64
  assumes "x XOR y = 0"
  shows "x = y"
proof -
  have "x = x XOR (y XOR y)" by simp
  also have "\<dots> = (x XOR y) XOR y" by (simp only: xor.assoc)
  also have "\<dots> = y" by (simp add: assms)
  finally show ?thesis .
qed

lemma xor_push_nonzero:
  fixes x :: u64
  assumes "x \<noteq> 0" and "0 < n"
  shows "x XOR push_bit n x \<noteq> 0"
proof
  assume "x XOR push_bit n x = 0"
  then have "x = push_bit n x"
    by (rule xor_zero)
  then have "x = push_bit (64 * n) x"
    by (rule push_bit_fixed)
  moreover have "push_bit (64 * n) x = 0"
    using assms(2) by (intro bit_word_eqI) (simp add: bit_push_bit_iff)
  ultimately show False
    using assms(1) by simp
qed

lemma xor_drop_nonzero:
  fixes x :: u64
  assumes "x \<noteq> 0" and "0 < n"
  shows "x XOR drop_bit n x \<noteq> 0"
proof
  assume "x XOR drop_bit n x = 0"
  then have "x = drop_bit n x"
    by (rule xor_zero)
  then have "x = drop_bit (64 * n) x"
    by (rule drop_bit_fixed)
  moreover have "drop_bit (64 * n) x = 0"
    using assms(2) by (intro bit_word_eqI) (auto simp: bit_drop_bit_eq dest: bit_imp_le_length)
  ultimately show False
    using assms(1) by simp
qed

lemma xorshift64_nonzero: "fst (xorshift64 state) \<noteq> 0"
proof -
  define x where "x = (if state = 0 then 0x12345678ABCDEF01 else state)"
  have "x \<noteq> 0" by (simp add: x_def)
  then have "x XOR push_bit 13 x \<noteq> 0" (is "?y \<noteq> 0")
    by (rule xor_push_nonzero) simp
  then have "?y XOR drop_bit 7 ?y \<noteq> 0" (is "?z \<noteq> 0")
    by (rule xor_drop_nonzero) simp
  then have "?z XOR push_bit 17 ?z \<noteq> 0"
    by (rule xor_push_nonzero) simp
  then show ?thesis
    by (simp only: xorshift64_def Let_def x_def fst_conv not_False_eq_True)
qed

section \<open>Index ranges\<close>

lemma pools_bounded:
  "broken_variants_for_normal n = Some pool \<Longrightarrow> pool \<noteq> [] \<and> list_all (\<lambda>i. 35 \<le> i \<and> i < 69) pool"
  "list_all (\<lambda>i. 35 \<le> i \<and> i < 69) NOISE_POOL"
  by (auto simp: broken_variants_for_normal_def BROKEN_DIGIT_TWO_def BROKEN_DIGIT_THREE_def
      BROKEN_DIGIT_FOUR_def BROKEN_DIGIT_FIVE_def BROKEN_DIVIDE_def BROKEN_SQRT_def NOISE_POOL_def
      split: if_splits)

lemma corrupt_cases:
  "corrupt n roll = n
   \<or> (\<exists>pool. broken_variants_for_normal n = Some pool \<and> corrupt n roll \<in> set pool)
   \<or> broken_variants_for_normal n = None \<and> corrupt n roll \<in> set NOISE_POOL"
proof -
  have pick: "xs \<noteq> [] \<Longrightarrow> xs ! (unat roll mod length xs) \<in> set xs" for xs :: "nat list"
    by (simp add: nth_mem)
  have "NOISE_POOL \<noteq> []"
    by (simp add: NOISE_POOL_def)
  then show ?thesis
    using pick pools_bounded(1) [of n] by (auto simp: corrupt_def split: option.splits)
qed

lemma corrupt_bounded: "n < 32 \<Longrightarrow> corrupt n roll < 69"
  using corrupt_cases [of n roll] pools_bounded(1) [of n] pools_bounded(2)
  by (fastforce simp: list_all_iff)

lemma corrupt_all_bounded:
  "list_all (\<lambda>n. n < 32) ns \<Longrightarrow> list_all (\<lambda>i. i < 69) (fst (corrupt_all ns rng))"
  by (induction ns rng rule: corrupt_all.induct)
    (auto simp: corrupt_bounded split: prod.splits)

lemma corrupt_all_length [simp]: "length (fst (corrupt_all ns rng)) = length ns"
  by (induction ns rng rule: corrupt_all.induct) (auto split: prod.splits)

definition valid_event :: "'d vocal_event \<Rightarrow> bool" where
  "valid_event ev = (case ev of V_Digit d \<Rightarrow> unat d < 10 | _ \<Rightarrow> True)"

lemma valid_eventD: "valid_event ev \<Longrightarrow> ev = V_Digit d \<Longrightarrow> unat d < 10"
  by (simp add: valid_event_def)

lemma event_indices:
  assumes "prints_plain D" and "valid_event ev"
  obtains ws where "event_to_wav_indices D ev = Some ws" and "list_all (\<lambda>w. w < 32) ws"
  using spoken_indices_bounded [OF assms(1), of ev] valid_eventD [OF assms(2)] by blast

lemma normal_indices_bounded:
  "prints_plain D \<Longrightarrow> list_all valid_event evs \<Longrightarrow>
     \<exists>ws. normal_indices D evs = Some ws \<and> list_all (\<lambda>w. w < 32) ws"
proof (induction evs)
  case (Cons ev evs)
  then obtain ws where "event_to_wav_indices D ev = Some ws" "list_all (\<lambda>w. w < 32) ws"
    using event_indices [of D ev] by auto
  then show ?case using Cons by auto
qed simp

lemma broken_indices_bounded:
  "prints_plain D \<Longrightarrow> list_all valid_event evs \<Longrightarrow>
     \<exists>ws rng'. broken_indices D evs rng = Some (ws, rng') \<and> list_all (\<lambda>w. w < 69) ws"
proof (induction evs arbitrary: rng)
  case (Cons ev evs)
  then obtain ws where ws: "event_to_wav_indices D ev = Some ws" "list_all (\<lambda>w. w < 32) ws"
    using event_indices [of D ev] by auto
  obtain bs rng1 where bs: "corrupt_all ws rng = (bs, rng1)" by force
  then have "list_all (\<lambda>w. w < 69) bs"
    using corrupt_all_bounded [OF ws(2), of rng] by simp
  moreover obtain ws' rng' where "broken_indices D evs rng1 = Some (ws', rng')"
      "list_all (\<lambda>w. w < 69) ws'"
    using Cons by force
  ultimately show ?case using ws(1) bs by simp
qed simp

lemma event_tones_bounded: "list_all (\<lambda>t. t < 23) (event_tones D ev)"
  by (cases ev) (auto simp: digit_tone_def list_all_iff split: binary_op.splits)

text \<open>
  In every playback mode the events of the calculator are turned into indices of
  assets that exist: no event panics, normal speech uses the 32 recordings of the normal
  voice, broken speech the 69 recordings of both voices, whatever the random state, and
  music the 23 generated tones.
\<close>

theorem sequences_in_range:
  assumes "prints_plain D" and "list_all valid_event evs"
  shows "(\<exists>ws. normal_indices D evs = Some ws \<and> list_all (\<lambda>w. w < 32) ws)
    \<and> (\<exists>ws rng'. broken_indices D evs rng = Some (ws, rng') \<and> list_all (\<lambda>w. w < 69) ws)
    \<and> list_all (\<lambda>t. t < 23) (events_to_tone_indices D evs)"
  using normal_indices_bounded [OF assms] broken_indices_bounded [OF assms] event_tones_bounded
  by (fastforce simp: events_to_tone_indices_def list_all_iff)

theorem sequences_in_range_witness:
  "list_all (\<lambda>t. t < 23)
     (events_to_tone_indices fx_ops [V_Digit 7, V_Operator Divide, V_Equals, V_Result 35000])"
proof -
  have "list_all valid_event [V_Digit 7, V_Operator Divide, V_Equals, V_Result (35000 :: int)]"
    by code_simp
  then show ?thesis
    using sequences_in_range [OF fx_prints_plain] by blast
qed

text \<open>
  Broken mode keeps the shape of an announcement: as many sounds as normal speech,
  each of them the normal one, one of its own broken variants, or, for words without
  variants, noise; and the generator never falls into its zero state.
\<close>

theorem broken_keeps_shape:
  "length (fst (corrupt_all ns rng)) = length ns
   \<and> (corrupt n roll = n
      \<or> (case broken_variants_for_normal n of
           Some pool \<Rightarrow> corrupt n roll \<in> set pool
         | None \<Rightarrow> corrupt n roll \<in> set NOISE_POOL))
   \<and> fst (xorshift64 rng) \<noteq> 0"
  using corrupt_cases [of n roll] by (auto simp: xorshift64_nonzero)

section \<open>One sound at a time\<close>

text \<open>Every started sound is still the current one or has been stopped.\<close>

definition audio_inv :: "('snd, 'h) vocal_audio \<Rightarrow> bool" where
  "audio_inv a = (set (va_started a) \<subseteq> set (va_stopped a) \<union> set_option (va_current a))"

lemma track_play_inv:
  "audio_inv a \<Longrightarrow> va_current a = None \<Longrightarrow> audio_inv (track_play K data a)"
  by (auto simp: audio_inv_def track_play_def split: option.splits)

lemma play_sound_inv:
  "audio_inv a \<Longrightarrow> va_current a = None \<Longrightarrow> audio_inv (play_sound K idx a)"
  by (simp add: play_sound_def track_play_inv)

lemma play_sequence_inv:
  assumes "audio_inv a" and "va_current a = None"
  shows "play_voice_sequence K ws a = Some a' \<Longrightarrow> audio_inv a'"
    and "play_tone_sequence K ws a = Some a' \<Longrightarrow> audio_inv a'"
  using assms
  by (auto simp: play_voice_sequence_def play_tone_sequence_def Let_def play_sound_inv track_play_inv
      split: if_splits option.splits)

text \<open>
  C26: sounds never overlap: whatever the mode and the outcome of decoding and starting a
  sound, after \<open>play_events\<close> every sound ever started is the current one or was stopped;
  and in silent mode nothing changes.
\<close>

theorem one_sound_at_a_time:
  assumes "audio_inv a" and "play_events D K evs a = Some a'"
  shows "audio_inv a' \<and> (va_mode a = Silent \<longrightarrow> a' = a)"
proof (cases "va_mode a = Silent")
  case True
  then show ?thesis using assms by (simp add: play_events_def)
next
  case False
  define a1 where "a1 = (case va_current a of Some handle \<Rightarrow> a\<lparr>va_stopped := va_stopped a @ [handle]\<rparr>
      | None \<Rightarrow> a)\<lparr>va_current := None\<rparr>"
  have inv: "audio_inv a1" "va_current a1 = None" "audio_inv (a1\<lparr>va_rng := rng\<rparr>)"
      "va_current (a1\<lparr>va_rng := rng\<rparr>) = None" for rng
    using assms(1) by (auto simp: audio_inv_def a1_def split: option.splits)
  have "Some a' = (case va_mode a1 of
         Normal \<Rightarrow> (case normal_indices D evs of None \<Rightarrow> None
           | Some indices \<Rightarrow> play_voice_sequence K indices a1)
       | Broken \<Rightarrow> (case broken_indices D evs (va_rng a1) of None \<Rightarrow> None
           | Some (indices, rng) \<Rightarrow> play_voice_sequence K indices (a1\<lparr>va_rng := rng\<rparr>))
       | Music \<Rightarrow> play_tone_sequence K (events_to_tone_indices D evs) a1
       | Silent \<Rightarrow> Some a1)"
    using False assms(2) by (simp only: play_events_def a1_def Let_def if_False)
  from this [symmetric] have "audio_inv a'"
    using play_sequence_inv [OF inv(1,2)] play_sequence_inv(1) [OF inv(3,4)] inv(1)
    by (auto split: audio_mode.splits option.splits)
  then show ?thesis using False by simp
qed

definition silent_engine :: "(unit, nat) kira" where
  "silent_engine = \<lparr>k_decode = (\<lambda>_. Some ()), k_play = (\<lambda>hs _. Some (length hs))\<rparr>"

definition demo_audio :: "(unit, nat) vocal_audio" where
  "demo_audio = \<lparr>va_sounds = replicate 69 (), va_wav_bytes = [], va_tones = [], va_tone_bytes = [],
     va_mode = Normal, va_current = Some 0, va_rng = 1, va_started = [0], va_stopped = [], va_volume = SILENCE\<rparr>"

theorem one_sound_at_a_time_witness:
  "\<exists>a'. play_events fx_ops silent_engine [V_Digit 7] demo_audio = Some a' \<and> audio_inv a'"
proof -
  have "audio_inv demo_audio"
    by (simp add: audio_inv_def demo_audio_def)
  moreover have "play_events fx_ops silent_engine [V_Digit 7] demo_audio \<noteq> None"
    by (simp add: play_events_def demo_audio_def play_voice_sequence_def)
  ultimately show ?thesis
    using one_sound_at_a_time by blast
qed

end
