(* ===== verification/Protocol.thy ===== *)
theory Protocol
  imports Token
begin

text \<open>
  The wire vocabulary, \<open>src/net/protocol.rs\<close>, and the peer records of \<open>src/net/state.rs\<close>.
  A node id is a 128-bit UUID. Serialization (\<open>serde\<close>, \<open>bincode\<close>) belongs to external
  crates: messages are values of \<open>network_message\<close> here, with the constructors in the
  order of the source, which is their order on the wire.
\<close>

type_synonym node_id = "128 word"
type_synonym session_id = "128 word"

datatype ip_addr = IPv4 u32 | IPv6 "128 word"

type_synonym socket_addr = "ip_addr \<times> u16"

definition MAX_DISPLAY_NAME_BYTES :: nat where
  "MAX_DISPLAY_NAME_BYTES = 64"

definition valid_display_name :: "string \<Rightarrow> bool" where
  "valid_display_name name =
     (str_trim name \<noteq> [] \<and> length name \<le> MAX_DISPLAY_NAME_BYTES \<and> \<not> any_control name)"

record capabilities =
  can_execute :: bool
  can_control :: bool
  cap_protocol_version :: u16

record action_envelope =
  env_seq :: u64
  env_source_id :: node_id
  env_timestamp_ms :: u64
  env_action :: calc_action

record state_snapshot =
  sn_display :: string
  sn_history :: string
  sn_memory_indicator :: string
  sn_is_error :: bool
  sn_last_seq_applied :: u64

record hello_fields =
  h_node_id :: node_id
  h_display_name :: string
  h_protocol_version :: u16
  h_app_id :: string
  h_public_key :: bytes

datatype network_message =
    Hello hello_fields
  | HelloAck hello_fields
  | Subscribe
  | Unsubscribe
  | Action action_envelope
  | StateUpdate state_snapshot
  | RoutingDelta node_id u64 "(node_id \<times> node_id \<times> bool) list"
  | RoutingSync "(node_id \<times> node_id \<times> bool \<times> u64) list"
  | RoutingRowRequest node_id
  | RoutingRowAnnounce node_id u64 "(node_id \<times> node_id \<times> bool) list" bytes bytes
  | RouteRevoke node_id node_id u64
  | RouteRequest u64 node_id node_id
  | RouteGrant u64 node_id node_id
  | RouteDenied u64 node_id node_id string
  | RouteRelease node_id node_id
  | AuthChallenge bytes
  | AuthProof bytes
  | Ping
  | Pong
  | PeerNameUpdate string
  | PairingRequest bytes bytes
  | PairingConfirm bytes
  | PairingReject
  | ConnectionFailed socket_addr string "node_id option"

definition is_local_only :: "network_message \<Rightarrow> bool" where
  "is_local_only msg = (case msg of ConnectionFailed _ _ _ \<Rightarrow> True | _ \<Rightarrow> False)"

datatype transport_hint = Multicast | Broadcast | Mdns

datatype discovery_message =
    Announce node_id string u16 capabilities
  | Discover
  | AnnounceV2 node_id string u16 capabilities transport_hint string u16

definition PROTOCOL_VERSION :: u16 where "PROTOCOL_VERSION = 5"
definition HELLO_VERSION_WITH_KEYS :: u16 where "HELLO_VERSION_WITH_KEYS = 3"
definition LAN_FIXED_PORT :: u16 where "LAN_FIXED_PORT = 42420"
definition DISCOVERY_PORT :: u16 where "DISCOVERY_PORT = LAN_FIXED_PORT"
definition SESSION_TCP_PORT :: u16 where "SESSION_TCP_PORT = LAN_FIXED_PORT"
definition HEARTBEAT_INTERVAL_SECS :: int where "HEARTBEAT_INTERVAL_SECS = 5"
definition HEARTBEAT_TIMEOUT_SECS :: int where "HEARTBEAT_TIMEOUT_SECS = 15"

definition PROTOCOL_MAGIC :: bytes where
  "PROTOCOL_MAGIC = [0x56, 0x4F, 0x43, 0x41, 0x4C, 0x43, 0x01, 0x00]"

definition APP_ID :: string where
  "APP_ID = ''vocal_calculator''"

section \<open>Commands of the network runtime\<close>

datatype connection_direction = Inbound | Outbound

record expected_peer_identity =
  ex_node_id :: node_id
  ex_public_key_fingerprint :: "string option"

record outbound_connect_request =
  oc_addr :: socket_addr
  oc_expected_peer :: "expected_peer_identity option"
  oc_report_errors :: bool

section \<open>Peers\<close>

record peer_info =
  pi_node_id :: node_id
  pi_display_name :: string
  pi_service_endpoint :: "socket_addr option"
  pi_session_peer_addr :: "socket_addr option"
  pi_last_seen :: instant
  pi_public_key :: bytes
  pi_public_key_fingerprint :: "string option"

definition display_endpoint :: "peer_info \<Rightarrow> socket_addr option" where
  "display_endpoint p =
     (case pi_service_endpoint p of Some e \<Rightarrow> Some e | None \<Rightarrow> pi_session_peer_addr p)"

end
