(* ===== verification/Router.thy ===== *)
theory Router
  imports Calculator Protocol
begin

text \<open>
  Remote execution routing, \<open>src/net/router.rs\<close>. \<open>router\<close> is \<open>RouterInner\<close>: the shared
  calculator, the audio player as the list of the event lists it was given, the display
  as the four fields the \<open>DisplayUpdater\<close> of \<open>src/ui/state.rs\<close> writes, and the outgoing
  channel. Clocks are arguments: \<open>now\<close> is \<open>Instant::now()\<close> and \<open>now_ms\<close> the Unix time in
  milliseconds at the call. \<open>None\<close> is a panic of the calculator.
\<close>

section \<open>State\<close>

definition MAX_TRACKED_REMOTE_PEERS :: nat where "MAX_TRACKED_REMOTE_PEERS = 64"
definition MAX_REMOTE_ACTIONS_PER_SECOND :: nat where "MAX_REMOTE_ACTIONS_PER_SECOND = 120"
definition MAX_ACTION_AGE_MS :: u64 where "MAX_ACTION_AGE_MS = 5 * 60 * 1000"
definition MAX_ACTION_FUTURE_SKEW_MS :: u64 where "MAX_ACTION_FUTURE_SKEW_MS = 30 * 1000"
definition MAX_DISPLAY_BYTES :: nat where "MAX_DISPLAY_BYTES = 64"
definition MAX_HISTORY_BYTES :: nat where "MAX_HISTORY_BYTES = 256"
definition MAX_MEMORY_INDICATOR_BYTES :: nat where "MAX_MEMORY_INDICATOR_BYTES = 8"

record rate_window =
  w_started :: instant
  w_count :: nat

record calc_display =
  dp_text :: string
  dp_history :: string
  dp_memory_indicator :: string
  dp_is_error :: bool

definition update_display :: "string \<Rightarrow> calc_display \<Rightarrow> calc_display" where
  "update_display text d = d\<lparr>dp_text := text\<rparr>"

definition update_history :: "string \<Rightarrow> calc_display \<Rightarrow> calc_display" where
  "update_history text d = d\<lparr>dp_history := text\<rparr>"

definition update_memory_indicator :: "string \<Rightarrow> calc_display \<Rightarrow> calc_display" where
  "update_memory_indicator indicator d = d\<lparr>dp_memory_indicator := indicator\<rparr>"

definition set_error_state :: "bool \<Rightarrow> calc_display \<Rightarrow> calc_display" where
  "set_error_state is_error d = d\<lparr>dp_is_error := is_error\<rparr>"

record 'd router =
  rt_calculator :: "'d calculator"
  rt_audio :: "'d vocal_event list list option"
  rt_display :: calc_display
  rt_local_node_id :: node_id
  rt_allow_remote_control :: bool
  rt_connected_peers :: "node_id hash_set"
  rt_peer_public_keys :: "(node_id, bytes) hash_map"
  rt_outgoing_tx :: "(node_id \<times> network_message) chan option"
  rt_active_executor :: "node_id option"
  rt_active_controllers :: "node_id hash_set"
  rt_last_remote_seq :: "(node_id, u64) hash_map"
  rt_remote_rate_windows :: "(node_id, rate_window) hash_map"
  rt_local_seq :: u64
  rt_last_state_update_seq :: u64
  rt_audio_muted :: bool
  rt_last_connection_error :: "string option"

text \<open>\<open>new_id\<close> is the random UUID \<open>Router::new\<close> draws.\<close>

definition router_new ::
    "'d calculator \<Rightarrow> 'd vocal_event list list option \<Rightarrow> calc_display \<Rightarrow> node_id \<Rightarrow> 'd router" where
  "router_new calc audio disp new_id =
     \<lparr>rt_calculator = calc, rt_audio = audio, rt_display = disp, rt_local_node_id = new_id,
      rt_allow_remote_control = False, rt_connected_peers = [], rt_peer_public_keys = [],
      rt_outgoing_tx = None, rt_active_executor = None, rt_active_controllers = [],
      rt_last_remote_seq = [], rt_remote_rate_windows = [], rt_local_seq = 0,
      rt_last_state_update_seq = 0, rt_audio_muted = False, rt_last_connection_error = None\<rparr>"

section \<open>Configuration and sessions\<close>

definition set_outgoing_tx :: "(node_id \<times> network_message) chan \<Rightarrow> 'd router \<Rightarrow> 'd router" where
  "set_outgoing_tx tx r = r\<lparr>rt_outgoing_tx := Some tx\<rparr>"

definition set_local_node_id :: "node_id \<Rightarrow> 'd router \<Rightarrow> 'd router" where
  "set_local_node_id nid r = r\<lparr>rt_local_node_id := nid\<rparr>"

definition set_allow_remote_control :: "bool \<Rightarrow> 'd router \<Rightarrow> 'd router" where
  "set_allow_remote_control allow r =
     (let r = r\<lparr>rt_allow_remote_control := allow\<rparr>
      in if \<not> allow then r\<lparr>rt_active_controllers := [], rt_remote_rate_windows := []\<rparr> else r)"

definition set_remote_public_key :: "node_id \<Rightarrow> bytes \<Rightarrow> 'd router \<Rightarrow> 'd router" where
  "set_remote_public_key nid key r =
     (if nid \<in> set (rt_connected_peers r)
      then r\<lparr>rt_peer_public_keys := hm_insert nid key (rt_peer_public_keys r)\<rparr> else r)"

definition remote_public_key :: "'d router \<Rightarrow> node_id \<Rightarrow> bytes option" where
  "remote_public_key r nid = hm_get (rt_peer_public_keys r) nid"

definition add_remote_session :: "node_id \<Rightarrow> 'd router \<Rightarrow> bool \<times> 'd router" where
  "add_remote_session nid r =
     (if nid \<notin> set (rt_connected_peers r)
         \<and> length (rt_connected_peers r) \<ge> MAX_TRACKED_REMOTE_PEERS then (False, r)
      else
        (True, r\<lparr>rt_connected_peers := hs_insert nid (rt_connected_peers r),
                 rt_last_remote_seq := hm_remove nid (rt_last_remote_seq r),
                 rt_remote_rate_windows := hm_remove nid (rt_remote_rate_windows r)\<rparr>))"

definition clear_remote_executor :: "'d router \<Rightarrow> 'd router" where
  "clear_remote_executor r = r\<lparr>rt_active_executor := None, rt_last_state_update_seq := 0\<rparr>"

definition clear_remote_executor_if :: "node_id \<Rightarrow> 'd router \<Rightarrow> 'd router" where
  "clear_remote_executor_if nid r =
     (if rt_active_executor r = Some nid then clear_remote_executor r else r)"

definition remove_remote_session :: "node_id \<Rightarrow> 'd router \<Rightarrow> 'd router" where
  "remove_remote_session nid r =
     (let r = r\<lparr>rt_connected_peers := hs_remove nid (rt_connected_peers r),
                rt_peer_public_keys := hm_remove nid (rt_peer_public_keys r),
                rt_active_controllers := hs_remove nid (rt_active_controllers r),
                rt_last_remote_seq := hm_remove nid (rt_last_remote_seq r),
                rt_remote_rate_windows := hm_remove nid (rt_remote_rate_windows r)\<rparr>
      in if rt_active_executor r = Some nid
         then r\<lparr>rt_active_executor := None, rt_last_state_update_seq := 0\<rparr> else r)"

definition cleanup_peer_disconnect :: "node_id \<Rightarrow> 'd router \<Rightarrow> 'd router" where
  "cleanup_peer_disconnect nid r = remove_remote_session nid r"

definition has_remote_session :: "'d router \<Rightarrow> node_id \<Rightarrow> bool" where
  "has_remote_session r nid = (nid \<in> set (rt_connected_peers r))"

definition set_connected_peers :: "node_id hash_set \<Rightarrow> 'd router \<Rightarrow> 'd router" where
  "set_connected_peers peers r =
     (let bounded = take MAX_TRACKED_REMOTE_PEERS peers;
          r = (case rt_active_executor r of
                 Some target \<Rightarrow>
                   if target \<notin> set bounded
                   then r\<lparr>rt_active_executor := None, rt_last_state_update_seq := 0\<rparr> else r
               | None \<Rightarrow> r)
      in r\<lparr>rt_active_controllers := filter (\<lambda>nid. nid \<in> set bounded) (rt_active_controllers r),
           rt_peer_public_keys := hm_retain (\<lambda>nid _. nid \<in> set bounded) (rt_peer_public_keys r),
           rt_last_remote_seq := hm_retain (\<lambda>nid _. nid \<in> set bounded) (rt_last_remote_seq r),
           rt_remote_rate_windows :=
             hm_retain (\<lambda>nid _. nid \<in> set bounded) (rt_remote_rate_windows r),
           rt_connected_peers := bounded\<rparr>)"

definition select_remote_executor :: "node_id \<Rightarrow> 'd router \<Rightarrow> bool \<times> 'd router" where
  "select_remote_executor nid r =
     (let r = r\<lparr>rt_active_executor := Some nid, rt_last_state_update_seq := 0\<rparr>
      in (nid \<in> set (rt_connected_peers r), r))"

definition is_executing_remotely :: "'d router \<Rightarrow> bool" where
  "is_executing_remotely r =
     (case rt_active_executor r of Some nid \<Rightarrow> nid \<in> set (rt_connected_peers r) | None \<Rightarrow> False)"

definition set_audio_muted :: "bool \<Rightarrow> 'd router \<Rightarrow> 'd router" where
  "set_audio_muted muted r = r\<lparr>rt_audio_muted := muted\<rparr>"

definition is_muted :: "'d router \<Rightarrow> bool" where
  "is_muted r = is_executing_remotely r"

definition take_connection_error :: "'d router \<Rightarrow> string option \<times> 'd router" where
  "take_connection_error r =
     (rt_last_connection_error r, r\<lparr>rt_last_connection_error := None\<rparr>)"

section \<open>Executing actions\<close>

definition apply_result :: "'d calc_result \<Rightarrow> 'd router \<Rightarrow> 'd router" where
  "apply_result result r =
     (let r = r\<lparr>rt_display := set_error_state (r_is_error result)
                  (update_memory_indicator (r_memory_indicator result)
                    (update_history (r_history result)
                      (update_display (r_display result) (rt_display r))))\<rparr>
      in if \<not> rt_audio_muted r then
           (case rt_audio r of
              Some calls \<Rightarrow> r\<lparr>rt_audio := Some (calls @ [r_events result])\<rparr>
            | None \<Rightarrow> r)
         else r)"

definition execute_local :: "'d decimal_ops \<Rightarrow> calc_action \<Rightarrow> 'd router \<Rightarrow> 'd router option" where
  "execute_local D action r =
     (case calc_dispatch D action (rt_calculator r) of
        None \<Rightarrow> None
      | Some (c, result) \<Rightarrow> Some (apply_result result (r\<lparr>rt_calculator := c\<rparr>)))"

definition apply_speculative :: "'d decimal_ops \<Rightarrow> calc_action \<Rightarrow> 'd router \<Rightarrow> 'd router option" where
  "apply_speculative D action r =
     (case calc_dispatch D action (rt_calculator r) of
        None \<Rightarrow> None
      | Some (c, result) \<Rightarrow> Some (apply_result result (r\<lparr>rt_calculator := c\<rparr>)))"

definition build_envelope :: "u64 \<Rightarrow> calc_action \<Rightarrow> 'd router \<Rightarrow> action_envelope \<times> 'd router" where
  "build_envelope now_ms action r =
     (let r = r\<lparr>rt_local_seq := u64_saturating_add (rt_local_seq r) 1\<rparr>
      in (\<lparr>env_seq = rt_local_seq r, env_source_id = rt_local_node_id r,
           env_timestamp_ms = now_ms, env_action = action\<rparr>, r))"

definition build_state_snapshot :: "'d calc_result \<Rightarrow> u64 \<Rightarrow> state_snapshot" where
  "build_state_snapshot result seq =
     \<lparr>sn_display = r_display result, sn_history = r_history result,
      sn_memory_indicator = r_memory_indicator result, sn_is_error = r_is_error result,
      sn_last_seq_applied = seq\<rparr>"

definition send_message_to :: "node_id \<Rightarrow> network_message \<Rightarrow> 'd router \<Rightarrow> bool \<times> 'd router" where
  "send_message_to nid msg r =
     (case rt_outgoing_tx r of
        Some tx \<Rightarrow>
          (case try_send (nid, msg) tx of
             Inr tx' \<Rightarrow> (True, r\<lparr>rt_outgoing_tx := Some tx'\<rparr>)
           | Inl _ \<Rightarrow> (False, r))
      | None \<Rightarrow> (False, r))"

definition remote_target :: "'d router \<Rightarrow> node_id option" where
  "remote_target r =
     (case rt_active_executor r of
        Some nid \<Rightarrow> if nid \<in> set (rt_connected_peers r) then Some nid else None
      | None \<Rightarrow> None)"

definition dispatch :: "'d decimal_ops \<Rightarrow> u64 \<Rightarrow> calc_action \<Rightarrow> 'd router \<Rightarrow> 'd router option" where
  "dispatch D now_ms action r =
     (if \<not> valid_action action then Some r
      else
        case remote_target r of
          Some target \<Rightarrow>
            (let (envelope, r) = build_envelope now_ms action r;
                 (sent, r) = send_message_to target (Action envelope) r
             in if sent then apply_speculative D action r
                else execute_local D action (clear_remote_executor_if target r))
        | None \<Rightarrow> execute_local D action r)"

section \<open>Remote ingress\<close>

definition valid_action_timestamp :: "u64 \<Rightarrow> u64 \<Rightarrow> bool" where
  "valid_action_timestamp now_ms timestamp_ms =
     (if timestamp_ms > now_ms then timestamp_ms - now_ms \<le> MAX_ACTION_FUTURE_SKEW_MS
      else now_ms - timestamp_ms \<le> MAX_ACTION_AGE_MS)"

definition valid_state_snapshot :: "'d decimal_ops \<Rightarrow> state_snapshot \<Rightarrow> bool" where
  "valid_state_snapshot D s =
     (length (sn_display s) \<le> MAX_DISPLAY_BYTES
      \<and> length (sn_history s) \<le> MAX_HISTORY_BYTES
      \<and> length (sn_memory_indicator s) \<le> MAX_MEMORY_INDICATOR_BYTES
      \<and> \<not> any_control (sn_display s)
      \<and> \<not> any_control (sn_history s)
      \<and> \<not> any_control (sn_memory_indicator s)
      \<and> (sn_memory_indicator s = [] \<or> sn_memory_indicator s = ''M'')
      \<and> (if sn_is_error s then sn_display s = error_text
         else d_from_str D (sn_display s) \<noteq> None))"

definition consume_rate_budget :: "instant \<Rightarrow> node_id \<Rightarrow> 'd router \<Rightarrow> bool \<times> 'd router" where
  "consume_rate_budget now sender r =
     (let window = (case hm_get (rt_remote_rate_windows r) sender of
                      Some w \<Rightarrow> w | None \<Rightarrow> \<lparr>w_started = now, w_count = 0\<rparr>);
          window = (if duration_since now (w_started window) \<ge> from_secs 1
                    then window\<lparr>w_started := now, w_count := 0\<rparr> else window);
          store = (\<lambda>w. r\<lparr>rt_remote_rate_windows :=
                           hm_insert sender w (rt_remote_rate_windows r)\<rparr>)
      in if w_count window \<ge> MAX_REMOTE_ACTIONS_PER_SECOND then (False, store window)
         else (True, store (window\<lparr>w_count := w_count window + 1\<rparr>)))"

datatype rejection =
    SourceIdentityMismatch
  | NoAuthenticatedSession
  | RemoteControlDisabled
  | InvalidActionSchema
  | InvalidActionTimestamp
  | ReplayedOrStaleAction
  | RemoteActionRateLimited

text \<open>The admission check of \<open>handle_remote_action\<close>: the rejection, if any, and the new state.\<close>

definition admit_remote_action ::
    "instant \<Rightarrow> u64 \<Rightarrow> node_id \<Rightarrow> action_envelope \<Rightarrow> 'd router \<Rightarrow> rejection option \<times> 'd router" where
  "admit_remote_action now now_ms sender env r =
     (if sender \<noteq> env_source_id env then (Some SourceIdentityMismatch, r)
      else if sender \<notin> set (rt_connected_peers r) then (Some NoAuthenticatedSession, r)
      else if \<not> rt_allow_remote_control r then (Some RemoteControlDisabled, r)
      else if \<not> valid_action (env_action env) then (Some InvalidActionSchema, r)
      else if \<not> valid_action_timestamp now_ms (env_timestamp_ms env)
        then (Some InvalidActionTimestamp, r)
      else if env_seq env = 0
           \<or> (case hm_get (rt_last_remote_seq r) sender of
                Some prev \<Rightarrow> env_seq env \<le> prev | None \<Rightarrow> False)
        then (Some ReplayedOrStaleAction, r)
      else
        let (ok, r) = consume_rate_budget now sender r
        in if \<not> ok then (Some RemoteActionRateLimited, r)
           else (None, r\<lparr>rt_last_remote_seq := hm_insert sender (env_seq env) (rt_last_remote_seq r),
                         rt_active_controllers := hs_insert sender (rt_active_controllers r)\<rparr>))"

definition handle_remote_action ::
    "'d decimal_ops \<Rightarrow> instant \<Rightarrow> u64 \<Rightarrow> node_id \<Rightarrow> action_envelope \<Rightarrow> 'd router \<Rightarrow>
     'd router option" where
  "handle_remote_action D now now_ms sender env r =
     (case admit_remote_action now now_ms sender env r of
        (Some reason, r) \<Rightarrow> Some r
      | (None, r) \<Rightarrow>
          (case calc_dispatch D (env_action env) (rt_calculator r) of
             None \<Rightarrow> None
           | Some (c, result) \<Rightarrow>
               (let r = apply_result result (r\<lparr>rt_calculator := c\<rparr>);
                    snapshot = build_state_snapshot result (env_seq env)
                in Some (snd (send_message_to sender (StateUpdate snapshot) r)))))"

definition accepts_snapshot :: "'d decimal_ops \<Rightarrow> node_id \<Rightarrow> state_snapshot \<Rightarrow> 'd router \<Rightarrow> bool" where
  "accepts_snapshot D sender s r =
     (\<not> (rt_active_executor r \<noteq> Some sender
         \<or> sender \<notin> set (rt_connected_peers r)
         \<or> \<not> valid_state_snapshot D s
         \<or> sn_last_seq_applied s = 0
         \<or> sn_last_seq_applied s > rt_local_seq r
         \<or> sn_last_seq_applied s \<le> rt_last_state_update_seq r))"

definition handle_remote_state ::
    "'d decimal_ops \<Rightarrow> node_id \<Rightarrow> state_snapshot \<Rightarrow> 'd router \<Rightarrow> 'd router" where
  "handle_remote_state D sender s r =
     (if \<not> accepts_snapshot D sender s r then r
      else
        let r = r\<lparr>rt_last_state_update_seq := sn_last_seq_applied s\<rparr>;
            r = r\<lparr>rt_calculator := reset_from_snapshot D (sn_display s) (sn_history s)
                     (sn_memory_indicator s) (sn_is_error s) (rt_calculator r)\<rparr>
        in r\<lparr>rt_display := set_error_state (sn_is_error s)
               (update_memory_indicator (sn_memory_indicator s)
                 (update_history (sn_history s)
                   (update_display (sn_display s) (rt_display r))))\<rparr>)"

definition handle_network_message ::
    "'d decimal_ops \<Rightarrow> instant \<Rightarrow> u64 \<Rightarrow> node_id \<Rightarrow> network_message \<Rightarrow> 'd router \<Rightarrow>
     'd router option" where
  "handle_network_message D now now_ms sender msg r =
     (case msg of
        Action envelope \<Rightarrow> handle_remote_action D now now_ms sender envelope r
      | StateUpdate snapshot \<Rightarrow> Some (handle_remote_state D sender snapshot r)
      | _ \<Rightarrow> Some r)"

section \<open>The router as an event machine\<close>

text \<open>
  Everything that can happen to a router. \<open>E_Drain n\<close> is the network runtime taking \<open>n\<close>
  messages off the outgoing channel.
\<close>

datatype router_event =
    E_SetOutgoing "(node_id \<times> network_message) chan"
  | E_SetLocalId node_id
  | E_Allow bool
  | E_SetKey node_id bytes
  | E_AddSession node_id
  | E_RemoveSession node_id
  | E_SetPeers "node_id list"
  | E_Select node_id
  | E_ClearExecutor
  | E_ClearExecutorIf node_id
  | E_Mute bool
  | E_TakeError
  | E_Dispatch u64 calc_action
  | E_Message instant u64 node_id network_message
  | E_Drain nat

fun router_step :: "'d decimal_ops \<Rightarrow> 'd router \<Rightarrow> router_event \<Rightarrow> 'd router option" where
  "router_step D r (E_SetOutgoing tx) = Some (set_outgoing_tx tx r)"
| "router_step D r (E_SetLocalId nid) = Some (set_local_node_id nid r)"
| "router_step D r (E_Allow allow) = Some (set_allow_remote_control allow r)"
| "router_step D r (E_SetKey nid key) = Some (set_remote_public_key nid key r)"
| "router_step D r (E_AddSession nid) = Some (snd (add_remote_session nid r))"
| "router_step D r (E_RemoveSession nid) = Some (cleanup_peer_disconnect nid r)"
| "router_step D r (E_SetPeers peers) = Some (set_connected_peers peers r)"
| "router_step D r (E_Select nid) = Some (snd (select_remote_executor nid r))"
| "router_step D r E_ClearExecutor = Some (clear_remote_executor r)"
| "router_step D r (E_ClearExecutorIf nid) = Some (clear_remote_executor_if nid r)"
| "router_step D r (E_Mute muted) = Some (set_audio_muted muted r)"
| "router_step D r E_TakeError = Some (snd (take_connection_error r))"
| "router_step D r (E_Dispatch now_ms action) = dispatch D now_ms action r"
| "router_step D r (E_Message now now_ms sender msg) =
     handle_network_message D now now_ms sender msg r"
| "router_step D r (E_Drain n) =
     Some (r\<lparr>rt_outgoing_tx := map_option (\<lambda>tx. tx\<lparr>ch_buf := drop n (ch_buf tx)\<rparr>) (rt_outgoing_tx r)\<rparr>)"

text \<open>Channels and peer sets handed to the router are well formed.\<close>

definition router_admissible :: "router_event \<Rightarrow> bool" where
  "router_admissible ev =
     (case ev of E_SetOutgoing tx \<Rightarrow> chan_wf tx | E_SetPeers peers \<Rightarrow> distinct peers | _ \<Rightarrow> True)"

section \<open>Invariant\<close>

text \<open>The bookkeeping of sessions: bounded, and nothing is kept for a peer without a session.\<close>

definition sessions_inv :: "'d router \<Rightarrow> bool" where
  "sessions_inv r =
     (distinct (rt_connected_peers r)
      \<and> length (rt_connected_peers r) \<le> MAX_TRACKED_REMOTE_PEERS
      \<and> set (rt_active_controllers r) \<subseteq> set (rt_connected_peers r)
      \<and> set (hm_keys (rt_peer_public_keys r)) \<subseteq> set (rt_connected_peers r)
      \<and> set (hm_keys (rt_last_remote_seq r)) \<subseteq> set (rt_connected_peers r)
      \<and> set (hm_keys (rt_remote_rate_windows r)) \<subseteq> set (rt_connected_peers r)
      \<and> hm_wf (rt_last_remote_seq r) \<and> hm_wf (rt_remote_rate_windows r))"

definition rates_inv :: "'d router \<Rightarrow> bool" where
  "rates_inv r =
     list_all (\<lambda>(nid, w). w_count w \<le> MAX_REMOTE_ACTIONS_PER_SECOND) (rt_remote_rate_windows r)"

definition seq_inv :: "'d router \<Rightarrow> bool" where
  "seq_inv r = (rt_last_state_update_seq r \<le> rt_local_seq r)"

definition queue_inv :: "'d router \<Rightarrow> bool" where
  "queue_inv r = (case rt_outgoing_tx r of None \<Rightarrow> True | Some tx \<Rightarrow> chan_wf tx)"

definition router_inv :: "'d router \<Rightarrow> bool" where
  "router_inv r =
     (sessions_inv r \<and> rates_inv r \<and> seq_inv r \<and> queue_inv r \<and> calc_inv (rt_calculator r))"

lemma frame_audio_display [simp]:
  "rt_connected_peers (apply_result res r) = rt_connected_peers r"
  "rt_active_controllers (apply_result res r) = rt_active_controllers r"
  "rt_peer_public_keys (apply_result res r) = rt_peer_public_keys r"
  "rt_last_remote_seq (apply_result res r) = rt_last_remote_seq r"
  "rt_remote_rate_windows (apply_result res r) = rt_remote_rate_windows r"
  "rt_local_seq (apply_result res r) = rt_local_seq r"
  "rt_last_state_update_seq (apply_result res r) = rt_last_state_update_seq r"
  "rt_outgoing_tx (apply_result res r) = rt_outgoing_tx r"
  "rt_calculator (apply_result res r) = rt_calculator r"
  "rt_active_executor (apply_result res r) = rt_active_executor r"
  "rt_allow_remote_control (apply_result res r) = rt_allow_remote_control r"
  "rt_audio_muted (apply_result res r) = rt_audio_muted r"
  "rt_local_node_id (apply_result res r) = rt_local_node_id r"
  by (simp_all add: apply_result_def Let_def split: option.split)

lemma send_message_to_cases:
  obtains (sent) tx tx' where "rt_outgoing_tx r = Some tx" "try_send (nid, msg) tx = Inr tx'"
      "send_message_to nid msg r = (True, r\<lparr>rt_outgoing_tx := Some tx'\<rparr>)"
  | (dropped) "send_message_to nid msg r = (False, r)"
  by (cases "rt_outgoing_tx r"; cases "try_send (nid, msg) (the (rt_outgoing_tx r))")
    (auto simp: send_message_to_def)

lemma send_message_to_inv:
  assumes "router_inv r"
  shows "router_inv (snd (send_message_to nid msg r))"
proof (cases rule: send_message_to_cases [of r nid msg])
  case (sent tx tx')
  then show ?thesis
    using assms try_send_wf [of tx "(nid, msg)" tx']
    by (simp add: router_inv_def sessions_inv_def rates_inv_def seq_inv_def queue_inv_def)
next
  case dropped
  then show ?thesis using assms by simp
qed

lemma inv_calculator:
  "router_inv r \<Longrightarrow> calc_inv c \<Longrightarrow> router_inv (apply_result res (r\<lparr>rt_calculator := c\<rparr>))"
  by (simp add: router_inv_def sessions_inv_def rates_inv_def seq_inv_def queue_inv_def)

lemma execute_local_inv:
  assumes "router_inv r" and "valid_action action" and "execute_local D action r = Some r'"
  shows "router_inv r'"
proof -
  obtain c res where "calc_dispatch D action (rt_calculator r) = Some (c, res)"
      "r' = apply_result res (r\<lparr>rt_calculator := c\<rparr>)"
    using assms(3) by (auto simp: execute_local_def split: option.splits)
  then show ?thesis
    using assms calc_dispatch_inv [of "rt_calculator r" action D c res] inv_calculator [of r c res]
    by (simp add: router_inv_def)
qed

lemma apply_speculative_eq: "apply_speculative D action r = execute_local D action r"
  by (simp add: apply_speculative_def execute_local_def)

lemma build_envelope_inv: "router_inv r \<Longrightarrow> router_inv (snd (build_envelope now_ms action r))"
  using u64_saturating_add_ge [of "rt_local_seq r" 1]
  by (auto simp: build_envelope_def router_inv_def sessions_inv_def rates_inv_def seq_inv_def
      queue_inv_def)

lemma clear_executor_inv:
  "router_inv r \<Longrightarrow> router_inv (clear_remote_executor r)"
  "router_inv r \<Longrightarrow> router_inv (clear_remote_executor_if nid r)"
  by (simp_all add: clear_remote_executor_if_def clear_remote_executor_def router_inv_def
      sessions_inv_def rates_inv_def seq_inv_def queue_inv_def)

lemma dispatch_inv:
  assumes "router_inv r" and "dispatch D now_ms action r = Some r'"
  shows "router_inv r'"
proof (cases "valid_action action")
  case True
  show ?thesis
  proof (cases "remote_target r")
    case None
    then show ?thesis
      using assms True execute_local_inv [of r action D r'] by (simp add: dispatch_def)
  next
    case (Some target)
    obtain env r1 where env: "build_envelope now_ms action r = (env, r1)" by force
    obtain sent r2 where send: "send_message_to target (Action env) r1 = (sent, r2)" by force
    have "router_inv r2"
      using build_envelope_inv [OF assms(1), of now_ms action] env
        send_message_to_inv [of r1 target "Action env"] send by simp
    then show ?thesis
      using assms(2) True Some env send execute_local_inv [of _ action D r']
        clear_executor_inv(2) [of r2 target]
      by (auto simp: dispatch_def apply_speculative_eq split: if_splits)
  qed
next
  case False
  then show ?thesis using assms by (simp add: dispatch_def)
qed

subsection \<open>Admission\<close>

lemma hm_mem_insert: "(k, v) \<in> set (hm_insert k' v' m) \<Longrightarrow> (k, v) \<in> set m \<or> (k = k' \<and> v = v')"
  by (induction m) (auto simp: hm_insert_def split: if_splits)

lemma hm_mem_get: "hm_get m k = Some v \<Longrightarrow> (k, v) \<in> set m"
  by (simp add: hm_get_def map_of_SomeD)

lemma rates_insert:
  "rates_inv r \<Longrightarrow> w_count w \<le> MAX_REMOTE_ACTIONS_PER_SECOND \<Longrightarrow>
     rates_inv (r\<lparr>rt_remote_rate_windows := hm_insert nid w (rt_remote_rate_windows r)\<rparr>)"
  by (auto simp: rates_inv_def list_all_iff dest: hm_mem_insert)

lemma rates_get:
  "rates_inv r \<Longrightarrow> hm_get (rt_remote_rate_windows r) nid = Some w \<Longrightarrow>
     w_count w \<le> MAX_REMOTE_ACTIONS_PER_SECOND"
  by (auto simp: rates_inv_def list_all_iff dest: hm_mem_get)

text \<open>The budget check only touches the window of the sender, and keeps it bounded.\<close>

lemma consume_rate_budget_window:
  assumes "consume_rate_budget now sender r = (ok, r')" and "rates_inv r"
  obtains w where "r' = r\<lparr>rt_remote_rate_windows := hm_insert sender w (rt_remote_rate_windows r)\<rparr>"
    and "w_count w \<le> MAX_REMOTE_ACTIONS_PER_SECOND"
  using assms rates_get [OF assms(2), of sender]
  by (auto simp: consume_rate_budget_def Let_def split: if_splits option.splits)

lemma admit_inv:
  assumes "router_inv r" and "admit_remote_action now now_ms sender env r = (res, r')"
  shows "router_inv r'"
proof (cases "res = None \<or> res = Some RemoteActionRateLimited")
  case True
  obtain ok r1 where rate: "consume_rate_budget now sender r = (ok, r1)" by force
  have rates: "rates_inv r" using assms(1) by (simp add: router_inv_def)
  obtain w where "r1 = r\<lparr>rt_remote_rate_windows := hm_insert sender w (rt_remote_rate_windows r)\<rparr>"
      "w_count w \<le> MAX_REMOTE_ACTIONS_PER_SECOND"
    using consume_rate_budget_window [OF rate rates] .
  moreover have "sender \<in> set (rt_connected_peers r)"
    and "r' = r1 \<or> r' = r1\<lparr>rt_last_remote_seq := hm_insert sender (env_seq env) (rt_last_remote_seq r1),
                         rt_active_controllers := hs_insert sender (rt_active_controllers r1)\<rparr>"
    using True assms(2) rate by (auto simp: admit_remote_action_def split: if_splits)
  ultimately show ?thesis
    using assms(1) rates_insert [OF rates]
    by (auto simp: router_inv_def sessions_inv_def seq_inv_def queue_inv_def rates_inv_def hm_simps)
next
  case False
  then have "r' = r"
    using assms(2) by (auto simp: admit_remote_action_def split: if_splits prod.splits)
  then show ?thesis using assms(1) by simp
qed

lemma admit_valid_action:
  "admit_remote_action now now_ms sender env r = (None, r') \<Longrightarrow> valid_action (env_action env)"
  by (simp add: admit_remote_action_def split: if_splits)

lemma handle_remote_action_inv:
  assumes "router_inv r" and "handle_remote_action D now now_ms sender env r = Some r'"
  shows "router_inv r'"
proof -
  obtain res r1 where ad: "admit_remote_action now now_ms sender env r = (res, r1)" by force
  have inv: "router_inv r1" using admit_inv [OF assms(1) ad] .
  show ?thesis
  proof (cases res)
    case None
    then obtain c result where
        c: "calc_dispatch D (env_action env) (rt_calculator r1) = Some (c, result)"
      and r': "r' = snd (send_message_to sender (StateUpdate (build_state_snapshot result (env_seq env)))
                 (apply_result result (r1\<lparr>rt_calculator := c\<rparr>)))"
      using assms(2) ad by (auto simp: handle_remote_action_def Let_def split: option.splits)
    have "valid_action (env_action env)"
      using ad None admit_valid_action by blast
    then have "calc_inv c"
      using calc_dispatch_inv [OF _ _ c] inv by (simp add: router_inv_def)
    then show ?thesis
      unfolding r' by (intro send_message_to_inv inv_calculator inv)
  next
    case (Some reason)
    then show ?thesis
      using assms(2) ad inv by (simp add: handle_remote_action_def)
  qed
qed

lemma handle_remote_state_inv: "router_inv r \<Longrightarrow> router_inv (handle_remote_state D sender s r)"
  by (auto simp: handle_remote_state_def accepts_snapshot_def router_inv_def sessions_inv_def
      rates_inv_def seq_inv_def queue_inv_def reset_from_snapshot_inv not_less)

lemma handle_network_message_inv:
  "router_inv r \<Longrightarrow> handle_network_message D now now_ms sender msg r = Some r' \<Longrightarrow> router_inv r'"
  by (auto simp: handle_network_message_def handle_remote_state_inv
      dest: handle_remote_action_inv split: network_message.splits)

subsection \<open>Session bookkeeping\<close>

lemma rates_subset:
  "rates_inv r \<Longrightarrow> set (rt_remote_rate_windows r') \<subseteq> set (rt_remote_rate_windows r) \<Longrightarrow> rates_inv r'"
  by (auto simp: rates_inv_def list_all_iff)

lemma hm_subsets: "set (hm_remove k m) \<subseteq> set m" "set (hm_retain P m) \<subseteq> set m"
  by (auto simp: hm_remove_def hm_retain_def AList.delete_eq)

lemma sessions_invD:
  assumes "sessions_inv r"
  shows "distinct (rt_connected_peers r)"
    and "length (rt_connected_peers r) \<le> MAX_TRACKED_REMOTE_PEERS"
    and "set (rt_active_controllers r) \<subseteq> set (rt_connected_peers r)"
    and "set (hm_keys (rt_peer_public_keys r)) \<subseteq> set (rt_connected_peers r)"
    and "set (hm_keys (rt_last_remote_seq r)) \<subseteq> set (rt_connected_peers r)"
    and "set (hm_keys (rt_remote_rate_windows r)) \<subseteq> set (rt_connected_peers r)"
    and "hm_wf (rt_last_remote_seq r)" and "hm_wf (rt_remote_rate_windows r)"
  using assms by (simp_all add: sessions_inv_def)

lemma subset_minus_insert: "A \<subseteq> B \<Longrightarrow> A - {x} \<subseteq> insert x B"
  by blast

lemma add_remote_session_inv:
  assumes "router_inv r"
  shows "router_inv (snd (add_remote_session nid r))"
proof (cases "fst (add_remote_session nid r)")
  case False
  then have "snd (add_remote_session nid r) = r"
    by (auto simp: add_remote_session_def split: if_splits)
  then show ?thesis using assms by simp
next
  case True
  let ?r = "snd (add_remote_session nid r)"
  have s: "sessions_inv r" using assms by (simp add: router_inv_def)
  have r: "?r = r\<lparr>rt_connected_peers := hs_insert nid (rt_connected_peers r),
                 rt_last_remote_seq := hm_remove nid (rt_last_remote_seq r),
                 rt_remote_rate_windows := hm_remove nid (rt_remote_rate_windows r)\<rparr>"
    and len: "nid \<in> set (rt_connected_peers r)
      \<or> length (rt_connected_peers r) < MAX_TRACKED_REMOTE_PEERS"
    using True by (auto simp: add_remote_session_def split: if_splits)
  have "length (hs_insert nid (rt_connected_peers r)) \<le> MAX_TRACKED_REMOTE_PEERS"
    using len sessions_invD(2) [OF s] by (auto simp: hs_length)
  then have "sessions_inv ?r"
    using sessions_invD [OF s] unfolding r sessions_inv_def
    by (simp add: hm_keys_remove subset_insertI2 subset_minus_insert)
  moreover have "rates_inv ?r"
    by (rule rates_subset [of r]) (use assms hm_subsets(1) in \<open>simp_all add: router_inv_def r\<close>)
  ultimately show ?thesis
    using assms by (simp add: router_inv_def r seq_inv_def queue_inv_def)
qed

lemma remove_remote_session_inv:
  assumes "router_inv r"
  shows "router_inv (remove_remote_session nid r)"
proof -
  let ?r = "remove_remote_session nid r"
  have s: "sessions_inv r" using assms by (simp add: router_inv_def)
  have "length (hs_remove nid (rt_connected_peers r)) \<le> MAX_TRACKED_REMOTE_PEERS"
    using sessions_invD(2) [OF s] hs_length(2) [of nid "rt_connected_peers r"] by simp
  then have "sessions_inv ?r"
    using sessions_invD [OF s] unfolding remove_remote_session_def Let_def sessions_inv_def
    by (simp add: hm_keys_remove Diff_mono)
  moreover have "rates_inv ?r"
    by (rule rates_subset [of r])
      (use assms hm_subsets(1) in \<open>simp_all add: router_inv_def remove_remote_session_def Let_def\<close>)
  ultimately show ?thesis
    using assms by (simp add: router_inv_def remove_remote_session_def Let_def seq_inv_def queue_inv_def)
qed

lemma set_connected_peers_inv:
  assumes "router_inv r" and "distinct peers"
  shows "router_inv (set_connected_peers peers r)"
proof -
  let ?r = "set_connected_peers peers r"
  have s: "sessions_inv r" using assms by (simp add: router_inv_def)
  have frame: "rt_connected_peers ?r = take MAX_TRACKED_REMOTE_PEERS peers"
    "rt_calculator ?r = rt_calculator r" "rt_outgoing_tx ?r = rt_outgoing_tx r"
    "rt_local_seq ?r = rt_local_seq r"
    "rt_last_state_update_seq ?r = rt_last_state_update_seq r \<or> rt_last_state_update_seq ?r = 0"
    "rt_remote_rate_windows ?r
       = hm_retain (\<lambda>nid _. nid \<in> set (rt_connected_peers ?r)) (rt_remote_rate_windows r)"
    "rt_last_remote_seq ?r
       = hm_retain (\<lambda>nid _. nid \<in> set (rt_connected_peers ?r)) (rt_last_remote_seq r)"
    "rt_peer_public_keys ?r
       = hm_retain (\<lambda>nid _. nid \<in> set (rt_connected_peers ?r)) (rt_peer_public_keys r)"
    "rt_active_controllers ?r
       = filter (\<lambda>nid. nid \<in> set (rt_connected_peers ?r)) (rt_active_controllers r)"
    by (simp_all add: set_connected_peers_def Let_def split: option.split)
  have "sessions_inv ?r"
    unfolding sessions_inv_def frame(6-9) hm_keys_retain_key
    using assms(2) sessions_invD(7,8) [OF s] by (auto simp: frame(1))
  moreover have "rates_inv ?r"
    by (rule rates_subset [of r]) (use assms hm_subsets(2) in \<open>simp_all add: router_inv_def frame(6)\<close>)
  ultimately show ?thesis
    using assms frame(2-5) by (auto simp: router_inv_def seq_inv_def queue_inv_def)
qed

lemma set_remote_public_key_inv:
  "router_inv r \<Longrightarrow> router_inv (set_remote_public_key nid key r)"
  by (simp add: set_remote_public_key_def router_inv_def sessions_inv_def rates_inv_def seq_inv_def
      queue_inv_def hm_keys_insert)

lemma set_allow_remote_control_inv:
  "router_inv r \<Longrightarrow> router_inv (set_allow_remote_control allow r)"
  by (cases allow) (simp_all add: set_allow_remote_control_def Let_def router_inv_def sessions_inv_def rates_inv_def seq_inv_def
      queue_inv_def hm_keys_def)

lemma chan_wf_drop: "chan_wf tx \<Longrightarrow> chan_wf (tx\<lparr>ch_buf := drop n (ch_buf tx)\<rparr>)"
  by (simp add: chan_wf_def)

lemma simple_steps_inv:
  assumes "router_inv r"
  shows "router_inv (set_local_node_id nid r)"
    and "router_inv (snd (select_remote_executor nid r))"
    and "router_inv (set_audio_muted b r)"
    and "router_inv (snd (take_connection_error r))"
    and "chan_wf tx \<Longrightarrow> router_inv (set_outgoing_tx tx r)"
    and "router_inv (r\<lparr>rt_outgoing_tx := map_option (\<lambda>tx. tx\<lparr>ch_buf := drop n (ch_buf tx)\<rparr>) (rt_outgoing_tx r)\<rparr>)"
  using assms
  by (simp_all add: router_inv_def sessions_inv_def rates_inv_def seq_inv_def queue_inv_def
      set_local_node_id_def select_remote_executor_def set_audio_muted_def take_connection_error_def
      set_outgoing_tx_def chan_wf_drop split: option.splits)

lemma router_step_inv:
  assumes "router_inv r" and "router_admissible ev" and "router_step D r ev = Some r'"
  shows "router_inv r'"
proof (cases ev)
  case (E_RemoveSession nid)
  then show ?thesis using assms remove_remote_session_inv by (auto simp: cleanup_peer_disconnect_def)
next
  case (E_SetPeers peers)
  then show ?thesis using assms set_connected_peers_inv by (auto simp: router_admissible_def)
next
  case (E_Dispatch now_ms action)
  then show ?thesis using assms dispatch_inv by auto
next
  case (E_Message now now_ms sender msg)
  then show ?thesis using assms handle_network_message_inv by auto
qed (use assms simple_steps_inv [OF assms(1)] in \<open>auto simp: router_admissible_def
      add_remote_session_inv set_remote_public_key_inv set_allow_remote_control_inv
      clear_executor_inv\<close>)

interpretation rm: event_machine "router_step D" router_admissible router_inv for D
  by unfold_locales (rule router_step_inv)

lemma router_new_inv: "calc_inv calc \<Longrightarrow> router_inv (router_new calc audio disp nid)"
  by (simp add: router_new_def router_inv_def sessions_inv_def rates_inv_def seq_inv_def queue_inv_def
      hm_keys_def)

end
