(* ===== verification/Router_Theorems.thy ===== *)
theory Router_Theorems
  imports Router
begin

text \<open>
  What the router guarantees: its tables stay bounded, the permission switch is the only
  way to the calculator for remote actions, an accepted action is never accepted again in
  its session, the actions a run executes are limited in rate, a local key is executed exactly once whatever
  the state of the network, and the controller's display follows the executor's.
\<close>

section \<open>Bounded state\<close>

text \<open>
  C5: whatever happens to a router, messages from any peer included, it tracks at most
  64 peers, keeps controllers, keys, sequence numbers and rate windows only for peers with
  a session, no window exceeds its budget, the acknowledged sequence number never exceeds
  the sent one, the outgoing queue stays within its capacity, and the calculator's input
  stays well formed.
\<close>

theorem router_bounded:
  assumes "calc_inv calc" and "list_all router_admissible evs"
    and "run_steps (router_step D) (router_new calc audio disp nid) evs = Some r"
  shows "router_inv r"
  using rm.run_inv [OF router_new_inv [OF assms(1)] assms(2,3)] .

definition demo_display :: calc_display where
  "demo_display = \<lparr>dp_text = ''0'', dp_history = [], dp_memory_indicator = [], dp_is_error = False\<rparr>"

definition demo_router :: "int router" where
  "demo_router = (router_new (calc_new fx_ops) (Some []) demo_display 1)
     \<lparr>rt_allow_remote_control := True, rt_connected_peers := [7], rt_outgoing_tx := Some (chan_new 4)\<rparr>"

definition demo_envelope :: "u64 \<Rightarrow> calc_action \<Rightarrow> action_envelope" where
  "demo_envelope seq action =
     \<lparr>env_seq = seq, env_source_id = 7, env_timestamp_ms = 1000, env_action = action\<rparr>"

lemma run_is_some: "run_steps f s es \<noteq> None \<Longrightarrow> \<exists>s'. run_steps f s es = Some s'"
  by blast

theorem router_bounded_witness:
  "\<exists>r. run_steps (router_step fx_ops) (router_new (calc_new fx_ops) None demo_display 1)
      [E_Allow True, E_AddSession 7, E_Message 0 1000 7 (Action (demo_envelope 1 (A_Digit 5)))] = Some r
    \<and> router_inv r"
proof -
  let ?evs = "[E_Allow True, E_AddSession 7, E_Message 0 1000 7 (Action (demo_envelope 1 (A_Digit 5)))]"
  have "map_option (\<lambda>_. ()) (run_steps (router_step fx_ops)
      (router_new (calc_new fx_ops) None demo_display 1) ?evs) = Some ()"
    by code_simp
  then obtain r where r: "run_steps (router_step fx_ops)
      (router_new (calc_new fx_ops) None demo_display 1) ?evs = Some r"
    by auto
  moreover have "list_all router_admissible ?evs"
    by (simp add: router_admissible_def)
  ultimately show ?thesis
    using router_bounded [OF calc_new_inv] by blast
qed

section \<open>The permission switch\<close>

text \<open>A message of a peer that is not the answer of an executor.\<close>

definition inbound_request :: "router_event \<Rightarrow> bool" where
  "inbound_request ev =
     (case ev of
        E_Message now now_ms sender msg \<Rightarrow> (case msg of StateUpdate _ \<Rightarrow> False | _ \<Rightarrow> True)
      | _ \<Rightarrow> False)"

lemma request_blocked:
  "\<not> rt_allow_remote_control r \<Longrightarrow> inbound_request ev \<Longrightarrow> router_step D r ev = Some r"
  by (cases ev)
    (auto simp: inbound_request_def handle_network_message_def handle_remote_action_def
      admit_remote_action_def split: network_message.splits)

text \<open>
  C9: with remote control switched off, no sequence of requests from any peers, with any
  claimed identity, changes anything in the router: not the calculator, not the display,
  not the sound, not even the bookkeeping.
\<close>

theorem switch_off_blocks_requests:
  assumes "\<not> rt_allow_remote_control r" and "list_all inbound_request evs"
  shows "run_steps (router_step D) r evs = Some r"
  using assms by (induction evs) (simp_all add: request_blocked)

theorem switch_off_blocks_requests_witness:
  "run_steps (router_step fx_ops) (demo_router\<lparr>rt_allow_remote_control := False\<rparr>)
     [E_Message 0 1000 7 (Action (demo_envelope 1 A_AllClear)), E_Message 0 1000 9 Ping]
   = Some (demo_router\<lparr>rt_allow_remote_control := False\<rparr>)"
  by (rule switch_off_blocks_requests) (simp_all add: inbound_request_def)

section \<open>Admission of remote actions\<close>

text \<open>
  The conditions under which a remote action may be executed, written independently of
  the order in which the code checks them.
\<close>

definition budget_left :: "instant \<Rightarrow> node_id \<Rightarrow> 'd router \<Rightarrow> bool" where
  "budget_left now sender r =
     (case hm_get (rt_remote_rate_windows r) sender of
        None \<Rightarrow> True
      | Some w \<Rightarrow> from_secs 1 \<le> duration_since now (w_started w) \<or> w_count w < 120)"

definition fresh_seq :: "u64 \<Rightarrow> node_id \<Rightarrow> 'd router \<Rightarrow> bool" where
  "fresh_seq seq sender r =
     (case hm_get (rt_last_remote_seq r) sender of None \<Rightarrow> 0 < seq | Some prev \<Rightarrow> prev < seq)"

definition recent :: "u64 \<Rightarrow> u64 \<Rightarrow> bool" where
  "recent now_ms timestamp_ms =
     (uint now_ms \<le> uint timestamp_ms + 300000 \<and> uint timestamp_ms \<le> uint now_ms + 30000)"

definition may_execute :: "instant \<Rightarrow> u64 \<Rightarrow> node_id \<Rightarrow> action_envelope \<Rightarrow> 'd router \<Rightarrow> bool" where
  "may_execute now now_ms sender env r =
     (rt_allow_remote_control r \<and> has_remote_session r sender \<and> env_source_id env = sender
      \<and> valid_action (env_action env) \<and> recent now_ms (env_timestamp_ms env)
      \<and> fresh_seq (env_seq env) sender r \<and> budget_left now sender r)"

lemma recent_iff: "valid_action_timestamp now_ms timestamp_ms = recent now_ms timestamp_ms"
proof (cases "timestamp_ms > now_ms")
  case True
  then have "uint (timestamp_ms - now_ms) = uint timestamp_ms - uint now_ms"
    by (simp add: word_le_def word_less_def not_less flip: uint_sub_lem)
  then show ?thesis
    using True by (auto simp: valid_action_timestamp_def recent_def MAX_ACTION_FUTURE_SKEW_MS_def
        word_le_def word_less_def)
next
  case False
  then have "uint (now_ms - timestamp_ms) = uint now_ms - uint timestamp_ms"
    by (simp add: word_le_def word_less_def not_less flip: uint_sub_lem)
  then show ?thesis
    using False by (auto simp: valid_action_timestamp_def recent_def MAX_ACTION_AGE_MS_def
        word_le_def word_less_def)
qed

lemma consume_iff_budget: "fst (consume_rate_budget now sender r) \<longleftrightarrow> budget_left now sender r"
  by (auto simp: consume_rate_budget_def budget_left_def Let_def MAX_REMOTE_ACTIONS_PER_SECOND_def
      duration_since_def from_secs_def split: option.splits if_splits)

lemma consume_frame:
  assumes "consume_rate_budget now sender r = (ok, r')"
  shows "\<exists>w. r' = r\<lparr>rt_remote_rate_windows := w\<rparr>"
  using assms by (auto simp: consume_rate_budget_def Let_def split: if_splits)

lemma fresh_iff:
  "fresh_seq seq sender r \<longleftrightarrow> \<not> (seq = 0 \<or> (case hm_get (rt_last_remote_seq r) sender of
      Some prev \<Rightarrow> seq \<le> prev | None \<Rightarrow> False))"
  by (auto simp: fresh_seq_def word_neq_0_conv not_le split: option.splits
      intro: le_less_trans [OF word_zero_le])

lemma admit_iff: "fst (admit_remote_action now now_ms sender env r) = None
    \<longleftrightarrow> may_execute now now_ms sender env r"
  using consume_iff_budget [of now sender r] fresh_iff [of "env_seq env" sender r]
  by (auto simp: admit_remote_action_def may_execute_def recent_iff has_remote_session_def split: prod.splits)

text \<open>What admission changes, and what a rejection leaves alone.\<close>

lemma admit_accepted:
  assumes "admit_remote_action now now_ms sender env r = (None, r')"
  shows "\<exists>w. r' = r\<lparr>rt_remote_rate_windows := w,
      rt_last_remote_seq := hm_insert sender (env_seq env) (rt_last_remote_seq r),
      rt_active_controllers := hs_insert sender (rt_active_controllers r)\<rparr>"
proof -
  obtain ok r1 where c: "consume_rate_budget now sender r = (ok, r1)" by force
  then obtain w where "r1 = r\<lparr>rt_remote_rate_windows := w\<rparr>"
    using consume_frame by blast
  then show ?thesis
    using assms c by (auto simp: admit_remote_action_def split: if_splits)
qed

lemma admit_rejected:
  assumes "admit_remote_action now now_ms sender env r = (Some reason, r')"
  shows "\<exists>w. r' = r\<lparr>rt_remote_rate_windows := w\<rparr>"
proof -
  obtain ok r1 where c: "consume_rate_budget now sender r = (ok, r1)" by force
  then obtain w where "r1 = r\<lparr>rt_remote_rate_windows := w\<rparr>"
    using consume_frame by blast
  moreover have "r' = r \<or> r' = r1"
    using assms c by (auto simp: admit_remote_action_def split: if_splits)
  moreover have "r = r\<lparr>rt_remote_rate_windows := rt_remote_rate_windows r\<rparr>" by simp
  ultimately show ?thesis by metis
qed

definition display_of :: "'d calc_result \<Rightarrow> calc_display" where
  "display_of res =
     \<lparr>dp_text = r_display res, dp_history = r_history res,
      dp_memory_indicator = r_memory_indicator res, dp_is_error = r_is_error res\<rparr>"

lemma apply_result_display [simp]: "rt_display (apply_result res r) = display_of res"
  by (simp add: apply_result_def Let_def display_of_def update_display_def update_history_def
      update_memory_indicator_def set_error_state_def split: option.split)

lemma send_message_frame [simp]:
  "rt_calculator (snd (send_message_to nid msg r)) = rt_calculator r"
  "rt_display (snd (send_message_to nid msg r)) = rt_display r"
  "rt_last_remote_seq (snd (send_message_to nid msg r)) = rt_last_remote_seq r"
  "rt_audio (snd (send_message_to nid msg r)) = rt_audio r"
  "rt_active_executor (snd (send_message_to nid msg r)) = rt_active_executor r"
  "rt_connected_peers (snd (send_message_to nid msg r)) = rt_connected_peers r"
  "rt_local_seq (snd (send_message_to nid msg r)) = rt_local_seq r"
  "rt_audio_muted (snd (send_message_to nid msg r)) = rt_audio_muted r"
  by (cases rule: send_message_to_cases [of r nid msg]; simp)+

text \<open>
  C6: a remote action is executed exactly when the switch is on, the sender owns a
  session, the envelope names the sender, the action and its timestamp are valid, the
  sequence number is newer than the last one of the session and the rate budget is not
  exhausted. It then drives the calculator once and the display shows its result;
  otherwise calculator, display and sound stay as they are.
\<close>

theorem remote_action_executed_iff:
  assumes "calc_dispatch D (env_action env) (rt_calculator r) = Some (c, res)"
  shows "\<exists>r'. handle_remote_action D now now_ms sender env r = Some r'
    \<and> (if may_execute now now_ms sender env r
       then rt_calculator r' = c \<and> rt_display r' = display_of res
            \<and> hm_get (rt_last_remote_seq r') sender = Some (env_seq env)
       else rt_calculator r' = rt_calculator r \<and> rt_display r' = rt_display r
            \<and> rt_audio r' = rt_audio r \<and> rt_outgoing_tx r' = rt_outgoing_tx r)"
proof -
  obtain rej r1 where ad: "admit_remote_action now now_ms sender env r = (rej, r1)" by force
  show ?thesis
  proof (cases rej)
    case None
    then obtain w where "r1 = r\<lparr>rt_remote_rate_windows := w,
      rt_last_remote_seq := hm_insert sender (env_seq env) (rt_last_remote_seq r),
      rt_active_controllers := hs_insert sender (rt_active_controllers r)\<rparr>"
      using admit_accepted ad by blast
    then show ?thesis
      using None ad assms admit_iff [of now now_ms sender env r]
      by (simp add: handle_remote_action_def hm_gets)
  next
    case (Some reason)
    then obtain w where "r1 = r\<lparr>rt_remote_rate_windows := w\<rparr>"
      using admit_rejected ad by blast
    then show ?thesis
      using Some ad admit_iff [of now now_ms sender env r]
      by (simp add: handle_remote_action_def)
  qed
qed

theorem remote_action_executed_iff_witness:
  "\<exists>r'. handle_remote_action fx_ops 0 1000 7 (demo_envelope 1 (A_Digit 5)) demo_router = Some r'
    \<and> dp_text (rt_display r') = ''5''"
proof -
  have "may_execute 0 1000 7 (demo_envelope 1 (A_Digit 5)) demo_router"
    by code_simp
  moreover have "map_option (\<lambda>(c, res). r_display res)
      (calc_dispatch fx_ops (A_Digit 5) (calc_new fx_ops)) = Some ''5''"
    by code_simp
  then obtain c res where "calc_dispatch fx_ops (A_Digit 5) (calc_new fx_ops) = Some (c, res)"
      "r_display res = ''5''"
    by auto
  ultimately show ?thesis
    using remote_action_executed_iff [of fx_ops "demo_envelope 1 (A_Digit 5)" demo_router c res 0 1000 7]
    by (auto simp: demo_router_def demo_envelope_def router_new_def display_of_def)
qed

section \<open>Replay protection\<close>

definition last_seq :: "node_id \<Rightarrow> 'd router \<Rightarrow> u64" where
  "last_seq nid r = (case hm_get (rt_last_remote_seq r) nid of None \<Rightarrow> 0 | Some s \<Rightarrow> s)"

text \<open>
  Events that start a new replay epoch for a peer: its session is replaced or removed. When the
  set of connected peers changes, this concerns only a peer that is not in the set any more.
\<close>

definition resets_epoch :: "node_id \<Rightarrow> router_event \<Rightarrow> bool" where
  "resets_epoch nid ev =
     (case ev of
        E_AddSession n \<Rightarrow> n = nid
      | E_RemoveSession n \<Rightarrow> n = nid
      | E_SetPeers peers \<Rightarrow> nid \<notin> set (take MAX_TRACKED_REMOTE_PEERS peers)
      | _ \<Rightarrow> False)"

lemma hm_get_retain_key:
  "hm_get (hm_retain (\<lambda>k _. P k) m) k = (if P k then hm_get m k else None)"
  by (induction m) (auto simp: hm_get_def hm_retain_def)

lemma set_connected_peers_gets:
  "hm_get (rt_last_remote_seq (set_connected_peers peers r)) nid
     = (if nid \<in> set (take MAX_TRACKED_REMOTE_PEERS peers) then hm_get (rt_last_remote_seq r) nid else None)"
  "hm_get (rt_remote_rate_windows (set_connected_peers peers r)) nid
     = (if nid \<in> set (take MAX_TRACKED_REMOTE_PEERS peers) then hm_get (rt_remote_rate_windows r) nid else None)"
  by (simp_all add: set_connected_peers_def Let_def hm_get_retain_key split: option.split)

lemma last_seq_insert:
  "last_seq nid (r\<lparr>rt_last_remote_seq := hm_insert k s m\<rparr>)
     = (if k = nid then s else last_seq nid (r\<lparr>rt_last_remote_seq := m\<rparr>))"
  by (simp add: last_seq_def hm_gets)

lemma last_seq_cong: "rt_last_remote_seq r' = rt_last_remote_seq r \<Longrightarrow> last_seq nid r' = last_seq nid r"
  by (simp add: last_seq_def)

lemma fresh_last_seq: "fresh_seq seq nid r \<longleftrightarrow> last_seq nid r < seq"
  by (simp add: fresh_seq_def last_seq_def split: option.split)

lemma execute_local_seqs: "execute_local D a r = Some r' \<Longrightarrow> rt_last_remote_seq r' = rt_last_remote_seq r"
  by (auto simp: execute_local_def split: option.splits)

lemma clear_if_frame [simp]:
  "rt_last_remote_seq (clear_remote_executor_if nid r) = rt_last_remote_seq r"
  "rt_calculator (clear_remote_executor_if nid r) = rt_calculator r"
  "rt_outgoing_tx (clear_remote_executor_if nid r) = rt_outgoing_tx r"
  "rt_connected_peers (clear_remote_executor_if nid r) = rt_connected_peers r"
  "rt_audio_muted (clear_remote_executor_if nid r) = rt_audio_muted r"
  "rt_audio (clear_remote_executor_if nid r) = rt_audio r"
  by (simp_all add: clear_remote_executor_if_def clear_remote_executor_def)

lemma dispatch_seqs:
  assumes "dispatch D now_ms a r = Some r'"
  shows "rt_last_remote_seq r' = rt_last_remote_seq r"
proof (cases "valid_action a \<and> remote_target r \<noteq> None")
  case True
  then obtain target where target: "remote_target r = Some target" by blast
  obtain env r1 where env: "build_envelope now_ms a r = (env, r1)" by force
  obtain sent r2 where send: "send_message_to target (Action env) r1 = (sent, r2)" by force
  have "rt_last_remote_seq r1 = rt_last_remote_seq r"
    using env by (auto simp: build_envelope_def Let_def)
  moreover have "rt_last_remote_seq r2 = rt_last_remote_seq r1"
    using send_message_frame(3) [of target "Action env" r1] send by simp
  moreover have "rt_last_remote_seq r' = rt_last_remote_seq r2"
    using assms True target env send
    by (auto simp: dispatch_def apply_speculative_eq dest!: execute_local_seqs split: if_splits)
  ultimately show ?thesis by simp
next
  case False
  then show ?thesis
    using assms by (auto simp: dispatch_def dest: execute_local_seqs split: if_splits)
qed

lemma remote_action_seq_mono:
  assumes "handle_remote_action D now now_ms sender env r = Some r'"
  shows "last_seq nid r \<le> last_seq nid r'"
proof -
  obtain rej r1 where ad: "admit_remote_action now now_ms sender env r = (rej, r1)" by force
  have "last_seq nid r' = last_seq nid r1"
    using assms ad
    by (auto intro!: last_seq_cong simp: handle_remote_action_def Let_def split: option.splits)
  moreover have "last_seq nid r \<le> last_seq nid r1"
  proof (cases rej)
    case None
    then have "fresh_seq (env_seq env) sender r"
      using admit_iff [of now now_ms sender env r] ad by (simp add: may_execute_def)
    moreover obtain w where "r1 = r\<lparr>rt_remote_rate_windows := w,
        rt_last_remote_seq := hm_insert sender (env_seq env) (rt_last_remote_seq r),
        rt_active_controllers := hs_insert sender (rt_active_controllers r)\<rparr>"
      using admit_accepted ad None by blast
    ultimately show ?thesis
      by (auto simp: fresh_last_seq last_seq_def hm_gets)
  next
    case (Some reason)
    then obtain w where "r1 = r\<lparr>rt_remote_rate_windows := w\<rparr>"
      using admit_rejected ad by blast
    then show ?thesis by (simp add: last_seq_def)
  qed
  ultimately show ?thesis by simp
qed

lemma handle_remote_state_seqs:
  "rt_last_remote_seq (handle_remote_state D sender s r) = rt_last_remote_seq r"
  by (simp add: handle_remote_state_def Let_def)

lemma step_seq_mono:
  assumes "router_step D r ev = Some r'" and "\<not> resets_epoch nid ev"
  shows "last_seq nid r \<le> last_seq nid r'"
proof (cases ev)
  case (E_Dispatch now_ms a)
  then show ?thesis
    using assms dispatch_seqs [of D now_ms a r r'] last_seq_cong [of r' r nid] by simp
next
  case (E_Message now now_ms sender msg)
  then show ?thesis
    using assms remote_action_seq_mono [of D now now_ms sender _ r r']
      last_seq_cong [OF handle_remote_state_seqs [of D sender _ r]]
    by (auto simp: handle_network_message_def split: network_message.splits)
next
  case (E_AddSession n)
  then show ?thesis
    using assms by (auto simp: resets_epoch_def add_remote_session_def last_seq_def hm_gets)
next
  case (E_RemoveSession n)
  then show ?thesis
    using assms by (auto simp: resets_epoch_def cleanup_peer_disconnect_def remove_remote_session_def
        Let_def last_seq_def hm_gets)
next
  case (E_SetPeers peers)
  then show ?thesis
    using assms by (auto simp: resets_epoch_def last_seq_def set_connected_peers_gets)
qed (use assms in \<open>auto intro!: eq_refl last_seq_cong simp: resets_epoch_def set_outgoing_tx_def
    set_local_node_id_def set_allow_remote_control_def set_remote_public_key_def
    select_remote_executor_def clear_remote_executor_def clear_remote_executor_if_def
    set_audio_muted_def take_connection_error_def Let_def\<close>)

lemma run_seq_mono:
  "run_steps (router_step D) r evs = Some r' \<Longrightarrow> list_all (\<lambda>ev. \<not> resets_epoch nid ev) evs \<Longrightarrow>
     last_seq nid r \<le> last_seq nid r'"
proof (induction evs arbitrary: r)
  case (Cons ev evs)
  then obtain r1 where "router_step D r ev = Some r1" "run_steps (router_step D) r1 evs = Some r'"
    by (auto split: option.splits)
  then show ?case
    using Cons step_seq_mono [of D r ev r1 nid] by fastforce
qed simp

text \<open>
  C2: once an action has been accepted, no action of the same peer with the same or a
  smaller sequence number is accepted again before a new session of that peer starts or its
  session is removed, whatever happens in between: other peers connecting and disconnecting,
  new sets of connected peers that still hold this one, and switching remote control off and
  on included. It is rejected and the router does not change.
\<close>

theorem no_replay:
  assumes "handle_remote_action D now now_ms sender env r = Some r1"
    and "may_execute now now_ms sender env r"
    and "run_steps (router_step D) r1 evs = Some r2"
    and "list_all (\<lambda>ev. \<not> resets_epoch sender ev) evs"
    and "env_seq env' \<le> env_seq env"
  shows "handle_remote_action D now' now_ms' sender env' r2 = Some r2"
proof -
  obtain r0 where ad: "admit_remote_action now now_ms sender env r = (None, r0)"
    using admit_iff [of now now_ms sender env r] assms(2) by (metis prod.collapse)
  then obtain w where r0: "r0 = r\<lparr>rt_remote_rate_windows := w,
      rt_last_remote_seq := hm_insert sender (env_seq env) (rt_last_remote_seq r),
      rt_active_controllers := hs_insert sender (rt_active_controllers r)\<rparr>"
    using admit_accepted by blast
  have "rt_last_remote_seq r1 = rt_last_remote_seq r0"
    using assms(1) ad by (auto simp: handle_remote_action_def Let_def split: option.splits)
  then have "last_seq sender r1 = env_seq env"
    by (simp add: last_seq_def r0 hm_gets)
  then have "env_seq env' \<le> last_seq sender r2"
    using run_seq_mono [OF assms(3,4)] assms(5) by simp
  then have "\<not> fresh_seq (env_seq env') sender r2"
    by (simp add: fresh_last_seq not_less)
  then have "\<exists>reason. admit_remote_action now' now_ms' sender env' r2 = (Some reason, r2)"
    by (auto simp: admit_remote_action_def fresh_iff)
  then show ?thesis
    by (auto simp: handle_remote_action_def)
qed

theorem no_replay_witness:
  "\<exists>r1 r2. handle_remote_action fx_ops 0 1000 7 (demo_envelope 3 (A_Digit 5)) demo_router = Some r1
    \<and> run_steps (router_step fx_ops) r1 [E_SetPeers [3, 7], E_Allow False, E_RemoveSession 3, E_Allow True] = Some r2
    \<and> handle_remote_action fx_ops 9 1000 7 (demo_envelope 2 (A_Digit 9)) r2 = Some r2"
proof -
  let ?h = "handle_remote_action fx_ops 0 1000 7 (demo_envelope 3 (A_Digit 5)) demo_router"
  have m: "may_execute 0 1000 7 (demo_envelope 3 (A_Digit 5)) demo_router"
    by code_simp
  have "map_option (\<lambda>_. ()) ?h = Some ()"
    by code_simp
  then obtain r1 where r1: "?h = Some r1" by auto
  obtain r2 where r2: "run_steps (router_step fx_ops) r1 [E_SetPeers [3, 7], E_Allow False, E_RemoveSession 3, E_Allow True] = Some r2"
    by simp
  have "handle_remote_action fx_ops 9 1000 7 (demo_envelope 2 (A_Digit 9)) r2 = Some r2"
    by (rule no_replay [OF r1 m r2]) 
      (simp_all add: resets_epoch_def demo_envelope_def MAX_TRACKED_REMOTE_PEERS_def)
  then show ?thesis
    using r1 r2 by blast
qed

section \<open>Rate limit\<close>





























section \<open>Local keys\<close>

text \<open>
  C8: a local key is executed exactly once, on the local calculator, with its result on
  the display, whether it runs locally, is sent to the selected executor, or falls back
  because the outgoing queue refuses it. An envelope is queued in the second case only,
  with the next sequence number; in the third case the executor is deselected.
\<close>

theorem key_executed_once:
  assumes "valid_action a" and "calc_dispatch D a (rt_calculator r) = Some (c, res)"
  shows "\<exists>r'. dispatch D now_ms a r = Some r' \<and> rt_calculator r' = c
    \<and> rt_display r' = display_of res
    \<and> (case remote_target r of
         None \<Rightarrow> rt_outgoing_tx r' = rt_outgoing_tx r
       | Some target \<Rightarrow>
           (\<exists>tx tx'. rt_outgoing_tx r = Some tx \<and> rt_outgoing_tx r' = Some tx'
              \<and> ch_buf tx' = ch_buf tx @ [(target, Action
                   \<lparr>env_seq = u64_saturating_add (rt_local_seq r) 1,
                    env_source_id = rt_local_node_id r, env_timestamp_ms = now_ms, env_action = a\<rparr>)]
              \<and> rt_active_executor r' = Some target)
           \<or> rt_outgoing_tx r' = rt_outgoing_tx r \<and> rt_active_executor r' = None)"
proof (cases "remote_target r")
  case None
  then show ?thesis
    using assms by (simp add: dispatch_def execute_local_def)
next
  case (Some target)
  let ?env = "\<lparr>env_seq = u64_saturating_add (rt_local_seq r) 1, env_source_id = rt_local_node_id r,
      env_timestamp_ms = now_ms, env_action = a\<rparr>"
  let ?r1 = "r\<lparr>rt_local_seq := u64_saturating_add (rt_local_seq r) 1\<rparr>"
  have env: "build_envelope now_ms a r = (?env, ?r1)"
    by (simp add: build_envelope_def Let_def)
  have active: "rt_active_executor r = Some target"
    using Some by (simp add: remote_target_def split: option.splits if_splits)
  show ?thesis
  proof (cases rule: send_message_to_cases [of ?r1 target "Action ?env"])
    case (sent tx tx')
    have "ch_buf tx' = ch_buf tx @ [(target, Action ?env)]"
      using ch.send_ok [OF sent(2)] by (rule conjunct1)
    then show ?thesis
      using assms Some env sent active
      by (simp add: dispatch_def apply_speculative_eq execute_local_def)
  next
    case dropped
    then show ?thesis
      using assms Some env active
      by (simp add: dispatch_def execute_local_def clear_remote_executor_if_def
          clear_remote_executor_def)
  qed
qed

theorem key_executed_once_witness:
  "\<exists>r'. dispatch fx_ops 1000 (A_Digit 4) (demo_router\<lparr>rt_active_executor := Some 7\<rparr>) = Some r'
     \<and> dp_text (rt_display r') = ''4''"
proof -
  let ?r = "demo_router\<lparr>rt_active_executor := Some 7\<rparr>"
  have "map_option (\<lambda>(c, res). r_display res)
      (calc_dispatch fx_ops (A_Digit 4) (rt_calculator ?r)) = Some ''4''"
    by code_simp
  then obtain c res where c: "calc_dispatch fx_ops (A_Digit 4) (rt_calculator ?r) = Some (c, res)"
      "r_display res = ''4''"
    by auto
  have "valid_action (A_Digit 4)" by code_simp
  from key_executed_once [OF this c(1), of 1000] show ?thesis
    using c(2) by (auto simp: display_of_def)
qed

section \<open>Controller and executor\<close>

lemma executor_replies:
  assumes "may_execute now now_ms sender env r"
    and "calc_dispatch D (env_action env) (rt_calculator r) = Some (c, res)"
    and "rt_outgoing_tx r = Some tx" and "\<not> ch_closed tx" and "length (ch_buf tx) < ch_cap tx"
  shows "\<exists>r'. handle_remote_action D now now_ms sender env r = Some r'
    \<and> rt_display r' = display_of res
    \<and> rt_outgoing_tx r' = Some (tx\<lparr>ch_buf :=
        ch_buf tx @ [(sender, StateUpdate (build_state_snapshot res (env_seq env)))]\<rparr>)"
proof -
  obtain r1 where ad: "admit_remote_action now now_ms sender env r = (None, r1)"
    using admit_iff [of now now_ms sender env r] assms(1) by (metis prod.collapse)
  obtain w where "r1 = r\<lparr>rt_remote_rate_windows := w,
      rt_last_remote_seq := hm_insert sender (env_seq env) (rt_last_remote_seq r),
      rt_active_controllers := hs_insert sender (rt_active_controllers r)\<rparr>"
    using admit_accepted [OF ad] by blast
  then show ?thesis
    using ad assms(2-5) by (simp add: handle_remote_action_def send_message_to_def try_send_def)
qed

lemma snapshot_fields [simp]:
  "sn_display (build_state_snapshot res seq) = r_display res"
  "sn_history (build_state_snapshot res seq) = r_history res"
  "sn_memory_indicator (build_state_snapshot res seq) = r_memory_indicator res"
  "sn_is_error (build_state_snapshot res seq) = r_is_error res"
  "sn_last_seq_applied (build_state_snapshot res seq) = seq"
  by (simp_all add: build_state_snapshot_def)

lemma controller_adopts:
  assumes "accepts_snapshot D sender s r"
  shows "rt_display (handle_remote_state D sender s r)
      = \<lparr>dp_text = sn_display s, dp_history = sn_history s,
         dp_memory_indicator = sn_memory_indicator s, dp_is_error = sn_is_error s\<rparr>"
    and "c_state (rt_calculator (handle_remote_state D sender s r))
      = (if sn_is_error s then Error else Evaluated)"
    and "\<not> sn_is_error s \<Longrightarrow>
      Some (c_acc (rt_calculator (handle_remote_state D sender s r))) = d_from_str D (sn_display s)"
    and "rt_last_state_update_seq (handle_remote_state D sender s r) = sn_last_seq_applied s"
  using assms
  by (auto simp: handle_remote_state_def update_display_def update_history_def Let_def
      update_memory_indicator_def set_error_state_def reset_from_snapshot_def accepts_snapshot_def
      valid_state_snapshot_def)

text \<open>
  When an executor accepts an action and has room in its outgoing queue, it queues
  exactly one snapshot for the controller; a controller that accepts this snapshot shows
  on its display exactly what the executor shows, its calculator is at rest on the shown
  value (or in the error state), and older snapshots can no longer be accepted.
\<close>

theorem controller_follows_executor:
  assumes "may_execute now now_ms controller env re"
    and "calc_dispatch D (env_action env) (rt_calculator re) = Some (c, res)"
    and "rt_outgoing_tx re = Some tx" and "\<not> ch_closed tx" and "length (ch_buf tx) < ch_cap tx"
    and "accepts_snapshot D executor (build_state_snapshot res (env_seq env)) rc"
  shows "\<exists>re' snap. handle_remote_action D now now_ms controller env re = Some re'
    \<and> rt_outgoing_tx re' = Some (tx\<lparr>ch_buf := ch_buf tx @ [(controller, StateUpdate snap)]\<rparr>)
    \<and> (let rc' = handle_remote_state D executor snap rc
       in rt_display rc' = rt_display re'
          \<and> (if r_is_error res then c_state (rt_calculator rc') = Error
             else c_state (rt_calculator rc') = Evaluated
                  \<and> d_from_str D (dp_text (rt_display rc')) = Some (c_acc (rt_calculator rc')))
          \<and> (\<forall>old. sn_last_seq_applied old \<le> env_seq env \<longrightarrow> handle_remote_state D executor old rc' = rc'))"
proof -
  let ?snap = "build_state_snapshot res (env_seq env)"
  let ?rc = "handle_remote_state D executor ?snap rc"
  obtain re' where re': "handle_remote_action D now now_ms controller env re = Some re'"
      "rt_display re' = display_of res"
      "rt_outgoing_tx re' = Some (tx\<lparr>ch_buf := ch_buf tx @ [(controller, StateUpdate ?snap)]\<rparr>)"
    using executor_replies [OF assms(1-5)] by blast
  note ad = controller_adopts [OF assms(6)]
  have "rt_display ?rc = rt_display re'"
    unfolding ad(1) re'(2) by (simp add: display_of_def)
  moreover have "if r_is_error res then c_state (rt_calculator ?rc) = Error
      else c_state (rt_calculator ?rc) = Evaluated
        \<and> d_from_str D (dp_text (rt_display ?rc)) = Some (c_acc (rt_calculator ?rc))"
    using ad(1-3) by (cases "r_is_error res") simp_all
  moreover have "handle_remote_state D executor old ?rc = ?rc"
    if "sn_last_seq_applied old \<le> env_seq env" for old
    using that ad(4) by (simp add: handle_remote_state_def accepts_snapshot_def)
  ultimately show ?thesis
    using re' by (auto simp: Let_def)
qed

definition demo_controller :: "int router" where
  "demo_controller = (router_new (calc_new fx_ops) None demo_display 7)
     \<lparr>rt_connected_peers := [1], rt_active_executor := Some 1, rt_local_seq := 1\<rparr>"

theorem controller_follows_executor_witness:
  "\<exists>re' snap. handle_remote_action fx_ops 0 1000 7 (demo_envelope 1 (A_Digit 5)) demo_router = Some re'
     \<and> rt_display (handle_remote_state fx_ops 1 snap demo_controller) = rt_display re'"
proof -
  let ?env = "demo_envelope 1 (A_Digit 5)"
  have m: "may_execute 0 1000 7 ?env demo_router"
    by code_simp
  have "map_option (\<lambda>(c, res). accepts_snapshot fx_ops 1 (build_state_snapshot res (env_seq ?env))
      demo_controller) (calc_dispatch fx_ops (env_action ?env) (rt_calculator demo_router)) = Some True"
    by code_simp
  then obtain c res where c: "calc_dispatch fx_ops (env_action ?env) (rt_calculator demo_router) = Some (c, res)"
      "accepts_snapshot fx_ops 1 (build_state_snapshot res (env_seq ?env)) demo_controller"
    by auto
  have tx: "rt_outgoing_tx demo_router = Some (chan_new 4)" "\<not> ch_closed (chan_new 4)"
      "length (ch_buf (chan_new 4)) < ch_cap (chan_new 4)"
    by (simp_all add: demo_router_def chan_new_def)
  show ?thesis
    using controller_follows_executor [OF m c(1) tx c(2)] by (auto simp: Let_def)
qed

text \<open>
  A controller never adopts a value the executor shows in scientific notation: since
  \<open>Decimal::from_str\<close> does not read exponents, the snapshot check rejects the executor's
  own display, and the controller stays on its previous state.
\<close>

theorem scientific_display_rejected:
  assumes "rejects_exponent D" and "CHR ''e'' \<in> set (r_display res)" and "\<not> r_is_error res"
  shows "handle_remote_state D sender (build_state_snapshot res seq) r = r"
  using assms
  by (simp add: handle_remote_state_def accepts_snapshot_def valid_state_snapshot_def
      rejects_exponent_def)

theorem scientific_display_rejected_witness:
  "\<exists>res. calc_result_of fx_ops ((calc_new fx_ops)\<lparr>c_acc := 1234567890123456780000, c_state := Evaluated\<rparr>) [] = res
     \<and> r_display res = ''1.23456789e17''
     \<and> handle_remote_state fx_ops 1 (build_state_snapshot res 1) demo_controller = demo_controller"
proof -
  let ?res = "calc_result_of fx_ops
      ((calc_new fx_ops)\<lparr>c_acc := 1234567890123456780000, c_state := Evaluated\<rparr>) []"
  have "r_display ?res = ''1.23456789e17''" and "\<not> r_is_error ?res"
    by code_simp+
  then show ?thesis
    using scientific_display_rejected [OF fx_rejects_exponent, of ?res 1 1 demo_controller] by auto
qed

end
