(* ===== verification/Discovery.thy ===== *)
theory Discovery
  imports Protocol
begin

unbundle bit_operations_syntax

text \<open>
  Peer discovery: the table of discovered peers (\<open>src/net/discovery/peer_table.rs\<close>), the
  announcement logic of \<open>src/net/discovery/mod.rs\<close> and the node id of
  \<open>src/app/identity.rs\<close>. The sockets behind the transports are not modelled: a transport
  is present or not. SHA-256 is the parameter \<open>sha256\<close>.
\<close>

section \<open>Identity\<close>

text \<open>The 128-bit value of a UUID from its bytes, most significant byte first.\<close>

definition uuid_from_bytes :: "bytes \<Rightarrow> node_id" where
  "uuid_from_bytes bs = foldl (\<lambda>acc b. acc * 256 + ucast b) 0 bs"

definition derive_node_id :: "(bytes \<Rightarrow> bytes) \<Rightarrow> bytes \<Rightarrow> node_id" where
  "derive_node_id sha256 public_key =
     (let hash = sha256 public_key;
          bs = take 16 hash;
          bs = bs[6 := (bs ! 6 AND 0x0F) OR 0x50];
          bs = bs[8 := (bs ! 8 AND 0x3F) OR 0x80]
      in uuid_from_bytes bs)"

definition hex_digit :: "nat \<Rightarrow> char" where
  "hex_digit n = (if n < 10 then byte (48 + n) else byte (87 + n))"

definition public_key_fingerprint :: "(bytes \<Rightarrow> bytes) \<Rightarrow> bytes \<Rightarrow> string" where
  "public_key_fingerprint sha256 public_key =
     concat (map (\<lambda>b. [hex_digit (unat b div 16), hex_digit (unat b mod 16)])
       (take 8 (sha256 public_key)))"

section \<open>The peer table\<close>

definition PEER_EXPIRY_DURATION :: int where "PEER_EXPIRY_DURATION = from_secs 90"
definition MAX_DISCOVERED_PEERS :: nat where "MAX_DISCOVERED_PEERS = 64"

type_synonym peer_table = "(node_id, peer_info) hash_map"

definition zero_key :: bytes where
  "zero_key = replicate 32 0"

text \<open>What is merged into an existing entry.\<close>

definition merge_peer :: "peer_info \<Rightarrow> peer_info \<Rightarrow> peer_info" where
  "merge_peer existing peer =
     existing\<lparr>pi_display_name := pi_display_name peer,
              pi_service_endpoint :=
                (if pi_service_endpoint peer \<noteq> None then pi_service_endpoint peer
                 else pi_service_endpoint existing),
              pi_session_peer_addr :=
                (if pi_session_peer_addr peer \<noteq> None then pi_session_peer_addr peer
                 else pi_session_peer_addr existing),
              pi_public_key :=
                (if pi_public_key peer \<noteq> zero_key then pi_public_key peer
                 else pi_public_key existing),
              pi_public_key_fingerprint :=
                (if pi_public_key_fingerprint peer \<noteq> None then pi_public_key_fingerprint peer
                 else pi_public_key_fingerprint existing),
              pi_last_seen := pi_last_seen peer\<rparr>"

definition add_peer :: "peer_info \<Rightarrow> peer_table \<Rightarrow> peer_table" where
  "add_peer peer tbl =
     (case hm_get tbl (pi_node_id peer) of
        Some existing \<Rightarrow> hm_insert (pi_node_id peer) (merge_peer existing peer) tbl
      | None \<Rightarrow> hm_insert_evict pi_last_seen MAX_DISCOVERED_PEERS (pi_node_id peer) peer tbl)"

definition get_peer :: "peer_table \<Rightarrow> node_id \<Rightarrow> peer_info option" where
  "get_peer tbl nid = hm_get tbl nid"

definition get_all_peers :: "peer_table \<Rightarrow> peer_info list" where
  "get_all_peers tbl = map snd tbl"

definition remove_expired :: "instant \<Rightarrow> peer_table \<Rightarrow> nat \<times> peer_table" where
  "remove_expired now tbl =
     (let before = hm_len tbl;
          tbl = hm_retain (\<lambda>_ peer. duration_since now (pi_last_seen peer) < PEER_EXPIRY_DURATION) tbl
      in (before - hm_len tbl, tbl))"

definition pt_len :: "peer_table \<Rightarrow> nat" where
  "pt_len tbl = hm_len tbl"

definition pt_is_empty :: "peer_table \<Rightarrow> bool" where
  "pt_is_empty tbl = (tbl = [])"

definition pt_remove :: "node_id \<Rightarrow> peer_table \<Rightarrow> peer_info option \<times> peer_table" where
  "pt_remove nid tbl = (hm_get tbl nid, hm_remove nid tbl)"

definition update_name :: "instant \<Rightarrow> node_id \<Rightarrow> string \<Rightarrow> peer_table \<Rightarrow> bool \<times> peer_table" where
  "update_name now nid name tbl =
     (case hm_get tbl nid of
        Some peer \<Rightarrow>
          (True, hm_insert nid (peer\<lparr>pi_display_name := name, pi_last_seen := now\<rparr>) tbl)
      | None \<Rightarrow> (False, tbl))"

section \<open>Announcements\<close>

definition should_start_mdns :: "string \<Rightarrow> bool" where
  "should_start_mdns target_os = (target_os \<noteq> ''windows'')"

definition make_announce ::
    "node_id \<Rightarrow> string \<Rightarrow> u16 \<Rightarrow> u16 \<Rightarrow> string \<Rightarrow> discovery_message" where
  "make_announce nid name tcp_port session_port host =
     AnnounceV2 nid name tcp_port
       \<lparr>can_execute = True, can_control = True, cap_protocol_version = PROTOCOL_VERSION\<rparr>
       Multicast host session_port"

record discovery_endpoint =
  de_node_id :: node_id
  de_display_name :: string
  de_address :: socket_addr
  de_session_port :: u16
  de_transport_hint :: transport_hint
  de_public_key_fingerprint :: "string option"

record discovery_service =
  ds_multicast :: bool
  ds_mdns :: bool
  ds_local_node_id :: node_id
  ds_hostname :: string
  ds_tcp_port :: u16
  ds_session_port :: u16

text \<open>
  \<open>mdns_ok\<close> and \<open>multicast_ok\<close> say whether the transport could be created, \<open>os\<close> is the
  platform and \<open>hostname\<close> the answer of the system.
\<close>

definition new_with_port ::
    "string \<Rightarrow> string option \<Rightarrow> bool \<Rightarrow> bool \<Rightarrow> node_id \<Rightarrow> string \<Rightarrow> u16 \<Rightarrow> u16 \<Rightarrow>
     string + discovery_service" where
  "new_with_port os hostname mdns_ok multicast_ok nid name tcp_port session_port =
     (if \<not> valid_display_name name then Inl ''invalid local discovery display name''
      else
        let host = (case hostname of Some h \<Rightarrow> h | None \<Rightarrow> ''unknown'');
            mdns = (should_start_mdns os \<and> mdns_ok)
        in if \<not> mdns \<and> \<not> multicast_ok
           then Inl ''no discovery transports available (mDNS and multicast failed)''
           else Inr \<lparr>ds_multicast = multicast_ok, ds_mdns = mdns, ds_local_node_id = nid,
                     ds_hostname = host, ds_tcp_port = tcp_port, ds_session_port = session_port\<rparr>)"

definition announce_msg :: "discovery_service \<Rightarrow> string \<Rightarrow> discovery_message" where
  "announce_msg ds name =
     make_announce (ds_local_node_id ds) name (ds_tcp_port ds) (ds_session_port ds) (ds_hostname ds)"

definition endpoint_from_announcement ::
    "discovery_service \<Rightarrow> discovery_message \<Rightarrow> socket_addr \<Rightarrow> discovery_endpoint option" where
  "endpoint_from_announcement ds msg udp_addr =
     (case (case msg of
              AnnounceV2 nid name tcp_port caps hint host session_port \<Rightarrow>
                Some (nid, name, tcp_port, session_port, hint)
            | Announce nid name tcp_port caps \<Rightarrow> Some (nid, name, tcp_port, tcp_port, Multicast)
            | Discover \<Rightarrow> None) of
        None \<Rightarrow> None
      | Some (nid, name, tcp_port, session_port, hint) \<Rightarrow>
          if nid = ds_local_node_id ds then None
          else if \<not> valid_display_name name then None
          else
            let port = (if session_port = 0 then tcp_port else session_port)
            in Some \<lparr>de_node_id = nid, de_display_name = name, de_address = (fst udp_addr, port),
                     de_session_port = port, de_transport_hint = hint,
                     de_public_key_fingerprint = None\<rparr>)"

section \<open>The table stays small and keeps what it knows\<close>

definition peer_table_inv :: "peer_table \<Rightarrow> bool" where
  "peer_table_inv tbl =
     (hm_wf tbl \<and> hm_len tbl \<le> MAX_DISCOVERED_PEERS
      \<and> (\<forall>nid peer. hm_get tbl nid = Some peer \<longrightarrow> pi_node_id peer = nid))"

datatype table_op =
    T_Add peer_info
  | T_Expire instant
  | T_Remove node_id
  | T_Rename instant node_id string

fun table_step :: "peer_table \<Rightarrow> table_op \<Rightarrow> peer_table option" where
  "table_step tbl (T_Add peer) = Some (add_peer peer tbl)"
| "table_step tbl (T_Expire now) = Some (snd (remove_expired now tbl))"
| "table_step tbl (T_Remove nid) = Some (snd (pt_remove nid tbl))"
| "table_step tbl (T_Rename now nid name) = Some (snd (update_name now nid name tbl))"

lemma peer_id_merge [simp]: "pi_node_id (merge_peer old new) = pi_node_id old"
  by (simp add: merge_peer_def)

lemma add_peer_inv:
  assumes inv: "peer_table_inv tbl"
  shows "peer_table_inv (add_peer peer tbl)"
proof (cases "hm_get tbl (pi_node_id peer)")
  case None
  then show ?thesis
    using inv hm_insert_evict_bound [of tbl MAX_DISCOVERED_PEERS "pi_node_id peer" pi_last_seen peer]
    by (auto simp: add_peer_def peer_table_inv_def hm_insert_evict_wf hm_insert_evict_get
        MAX_DISCOVERED_PEERS_def split: if_splits)
next
  case (Some existing)
  then show ?thesis
    using inv by (auto simp: add_peer_def peer_table_inv_def hm.len_put hm_gets)
qed

lemma table_step_inv:
  assumes inv: "peer_table_inv tbl" and step: "table_step tbl op = Some tbl'"
  shows "peer_table_inv tbl'"
proof (cases op)
  case (T_Add peer)
  then show ?thesis using assms add_peer_inv by auto
next
  case (T_Expire now)
  then show ?thesis
    using inv step hm.len_keep [of tbl "\<lambda>_ peer. duration_since now (pi_last_seen peer) < PEER_EXPIRY_DURATION"]
    by (auto simp: remove_expired_def Let_def peer_table_inv_def hm.get_keep split: option.splits if_splits)
next
  case (T_Remove nid)
  then show ?thesis
    using inv step by (auto simp: pt_remove_def peer_table_inv_def hm.len_del hm_gets split: if_splits)
next
  case (T_Rename now nid name)
  then show ?thesis
    using inv step
    by (auto simp: update_name_def peer_table_inv_def hm.len_put hm_gets
        split: option.splits if_splits)
qed

interpretation pt: event_machine table_step "\<lambda>_. True" peer_table_inv
  by unfold_locales (rule table_step_inv)

text \<open>
  Whatever is discovered, renamed, removed or expired, the table holds at most 64
  peers, at most one entry per node, each filed under its own id.
\<close>

theorem peer_table_bounded:
  "case run_steps table_step [] ops of Some tbl \<Rightarrow> peer_table_inv tbl | None \<Rightarrow> False"
proof -
  have "run_steps table_step tbl ops \<noteq> None" for tbl
  proof (induction ops arbitrary: tbl)
    case (Cons op ops)
    then show ?case by (cases op) auto
  qed simp
  moreover have "peer_table_inv []"
    by (simp add: peer_table_inv_def)
  ultimately show ?thesis
    using pt.run_inv [of "[]" ops] by (auto simp: list_all_iff split: option.splits)
qed

text \<open>
  A peer heard of again keeps what the new report does not say: its service endpoint
  is not overwritten by the ephemeral address of an incoming connection, nor its key by
  an absent one. A new peer can push out another one only when the table is full, and
  then only one that was heard of least recently.
\<close>

theorem add_peer_keeps_others:
  assumes "peer_table_inv tbl" and "hm_get tbl nid = Some old"
  shows "if nid = pi_node_id peer then
       (\<exists>new. hm_get (add_peer peer tbl) nid = Some new
          \<and> (pi_service_endpoint peer = None \<longrightarrow> pi_service_endpoint new = pi_service_endpoint old)
          \<and> (pi_public_key peer = zero_key \<longrightarrow> pi_public_key new = pi_public_key old)
          \<and> (pi_public_key_fingerprint peer = None \<longrightarrow>
               pi_public_key_fingerprint new = pi_public_key_fingerprint old)
          \<and> pi_last_seen new = pi_last_seen peer)
     else hm_get (add_peer peer tbl) nid = Some old
        \<or> (hm_get tbl (pi_node_id peer) = None \<and> hm_len tbl = 64
           \<and> (\<forall>n p. hm_get tbl n = Some p \<longrightarrow> pi_last_seen old \<le> pi_last_seen p))"
proof (cases "hm_get tbl (pi_node_id peer)")
  case None
  have "hm_get (add_peer peer tbl) nid = Some old \<or>
      MAX_DISCOVERED_PEERS \<le> hm_len tbl \<and> hm_oldest pi_last_seen tbl = Some nid"
    using None assms(2) by (auto simp: add_peer_def hm_insert_evict_get)
  moreover have "pi_last_seen old \<le> pi_last_seen p"
    if "hm_oldest pi_last_seen tbl = Some nid" "hm_get tbl n = Some p" for n p
    using hm_oldest_least [OF _ that] assms by (auto simp: peer_table_inv_def)
  ultimately show ?thesis
    using None assms by (auto simp: peer_table_inv_def MAX_DISCOVERED_PEERS_def)
next
  case (Some existing)
  then show ?thesis
    using assms(2) by (auto simp: add_peer_def hm_gets merge_peer_def)
qed

definition demo_peer :: "node_id \<Rightarrow> instant \<Rightarrow> peer_info" where
  "demo_peer nid t = \<lparr>pi_node_id = nid, pi_display_name = ''Fox'',
     pi_service_endpoint = Some (IPv4 0xC0A80002, 42420), pi_session_peer_addr = None,
     pi_last_seen = t, pi_public_key = zero_key, pi_public_key_fingerprint = None\<rparr>"

theorem add_peer_keeps_others_witness:
  "\<exists>new. hm_get (add_peer ((demo_peer 3 9)\<lparr>pi_service_endpoint := None\<rparr>) [(3, demo_peer 3 5)]) 3 = Some new
     \<and> pi_service_endpoint new = Some (IPv4 0xC0A80002, 42420)"
proof -
  have "peer_table_inv [(3, demo_peer 3 5)]"
    by (simp add: peer_table_inv_def hm_wf_def hm_keys_def hm_len_def hm_get_def demo_peer_def
        MAX_DISCOVERED_PEERS_def)
  moreover have "hm_get [(3, demo_peer 3 5)] (3 :: node_id) = Some (demo_peer 3 5)"
    by (simp add: hm_get_def)
  ultimately show ?thesis
    using add_peer_keeps_others [of "[(3, demo_peer 3 5)]" 3 "demo_peer 3 5"
        "(demo_peer 3 9)\<lparr>pi_service_endpoint := None\<rparr>"]
    by (auto simp: demo_peer_def)
qed

text \<open>
  Expiry removes exactly the peers not heard of for 90 seconds, and reports how many
  there were.
\<close>

theorem remove_expired_exact:
  assumes "peer_table_inv tbl"
  shows "(hm_get (snd (remove_expired now tbl)) nid = Some peer) =
       (hm_get tbl nid = Some peer \<and> now - pi_last_seen peer < from_secs 90)
    \<and> fst (remove_expired now tbl) + hm_len (snd (remove_expired now tbl)) = hm_len tbl"
proof -
  have wf: "hm_wf tbl" using assms by (simp add: peer_table_inv_def)
  have "duration_since now t < PEER_EXPIRY_DURATION \<longleftrightarrow> now - t < from_secs 90" for t
    by (auto simp: duration_since_def PEER_EXPIRY_DURATION_def from_secs_def)
  then show ?thesis
    using hm.len_keep [OF wf, of "\<lambda>_ peer. duration_since now (pi_last_seen peer) < PEER_EXPIRY_DURATION"]
    by (auto simp: remove_expired_def Let_def hm.get_keep [OF wf] split: option.splits)
qed

theorem remove_expired_exact_witness:
  "hm_get (snd (remove_expired 100000000000 [(3, demo_peer 3 5), (4, demo_peer 4 99000000000)])) 3 = None"
proof -
  let ?tbl = "[(3, demo_peer 3 5), (4, demo_peer 4 99000000000)]"
  have "peer_table_inv ?tbl"
    by (auto simp: peer_table_inv_def hm_wf_def hm_keys_def hm_len_def hm_get_def demo_peer_def
        MAX_DISCOVERED_PEERS_def split: if_splits)
  from remove_expired_exact [OF this, of 100000000000 3 "demo_peer 3 5"]
    remove_expired_exact [OF this, of 100000000000 3]
  show ?thesis
    by (cases "hm_get (snd (remove_expired 100000000000 ?tbl)) 3")
      (auto simp: hm_get_def demo_peer_def from_secs_def)
qed

text \<open>
  An announcement reaches the other nodes as the endpoint it advertises: the sender's
  id and name, at the address the packet came from and the announced session port; and a
  node ignores its own announcements.
\<close>

theorem announcement_roundtrip:
  assumes "valid_display_name name" and "ds_session_port ds \<noteq> 0"
  shows "endpoint_from_announcement ds' (announce_msg ds name) (ip, port) =
    (if ds_local_node_id ds' = ds_local_node_id ds then None
     else Some \<lparr>de_node_id = ds_local_node_id ds, de_display_name = name,
                de_address = (ip, ds_session_port ds), de_session_port = ds_session_port ds,
                de_transport_hint = Multicast, de_public_key_fingerprint = None\<rparr>)"
  using assms by (simp add: endpoint_from_announcement_def announce_msg_def make_announce_def Let_def)

definition demo_service :: "node_id \<Rightarrow> discovery_service" where
  "demo_service nid = \<lparr>ds_multicast = True, ds_mdns = False, ds_local_node_id = nid,
     ds_hostname = ''host'', ds_tcp_port = 42420, ds_session_port = 42420\<rparr>"

theorem announcement_roundtrip_witness:
  "map_option de_address (endpoint_from_announcement (demo_service 2)
      (announce_msg (demo_service 1) ''Fox'') (IPv4 1, 999)) = Some (IPv4 1, 42420)"
proof -
  have "valid_display_name ''Fox''" by code_simp
  then show ?thesis
    using announcement_roundtrip [of "''Fox''" "demo_service 1" "demo_service 2" "IPv4 1" 999]
    by (simp add: demo_service_def)
qed

end
