(* ===== verification/Handshake.thy ===== *)
theory Handshake
  imports Discovery
begin

text \<open>
  The authenticated handshake, \<open>src/net/handshake.rs\<close>, over the framing helpers of
  \<open>src/net/session.rs\<close> (\<open>send_msg\<close>, \<open>recv_msg\<close>, \<open>decode_network_message\<close>).

  A framed TCP stream is the list of the reads still to come (a frame or a read error;
  the end of the list is the remote closing), the frames written so far, and the outcomes
  of the coming writes. External crates are the fields of the parameter \<open>crypto\<close>: bincode
  (\<open>cr_encode\<close>, \<open>cr_decode\<close> with the number of bytes consumed), HMAC-SHA256 under the
  application key, SHA-256, and Ed25519. An operation returns its result or the error it
  fails with, and the stream.
\<close>

section \<open>Streams and external functions\<close>

datatype read_result = Frame bytes | ReadError

record stream =
  st_reads :: "read_result list"
  st_written :: "bytes list"
  st_write_ok :: "bool list"

record 'sk crypto =
  cr_encode :: "network_message \<Rightarrow> bytes option"
  cr_decode :: "bytes \<Rightarrow> (network_message \<times> nat) option"
  cr_hmac :: "bytes \<Rightarrow> bytes"
  cr_sha256 :: "bytes \<Rightarrow> bytes"
  cr_key_ok :: "bytes \<Rightarrow> bool"
  cr_signature_ok :: "bytes \<Rightarrow> bool"
  cr_verify :: "bytes \<Rightarrow> bytes \<Rightarrow> bytes \<Rightarrow> bool"
  cr_sign :: "'sk \<Rightarrow> bytes \<Rightarrow> bytes"

datatype wire_error =
    BadMagic
  | DecodeError
  | TrailingBytes
  | ReadFailed
  | EncodeError
  | WriteFailed

datatype handshake_error =
    Wire wire_error
  | InvalidLocalName
  | ClosedBefore network_message_kind
  | Unexpected network_message
  | InvalidRemoteName
  | AppIdMismatch
  | VersionMismatch u16
  | MissingPublicKey
  | InvalidPublicKey
  | NodeIdMismatch
  | HmacLength
  | HmacFailed
  | InvalidSignature
  | ProofFailed
  | NonceFailed
and network_message_kind = K_Hello | K_Hmac | K_HelloAck | K_AuthChallenge | K_AuthProof

type_synonym ('e, 'a) io = "stream \<Rightarrow> ('e + 'a) \<times> stream"

definition io_return :: "'a \<Rightarrow> ('e, 'a) io" where
  "io_return x st = (Inr x, st)"

definition io_fail :: "'e \<Rightarrow> ('e, 'a) io" where
  "io_fail e st = (Inl e, st)"

definition io_bind :: "('e, 'a) io \<Rightarrow> ('a \<Rightarrow> ('e, 'b) io) \<Rightarrow> ('e, 'b) io" where
  "io_bind m f st = (case m st of (Inl e, st') \<Rightarrow> (Inl e, st') | (Inr x, st') \<Rightarrow> f x st')"

definition io_check :: "bool \<Rightarrow> 'e \<Rightarrow> ('e, unit) io" where
  "io_check b e = (if b then io_return () else io_fail e)"

definition io_wire :: "(wire_error, 'a) io \<Rightarrow> (handshake_error, 'a) io" where
  "io_wire m st = (case m st of (Inl e, st') \<Rightarrow> (Inl (Wire e), st') | (Inr x, st') \<Rightarrow> (Inr x, st'))"

section \<open>Frames\<close>

text \<open>One write of a frame; the codec and the timeout may refuse it.\<close>

definition write_frame :: "bytes \<Rightarrow> (wire_error, unit) io" where
  "write_frame frame st =
     (case st_write_ok st of
        [] \<Rightarrow> (Inr (), st\<lparr>st_written := st_written st @ [frame]\<rparr>)
      | ok # oks \<Rightarrow>
          if ok then (Inr (), st\<lparr>st_written := st_written st @ [frame], st_write_ok := oks\<rparr>)
          else (Inl WriteFailed, st\<lparr>st_write_ok := oks\<rparr>))"

definition decode_network_message :: "'sk crypto \<Rightarrow> bytes \<Rightarrow> wire_error + network_message" where
  "decode_network_message C bs =
     (case cr_decode C bs of
        None \<Rightarrow> Inl DecodeError
      | Some (message, consumed) \<Rightarrow>
          if consumed \<noteq> length bs then Inl TrailingBytes else Inr message)"

text \<open>The magic check in front of every deserialization.\<close>

definition has_magic :: "bytes \<Rightarrow> bool" where
  "has_magic bs =
     (\<not> (length bs < length PROTOCOL_MAGIC \<or> take (length PROTOCOL_MAGIC) bs \<noteq> PROTOCOL_MAGIC))"

definition send_msg :: "'sk crypto \<Rightarrow> network_message \<Rightarrow> (wire_error, unit) io" where
  "send_msg C msg =
     (case cr_encode C msg of
        None \<Rightarrow> io_fail EncodeError
      | Some bincode_bytes \<Rightarrow> write_frame (PROTOCOL_MAGIC @ bincode_bytes))"

definition recv_msg_with_raw :: "'sk crypto \<Rightarrow> (wire_error, (network_message \<times> bytes) option) io" where
  "recv_msg_with_raw C st =
     (case st_reads st of
        [] \<Rightarrow> (Inr None, st)
      | ReadError # rs \<Rightarrow> (Inl ReadFailed, st\<lparr>st_reads := rs\<rparr>)
      | Frame bs # rs \<Rightarrow>
          (let st = st\<lparr>st_reads := rs\<rparr>
           in if \<not> has_magic bs then (Inl BadMagic, st)
              else
                let raw = drop (length PROTOCOL_MAGIC) bs
                in case decode_network_message C raw of
                     Inl e \<Rightarrow> (Inl e, st)
                   | Inr msg \<Rightarrow> (Inr (Some (msg, raw)), st)))"

definition recv_msg :: "'sk crypto \<Rightarrow> (wire_error, network_message option) io" where
  "recv_msg C st =
     (case st_reads st of
        [] \<Rightarrow> (Inr None, st)
      | ReadError # rs \<Rightarrow> (Inl ReadFailed, st\<lparr>st_reads := rs\<rparr>)
      | Frame bs # rs \<Rightarrow>
          (let st = st\<lparr>st_reads := rs\<rparr>
           in if \<not> has_magic bs then (Inl BadMagic, st)
              else
                case decode_network_message C (drop (length PROTOCOL_MAGIC) bs) of
                  Inl e \<Rightarrow> (Inl e, st)
                | Inr msg \<Rightarrow> (Inr (Some msg), st)))"

definition send_raw :: "bytes \<Rightarrow> (wire_error, unit) io" where
  "send_raw data = write_frame data"

definition recv_raw :: "(wire_error, bytes option) io" where
  "recv_raw st =
     (case st_reads st of
        [] \<Rightarrow> (Inr None, st)
      | ReadError # rs \<Rightarrow> (Inl ReadFailed, st\<lparr>st_reads := rs\<rparr>)
      | Frame bs # rs \<Rightarrow> (Inr (Some bs), st\<lparr>st_reads := rs\<rparr>))"

section \<open>Proofs of possession\<close>

definition AUTH_DOMAIN :: bytes where
  "AUTH_DOMAIN = map (\<lambda>c. word_of_nat (of_char c)) ''vocal-calculator-auth-v5''"
definition CLIENT_PROOF_ROLE :: bytes where
  "CLIENT_PROOF_ROLE = map (\<lambda>c. word_of_nat (of_char c)) ''client''"
definition SERVER_PROOF_ROLE :: bytes where
  "SERVER_PROOF_ROLE = map (\<lambda>c. word_of_nat (of_char c)) ''server''"

definition uuid_as_bytes :: "node_id \<Rightarrow> bytes" where
  "uuid_as_bytes nid = map (\<lambda>i. ucast (drop_bit (8 * (15 - i)) nid)) [0..<16]"

definition auth_payload ::
    "bytes \<Rightarrow> bytes \<Rightarrow> node_id \<Rightarrow> bytes \<Rightarrow> node_id \<Rightarrow> bytes \<Rightarrow> bytes" where
  "auth_payload role nonce signer_id signer_pubkey verifier_id verifier_pubkey =
     AUTH_DOMAIN @ role @ nonce @ uuid_as_bytes signer_id @ signer_pubkey
     @ uuid_as_bytes verifier_id @ verifier_pubkey"

definition verify_remote_identity ::
    "'sk crypto \<Rightarrow> node_id \<Rightarrow> bytes \<Rightarrow> (handshake_error, unit) io" where
  "verify_remote_identity C remote_id remote_pubkey =
     (if remote_pubkey = zero_key then io_fail MissingPublicKey
      else if \<not> cr_key_ok C remote_pubkey then io_fail InvalidPublicKey
      else if derive_node_id (cr_sha256 C) remote_pubkey \<noteq> remote_id then io_fail NodeIdMismatch
      else io_return ())"

text \<open>\<open>nonce\<close> is the outcome of the random generator.\<close>

definition send_challenge_and_verify_proof ::
    "'sk crypto \<Rightarrow> bytes option \<Rightarrow> bytes \<Rightarrow> node_id \<Rightarrow> bytes \<Rightarrow> node_id \<Rightarrow> bytes \<Rightarrow>
     (handshake_error, unit) io" where
  "send_challenge_and_verify_proof C fresh expected_role remote_id remote_pubkey local_id local_pubkey =
     (case fresh of
        None \<Rightarrow> io_fail NonceFailed
      | Some nonce \<Rightarrow>
          io_bind (io_wire (send_msg C (AuthChallenge nonce))) (\<lambda>_.
          io_bind (io_wire (recv_msg C)) (\<lambda>proof.
            case proof of
              None \<Rightarrow> io_fail (ClosedBefore K_AuthProof)
            | Some (AuthProof signature) \<Rightarrow>
                if \<not> cr_signature_ok C signature then io_fail InvalidSignature
                else if \<not> cr_verify C remote_pubkey
                       (auth_payload expected_role nonce remote_id remote_pubkey local_id local_pubkey)
                       signature
                  then io_fail ProofFailed
                else io_return ()
            | Some other \<Rightarrow> io_fail (Unexpected other))))"

definition receive_challenge_and_send_proof ::
    "'sk crypto \<Rightarrow> bytes \<Rightarrow> 'sk \<Rightarrow> node_id \<Rightarrow> bytes \<Rightarrow> node_id \<Rightarrow> bytes \<Rightarrow>
     (handshake_error, unit) io" where
  "receive_challenge_and_send_proof C role signing_key local_id local_pubkey remote_id remote_pubkey =
     io_bind (io_wire (recv_msg C)) (\<lambda>challenge.
       case challenge of
         None \<Rightarrow> io_fail (ClosedBefore K_AuthChallenge)
       | Some (AuthChallenge nonce) \<Rightarrow>
           io_wire (send_msg C (AuthProof (cr_sign C signing_key
             (auth_payload role nonce local_id local_pubkey remote_id remote_pubkey))))
       | Some other \<Rightarrow> io_fail (Unexpected other))"

section \<open>The two sides\<close>

definition hello_of :: "node_id \<Rightarrow> string \<Rightarrow> u16 \<Rightarrow> bytes \<Rightarrow> hello_fields" where
  "hello_of nid name version key =
     \<lparr>h_node_id = nid, h_display_name = name, h_protocol_version = version, h_app_id = APP_ID,
      h_public_key = key\<rparr>"

definition server_handshake ::
    "'sk crypto \<Rightarrow> bytes option \<Rightarrow> node_id \<Rightarrow> string \<Rightarrow> bytes \<Rightarrow> 'sk \<Rightarrow>
     (handshake_error, node_id \<times> string \<times> bytes) io" where
  "server_handshake C fresh local_id local_name local_pubkey signing_key =
     io_bind (io_check (valid_display_name local_name) InvalidLocalName) (\<lambda>_.
     io_bind (io_wire (recv_msg_with_raw C)) (\<lambda>msg.
       case msg of
         None \<Rightarrow> io_fail (ClosedBefore K_Hello)
       | Some (Hello h, hello_raw) \<Rightarrow>
           io_bind (io_check (valid_display_name (h_display_name h)) InvalidRemoteName) (\<lambda>_.
           io_bind (io_check (h_app_id h = APP_ID) AppIdMismatch) (\<lambda>_.
           if h_protocol_version h \<noteq> PROTOCOL_VERSION then
             (\<lambda>st. (Inl (VersionMismatch (h_protocol_version h)),
                    snd (send_msg C (HelloAck (hello_of local_id local_name 0 local_pubkey)) st)))
           else
             io_bind (verify_remote_identity C (h_node_id h) (h_public_key h)) (\<lambda>_.
             io_bind (io_wire recv_raw) (\<lambda>tag.
               case tag of
                 None \<Rightarrow> io_fail (ClosedBefore K_Hmac)
               | Some hmac_bytes \<Rightarrow>
                   io_bind (io_check (length hmac_bytes = 32) HmacLength) (\<lambda>_.
                   io_bind (io_check (cr_hmac C hello_raw = hmac_bytes) HmacFailed) (\<lambda>_.
                   io_bind (io_wire (send_msg C
                     (HelloAck (hello_of local_id local_name PROTOCOL_VERSION local_pubkey)))) (\<lambda>_.
                   io_bind (send_challenge_and_verify_proof C fresh CLIENT_PROOF_ROLE
                     (h_node_id h) (h_public_key h) local_id local_pubkey) (\<lambda>_.
                   io_bind (receive_challenge_and_send_proof C SERVER_PROOF_ROLE signing_key
                     local_id local_pubkey (h_node_id h) (h_public_key h)) (\<lambda>_.
                   io_return (h_node_id h, h_display_name h, h_public_key h))))))))))
       | Some (other, _) \<Rightarrow> io_fail (Unexpected other)))"

definition client_handshake ::
    "'sk crypto \<Rightarrow> bytes option \<Rightarrow> node_id \<Rightarrow> string \<Rightarrow> bytes \<Rightarrow> 'sk \<Rightarrow>
     (handshake_error, node_id \<times> string \<times> bytes) io" where
  "client_handshake C fresh local_id local_name local_pubkey signing_key =
     io_bind (io_check (valid_display_name local_name) InvalidLocalName) (\<lambda>_.
     let hello = Hello (hello_of local_id local_name PROTOCOL_VERSION local_pubkey)
     in case cr_encode C hello of
          None \<Rightarrow> io_fail (Wire EncodeError)
        | Some hello_bytes \<Rightarrow>
            io_bind (io_wire (send_msg C hello)) (\<lambda>_.
            io_bind (io_wire (send_raw (cr_hmac C hello_bytes))) (\<lambda>_.
            io_bind (io_wire (recv_msg C)) (\<lambda>msg.
              case msg of
                None \<Rightarrow> io_fail (ClosedBefore K_HelloAck)
              | Some (HelloAck h) \<Rightarrow>
                  io_bind (io_check (valid_display_name (h_display_name h)) InvalidRemoteName) (\<lambda>_.
                  io_bind (io_check (h_app_id h = APP_ID) AppIdMismatch) (\<lambda>_.
                  io_bind (io_check (h_protocol_version h = PROTOCOL_VERSION)
                    (VersionMismatch (h_protocol_version h))) (\<lambda>_.
                  io_bind (verify_remote_identity C (h_node_id h) (h_public_key h)) (\<lambda>_.
                  io_bind (receive_challenge_and_send_proof C CLIENT_PROOF_ROLE signing_key
                    local_id local_pubkey (h_node_id h) (h_public_key h)) (\<lambda>_.
                  io_bind (send_challenge_and_verify_proof C fresh SERVER_PROOF_ROLE
                    (h_node_id h) (h_public_key h) local_id local_pubkey) (\<lambda>_.
                  io_return (h_node_id h, h_display_name h, h_public_key h)))))))
              | Some other \<Rightarrow> io_fail (Unexpected other)))))"

section \<open>Successful runs\<close>

named_theorems io_inv \<open>inversion of successful input/output steps\<close>

lemma io_bind_Inr [io_inv]:
  "io_bind m f st = (Inr y, st') \<longleftrightarrow>
     (\<exists>x st1. m st = (Inr x, st1) \<and> f x st1 = (Inr y, st'))"
  by (auto simp: io_bind_def split: prod.splits sum.splits)

lemma io_check_Inr [io_inv]: "io_check b e st = (Inr x, st') \<longleftrightarrow> b \<and> st' = st"
  by (auto simp: io_check_def io_return_def io_fail_def)

lemma io_return_Inr [io_inv]: "io_return x st = (Inr y, st') \<longleftrightarrow> y = x \<and> st' = st"
  by (auto simp: io_return_def)

lemma io_fail_Inr [io_inv]: "io_fail e st \<noteq> (Inr y, st')"
  by (simp add: io_fail_def)

lemma io_wire_Inr [io_inv]: "io_wire m st = (Inr x, st') \<longleftrightarrow> m st = (Inr x, st')"
  by (auto simp: io_wire_def split: prod.splits sum.splits)

lemma verify_remote_identity_Inr [io_inv]:
  "verify_remote_identity C rid rkey st = (Inr x, st') \<longleftrightarrow>
     rkey \<noteq> zero_key \<and> cr_key_ok C rkey \<and> derive_node_id (cr_sha256 C) rkey = rid \<and> st' = st"
  by (auto simp: verify_remote_identity_def io_inv)

text \<open>One message kind is expected; everything else ends the handshake.\<close>

lemma expect_Hello [io_inv]:
  "(case m of None \<Rightarrow> io_fail e
      | Some (Hello h, raw) \<Rightarrow> f h raw
      | Some (other, _) \<Rightarrow> io_fail (Unexpected other)) st = (Inr y, st') \<longleftrightarrow>
     (\<exists>h raw. m = Some (Hello h, raw) \<and> f h raw st = (Inr y, st'))"
proof (cases m)
  case (Some p)
  then show ?thesis by (cases p; cases "fst p"; simp add: io_fail_def)
qed (simp add: io_fail_def)

lemma expect_HelloAck [io_inv]:
  "(case m of None \<Rightarrow> io_fail e
      | Some (HelloAck h) \<Rightarrow> f h
      | Some other \<Rightarrow> io_fail (Unexpected other)) st = (Inr y, st') \<longleftrightarrow>
     (\<exists>h. m = Some (HelloAck h) \<and> f h st = (Inr y, st'))"
proof (cases m)
  case (Some msg)
  then show ?thesis by (cases msg; simp add: io_fail_def)
qed (simp add: io_fail_def)

lemma expect_AuthProof [io_inv]:
  "(case m of None \<Rightarrow> io_fail e
      | Some (AuthProof signature) \<Rightarrow> f signature
      | Some other \<Rightarrow> io_fail (Unexpected other)) st = (Inr y, st') \<longleftrightarrow>
     (\<exists>signature. m = Some (AuthProof signature) \<and> f signature st = (Inr y, st'))"
proof (cases m)
  case (Some msg)
  then show ?thesis by (cases msg; simp add: io_fail_def)
qed (simp add: io_fail_def)

lemma expect_AuthChallenge [io_inv]:
  "(case m of None \<Rightarrow> io_fail e
      | Some (AuthChallenge nonce) \<Rightarrow> f nonce
      | Some other \<Rightarrow> io_fail (Unexpected other)) st = (Inr y, st') \<longleftrightarrow>
     (\<exists>nonce. m = Some (AuthChallenge nonce) \<and> f nonce st = (Inr y, st'))"
proof (cases m)
  case (Some msg)
  then show ?thesis by (cases msg; simp add: io_fail_def)
qed (simp add: io_fail_def)

text \<open>Reading consumes the coming frames from the front and never touches the past.\<close>

definition reads_suffix :: "stream \<Rightarrow> stream \<Rightarrow> bool" where
  "reads_suffix st st' = (\<exists>rs. st_reads st = rs @ st_reads st')"

lemma reads_suffix_refl [simp]: "reads_suffix st st"
  by (simp add: reads_suffix_def)

lemma reads_suffix_trans: "reads_suffix a b \<Longrightarrow> reads_suffix b c \<Longrightarrow> reads_suffix a c"
  by (force simp: reads_suffix_def)

lemma reads_suffix_frame: "reads_suffix a b \<Longrightarrow> f \<in> set (st_reads b) \<Longrightarrow> f \<in> set (st_reads a)"
  by (auto simp: reads_suffix_def)

lemma send_msg_suffix: "send_msg C m st = (r, st') \<Longrightarrow> reads_suffix st st'"
  by (auto simp: send_msg_def write_frame_def io_fail_def reads_suffix_def
      split: option.splits list.splits if_splits)

lemma send_raw_suffix: "send_raw d st = (r, st') \<Longrightarrow> reads_suffix st st'"
  by (auto simp: send_raw_def write_frame_def reads_suffix_def split: list.splits if_splits)

text \<open>A message was received when a frame of the stream carries it.\<close>

definition carries :: "'sk crypto \<Rightarrow> bytes \<Rightarrow> network_message \<Rightarrow> bool" where
  "carries C frame msg =
     (has_magic frame \<and> decode_network_message C (drop (length PROTOCOL_MAGIC) frame) = Inr msg)"

lemma recv_msg_Some:
  "recv_msg C st = (Inr (Some msg), st') \<Longrightarrow>
     (\<exists>frame. Frame frame \<in> set (st_reads st) \<and> carries C frame msg) \<and> reads_suffix st st'"
  by (fastforce simp: recv_msg_def carries_def reads_suffix_def Let_def
      split: list.splits read_result.splits if_splits sum.splits)

lemma recv_msg_with_raw_Some:
  "recv_msg_with_raw C st = (Inr (Some (msg, raw)), st') \<Longrightarrow>
     (\<exists>frame. Frame frame \<in> set (st_reads st) \<and> carries C frame msg
        \<and> raw = drop (length PROTOCOL_MAGIC) frame) \<and> reads_suffix st st'"
  by (fastforce simp: recv_msg_with_raw_def carries_def reads_suffix_def Let_def
      split: list.splits read_result.splits if_splits sum.splits)

lemma recv_raw_Some:
  "recv_raw st = (Inr (Some bs), st') \<Longrightarrow> Frame bs \<in> set (st_reads st) \<and> reads_suffix st st'"
  by (fastforce simp: recv_raw_def reads_suffix_def split: list.splits read_result.splits)

text \<open>
  What a verified proof of possession consists of: a frame of the stream with a signature
  over the payload that names the own fresh nonce, the role, and both identities.
\<close>

definition proof_received ::
    "'sk crypto \<Rightarrow> bytes option \<Rightarrow> bytes \<Rightarrow> node_id \<Rightarrow> bytes \<Rightarrow> node_id \<Rightarrow> bytes \<Rightarrow> stream \<Rightarrow> bool" where
  "proof_received C fresh role rid rkey lid lkey st =
     (\<exists>nonce frame signature. fresh = Some nonce \<and> Frame frame \<in> set (st_reads st)
        \<and> carries C frame (AuthProof signature)
        \<and> cr_verify C rkey (auth_payload role nonce rid rkey lid lkey) signature)"

lemma proof_received_earlier:
  "proof_received C fresh role rid rkey lid lkey st \<Longrightarrow> reads_suffix st0 st \<Longrightarrow>
     proof_received C fresh role rid rkey lid lkey st0"
  unfolding proof_received_def by (blast dest: reads_suffix_frame)

lemma challenge_verified:
  assumes "send_challenge_and_verify_proof C fresh role rid rkey lid lkey st = (Inr u, st')"
  shows "proof_received C fresh role rid rkey lid lkey st \<and> reads_suffix st st'"
proof -
  from assms obtain nonce st1 signature where fresh: "fresh = Some nonce"
    and send: "send_msg C (AuthChallenge nonce) st = (Inr (), st1)"
    and recv: "recv_msg C st1 = (Inr (Some (AuthProof signature)), st')"
    and ok: "cr_verify C rkey (auth_payload role nonce rid rkey lid lkey) signature"
    unfolding send_challenge_and_verify_proof_def
    by (auto simp: io_inv split: option.split_asm if_split_asm)
  obtain frame where "Frame frame \<in> set (st_reads st1)" "carries C frame (AuthProof signature)"
    and "reads_suffix st1 st'"
    using recv_msg_Some [OF recv] by auto
  then show ?thesis
    using send_msg_suffix [OF send] fresh ok
    by (auto simp: proof_received_def intro: reads_suffix_trans dest: reads_suffix_frame)
qed

lemma challenge_answered:
  assumes "receive_challenge_and_send_proof C role sk lid lkey rid rkey st = (Inr u, st')"
  shows "reads_suffix st st'"
proof -
  from assms obtain nonce st1 where recv: "recv_msg C st = (Inr (Some (AuthChallenge nonce)), st1)"
    and send: "send_msg C (AuthProof (cr_sign C sk (auth_payload role nonce lid lkey rid rkey))) st1
                 = (Inr u, st')"
    unfolding receive_challenge_and_send_proof_def
    by (auto simp: io_inv)
  then show ?thesis
    using recv_msg_Some [OF recv] send_msg_suffix [OF send] by (auto intro: reads_suffix_trans)
qed

text \<open>What either side knows of the peer it accepted.\<close>

definition identity_bound ::
    "'sk crypto \<Rightarrow> bytes option \<Rightarrow> bytes \<Rightarrow> node_id \<Rightarrow> bytes \<Rightarrow> stream \<Rightarrow> node_id \<times> string \<times> bytes \<Rightarrow> bool" where
  "identity_bound C fresh role lid lkey st peer =
     (case peer of (rid, rname, rkey) \<Rightarrow>
        valid_display_name rname \<and> rkey \<noteq> zero_key \<and> cr_key_ok C rkey
        \<and> rid = derive_node_id (cr_sha256 C) rkey
        \<and> proof_received C fresh role rid rkey lid lkey st)"

lemma server_identity_bound:
  assumes "server_handshake C fresh lid lname lkey sk st = (Inr peer, st')"
  shows "identity_bound C fresh CLIENT_PROOF_ROLE lid lkey st peer
    \<and> (\<exists>raw tag. Frame tag \<in> set (st_reads st) \<and> length tag = 32 \<and> tag = cr_hmac C raw
         \<and> Frame (PROTOCOL_MAGIC @ raw) \<in> set (st_reads st))"
proof -
  from assms obtain h raw tag st1 st2 st3 st4 where
    hello: "recv_msg_with_raw C st = (Inr (Some (Hello h, raw)), st1)"
    and ids: "valid_display_name (h_display_name h)" "h_public_key h \<noteq> zero_key"
      "cr_key_ok C (h_public_key h)" "derive_node_id (cr_sha256 C) (h_public_key h) = h_node_id h"
    and hmac: "recv_raw st1 = (Inr (Some tag), st2)" "length tag = 32" "cr_hmac C raw = tag"
    and ack: "send_msg C (HelloAck (hello_of lid lname PROTOCOL_VERSION lkey)) st2 = (Inr (), st3)"
    and proof_ok: "send_challenge_and_verify_proof C fresh CLIENT_PROOF_ROLE
       (h_node_id h) (h_public_key h) lid lkey st3 = (Inr (), st4)"
    and peer: "peer = (h_node_id h, h_display_name h, h_public_key h)"
    unfolding server_handshake_def
    by (auto simp: io_inv split: option.split_asm if_split_asm)
  obtain frame where frame: "Frame frame \<in> set (st_reads st)" "has_magic frame"
    "raw = drop (length PROTOCOL_MAGIC) frame" and s1: "reads_suffix st st1"
    using recv_msg_with_raw_Some [OF hello] by (auto simp: carries_def)
  then have "frame = PROTOCOL_MAGIC @ raw"
    by (metis append_take_drop_id has_magic_def)
  moreover have tag: "Frame tag \<in> set (st_reads st1)" and s2: "reads_suffix st1 st2"
    using recv_raw_Some [OF hmac(1)] by auto
  moreover have "reads_suffix st st3"
    using s1 s2 send_msg_suffix [OF ack] reads_suffix_trans by blast
  ultimately show ?thesis
    using challenge_verified [OF proof_ok] ids hmac peer frame s1
    by (auto simp: identity_bound_def dest: proof_received_earlier reads_suffix_frame)
qed

lemma client_identity_bound:
  assumes "client_handshake C fresh lid lname lkey sk st = (Inr peer, st')"
  shows "identity_bound C fresh SERVER_PROOF_ROLE lid lkey st peer"
proof -
  from assms obtain h hello_bytes st1 st2 st3 st4 where
    hello: "send_msg C (Hello (hello_of lid lname PROTOCOL_VERSION lkey)) st = (Inr (), st1)"
    and tag: "send_raw (cr_hmac C hello_bytes) st1 = (Inr (), st2)"
    and ack: "recv_msg C st2 = (Inr (Some (HelloAck h)), st3)"
    and ids: "valid_display_name (h_display_name h)" "h_public_key h \<noteq> zero_key"
      "cr_key_ok C (h_public_key h)" "derive_node_id (cr_sha256 C) (h_public_key h) = h_node_id h"
    and answered: "receive_challenge_and_send_proof C CLIENT_PROOF_ROLE sk lid lkey
       (h_node_id h) (h_public_key h) st3 = (Inr (), st4)"
    and proof_ok: "send_challenge_and_verify_proof C fresh SERVER_PROOF_ROLE
       (h_node_id h) (h_public_key h) lid lkey st4 = (Inr (), st')"
    and peer: "peer = (h_node_id h, h_display_name h, h_public_key h)"
    unfolding client_handshake_def
    by (auto simp: io_inv Let_def split: option.split_asm if_split_asm)
  have "reads_suffix st st4"
    using send_msg_suffix [OF hello] send_raw_suffix [OF tag] recv_msg_Some [OF ack]
      challenge_answered [OF answered] reads_suffix_trans by blast
  then show ?thesis
    using challenge_verified [OF proof_ok] ids peer
    by (auto simp: identity_bound_def dest: proof_received_earlier)
qed

section \<open>Signatures cannot be moved to another run\<close>

lemma uuid_byte:
  assumes "n < 16" and "k < 8"
  shows "bit (uuid_as_bytes nid ! (15 - n)) k = bit nid (8 * n + k)"
proof -
  have "[0..<16] ! (15 - n) = 15 - n"
    using assms(1) by (subst nth_upt) auto
  then show ?thesis
    using assms by (simp add: uuid_as_bytes_def bit_simps add.commute)
qed

lemma uuid_as_bytes_inj: "uuid_as_bytes a = uuid_as_bytes b \<longleftrightarrow> a = b"
proof
  assume same: "uuid_as_bytes a = uuid_as_bytes b"
  have "bit a i = bit b i" if "i < 128" for i
    using uuid_byte [of "i div 8" "i mod 8" a] uuid_byte [of "i div 8" "i mod 8" b] that same
    by simp
  then show "a = b" by (intro bit_word_eqI) simp
qed simp

lemma length_uuid_as_bytes [simp]: "length (uuid_as_bytes nid) = 16"
  by (simp add: uuid_as_bytes_def)

lemma auth_payload_inj:
  assumes "auth_payload role n sid skey vid vkey = auth_payload role' n' sid' skey' vid' vkey'"
    and "length role = length role'" and "length n = length n'" and "length skey = length skey'"
  shows "role = role' \<and> n = n' \<and> sid = sid' \<and> skey = skey' \<and> vid = vid' \<and> vkey = vkey'"
  using assms by (simp add: auth_payload_def uuid_as_bytes_inj)

lemma roles [simp]: "length CLIENT_PROOF_ROLE = 6" "length SERVER_PROOF_ROLE = 6"
    "CLIENT_PROOF_ROLE \<noteq> SERVER_PROOF_ROLE"
  by (simp_all add: CLIENT_PROOF_ROLE_def SERVER_PROOF_ROLE_def)

text \<open>
  The signatures a key holder makes are those of this protocol: \<open>made\<close> is the set of the
  (role, nonce, own id, own key, peer id, peer key) it has signed. Unforgeability of
  Ed25519 says that nothing else verifies under its key.
\<close>

type_synonym proof_statement = "bytes \<times> bytes \<times> node_id \<times> bytes \<times> node_id \<times> bytes"

definition unforgeable :: "'sk crypto \<Rightarrow> bytes \<Rightarrow> proof_statement set \<Rightarrow> bool" where
  "unforgeable C key made =
     (\<forall>m s. cr_verify C key m s \<longrightarrow>
        (\<exists>(role, n, sid, skey, vid, vkey) \<in> made. length role = 6 \<and> length n = 32
           \<and> length skey = 32 \<and> m = auth_payload role n sid skey vid vkey))"

lemma proof_received_signed:
  assumes "proof_received C (Some nonce) role rid rkey lid lkey st" and "unforgeable C rkey made"
    and "length role = 6" and "length nonce = 32" and "length rkey = 32"
  shows "(role, nonce, rid, rkey, lid, lkey) \<in> made"
proof -
  obtain signature where
    "cr_verify C rkey (auth_payload role nonce rid rkey lid lkey) signature"
    using assms(1) by (auto simp: proof_received_def)
  then obtain role' n sid skey vid vkey where "(role', n, sid, skey, vid, vkey) \<in> made"
    "length role' = 6" "length n = 32" "length skey = 32"
    "auth_payload role nonce rid rkey lid lkey = auth_payload role' n sid skey vid vkey"
    using assms(2) unfolding unforgeable_def by blast
  then show ?thesis
    using auth_payload_inj [of role nonce rid rkey lid lkey role' n sid skey vid vkey] assms(3-5)
    by simp
qed

section \<open>Two honest nodes complete the handshake\<close>

text \<open>The frames that an honest client and an honest server write.\<close>

definition frame_of :: "'sk crypto \<Rightarrow> network_message \<Rightarrow> bytes" where
  "frame_of C msg = PROTOCOL_MAGIC @ the (cr_encode C msg)"

definition client_frames ::
    "'sk crypto \<Rightarrow> node_id \<Rightarrow> string \<Rightarrow> bytes \<Rightarrow> 'sk \<Rightarrow> bytes \<Rightarrow> node_id \<Rightarrow> bytes \<Rightarrow> bytes \<Rightarrow> bytes list" where
  "client_frames C cid cname ckey csk cnonce sid skey snonce =
     (let hello = Hello (hello_of cid cname PROTOCOL_VERSION ckey) in
      [frame_of C hello, cr_hmac C (the (cr_encode C hello)),
       frame_of C (AuthProof (cr_sign C csk (auth_payload CLIENT_PROOF_ROLE snonce cid ckey sid skey))),
       frame_of C (AuthChallenge cnonce)])"

definition server_frames ::
    "'sk crypto \<Rightarrow> node_id \<Rightarrow> string \<Rightarrow> bytes \<Rightarrow> 'sk \<Rightarrow> bytes \<Rightarrow> node_id \<Rightarrow> bytes \<Rightarrow> bytes \<Rightarrow> bytes list" where
  "server_frames C sid sname skey ssk snonce cid ckey cnonce =
     [frame_of C (HelloAck (hello_of sid sname PROTOCOL_VERSION skey)),
      frame_of C (AuthChallenge snonce),
      frame_of C (AuthProof (cr_sign C ssk (auth_payload SERVER_PROOF_ROLE cnonce sid skey cid ckey)))]"

definition transmits :: "'sk crypto \<Rightarrow> network_message \<Rightarrow> bool" where
  "transmits C msg =
     (\<exists>b. cr_encode C msg = Some b \<and> cr_decode C b = Some (msg, length b))"

text \<open>A node whose identity is consistent and whose signature of a payload verifies.\<close>

definition honest :: "'sk crypto \<Rightarrow> node_id \<Rightarrow> string \<Rightarrow> bytes \<Rightarrow> 'sk \<Rightarrow> bytes \<Rightarrow> bool" where
  "honest C nid name key sk payload =
     (valid_display_name name \<and> key \<noteq> zero_key \<and> cr_key_ok C key
      \<and> derive_node_id (cr_sha256 C) key = nid
      \<and> cr_signature_ok C (cr_sign C sk payload) \<and> cr_verify C key payload (cr_sign C sk payload))"

lemma hello_of_sel [simp]:
  "h_node_id (hello_of nid name version key) = nid"
  "h_display_name (hello_of nid name version key) = name"
  "h_protocol_version (hello_of nid name version key) = version"
  "h_app_id (hello_of nid name version key) = APP_ID"
  "h_public_key (hello_of nid name version key) = key"
  by (simp_all add: hello_of_def)

lemma send_transmits:
  "transmits C msg \<Longrightarrow> send_msg C msg \<lparr>st_reads = rs, st_written = ws, st_write_ok = []\<rparr> =
     (Inr (), \<lparr>st_reads = rs, st_written = ws @ [frame_of C msg], st_write_ok = []\<rparr>)"
  by (auto simp: transmits_def send_msg_def write_frame_def frame_of_def)

lemma decode_transmits: "transmits C msg \<Longrightarrow>
    decode_network_message C (drop (length PROTOCOL_MAGIC) (frame_of C msg)) = Inr msg
    \<and> has_magic (frame_of C msg) \<and> cr_encode C msg = Some (drop (length PROTOCOL_MAGIC) (frame_of C msg))"
  by (auto simp: transmits_def decode_network_message_def frame_of_def has_magic_def)

lemma recv_transmits:
  "transmits C msg \<Longrightarrow> recv_msg C \<lparr>st_reads = Frame (frame_of C msg) # rs, st_written = ws, st_write_ok = []\<rparr> =
     (Inr (Some msg), \<lparr>st_reads = rs, st_written = ws, st_write_ok = []\<rparr>)"
  using decode_transmits [of C msg] by (simp add: recv_msg_def Let_def)

lemma recv_raw_transmits:
  "transmits C msg \<Longrightarrow>
     recv_msg_with_raw C \<lparr>st_reads = Frame (frame_of C msg) # rs, st_written = ws, st_write_ok = []\<rparr> =
     (Inr (Some (msg, the (cr_encode C msg))), \<lparr>st_reads = rs, st_written = ws, st_write_ok = []\<rparr>)"
  using decode_transmits [of C msg] by (simp add: recv_msg_with_raw_def Let_def)

lemmas io_run = io_bind_def io_wire_def io_check_def io_return_def send_raw_def recv_raw_def write_frame_def
  verify_remote_identity_def send_challenge_and_verify_proof_def receive_challenge_and_send_proof_def
  send_transmits recv_transmits recv_raw_transmits

lemma client_run:
  assumes "honest C cid cname ckey csk (auth_payload CLIENT_PROOF_ROLE snonce cid ckey sid skey)"
    and "honest C sid sname skey ssk (auth_payload SERVER_PROOF_ROLE cnonce sid skey cid ckey)"
    and "\<forall>msg \<in> {Hello (hello_of cid cname PROTOCOL_VERSION ckey),
        HelloAck (hello_of sid sname PROTOCOL_VERSION skey), AuthChallenge snonce, AuthChallenge cnonce,
        AuthProof (cr_sign C csk (auth_payload CLIENT_PROOF_ROLE snonce cid ckey sid skey)),
        AuthProof (cr_sign C ssk (auth_payload SERVER_PROOF_ROLE cnonce sid skey cid ckey))}. transmits C msg"
  shows "client_handshake C (Some cnonce) cid cname ckey csk
      \<lparr>st_reads = map Frame (server_frames C sid sname skey ssk snonce cid ckey cnonce),
       st_written = [], st_write_ok = []\<rparr> =
    (Inr (sid, sname, skey),
      \<lparr>st_reads = [], st_written = client_frames C cid cname ckey csk cnonce sid skey snonce,
       st_write_ok = []\<rparr>)"
proof -
  obtain b where "cr_encode C (Hello (hello_of cid cname PROTOCOL_VERSION ckey)) = Some b"
    using assms(3) by (auto simp: transmits_def)
  then show ?thesis
    using assms
    by (simp add: client_handshake_def io_run honest_def server_frames_def client_frames_def Let_def)
qed

lemma server_run:
  assumes "honest C cid cname ckey csk (auth_payload CLIENT_PROOF_ROLE snonce cid ckey sid skey)"
    and "honest C sid sname skey ssk (auth_payload SERVER_PROOF_ROLE cnonce sid skey cid ckey)"
    and "\<forall>m. length (cr_hmac C m) = 32"
    and "\<forall>msg \<in> {Hello (hello_of cid cname PROTOCOL_VERSION ckey),
        HelloAck (hello_of sid sname PROTOCOL_VERSION skey), AuthChallenge snonce, AuthChallenge cnonce,
        AuthProof (cr_sign C csk (auth_payload CLIENT_PROOF_ROLE snonce cid ckey sid skey)),
        AuthProof (cr_sign C ssk (auth_payload SERVER_PROOF_ROLE cnonce sid skey cid ckey))}. transmits C msg"
  shows "server_handshake C (Some snonce) sid sname skey ssk
      \<lparr>st_reads = map Frame (client_frames C cid cname ckey csk cnonce sid skey snonce),
       st_written = [], st_write_ok = []\<rparr> =
    (Inr (cid, cname, ckey),
      \<lparr>st_reads = [], st_written = server_frames C sid sname skey ssk snonce cid ckey cnonce,
       st_write_ok = []\<rparr>)"
  using assms
  by (simp add: server_handshake_def io_run honest_def server_frames_def client_frames_def Let_def)

text \<open>Two nodes over a small table of messages, with the identity as hash function.\<close>

definition demo_ckey :: bytes where "demo_ckey = replicate 32 1"
definition demo_skey :: bytes where "demo_skey = replicate 32 2"
definition demo_nonce :: "u8 \<Rightarrow> bytes" where "demo_nonce b = replicate 32 b"
definition demo_cid :: node_id where "demo_cid = derive_node_id (\<lambda>k. k) demo_ckey"
definition demo_sid :: node_id where "demo_sid = derive_node_id (\<lambda>k. k) demo_skey"

definition demo_cproof :: bytes where
  "demo_cproof = auth_payload CLIENT_PROOF_ROLE (demo_nonce 8) demo_cid demo_ckey demo_sid demo_skey"
definition demo_sproof :: bytes where
  "demo_sproof = auth_payload SERVER_PROOF_ROLE (demo_nonce 7) demo_sid demo_skey demo_cid demo_ckey"

definition demo_crypto :: "u8 crypto" where
  "demo_crypto =
     \<lparr>cr_encode = (\<lambda>msg. case msg of Hello _ \<Rightarrow> Some [0] | HelloAck _ \<Rightarrow> Some [1]
         | AuthChallenge n \<Rightarrow> Some (2 # n) | AuthProof s \<Rightarrow> Some (3 # s) | _ \<Rightarrow> None),
      cr_decode = (\<lambda>bs. case bs of [] \<Rightarrow> None
         | b # rest \<Rightarrow>
             if b = 0 then Some (Hello (hello_of demo_cid ''Ann'' PROTOCOL_VERSION demo_ckey), 1)
             else if b = 1 then Some (HelloAck (hello_of demo_sid ''Bob'' PROTOCOL_VERSION demo_skey), 1)
             else if b = 2 then Some (AuthChallenge rest, length bs)
             else Some (AuthProof rest, length bs)),
      cr_hmac = (\<lambda>_. replicate 32 9), cr_sha256 = (\<lambda>k. k), cr_key_ok = (\<lambda>_. True),
      cr_signature_ok = (\<lambda>_. True),
      cr_verify = (\<lambda>key m s. key = demo_ckey \<and> m = demo_cproof \<and> s = [1]
         \<or> key = demo_skey \<and> m = demo_sproof \<and> s = [2]),
      cr_sign = (\<lambda>sk m. [sk])\<rparr>"

lemma demo_honest:
  "honest demo_crypto demo_cid ''Ann'' demo_ckey 1 demo_cproof"
  "honest demo_crypto demo_sid ''Bob'' demo_skey 2 demo_sproof"
proof -
  have "valid_display_name ''Ann''" "valid_display_name ''Bob''" "demo_ckey \<noteq> zero_key" "demo_skey \<noteq> zero_key"
    by code_simp+
  then show "honest demo_crypto demo_cid ''Ann'' demo_ckey 1 demo_cproof"
    "honest demo_crypto demo_sid ''Bob'' demo_skey 2 demo_sproof"
    by (simp_all add: honest_def demo_crypto_def demo_cid_def demo_sid_def)
qed

lemma demo_transmits:
  "\<forall>msg \<in> {Hello (hello_of demo_cid ''Ann'' PROTOCOL_VERSION demo_ckey),
      HelloAck (hello_of demo_sid ''Bob'' PROTOCOL_VERSION demo_skey),
      AuthChallenge (demo_nonce 8), AuthChallenge (demo_nonce 7),
      AuthProof (cr_sign demo_crypto 1 demo_cproof), AuthProof (cr_sign demo_crypto 2 demo_sproof)}.
     transmits demo_crypto msg"
  by (simp add: transmits_def demo_crypto_def)

lemma demo_hmac: "\<forall>m. length (cr_hmac demo_crypto m) = 32"
  by (simp add: demo_crypto_def)

lemmas demo_run = demo_honest [unfolded demo_cproof_def demo_sproof_def] demo_hmac
  demo_transmits [unfolded demo_cproof_def demo_sproof_def]

section \<open>Properties\<close>

text \<open>
  C10: a completed handshake authenticates the peer. On either side, the accepted node id
  is derived from the accepted public key, which is a valid non-zero key, the name is
  valid, and, if signatures under that key cannot be forged, the holder of the key has
  signed a proof for this very run: with the other side's role, the nonce drawn for this
  connection, and this node's own id and key as the verifier. So neither a replayed proof,
  nor one made for another node, nor one reflected from the opposite role is accepted.
\<close>

theorem handshake_authenticates:
  assumes "(side = CLIENT_PROOF_ROLE
            \<and> server_handshake C (Some nonce) lid lname lkey sk st = (Inr (rid, rname, rkey), st'))
         \<or> (side = SERVER_PROOF_ROLE
            \<and> client_handshake C (Some nonce) lid lname lkey sk st = (Inr (rid, rname, rkey), st'))"
    and "unforgeable C rkey made" and "length nonce = 32" and "length rkey = 32"
  shows "rid = derive_node_id (cr_sha256 C) rkey \<and> rkey \<noteq> zero_key \<and> cr_key_ok C rkey
    \<and> valid_display_name rname \<and> (side, nonce, rid, rkey, lid, lkey) \<in> made"
proof -
  have "identity_bound C (Some nonce) side lid lkey st (rid, rname, rkey) \<and> length side = 6"
    using assms(1) server_identity_bound client_identity_bound by fastforce
  then show ?thesis
    using proof_received_signed assms(2-4) by (auto simp: identity_bound_def)
qed

theorem handshake_authenticates_witness:
  "\<exists>st st'. server_handshake demo_crypto (Some (demo_nonce 8)) demo_sid ''Bob'' demo_skey 2 st
        = (Inr (demo_cid, ''Ann'', demo_ckey), st')
     \<and> (CLIENT_PROOF_ROLE, demo_nonce 8, demo_cid, demo_ckey, demo_sid, demo_skey)
         \<in> {(CLIENT_PROOF_ROLE, demo_nonce 8, demo_cid, demo_ckey, demo_sid, demo_skey)}"
proof -
  have "unforgeable demo_crypto demo_ckey
      {(CLIENT_PROOF_ROLE, demo_nonce 8, demo_cid, demo_ckey, demo_sid, demo_skey)}"
    by (auto simp: unforgeable_def demo_crypto_def demo_cproof_def demo_ckey_def demo_skey_def demo_nonce_def)
  moreover have "length (demo_nonce 8) = 32" "length demo_ckey = 32"
    by (simp_all add: demo_nonce_def demo_ckey_def)
  ultimately show ?thesis
    using handshake_authenticates [OF disjI1 [OF conjI [OF refl server_run [OF demo_run]]]]
      server_run [OF demo_run] by blast
qed

text \<open>
  C31: two honest nodes complete the handshake. If the six messages of the exchange survive
  encoding and decoding and signatures verify, the client that reads what the server writes
  accepts the server's identity, the server that reads what the client writes accepts the
  client's, and each writes exactly the frames that the other one reads.
\<close>

theorem handshake_completes:
  assumes "honest C cid cname ckey csk (auth_payload CLIENT_PROOF_ROLE snonce cid ckey sid skey)"
    and "honest C sid sname skey ssk (auth_payload SERVER_PROOF_ROLE cnonce sid skey cid ckey)"
    and "\<forall>m. length (cr_hmac C m) = 32"
    and "\<forall>msg \<in> {Hello (hello_of cid cname PROTOCOL_VERSION ckey),
        HelloAck (hello_of sid sname PROTOCOL_VERSION skey), AuthChallenge snonce, AuthChallenge cnonce,
        AuthProof (cr_sign C csk (auth_payload CLIENT_PROOF_ROLE snonce cid ckey sid skey)),
        AuthProof (cr_sign C ssk (auth_payload SERVER_PROOF_ROLE cnonce sid skey cid ckey))}. transmits C msg"
  shows "\<exists>to_server to_client.
     client_handshake C (Some cnonce) cid cname ckey csk
       \<lparr>st_reads = map Frame to_client, st_written = [], st_write_ok = []\<rparr> =
       (Inr (sid, sname, skey), \<lparr>st_reads = [], st_written = to_server, st_write_ok = []\<rparr>)
   \<and> server_handshake C (Some snonce) sid sname skey ssk
       \<lparr>st_reads = map Frame to_server, st_written = [], st_write_ok = []\<rparr> =
       (Inr (cid, cname, ckey), \<lparr>st_reads = [], st_written = to_client, st_write_ok = []\<rparr>)"
  using client_run [OF assms(1,2,4)] server_run [OF assms] by blast

theorem handshake_completes_witness:
  "\<exists>to_server to_client.
     fst (client_handshake demo_crypto (Some (demo_nonce 7)) demo_cid ''Ann'' demo_ckey 1
       \<lparr>st_reads = map Frame to_client, st_written = [], st_write_ok = []\<rparr>) = Inr (demo_sid, ''Bob'', demo_skey)
   \<and> fst (server_handshake demo_crypto (Some (demo_nonce 8)) demo_sid ''Bob'' demo_skey 2
       \<lparr>st_reads = map Frame to_server, st_written = [], st_write_ok = []\<rparr>) = Inr (demo_cid, ''Ann'', demo_ckey)"
  using handshake_completes [OF demo_run] by (metis fst_conv)

end
