(* ===== verification/Session.thy ===== *)
theory Session
  imports Handshake
begin

text \<open>
  One TCP session, \<open>src/net/session.rs\<close>: how an accepted and a dialed connection reach the
  relay loop, and the loop itself with its heartbeat and pong-tracker tasks.

  A timeout is an argument that says whether it elapsed. \<open>run_session_loop\<close> is the
  registration with the runtime (\<open>session_enter\<close>) followed by the relay: the tasks of a
  session share \<open>session_loop\<close>, and every arm of the \<open>select!\<close> and every tick of the two
  interval tasks is one event of \<open>session_step\<close>, in any order. The end of the loop sends the
  unregistration. Commands to the runtime are recorded in the order they are sent.
\<close>

section \<open>Commands to the runtime\<close>

text \<open>
  \<open>sr_task\<close> names the session's task: the owner of the outgoing queue, of the cancellation
  flag and of the receiving end of the registration decision.
\<close>

record session_register =
  sr_session_id :: session_id
  sr_node_id :: node_id
  sr_task :: nat
  sr_info :: peer_info
  sr_direction :: connection_direction

datatype network_command =
    RegisterSession session_register
  | UnregisterSession node_id session_id
  | IncomingMessage node_id network_message
  | ConnectToPeer outbound_connect_request
  | UpdateLatency u32
  | Scan

definition SESSION_OUTGOING_CAPACITY :: nat where "SESSION_OUTGOING_CAPACITY = 256"
definition MAX_FRAME_LENGTH :: nat where "MAX_FRAME_LENGTH = 4 * 1024"

definition session_outgoing_channel :: "network_message chan" where
  "session_outgoing_channel = chan_new SESSION_OUTGOING_CAPACITY"

section \<open>Reaching the relay loop\<close>

datatype session_error =
    HandshakeError handshake_error
  | HandshakeTimeout
  | IdentityMismatch node_id node_id
  | FingerprintMismatch string string
  | SubscribeError wire_error
  | SubscribeTimeout

definition validate_expected_peer ::
    "(bytes \<Rightarrow> bytes) \<Rightarrow> node_id \<Rightarrow> bytes \<Rightarrow> expected_peer_identity option \<Rightarrow> session_error + unit" where
  "validate_expected_peer sha256 remote_node_id remote_public_key expected_peer =
     (case expected_peer of
        None \<Rightarrow> Inr ()
      | Some expected \<Rightarrow>
          if remote_node_id \<noteq> ex_node_id expected
          then Inl (IdentityMismatch (ex_node_id expected) remote_node_id)
          else
            case ex_public_key_fingerprint expected of
              Some expected_fingerprint \<Rightarrow>
                (let actual = public_key_fingerprint sha256 remote_public_key
                 in if actual \<noteq> expected_fingerprint
                    then Inl (FingerprintMismatch expected_fingerprint actual) else Inr ())
            | None \<Rightarrow> Inr ())"

text \<open>The node's own identity and the values it draws for one connection.\<close>

record 'sk local_node =
  ln_id :: node_id
  ln_name :: string
  ln_pubkey :: bytes
  ln_signing_key :: 'sk

record session_env =
  se_nonce :: "bytes option"
  se_now :: instant
  se_handshake_elapsed :: bool
  se_subscribe_elapsed :: bool

text \<open>\<open>None\<close>: the connection is dropped. Otherwise the arguments of \<open>run_session_loop\<close>.\<close>

definition run_accepted_session ::
    "'sk crypto \<Rightarrow> session_env \<Rightarrow> 'sk local_node \<Rightarrow> socket_addr \<Rightarrow> stream \<Rightarrow>
     (node_id \<times> peer_info \<times> connection_direction) option \<times> stream" where
  "run_accepted_session C E L peer_addr st =
     (if se_handshake_elapsed E then (None, st)
      else
        case server_handshake C (se_nonce E) (ln_id L) (ln_name L) (ln_pubkey L) (ln_signing_key L) st of
          (Inl _, st) \<Rightarrow> (None, st)
        | (Inr (remote_node_id, remote_display_name, remote_pubkey), st) \<Rightarrow>
            if se_subscribe_elapsed E then (None, st)
            else
              case recv_msg C st of
                (Inr (Some Subscribe), st) \<Rightarrow>
                  (Some (remote_node_id,
                     \<lparr>pi_node_id = remote_node_id, pi_display_name = remote_display_name,
                      pi_service_endpoint = None, pi_session_peer_addr = Some peer_addr,
                      pi_last_seen = se_now E, pi_public_key = remote_pubkey,
                      pi_public_key_fingerprint = None\<rparr>,
                     Inbound), st)
              | (Inr _, st) \<Rightarrow> (None, st)
              | (Inl _, st) \<Rightarrow> (None, st))"

definition run_connecting_session ::
    "'sk crypto \<Rightarrow> session_env \<Rightarrow> 'sk local_node \<Rightarrow> socket_addr \<Rightarrow> expected_peer_identity option \<Rightarrow>
     stream \<Rightarrow> (session_error + node_id \<times> peer_info \<times> connection_direction) \<times> stream" where
  "run_connecting_session C E L peer_addr expected_peer st =
     (if se_handshake_elapsed E then (Inl HandshakeTimeout, st)
      else
        case client_handshake C (se_nonce E) (ln_id L) (ln_name L) (ln_pubkey L) (ln_signing_key L) st of
          (Inl e, st) \<Rightarrow> (Inl (HandshakeError e), st)
        | (Inr (remote_node_id, remote_display_name, remote_pubkey), st) \<Rightarrow>
            case validate_expected_peer (cr_sha256 C) remote_node_id remote_pubkey expected_peer of
              Inl e \<Rightarrow> (Inl e, st)
            | Inr _ \<Rightarrow>
                if se_subscribe_elapsed E then (Inl SubscribeTimeout, st)
                else
                  case send_msg C Subscribe st of
                    (Inl e, st) \<Rightarrow> (Inl (SubscribeError e), st)
                  | (Inr _, st) \<Rightarrow>
                      (Inr (remote_node_id,
                         \<lparr>pi_node_id = remote_node_id, pi_display_name = remote_display_name,
                          pi_service_endpoint = Some peer_addr, pi_session_peer_addr = Some peer_addr,
                          pi_last_seen = se_now E, pi_public_key = remote_pubkey,
                          pi_public_key_fingerprint = None\<rparr>,
                         Outbound), st))"

section \<open>The relay loop\<close>

record session_loop =
  sl_session_id :: session_id
  sl_remote_id :: node_id
  sl_stream :: stream
  sl_outgoing :: "network_message chan"
  sl_commands :: "network_command list"
  sl_last_pong :: u64
  sl_last_ping_sent :: u64
  sl_heartbeat_running :: bool
  sl_cancel_channel_open :: bool
  sl_ended :: "bool option"
  sl_unregistered :: "bool option"

text \<open>
  The prologue of \<open>run_session_loop\<close>. \<open>sent\<close>: the registration reached the runtime in time;
  \<open>decision\<close>: its answer, \<open>None\<close> if the answer did not come. The result is the registration
  command that was sent and, when the session was accepted, the loop.
\<close>

definition session_enter ::
    "bool \<Rightarrow> bool option \<Rightarrow> session_id \<Rightarrow> nat \<Rightarrow> stream \<Rightarrow> node_id \<Rightarrow> peer_info \<Rightarrow> connection_direction \<Rightarrow>
     network_command option \<times> session_loop option" where
  "session_enter sent decision session_id task st remote_id info direction =
     (if \<not> sent then (None, None)
      else
        let register =
              RegisterSession
                \<lparr>sr_session_id = session_id, sr_node_id = remote_id, sr_task = task, sr_info = info,
                 sr_direction = direction\<rparr>
        in (Some register,
            if decision \<noteq> Some True then None
            else Some
              \<lparr>sl_session_id = session_id, sl_remote_id = remote_id, sl_stream = st,
               sl_outgoing = session_outgoing_channel, sl_commands = [register], sl_last_pong = 0,
               sl_last_ping_sent = 0, sl_heartbeat_running = True, sl_cancel_channel_open = True,
               sl_ended = None, sl_unregistered = None\<rparr>))"

text \<open>
  \<open>now_ms\<close> is the Unix time in milliseconds. The conversion of the round trip to 32 bits
  truncates.
\<close>

definition send_command :: "network_command \<Rightarrow> session_loop \<Rightarrow> session_loop" where
  "send_command cmd s = s\<lparr>sl_commands := sl_commands s @ [cmd]\<rparr>"

definition handle_incoming_message :: "u64 \<Rightarrow> network_message \<Rightarrow> session_loop \<Rightarrow> bool \<times> session_loop" where
  "handle_incoming_message now_ms msg s =
     (if is_local_only msg then (False, s)
      else if (case msg of PeerNameUpdate display_name \<Rightarrow> \<not> valid_display_name display_name | _ \<Rightarrow> False)
      then (False, s)
      else
        case msg of
          Ping \<Rightarrow>
            (case try_send Pong (sl_outgoing s) of
               Inl _ \<Rightarrow> (False, s)
             | Inr c \<Rightarrow> (True, s\<lparr>sl_outgoing := c\<rparr>))
        | Pong \<Rightarrow>
            (let s = s\<lparr>sl_last_pong := 0\<rparr>;
                 ping_sent = sl_last_ping_sent s
             in if 0 < ping_sent
                then let rtt = ucast (u64_saturating_sub now_ms ping_sent) :: u32
                     in (True, send_command (UpdateLatency rtt) s)
                else (True, s))
        | Hello _ \<Rightarrow> (True, s)
        | HelloAck _ \<Rightarrow> (True, s)
        | _ \<Rightarrow> (True, send_command (IncomingMessage (sl_remote_id s) msg) s))"

datatype session_event =
    TcpRead u64
  | OutgoingReady
  | HeartbeatDone
  | CancelChanged "bool option"
  | HeartbeatTick u64
  | TrackerTick
  | RouterSend network_message
  | Unregistration bool

text \<open>
  Leaving the loop stops the helper tasks. The unregistration is sent after that, and given up
  if the runtime does not take it within \<open>REGISTRATION_TIMEOUT\<close>: \<open>sent\<close> says which.
\<close>

definition end_session :: "bool \<Rightarrow> session_loop \<Rightarrow> session_loop" where
  "end_session relay_error s = s\<lparr>sl_ended := Some relay_error, sl_heartbeat_running := False\<rparr>"

definition unregistration :: "bool \<Rightarrow> session_loop \<Rightarrow> session_loop" where
  "unregistration sent s =
     (let s' = s\<lparr>sl_unregistered := Some sent\<rparr>
      in if sent then send_command (UnregisterSession (sl_remote_id s) (sl_session_id s)) s' else s')"

definition tcp_read :: "'sk crypto \<Rightarrow> u64 \<Rightarrow> session_loop \<Rightarrow> session_loop" where
  "tcp_read C now_ms s =
     (case st_reads (sl_stream s) of
        [] \<Rightarrow> end_session False s
      | r # rs \<Rightarrow>
          let s = s\<lparr>sl_stream := (sl_stream s)\<lparr>st_reads := rs\<rparr>\<rparr>
          in case r of
               ReadError \<Rightarrow> end_session True s
             | Frame bytes \<Rightarrow>
                 if length bytes < length PROTOCOL_MAGIC
                    \<or> take (length PROTOCOL_MAGIC) bytes \<noteq> PROTOCOL_MAGIC
                 then end_session True s
                 else
                   case decode_network_message C (drop (length PROTOCOL_MAGIC) bytes) of
                     Inl _ \<Rightarrow> end_session True s
                   | Inr msg \<Rightarrow>
                       (case handle_incoming_message now_ms msg s of
                          (True, s) \<Rightarrow> s
                        | (False, s) \<Rightarrow> end_session True s))"

definition outgoing_ready :: "'sk crypto \<Rightarrow> session_loop \<Rightarrow> session_loop" where
  "outgoing_ready C s =
     (case ch_buf (sl_outgoing s) of
        [] \<Rightarrow> s
      | msg # rest \<Rightarrow>
          let s = s\<lparr>sl_outgoing := (sl_outgoing s)\<lparr>ch_buf := rest\<rparr>\<rparr>
          in case send_msg C msg (sl_stream s) of
               (Inl _, st) \<Rightarrow> end_session True (s\<lparr>sl_stream := st\<rparr>)
             | (Inr _, st) \<Rightarrow> s\<lparr>sl_stream := st\<rparr>)"

text \<open>One tick of the heartbeat task; leaving its loop signals \<open>heartbeat_done\<close>.\<close>

definition heartbeat_tick :: "u64 \<Rightarrow> session_loop \<Rightarrow> session_loop" where
  "heartbeat_tick send_time s =
     (if \<not> sl_heartbeat_running s then s
      else
        let elapsed = sl_last_pong s
        in if uint elapsed > HEARTBEAT_TIMEOUT_SECS then s\<lparr>sl_heartbeat_running := False\<rparr>
           else
             let s = s\<lparr>sl_last_ping_sent := send_time\<rparr>
             in case try_send Ping (sl_outgoing s) of
                  Inl _ \<Rightarrow> s\<lparr>sl_heartbeat_running := False\<rparr>
                | Inr c \<Rightarrow> s\<lparr>sl_outgoing := c\<rparr>)"

definition tracker_tick :: "session_loop \<Rightarrow> session_loop" where
  "tracker_tick s = s\<lparr>sl_last_pong := sl_last_pong s + 1\<rparr>"

definition cancel_changed :: "bool option \<Rightarrow> session_loop \<Rightarrow> session_loop" where
  "cancel_changed changed s =
     (if \<not> sl_cancel_channel_open s then s
      else
        case changed of
          Some True \<Rightarrow> end_session False s
        | Some False \<Rightarrow> s
        | None \<Rightarrow> s\<lparr>sl_cancel_channel_open := False\<rparr>)"

text \<open>
  \<open>RouterSend\<close> is the runtime's \<open>try_send\<close> into the session's queue. After the end of the
  session only the unregistration happens, once.
\<close>

definition session_step :: "'sk crypto \<Rightarrow> session_loop \<Rightarrow> session_event \<Rightarrow> session_loop option" where
  "session_step C s ev =
     Some (if sl_ended s \<noteq> None
           then (case ev of
                   Unregistration sent \<Rightarrow> if sl_unregistered s = None then unregistration sent s else s
                 | _ \<Rightarrow> s)
           else
             case ev of
               TcpRead now_ms \<Rightarrow> tcp_read C now_ms s
             | OutgoingReady \<Rightarrow> outgoing_ready C s
             | HeartbeatDone \<Rightarrow> if sl_heartbeat_running s then s else end_session True s
             | CancelChanged changed \<Rightarrow> cancel_changed changed s
             | HeartbeatTick send_time \<Rightarrow> heartbeat_tick send_time s
             | TrackerTick \<Rightarrow> tracker_tick s
             | RouterSend msg \<Rightarrow>
                 (case try_send msg (sl_outgoing s) of
                    Inl _ \<Rightarrow> s
                  | Inr c \<Rightarrow> s\<lparr>sl_outgoing := c\<rparr>)
             | Unregistration sent \<Rightarrow> s)"

section \<open>The relay forwards the peer's messages, in order\<close>

text \<open>What the relay passes on to the runtime, out of what it reads.\<close>

definition forwardable :: "network_message \<Rightarrow> bool" where
  "forwardable msg =
     (case msg of
        Ping \<Rightarrow> False | Pong \<Rightarrow> False | Hello _ \<Rightarrow> False | HelloAck _ \<Rightarrow> False
      | ConnectionFailed _ _ _ \<Rightarrow> False
      | PeerNameUpdate name \<Rightarrow> valid_display_name name
      | _ \<Rightarrow> True)"

definition forwarded_of :: "'sk crypto \<Rightarrow> read_result \<Rightarrow> network_message list" where
  "forwarded_of C r =
     (case r of
        ReadError \<Rightarrow> []
      | Frame bytes \<Rightarrow>
          if has_magic bytes
          then case decode_network_message C (drop (length PROTOCOL_MAGIC) bytes) of
                 Inr msg \<Rightarrow> if forwardable msg then [msg] else []
               | Inl _ \<Rightarrow> []
          else [])"

fun incoming :: "network_command \<Rightarrow> (node_id \<times> network_message) list" where
  "incoming (IncomingMessage nid msg) = [(nid, msg)]"
| "incoming _ = []"

fun unregister :: "network_command \<Rightarrow> (node_id \<times> session_id) list" where
  "unregister (UnregisterSession nid sid) = [(nid, sid)]"
| "unregister _ = []"

text \<open>
  The state of the relay against its start: the frames consumed so far, what of them was
  forwarded, and that the unregistration is sent at most once, after the end.
\<close>

definition relay_inv :: "'sk crypto \<Rightarrow> session_loop \<Rightarrow> session_loop \<Rightarrow> bool" where
  "relay_inv C s0 s =
     (sl_remote_id s = sl_remote_id s0 \<and> sl_session_id s = sl_session_id s0
      \<and> chan_wf (sl_outgoing s) \<and> ch_cap (sl_outgoing s) = SESSION_OUTGOING_CAPACITY
      \<and> (\<exists>consumed. st_reads (sl_stream s0) = consumed @ st_reads (sl_stream s)
           \<and> concat (map incoming (sl_commands s)) =
               map (Pair (sl_remote_id s0)) (concat (map (forwarded_of C) consumed)))
      \<and> concat (map unregister (sl_commands s)) =
          (if sl_unregistered s = Some True then [(sl_remote_id s0, sl_session_id s0)] else [])
      \<and> (sl_unregistered s \<noteq> None \<longrightarrow> sl_ended s \<noteq> None))"

lemma relay_inv_end:
  "relay_inv C s0 s \<Longrightarrow> sl_ended s = None \<Longrightarrow> relay_inv C s0 (end_session e s)"
  by (auto simp: relay_inv_def end_session_def)

lemma relay_inv_unregistration:
  "relay_inv C s0 s \<Longrightarrow> sl_ended s \<noteq> None \<Longrightarrow> sl_unregistered s = None \<Longrightarrow> relay_inv C s0 (unregistration sent s)"
  by (auto simp: relay_inv_def unregistration_def send_command_def Let_def)

lemma relay_inv_command:
  "relay_inv C s0 s \<Longrightarrow> incoming cmd = [] \<Longrightarrow> unregister cmd = [] \<Longrightarrow> relay_inv C s0 (send_command cmd s)"
  by (simp add: relay_inv_def send_command_def)

text \<open>One frame consumed: what it forwards is appended.\<close>

lemma relay_inv_consume:
  assumes "relay_inv C s0 s" and "st_reads (sl_stream s) = r # rs"
    and "concat (map incoming cmds) = map (Pair (sl_remote_id s0)) (forwarded_of C r)"
    and "concat (map unregister cmds) = []"
  shows "relay_inv C s0 (s\<lparr>sl_stream := (sl_stream s)\<lparr>st_reads := rs\<rparr>, sl_commands := sl_commands s @ cmds\<rparr>)"
proof -
  obtain consumed where "st_reads (sl_stream s0) = consumed @ st_reads (sl_stream s)"
    "concat (map incoming (sl_commands s)) = map (Pair (sl_remote_id s0)) (concat (map (forwarded_of C) consumed))"
    using assms(1) by (auto simp: relay_inv_def)
  then have "st_reads (sl_stream s0) = (consumed @ [r]) @ rs"
    "concat (map incoming (sl_commands s @ cmds)) =
       map (Pair (sl_remote_id s0)) (concat (map (forwarded_of C) (consumed @ [r])))"
    using assms(2,3) by auto
  then show ?thesis
    using assms(1,4) unfolding relay_inv_def
    by (intro conjI exI [of _ "consumed @ [r]"]) simp_all
qed

lemma try_send_same_cap: "try_send x c = Inr c' \<Longrightarrow> ch_cap c' = ch_cap c"
  by (auto dest: ch.send_ok)

lemma relay_inv_outgoing:
  "relay_inv C s0 s \<Longrightarrow> try_send msg (sl_outgoing s) = Inr c \<Longrightarrow> relay_inv C s0 (s\<lparr>sl_outgoing := c\<rparr>)"
  using try_send_wf [of "sl_outgoing s" msg c] try_send_same_cap [of msg "sl_outgoing s" c]
  by (simp add: relay_inv_def)

lemma relay_inv_counters:
  "relay_inv C s0 s \<Longrightarrow> relay_inv C s0 (s\<lparr>sl_last_pong := p\<rparr>)"
  "relay_inv C s0 s \<Longrightarrow> relay_inv C s0 (s\<lparr>sl_last_ping_sent := p\<rparr>)"
  "relay_inv C s0 s \<Longrightarrow> relay_inv C s0 (s\<lparr>sl_heartbeat_running := b\<rparr>)"
  "relay_inv C s0 s \<Longrightarrow> relay_inv C s0 (s\<lparr>sl_cancel_channel_open := b\<rparr>)"
  by (simp_all add: relay_inv_def)

text \<open>A message that is not passed on, accepted or not.\<close>

lemma handle_not_forwarded:
  assumes "relay_inv C s0 s" and "\<not> forwardable msg" and "handle_incoming_message now msg s = (b, s')"
  shows "relay_inv C s0 s' \<and> sl_ended s' = sl_ended s"
proof (cases "msg = Ping")
  case True
  then show ?thesis
    using assms relay_inv_outgoing [OF assms(1)]
    by (auto simp: handle_incoming_message_def is_local_only_def split: sum.splits)
next
  case False
  have quiet: "relay_inv C s0 (s\<lparr>sl_last_pong := 0\<rparr>)"
    using assms(1) by (rule relay_inv_counters)
  then have "relay_inv C s0 (send_command (UpdateLatency rtt) (s\<lparr>sl_last_pong := 0\<rparr>))" for rtt
    by (rule relay_inv_command) simp_all
  then show ?thesis
    using assms False quiet
    by (cases msg) (auto simp: handle_incoming_message_def is_local_only_def forwardable_def Let_def
        send_command_def split: if_splits)
qed

lemma handle_forwarded:
  "forwardable msg \<Longrightarrow> handle_incoming_message now msg s =
     (True, send_command (IncomingMessage (sl_remote_id s) msg) s)"
  by (cases msg) (simp_all add: handle_incoming_message_def is_local_only_def forwardable_def)

lemma tcp_read_inv:
  assumes inv: "relay_inv C s0 s" and run: "sl_ended s = None"
  shows "relay_inv C s0 (tcp_read C now s)"
proof (cases "st_reads (sl_stream s)")
  case Nil
  then show ?thesis using relay_inv_end [OF inv run] by (simp add: tcp_read_def)
next
  case (Cons r rs)
  let ?s = "s\<lparr>sl_stream := (sl_stream s)\<lparr>st_reads := rs\<rparr>\<rparr>"
  have not_fwd: "relay_inv C s0 ?s \<and> relay_inv C s0 (end_session True ?s)" if "forwarded_of C r = []"
    using relay_inv_consume [OF inv Cons, of "[]"] relay_inv_end [of C s0 ?s True] that run by simp
  show ?thesis
  proof (cases r)
    case ReadError
    then show ?thesis
      using not_fwd Cons by (simp add: tcp_read_def forwarded_of_def Let_def)
  next
    case (Frame bytes)
    show ?thesis
    proof (cases "has_magic bytes")
      case False
      then show ?thesis
        using not_fwd Cons Frame by (simp add: tcp_read_def forwarded_of_def has_magic_def Let_def)
    next
      case True
      then have step: "tcp_read C now s =
          (case decode_network_message C (drop (length PROTOCOL_MAGIC) bytes) of
             Inl _ \<Rightarrow> end_session True ?s
           | Inr msg \<Rightarrow> (case handle_incoming_message now msg ?s of
               (True, s) \<Rightarrow> s | (False, s) \<Rightarrow> end_session True s))"
        using Cons Frame by (simp add: tcp_read_def has_magic_def Let_def)
      show ?thesis
      proof (cases "decode_network_message C (drop (length PROTOCOL_MAGIC) bytes)")
        case (Inl e)
        then show ?thesis using not_fwd step Frame True by (simp add: forwarded_of_def)
      next
        case (Inr msg)
        show ?thesis
        proof (cases "forwardable msg")
          case fwd: True
          then have "forwarded_of C r = [msg]" using Inr Frame True by (simp add: forwarded_of_def)
          moreover have "sl_remote_id s = sl_remote_id s0" using inv by (simp add: relay_inv_def)
          ultimately show ?thesis
            using step Inr fwd handle_forwarded [OF fwd, of now ?s]
              relay_inv_consume [OF inv Cons, of "[IncomingMessage (sl_remote_id s0) msg]"]
            by (simp add: send_command_def)
        next
          case False
          then have "forwarded_of C r = []" using Inr Frame True by (simp add: forwarded_of_def)
          then show ?thesis
            using step Inr not_fwd run handle_not_forwarded [OF _ False, of C s0 ?s now] relay_inv_end
            by (auto split: prod.splits bool.splits)
        qed
      qed
    qed
  qed
qed

lemma send_msg_keeps_reads: "send_msg C m st = (r, st') \<Longrightarrow> st_reads st' = st_reads st"
  by (auto simp: send_msg_def write_frame_def io_fail_def split: option.splits list.splits if_splits)

lemma outgoing_ready_inv:
  assumes inv: "relay_inv C s0 s" and run: "sl_ended s = None"
  shows "relay_inv C s0 (outgoing_ready C s)"
proof (cases "ch_buf (sl_outgoing s)")
  case Nil
  then show ?thesis using inv by (simp add: outgoing_ready_def)
next
  case (Cons msg rest)
  obtain r st' where sent: "send_msg C msg (sl_stream s) = (r, st')" by force
  let ?s = "s\<lparr>sl_outgoing := (sl_outgoing s)\<lparr>ch_buf := rest\<rparr>, sl_stream := st'\<rparr>"
  have "relay_inv C s0 ?s"
    using inv Cons send_msg_keeps_reads [OF sent] by (auto simp: relay_inv_def chan_wf_def)
  then show ?thesis
    using Cons sent relay_inv_end [of C s0 ?s True] run
    by (auto simp: outgoing_ready_def Let_def split: sum.splits)
qed

lemma heartbeat_tick_inv:
  assumes "relay_inv C s0 s"
  shows "relay_inv C s0 (heartbeat_tick t s)"
proof -
  have ping: "relay_inv C s0 (s\<lparr>sl_last_ping_sent := t\<rparr>)"
    using assms by (rule relay_inv_counters)
  then show ?thesis
    using assms relay_inv_outgoing [OF ping] relay_inv_counters(3) [OF ping]
      relay_inv_counters(3) [OF assms]
    by (auto simp: heartbeat_tick_def Let_def split: sum.splits)
qed

lemma cancel_changed_inv:
  "relay_inv C s0 s \<Longrightarrow> sl_ended s = None \<Longrightarrow> relay_inv C s0 (cancel_changed changed s)"
  using relay_inv_end [of C s0 s False]
  by (auto simp: cancel_changed_def relay_inv_counters split: option.splits bool.splits)

lemma session_step_inv:
  assumes "relay_inv C s0 s" and "session_step C s ev = Some s'"
  shows "relay_inv C s0 s'"
proof (cases "sl_ended s")
  case None
  then show ?thesis
    using assms tcp_read_inv [OF assms(1) None] outgoing_ready_inv [OF assms(1) None]
      heartbeat_tick_inv [OF assms(1)] cancel_changed_inv [OF assms(1) None]
      relay_inv_end [OF assms(1) None] relay_inv_outgoing [OF assms(1)] relay_inv_counters(1) [OF assms(1)]
    by (cases ev) (auto simp: session_step_def tracker_tick_def split: sum.splits if_splits)
next
  case (Some e)
  then show ?thesis
    using assms relay_inv_unregistration [OF assms(1)] by (cases ev) (auto simp: session_step_def)
qed

interpretation sm: event_machine "session_step C" "\<lambda>_. True" "relay_inv C s0" for C s0
  by unfold_locales (rule session_step_inv)

text \<open>
  C17: the relay is faithful. Whatever the order of reads, writes, ticks, cancellation and
  messages from the router, what a session passes to the runtime is, in order and each
  exactly once, the messages of the frames it has consumed, under the authenticated node id
  and without the handshake, keep-alive, local-only and badly named ones; a frame with a
  wrong magic, trailing bytes or undecodable contents contributes nothing. The session
  unregisters at most once, with its own generation, after it has ended, and does so unless the
  runtime does not take the command in time.
\<close>

theorem relay_faithful:
  assumes "session_enter sent decision sid task st rid info dir = (cmd, Some s0)"
    and "run_steps (session_step C) s0 events = Some s"
  shows "(\<exists>consumed. st_reads st = consumed @ st_reads (sl_stream s)
            \<and> concat (map incoming (sl_commands s)) =
                map (Pair rid) (concat (map (forwarded_of C) consumed)))
    \<and> concat (map unregister (sl_commands s)) = (if sl_unregistered s = Some True then [(rid, sid)] else [])
    \<and> (sl_unregistered s \<noteq> None \<longrightarrow> sl_ended s \<noteq> None)
    \<and> length (ch_buf (sl_outgoing s)) \<le> SESSION_OUTGOING_CAPACITY"
proof -
  have s0: "sl_remote_id s0 = rid" "sl_session_id s0 = sid" "sl_stream s0 = st"
    using assms(1) by (auto simp: session_enter_def Let_def split: if_splits)
  have "relay_inv C s0 s0"
    using assms(1) by (auto simp: session_enter_def Let_def relay_inv_def session_outgoing_channel_def
        chan_new_def chan_wf_def split: if_splits)
  then have "relay_inv C s0 s"
    using assms(2) sm.run_inv [of C s0 s0 events s] by (simp add: list_all_iff)
  then show ?thesis
    unfolding relay_inv_def s0 by (auto simp: chan_wf_def)
qed

definition demo_info :: peer_info where
  "demo_info = \<lparr>pi_node_id = 5, pi_display_name = ''Ann'', pi_service_endpoint = None,
     pi_session_peer_addr = None, pi_last_seen = 0, pi_public_key = demo_ckey,
     pi_public_key_fingerprint = None\<rparr>"

definition demo_loop :: "bytes list \<Rightarrow> session_loop" where
  "demo_loop frames =
     the (snd (session_enter True (Some True) 77 0
       \<lparr>st_reads = map Frame frames, st_written = [], st_write_ok = []\<rparr> 5 demo_info Inbound))"

lemma demo_loop_enter:
  "session_enter True (Some True) 77 0 \<lparr>st_reads = map Frame frames, st_written = [], st_write_ok = []\<rparr>
     5 demo_info Inbound = (fst (session_enter True (Some True) 77 0
       \<lparr>st_reads = map Frame frames, st_written = [], st_write_ok = []\<rparr> 5 demo_info Inbound),
     Some (demo_loop frames))"
  by (simp add: session_enter_def demo_loop_def Let_def)

text \<open>An unexpected challenge is forwarded, the second frame has no magic.\<close>

theorem relay_faithful_witness:
  "\<exists>s. run_steps (session_step demo_crypto) (demo_loop [PROTOCOL_MAGIC @ [2, 9], [1]]) [TcpRead 0, TcpRead 0, Unregistration True] = Some s
     \<and> concat (map unregister (sl_commands s)) = [(5, 77)]"
proof -
  let ?run = "run_steps (session_step demo_crypto) (demo_loop [PROTOCOL_MAGIC @ [2, 9], [1]]) [TcpRead 0, TcpRead 0, Unregistration True]"
  have run: "?run \<noteq> None \<and> sl_unregistered (the ?run) = Some True"
    by code_simp
  then obtain s where s: "?run = Some s" "sl_unregistered s = Some True" by auto
  then show ?thesis
    using relay_faithful [OF demo_loop_enter s(1)] by simp
qed

section \<open>Silent peers\<close>

lemma handle_last_pong:
  "handle_incoming_message now msg s = (b, s') \<Longrightarrow> msg \<noteq> Pong \<Longrightarrow>
     sl_last_pong s' = sl_last_pong s \<and> sl_stream s' = sl_stream s"
  by (cases msg) (auto simp: handle_incoming_message_def is_local_only_def send_command_def
      split: if_splits sum.splits)

lemma end_session_ended [simp]: "sl_ended (end_session e s) = Some e"
  by (simp add: end_session_def)

text \<open>None of the frames still to come is a keep-alive answer.\<close>

definition no_pong :: "'sk crypto \<Rightarrow> session_loop \<Rightarrow> bool" where
  "no_pong C s = (\<forall>frame. Frame frame \<in> set (st_reads (sl_stream s)) \<longrightarrow> \<not> carries C frame Pong)"

text \<open>
  While no answer comes, the counter only counts: every live step leaves it, except for the
  tick of the tracker.
\<close>

lemma ended_step:
  "session_step C s ev = Some s' \<Longrightarrow> sl_ended s = Some e \<Longrightarrow> sl_ended s' = Some e"
  by (cases ev) (auto simp: session_step_def unregistration_def send_command_def Let_def split: if_splits)

lemma silent_step:
  assumes "session_step C s ev = Some s'" and "no_pong C s" and "sl_ended s' = None"
  shows "no_pong C s' \<and> sl_last_pong s' = sl_last_pong s + (if ev = TrackerTick then 1 else 0)"
proof -
  have run: "sl_ended s = None"
    using ended_step [OF assms(1)] assms(3) by (cases "sl_ended s") auto
  show ?thesis
  proof (cases ev)
    case (TcpRead now)
    then have s': "s' = tcp_read C now s" using assms(1) run by (simp add: session_step_def)
    obtain r rs where reads: "st_reads (sl_stream s) = r # rs"
      using assms(3) s' by (cases "st_reads (sl_stream s)") (auto simp: tcp_read_def)
    let ?s = "s\<lparr>sl_stream := (sl_stream s)\<lparr>st_reads := rs\<rparr>\<rparr>"
    obtain bytes msg where r: "r = Frame bytes" "carries C bytes msg"
      and h: "handle_incoming_message now msg ?s = (True, s')"
      using assms(3) s' reads
      by (auto simp: tcp_read_def Let_def carries_def has_magic_def
          split: read_result.splits if_splits sum.splits prod.splits bool.splits)
    then have "msg \<noteq> Pong" using assms(2) reads by (auto simp: no_pong_def)
    from handle_last_pong [OF h this] show ?thesis
      using TcpRead assms(2) reads by (simp add: no_pong_def)
  next
    case OutgoingReady
    then show ?thesis
      using assms run by (auto simp: session_step_def outgoing_ready_def Let_def no_pong_def
          dest!: send_msg_keeps_reads split: list.splits prod.splits sum.splits)
  next
    case (CancelChanged changed)
    then show ?thesis
      using assms run by (auto simp: session_step_def cancel_changed_def no_pong_def
          split: if_splits option.splits bool.splits)
  qed (use assms run in \<open>auto simp: session_step_def heartbeat_tick_def tracker_tick_def no_pong_def Let_def
      split: if_splits sum.splits\<close>)
qed

lemma ended_stays:
  "run_steps (session_step C) s evs = Some s' \<Longrightarrow> sl_ended s = Some e \<Longrightarrow> sl_ended s' = Some e"
proof (induction evs arbitrary: s)
  case (Cons ev evs)
  then show ?case by (auto split: option.splits dest: ended_step)
qed simp

lemma silent_run:
  assumes "run_steps (session_step C) s evs = Some s'" and "no_pong C s" and "sl_ended s' = None"
  shows "sl_last_pong s' = sl_last_pong s + of_nat (count_list evs TrackerTick)"
  using assms
proof (induction evs arbitrary: s)
  case (Cons ev evs)
  obtain s1 where s1: "session_step C s ev = Some s1" "run_steps (session_step C) s1 evs = Some s'"
    using Cons.prems(1) by (auto split: option.splits)
  have "sl_ended s1 = None"
    using ended_stays [OF s1(2)] Cons.prems(3) by (cases "sl_ended s1") auto
  then show ?case
    using silent_step [OF s1(1) Cons.prems(2)] Cons.IH [OF s1(2)] Cons.prems(3)
    by (auto simp: algebra_simps)
qed simp

text \<open>
  C32: a silent peer is dropped. If no keep-alive answer arrives while the tracker ticks
  more than fifteen times, then the next tick of the heartbeat and its signal end the
  session, whatever else happened in between.
\<close>

theorem silent_peer_dropped:
  assumes "no_pong C s" and "15 < count_list events TrackerTick"
    and "unat (sl_last_pong s) + count_list events TrackerTick < 2 ^ 64"
  shows "\<exists>s'. run_steps (session_step C) s (events @ [HeartbeatTick t, HeartbeatDone]) = Some s'
    \<and> sl_ended s' \<noteq> None"
proof -
  have total: "run_steps (session_step C) s evs \<noteq> None" for s evs
    by (induction evs arbitrary: s) (auto simp: session_step_def)
  then obtain s1 where s1: "run_steps (session_step C) s events = Some s1" by blast
  show ?thesis
  proof (cases "sl_ended s1")
    case None
    let ?n = "count_list events TrackerTick"
    have "unat (of_nat ?n :: u64) = ?n"
      using assms(3) by (simp add: unat_of_nat)
    then have "unat (sl_last_pong s1) = unat (sl_last_pong s) + ?n"
      using silent_run [OF s1 assms(1) None] assms(3) by (simp add: unat_word_ariths)
    then have "uint (sl_last_pong s1) > HEARTBEAT_TIMEOUT_SECS"
      using assms(2) uint_nat [of "sl_last_pong s1"] by (simp only: HEARTBEAT_TIMEOUT_SECS_def)
    then have "sl_heartbeat_running (heartbeat_tick t s1) = False"
      "sl_ended (heartbeat_tick t s1) = None"
      using None by (auto simp: heartbeat_tick_def Let_def)
    then show ?thesis
      using None by (auto simp: run_steps_append s1 session_step_def)
  next
    case (Some e)
    obtain s2 where s2: "run_steps (session_step C) s (events @ [HeartbeatTick t, HeartbeatDone]) = Some s2"
      using total by blast
    then have "run_steps (session_step C) s1 [HeartbeatTick t, HeartbeatDone] = Some s2"
      by (simp add: run_steps_append s1)
    from ended_stays [OF this Some] s2 show ?thesis by blast
  qed
qed

theorem silent_peer_dropped_witness:
  "\<exists>s'. run_steps (session_step demo_crypto) (demo_loop [])
      (replicate 16 TrackerTick @ [HeartbeatTick 1, HeartbeatDone]) = Some s' \<and> sl_ended s' \<noteq> None"
proof -
  have "no_pong demo_crypto (demo_loop [])" "sl_last_pong (demo_loop []) = 0"
    by (simp_all add: no_pong_def demo_loop_def session_enter_def Let_def)
  moreover have "count_list (replicate 16 TrackerTick) TrackerTick = 16"
    by code_simp
  ultimately show ?thesis
    by (intro silent_peer_dropped) simp_all
qed

section \<open>Only the dialed peer is registered\<close>

text \<open>
  A dialed session reaches the relay loop only with the peer that was asked for. The
  node id is the expected one and is derived from the key the peer has proved to hold, a
  fingerprint announced by discovery is the fingerprint of that key, and the session is
  recorded as outbound under the dialed address.
\<close>

theorem dialed_peer_is_expected:
  assumes "run_connecting_session C E L addr (Some expected) st = (Inr (rid, info, dir), st')"
  shows "rid = ex_node_id expected \<and> dir = Outbound
    \<and> pi_node_id info = rid \<and> pi_service_endpoint info = Some addr
    \<and> identity_bound C (se_nonce E) SERVER_PROOF_ROLE (ln_id L) (ln_pubkey L) st
        (rid, pi_display_name info, pi_public_key info)
    \<and> (case ex_public_key_fingerprint expected of
         None \<Rightarrow> True
       | Some fp \<Rightarrow> fp = public_key_fingerprint (cr_sha256 C) (pi_public_key info))"
proof -
  from assms obtain name key st1 where
    hs: "client_handshake C (se_nonce E) (ln_id L) (ln_name L) (ln_pubkey L) (ln_signing_key L) st
           = (Inr (rid, name, key), st1)"
    and ok: "validate_expected_peer (cr_sha256 C) rid key (Some expected) = Inr ()"
    and info: "info = \<lparr>pi_node_id = rid, pi_display_name = name,
        pi_service_endpoint = Some addr, pi_session_peer_addr = Some addr, pi_last_seen = se_now E,
        pi_public_key = key, pi_public_key_fingerprint = None\<rparr>" and dir: "dir = Outbound"
    unfolding run_connecting_session_def
    by (auto split: if_splits prod.splits sum.splits)
  have "rid = ex_node_id expected"
    "\<forall>fp. ex_public_key_fingerprint expected = Some fp \<longrightarrow> fp = public_key_fingerprint (cr_sha256 C) key"
    using ok by (auto simp: validate_expected_peer_def Let_def split: if_splits option.splits)
  then show ?thesis
    using client_identity_bound [OF hs] info dir by (auto split: option.split)
qed

definition demo_env :: session_env where
  "demo_env = \<lparr>se_nonce = Some (demo_nonce 7), se_now = 0, se_handshake_elapsed = False,
     se_subscribe_elapsed = False\<rparr>"

definition demo_node :: "u8 local_node" where
  "demo_node = \<lparr>ln_id = demo_cid, ln_name = ''Ann'', ln_pubkey = demo_ckey, ln_signing_key = 1\<rparr>"

definition demo_wire :: "u8 crypto" where
  "demo_wire = demo_crypto\<lparr>cr_encode :=
     (\<lambda>msg. if msg = Subscribe then Some [4] else cr_encode demo_crypto msg)\<rparr>"

theorem dialed_peer_is_expected_witness:
  "\<exists>st info st'. run_connecting_session demo_wire demo_env demo_node (IPv4 1, 42420)
       (Some \<lparr>ex_node_id = demo_sid, ex_public_key_fingerprint = None\<rparr>) st = (Inr (demo_sid, info, Outbound), st')
     \<and> pi_service_endpoint info = Some (IPv4 1, 42420)"
proof -
  have "honest demo_wire demo_cid ''Ann'' demo_ckey 1 demo_cproof"
    "honest demo_wire demo_sid ''Bob'' demo_skey 2 demo_sproof"
    using demo_honest by (simp_all add: demo_wire_def honest_def)
  moreover have "transmits demo_wire msg" if "transmits demo_crypto msg" "msg \<noteq> Subscribe" for msg
    using that by (simp add: transmits_def demo_wire_def)
  ultimately obtain st st1 where
    hs: "client_handshake demo_wire (Some (demo_nonce 7)) demo_cid ''Ann'' demo_ckey 1 st
           = (Inr (demo_sid, ''Bob'', demo_skey), st1)" and st1: "st_write_ok st1 = []"
    using client_run [of demo_wire demo_cid "''Ann''" demo_ckey 1 "demo_nonce 8" demo_sid demo_skey
        "''Bob''" 2 "demo_nonce 7"] demo_transmits
    by (simp add: demo_cproof_def [symmetric] demo_sproof_def [symmetric] demo_wire_def)
  have "cr_encode demo_wire Subscribe = Some [4]" by (simp add: demo_wire_def)
  then obtain info st' where run:
    "run_connecting_session demo_wire demo_env demo_node (IPv4 1, 42420)
       (Some \<lparr>ex_node_id = demo_sid, ex_public_key_fingerprint = None\<rparr>) st = (Inr (demo_sid, info, Outbound), st')"
    using hs st1 by (simp add: run_connecting_session_def demo_env_def demo_node_def
        validate_expected_peer_def send_msg_def write_frame_def)
  from dialed_peer_is_expected [OF this] run show ?thesis by blast
qed

end
