(* ===== verification/Network_Mode.thy ===== *)
theory Network_Mode
  imports Token
begin

text \<open>
  Configuration and network mode, \<open>src/app/config.rs\<close> and \<open>src/app/network_mode.rs\<close>. The
  command line and the environment are arguments; reading the file is the outcome
  \<open>file_read\<close>, and the TOML parser is the parameter \<open>parse_toml\<close>. The fields a file leaves out
  get their defaults, and the default of the display name is drawn anew each time, so the name
  that a parse would draw is an argument of the parser. A resolution error is the text shown to
  the user.
\<close>

section \<open>Configuration\<close>

record network_config =
  nc_enabled :: bool
  nc_display_name :: string
  nc_allow_remote_control :: bool
  nc_mode :: "string option"

text \<open>The volume is a floating-point number that the model only passes on, of type \<open>'f\<close>.\<close>

record 'f app_config =
  ac_audio_mode :: string
  ac_volume :: 'f
  ac_muted :: bool
  ac_dark_mode :: bool
  ac_music_assets_path :: "string option"
  ac_network :: network_config

definition ADJECTIVES :: "string list" where
  "ADJECTIVES =
     [''Happy'', ''Swift'', ''Cool'', ''Brave'', ''Bright'', ''Calm'', ''Keen'', ''Warm'',
      ''Bold'', ''Cute'', ''Deft'', ''Fair'', ''Kind'', ''Neat'', ''Pure'', ''Wise'', ''Soft'',
      ''Wild'', ''Epic'', ''Nice'']"

definition NOUNS :: "string list" where
  "NOUNS =
     [''Panda'', ''Fox'', ''Owl'', ''Bear'', ''Wolf'', ''Hawk'', ''Cat'', ''Deer'', ''Seal'',
      ''Wren'', ''Hare'', ''Lynx'', ''Mink'', ''Dove'', ''Crab'', ''Fish'', ''Moth'', ''Toad'',
      ''Ibis'', ''Goat'']"

text \<open>The first two bytes of a random UUID choose the name.\<close>

definition generate_random_name :: "u8 \<Rightarrow> u8 \<Rightarrow> string" where
  "generate_random_name b0 b1 =
     ADJECTIVES ! (unat b0 mod length ADJECTIVES) @ '' '' @ NOUNS ! (unat b1 mod length NOUNS)"

definition network_config_default :: "string \<Rightarrow> network_config" where
  "network_config_default random_name =
     \<lparr>nc_enabled = True, nc_display_name = random_name, nc_allow_remote_control = False,
      nc_mode = None\<rparr>"

definition app_config_default :: "'f \<Rightarrow> string \<Rightarrow> 'f app_config" where
  "app_config_default half random_name =
     \<lparr>ac_audio_mode = ''normal'', ac_volume = half, ac_muted = False, ac_dark_mode = False,
      ac_music_assets_path = None, ac_network = network_config_default random_name\<rparr>"

definition fail_closed_offline :: "'f \<Rightarrow> string \<Rightarrow> 'f app_config" where
  "fail_closed_offline half random_name =
     (let config = app_config_default half random_name
      in config\<lparr>ac_network := (ac_network config)\<lparr>nc_enabled := False, nc_mode := Some ''offline''\<rparr>\<rparr>)"

datatype file_read = Contents string | NotFound | ReadError

definition load_from_path ::
    "(string \<Rightarrow> string \<Rightarrow> 'f app_config option) \<Rightarrow> 'f \<Rightarrow> string \<Rightarrow> file_read \<Rightarrow> 'f app_config" where
  "load_from_path parse_toml half random_name file =
     (case file of
        NotFound \<Rightarrow> app_config_default half random_name
      | ReadError \<Rightarrow> fail_closed_offline half random_name
      | Contents contents \<Rightarrow>
          (case parse_toml random_name contents of
             Some config \<Rightarrow> config
           | None \<Rightarrow> fail_closed_offline half random_name))"

section \<open>Network mode\<close>

datatype network_mode = Lan | Offline | LoopbackTest

definition VALID_VALUES :: string where "VALID_VALUES = ''lan, offline, loopback-test''"
definition CLI_FLAG :: string where "CLI_FLAG = ''--network-mode''"

definition parse_mode :: "string \<Rightarrow> string + network_mode" where
  "parse_mode value =
     (let v = to_ascii_lowercase (str_trim value)
      in if v = ''lan'' then Inr Lan
         else if v = ''offline'' then Inr Offline
         else if v = ''loopback-test'' then Inr LoopbackTest
         else Inl (''invalid network mode '' @ [CHR 0x27] @ v @ [CHR 0x27] @ '' (valid values: ''
                   @ VALID_VALUES @ '')''))"

text \<open>The process-wide cell: the first write wins, and an unset cell reads as offline.\<close>

definition mode_set :: "network_mode \<Rightarrow> network_mode option \<Rightarrow> network_mode option" where
  "mode_set mode cell = (case cell of None \<Rightarrow> Some mode | Some m \<Rightarrow> Some m)"

definition mode_current :: "network_mode option \<Rightarrow> network_mode" where
  "mode_current cell = (case cell of Some m \<Rightarrow> m | None \<Rightarrow> Offline)"

fun extract_cli_value :: "string list \<Rightarrow> string + string option" where
  "extract_cli_value [] = Inr None"
| "extract_cli_value (arg # args) =
     (case strip_prefix CLI_FLAG arg of
        None \<Rightarrow> extract_cli_value args
      | Some rest \<Rightarrow>
          (case strip_prefix ''='' rest of
             Some value \<Rightarrow> Inr (Some value)
           | None \<Rightarrow>
               if rest = [] then
                 (case args of
                    value # _ \<Rightarrow> Inr (Some value)
                  | [] \<Rightarrow> Inl ([CHR 0x27] @ CLI_FLAG @ [CHR 0x27] @ '' requires a value (valid values: ''
                              @ VALID_VALUES @ '')''))
               else extract_cli_value args))"

definition resolve_network_mode ::
    "string list \<Rightarrow> string option \<Rightarrow> network_config \<Rightarrow> string + network_mode" where
  "resolve_network_mode cli_args env_value config =
     (case extract_cli_value cli_args of
        Inl e \<Rightarrow> Inl e
      | Inr (Some raw) \<Rightarrow> parse_mode raw
      | Inr None \<Rightarrow>
          (case (case env_value of
                   Some raw \<Rightarrow> if str_trim raw \<noteq> [] then Some raw else None
                 | None \<Rightarrow> None) of
             Some raw \<Rightarrow> parse_mode raw
           | None \<Rightarrow>
               (case nc_mode config of
                  Some raw \<Rightarrow> parse_mode raw
                | None \<Rightarrow> Inr (if nc_enabled config then Lan else Offline))))"

section \<open>Resolution never turns networking on by accident\<close>

text \<open>The source that decides the mode: the first present one in order of priority.\<close>

datatype mode_source = FromCli string | BadCli | FromEnv string | FromConfig string | FromLegacy bool

definition deciding_source :: "string list \<Rightarrow> string option \<Rightarrow> network_config \<Rightarrow> mode_source" where
  "deciding_source args env config =
     (case extract_cli_value args of
        Inl _ \<Rightarrow> BadCli
      | Inr (Some v) \<Rightarrow> FromCli v
      | Inr None \<Rightarrow>
          if env \<noteq> None \<and> str_trim (the env) \<noteq> [] then FromEnv (the env)
          else case nc_mode config of Some v \<Rightarrow> FromConfig v | None \<Rightarrow> FromLegacy (nc_enabled config))"

definition source_value :: "mode_source \<Rightarrow> string option" where
  "source_value src =
     (case src of FromCli v \<Rightarrow> Some v | FromEnv v \<Rightarrow> Some v | FromConfig v \<Rightarrow> Some v | _ \<Rightarrow> None)"

lemma resolve_by_source:
  "resolve_network_mode args env config =
     (case deciding_source args env config of
        BadCli \<Rightarrow> resolve_network_mode args env config
      | FromLegacy b \<Rightarrow> Inr (if b then Lan else Offline)
      | src \<Rightarrow> parse_mode (the (source_value src)))"
  by (auto simp: resolve_network_mode_def deciding_source_def source_value_def
      split: sum.splits option.splits)

lemma bad_cli_fails: "deciding_source args env config = BadCli \<Longrightarrow>
    \<exists>e. resolve_network_mode args env config = Inl e"
  by (auto simp: resolve_network_mode_def deciding_source_def split: sum.splits option.splits if_splits)

lemma parse_mode_Lan: "parse_mode v = Inr Lan \<longleftrightarrow> to_ascii_lowercase (str_trim v) = ''lan''"
  by (auto simp: parse_mode_def Let_def)

text \<open>
  The network mode follows the priority command line, environment, configured mode,
  legacy switch; the process ends up on the LAN only if the deciding source says \<open>lan\<close> up
  to case and surrounding white space, or no mode is configured anywhere and the legacy
  switch is on. A malformed deciding source is an error, never a fallback to another one.
\<close>

theorem lan_only_when_asked:
  "(resolve_network_mode args env config = Inr Lan) =
     (case deciding_source args env config of
        BadCli \<Rightarrow> False
      | FromLegacy enabled \<Rightarrow> enabled
      | src \<Rightarrow> to_ascii_lowercase (str_trim (the (source_value src))) = ''lan'')"
  using resolve_by_source [of args env config] bad_cli_fails [of args env config]
  by (auto simp: parse_mode_Lan source_value_def split: mode_source.splits if_splits)

text \<open>
  C39: a configuration file that exists but cannot be read or parsed never turns
  networking on: without a command line flag and an environment setting the mode resolves
  to offline, and remote control stays off.
\<close>

theorem broken_config_is_offline:
  assumes "file = ReadError \<or> (\<exists>c. file = Contents c \<and> parse_toml name c = None)"
    and "extract_cli_value args = Inr None" and "env = None"
  shows "resolve_network_mode args env (ac_network (load_from_path parse_toml half name file)) = Inr Offline
    \<and> \<not> nc_allow_remote_control (ac_network (load_from_path parse_toml half name file))"
proof -
  have cfg: "load_from_path parse_toml half name file = fail_closed_offline half name"
    using assms(1) by (auto simp: load_from_path_def)
  have "parse_mode ''offline'' = Inr Offline"
    by code_simp
  then show ?thesis
    using assms(2,3) unfolding cfg
    by (simp add: resolve_network_mode_def fail_closed_offline_def app_config_default_def
        network_config_default_def Let_def)
qed

theorem broken_config_is_offline_witness:
  "resolve_network_mode [''app'', ''--verbose''] None
     (ac_network (load_from_path (\<lambda>_ _. None) () ''Happy Fox'' (Contents ''['')) ) = Inr Offline"
proof -
  have "extract_cli_value [''app'', ''--verbose''] = Inr None"
    by code_simp
  then show ?thesis
    by (intro conjunct1 [OF broken_config_is_offline]) auto
qed

end
