(* ===== verification/Runtime.thy ===== *)
theory Runtime
  imports Session Network_Mode
begin

text \<open>
  The network runtime, \<open>src/net/runtime.rs\<close>, with the state it shares
  (\<open>src/net/state.rs\<close>) and the events it sends to the user interface
  (\<open>src/ui/events.rs\<close>).

  The tasks of \<open>run_network_runtime\<close> (listener, discovery, outgoing router, command
  processor, and one task per outbound connect) work on the record \<open>runtime\<close>. Every turn
  of one of their loops is one event of \<open>runtime_step\<close>, and the events may come in any
  order: that is the interleaving of the tasks, whose turns hold the locks they need. The
  sessions are named by their tasks (\<open>nat\<close>): \<open>rn_queues\<close> holds their outgoing queues and
  \<open>rn_cancelled\<close> the tasks whose cancellation flag is set.

  Node ids are passed to the user interface as text in the code and as themselves here.
\<close>

section \<open>Events for the user interface\<close>

record peer_payload =
  pd_name :: string
  pd_address :: "socket_addr option"
  pd_is_connected :: bool
  pd_latency_ms :: int
  pd_index :: int
  pd_node_id :: node_id

text \<open>Reason codes, and the texts of session errors that carry data.\<close>

datatype reason = Reason string | SessionFailed session_error

datatype status_text =
    LanPortUnavailable u16
  | PortUnavailable
  | PortUnreadable
  | StartFailed

datatype ui_event =
    PeerDiscovered peer_payload
  | PeerLost node_id
  | SessionEstablished node_id
  | SessionLost node_id
  | NetworkMessage node_id bytes
  | ConnectionError reason
  | LatencyUpdate node_id int
  | RemoteControlStatus bool bool
  | NetworkStatusUpdate status_text

definition UI_EVENT_CAPACITY :: nat where "UI_EVENT_CAPACITY = 256"

definition create_ui_channel :: "ui_event chan" where
  "create_ui_channel = chan_new UI_EVENT_CAPACITY"

section \<open>State\<close>

definition DISCOVERY_ENDPOINT_RETRY_SECS :: int where "DISCOVERY_ENDPOINT_RETRY_SECS = 30"
definition MAX_DISCOVERY_ENDPOINT_ATTEMPTS :: nat where "MAX_DISCOVERY_ENDPOINT_ATTEMPTS = 256"
definition MAX_INBOUND_SESSIONS :: nat where "MAX_INBOUND_SESSIONS = 16"
definition MAX_IN_FLIGHT_CONNECTS :: nat where "MAX_IN_FLIGHT_CONNECTS = 32"
definition SESSION_COMMAND_CAPACITY :: nat where "SESSION_COMMAND_CAPACITY = 256"
definition SCAN_COMMAND_CAPACITY :: nat where "SCAN_COMMAND_CAPACITY = 1"

record network_state =
  ns_peers :: peer_table
  ns_is_connected :: bool
  ns_latency_ms :: "u32 option"

record active_session =
  as_session_id :: session_id
  as_task :: nat
  as_direction :: connection_direction

datatype connect_attempt_key = Peer node_id | Address socket_addr

definition from_request :: "outbound_connect_request \<Rightarrow> connect_attempt_key" where
  "from_request request =
     (case oc_expected_peer request of
        Some peer \<Rightarrow> Peer (ex_node_id peer)
      | None \<Rightarrow> Address (oc_addr request))"

record runtime =
  rn_local_id :: node_id
  rn_mode :: network_mode
  rn_display_name :: string
  rn_state :: network_state
  rn_sessions :: "(node_id, active_session) hash_map"
  rn_queues :: "nat \<Rightarrow> network_message chan"
  rn_cancelled :: "nat list"
  rn_decisions :: "(nat \<times> bool) list"
  rn_ui :: "ui_event chan"
  rn_session_commands :: "network_command chan"
  rn_scan :: "unit chan"
  rn_in_flight :: "connect_attempt_key hash_set"
  rn_connecting :: "outbound_connect_request list"
  rn_dialed :: "socket_addr list"
  rn_attempts :: "(node_id, socket_addr \<times> instant) hash_map"
  rn_discovery :: "discovery_service option"
  rn_announced :: "discovery_message list"
  rn_permits :: nat
  rn_inbound :: "socket_addr list"

section \<open>Policy\<close>

definition is_loopback :: "ip_addr \<Rightarrow> bool" where
  "is_loopback ip = (case ip of IPv4 a \<Rightarrow> drop_bit 24 a = 127 | IPv6 a \<Rightarrow> a = 1)"

definition outbound_addr_allowed :: "network_mode \<Rightarrow> socket_addr \<Rightarrow> bool" where
  "outbound_addr_allowed mode addr =
     (case mode of Lan \<Rightarrow> True | LoopbackTest \<Rightarrow> is_loopback (fst addr) | Offline \<Rightarrow> False)"

datatype io_error_kind =
    ConnectionRefused | TimedOut | ConnectionReset | HostUnreachable | NetworkUnreachable
  | PermissionDenied | OtherKind

text \<open>The connector acts on the world \<open>'w\<close>; it is not called when the policy refuses.\<close>

definition connect_tcp_checked ::
    "network_mode \<Rightarrow> socket_addr \<Rightarrow> (socket_addr \<Rightarrow> 'w \<Rightarrow> (io_error_kind + 'a) \<times> 'w) \<Rightarrow> 'w \<Rightarrow>
     (io_error_kind + 'a) \<times> 'w" where
  "connect_tcp_checked mode addr connector w =
     (if \<not> outbound_addr_allowed mode addr then (Inl PermissionDenied, w) else connector addr w)"

definition session_bind_addr :: "network_mode \<Rightarrow> socket_addr" where
  "session_bind_addr mode =
     (case mode of
        Lan \<Rightarrow> (IPv4 0, SESSION_TCP_PORT)
      | LoopbackTest \<Rightarrow> (IPv4 0x7F000001, 0)
      | Offline \<Rightarrow> (IPv4 0x7F000001, 0))"

section \<open>Telling the user interface\<close>

text \<open>The position of a node in the iteration order of the peer table.\<close>

definition peer_payload_of :: "network_state \<Rightarrow> node_id \<Rightarrow> bool \<Rightarrow> peer_payload option" where
  "peer_payload_of state nid is_connected =
     (case find (\<lambda>(index, (pid, peer)). pid = nid) (List.enumerate 0 (ns_peers state)) of
        Some (index, (pid, peer)) \<Rightarrow>
          Some \<lparr>pd_name = pi_display_name peer, pd_address = display_endpoint peer,
                pd_is_connected = is_connected,
                pd_latency_ms = (case ns_latency_ms state of Some v \<Rightarrow> sint v | None \<Rightarrow> -1),
                pd_index = int index, pd_node_id = pid\<rparr>
      | None \<Rightarrow> None)"

definition try_emit_ui_event :: "ui_event \<Rightarrow> ui_event chan \<Rightarrow> bool \<times> ui_event chan" where
  "try_emit_ui_event ev ui_tx =
     (case try_send ev ui_tx of
        Inr c \<Rightarrow> (True, c)
      | Inl Full \<Rightarrow> (False, ui_tx)
      | Inl Closed \<Rightarrow> (False, ui_tx))"

text \<open>The tasks of the runtime ignore whether the event was queued.\<close>

definition emit :: "ui_event \<Rightarrow> runtime \<Rightarrow> runtime" where
  "emit ev s = s\<lparr>rn_ui := snd (try_emit_ui_event ev (rn_ui s))\<rparr>"

definition emit_payload :: "node_id \<Rightarrow> bool \<Rightarrow> runtime \<Rightarrow> runtime" where
  "emit_payload nid is_connected s =
     (case peer_payload_of (rn_state s) nid is_connected of
        Some payload \<Rightarrow> emit (PeerDiscovered payload) s
      | None \<Rightarrow> s)"

definition cancel_session :: "active_session \<Rightarrow> runtime \<Rightarrow> runtime" where
  "cancel_session session s = s\<lparr>rn_cancelled := as_task session # rn_cancelled s\<rparr>"

definition forward_incoming_message_to_ui ::
    "'sk crypto \<Rightarrow> node_id \<Rightarrow> network_message \<Rightarrow> runtime \<Rightarrow> bool \<times> runtime" where
  "forward_incoming_message_to_ui C sender_id message s =
     (case cr_encode C message of
        None \<Rightarrow> (False, s)
      | Some bytes \<Rightarrow>
          (case try_send (NetworkMessage sender_id bytes) (rn_ui s) of
             Inr c \<Rightarrow> (True, s\<lparr>rn_ui := c\<rparr>)
           | Inl _ \<Rightarrow>
               (False,
                case hm_get (rn_sessions s) sender_id of
                  Some session \<Rightarrow> cancel_session session s
                | None \<Rightarrow> s)))"

section \<open>Discovered endpoints\<close>

definition register_discovered_endpoint ::
    "instant \<Rightarrow> discovery_endpoint \<Rightarrow> runtime \<Rightarrow> socket_addr \<times> runtime" where
  "register_discovered_endpoint now endpoint s =
     (let peer_addr = de_address endpoint;
          nid = de_node_id endpoint;
          peers = add_peer
            \<lparr>pi_node_id = nid, pi_display_name = de_display_name endpoint,
             pi_service_endpoint = Some peer_addr, pi_session_peer_addr = None, pi_last_seen = now,
             pi_public_key = zero_key,
             pi_public_key_fingerprint = de_public_key_fingerprint endpoint\<rparr>
            (ns_peers (rn_state s));
          peers = snd (remove_expired now peers);
          s = s\<lparr>rn_state := (rn_state s)\<lparr>ns_peers := peers\<rparr>\<rparr>
      in (peer_addr, emit_payload nid False s))"

definition should_attempt_discovered_session ::
    "instant \<Rightarrow> node_id \<Rightarrow> socket_addr \<Rightarrow> (node_id, socket_addr \<times> instant) hash_map \<Rightarrow>
     bool \<times> (node_id, socket_addr \<times> instant) hash_map" where
  "should_attempt_discovered_session now nid addr attempts =
     (case hm_get attempts nid of
        Some (last_addr, last_time) \<Rightarrow>
          if last_addr = addr
             \<and> duration_since now last_time < from_secs DISCOVERY_ENDPOINT_RETRY_SECS
          then (False, attempts)
          else (True, hm_insert nid (addr, now) attempts)
      | None \<Rightarrow>
          (True, hm_insert_evict snd MAX_DISCOVERY_ENDPOINT_ATTEMPTS nid (addr, now) attempts))"

text \<open>What both discovery paths do with a resolved endpoint.\<close>

definition mdns_endpoint :: "instant \<Rightarrow> discovery_endpoint \<Rightarrow> runtime \<Rightarrow> runtime" where
  "mdns_endpoint now endpoint s =
     (let nid = de_node_id endpoint;
          expected_peer = \<lparr>ex_node_id = nid,
            ex_public_key_fingerprint = de_public_key_fingerprint endpoint\<rparr>;
          (peer_addr, s) = register_discovered_endpoint now endpoint s;
          (attempt, attempts) = should_attempt_discovered_session now nid peer_addr (rn_attempts s);
          s = s\<lparr>rn_attempts := attempts\<rparr>
      in if attempt
         then case try_send (ConnectToPeer
                      \<lparr>oc_addr = peer_addr, oc_expected_peer = Some expected_peer,
                       oc_report_errors = False\<rparr>) (rn_session_commands s) of
                Inr c \<Rightarrow> s\<lparr>rn_session_commands := c\<rparr>
              | Inl _ \<Rightarrow> s
         else s)"

definition announce :: "discovery_message \<Rightarrow> runtime \<Rightarrow> runtime" where
  "announce msg s = s\<lparr>rn_announced := rn_announced s @ [msg]\<rparr>"

definition udp_announcement ::
    "instant \<Rightarrow> discovery_message \<Rightarrow> socket_addr \<Rightarrow> discovery_service \<Rightarrow> runtime \<Rightarrow> runtime" where
  "udp_announcement now msg udp_addr ds s =
     (if msg = Discover then announce (announce_msg ds (rn_display_name s)) s
      else
        case endpoint_from_announcement ds msg udp_addr of
          Some endpoint \<Rightarrow> mdns_endpoint now endpoint s
        | None \<Rightarrow> s)"

definition scan_signal :: "discovery_service \<Rightarrow> runtime \<Rightarrow> runtime" where
  "scan_signal ds s =
     (case ch_buf (rn_scan s) of
        [] \<Rightarrow> s
      | _ # rest \<Rightarrow>
          announce (announce_msg ds (rn_display_name s))
            (announce Discover (s\<lparr>rn_scan := (rn_scan s)\<lparr>ch_buf := rest\<rparr>\<rparr>)))"

section \<open>The session registry\<close>

definition should_replace_session ::
    "node_id \<Rightarrow> node_id \<Rightarrow> connection_direction \<Rightarrow> connection_direction \<Rightarrow> bool" where
  "should_replace_session local_id remote_id existing_direction new_direction =
     (let preferred = (if local_id < remote_id then Outbound else Inbound)
      in new_direction = preferred \<and> existing_direction \<noteq> preferred)"

definition remove_session_if_current ::
    "node_id \<Rightarrow> session_id \<Rightarrow> (node_id, active_session) hash_map \<Rightarrow>
     bool \<times> (node_id, active_session) hash_map" where
  "remove_session_if_current nid sid sessions =
     (if (case hm_get sessions nid of Some session \<Rightarrow> as_session_id session = sid | None \<Rightarrow> False)
      then (True, hm_remove nid sessions)
      else (False, sessions))"

definition fingerprint_ok :: "(bytes \<Rightarrow> bytes) \<Rightarrow> node_id \<Rightarrow> peer_info \<Rightarrow> network_state \<Rightarrow> bool" where
  "fingerprint_ok sha256 nid info state =
     (case get_peer (ns_peers state) nid of
        Some peer \<Rightarrow>
          (case pi_public_key_fingerprint peer of
             Some expected \<Rightarrow> expected = public_key_fingerprint sha256 (pi_public_key info)
           | None \<Rightarrow> True)
      | None \<Rightarrow> True)"

text \<open>
  The deduplication decision: whether the new session is kept, the registry, and the
  session it replaced.
\<close>

definition dedup_session ::
    "node_id \<Rightarrow> session_register \<Rightarrow> (node_id, active_session) hash_map \<Rightarrow>
     bool \<times> active_session option \<times> (node_id, active_session) hash_map" where
  "dedup_session local_id reg sessions =
     (let nid = sr_node_id reg;
          keep_new = (case hm_get sessions nid of
                        Some existing \<Rightarrow>
                          should_replace_session local_id nid (as_direction existing) (sr_direction reg)
                      | None \<Rightarrow> True)
      in if keep_new
         then (True, hm_get sessions nid,
               hm_insert nid \<lparr>as_session_id = sr_session_id reg, as_task = sr_task reg,
                              as_direction = sr_direction reg\<rparr> sessions)
         else (False, None, sessions))"

text \<open>The rollback when the session has given up waiting for the decision.\<close>

definition undo_registration ::
    "session_register \<Rightarrow> active_session option \<Rightarrow> (node_id, active_session) hash_map \<Rightarrow>
     (node_id, active_session) hash_map" where
  "undo_registration reg replaced sessions =
     (if (case hm_get sessions (sr_node_id reg) of
            Some session \<Rightarrow> as_session_id session = sr_session_id reg | None \<Rightarrow> False)
      then let sessions = hm_remove (sr_node_id reg) sessions
           in case replaced of
                Some previous \<Rightarrow> hm_insert (sr_node_id reg) previous sessions
              | None \<Rightarrow> sessions
      else sessions)"

text \<open>
  \<open>waiting\<close> and \<open>answered\<close>: whether the session still waits for the decision when the
  command is taken up, and when the decision is sent.
\<close>

definition register_session ::
    "(bytes \<Rightarrow> bytes) \<Rightarrow> bool \<Rightarrow> bool \<Rightarrow> session_register \<Rightarrow> runtime \<Rightarrow> runtime" where
  "register_session sha256 waiting answered reg s =
     (if \<not> waiting then s
      else if \<not> fingerprint_ok sha256 (sr_node_id reg) (sr_info reg) (rn_state s)
      then
        emit (ConnectionError (Reason ''fingerprint_mismatch''))
          (if answered then s\<lparr>rn_decisions := (sr_task reg, False) # rn_decisions s\<rparr> else s)
      else
        case dedup_session (rn_local_id s) reg (rn_sessions s) of
          (accepted, replaced, sessions) \<Rightarrow>
            let s = s\<lparr>rn_sessions := sessions\<rparr>
            in if \<not> answered
               then if accepted
                    then s\<lparr>rn_sessions := undo_registration reg replaced sessions\<rparr> else s
               else
                 let s = s\<lparr>rn_decisions := (sr_task reg, accepted) # rn_decisions s\<rparr>;
                     s = (case replaced of Some previous \<Rightarrow> cancel_session previous s | None \<Rightarrow> s);
                     s = s\<lparr>rn_state := (rn_state s)\<lparr>
                           ns_peers := add_peer (sr_info reg) (ns_peers (rn_state s)),
                           ns_is_connected := rn_sessions s \<noteq> []\<rparr>\<rparr>;
                     s = emit_payload (sr_node_id reg) True s
                 in if accepted then emit (SessionEstablished (sr_node_id reg)) s else s)"

definition unregister_session :: "node_id \<Rightarrow> session_id \<Rightarrow> runtime \<Rightarrow> runtime" where
  "unregister_session nid sid s =
     (case remove_session_if_current nid sid (rn_sessions s) of
        (removed, sessions) \<Rightarrow>
          let s = s\<lparr>rn_sessions := sessions\<rparr>
          in if removed
             then
               let s = s\<lparr>rn_state := (rn_state s)\<lparr>ns_is_connected := sessions \<noteq> []\<rparr>\<rparr>;
                   s = emit_payload nid False s
               in emit (SessionLost nid) s
             else s)"

section \<open>Outbound connections\<close>

definition connect_to_peer_command :: "outbound_connect_request \<Rightarrow> runtime \<Rightarrow> runtime" where
  "connect_to_peer_command request s =
     (let addr = oc_addr request;
          report = (\<lambda>code s. if oc_report_errors request
                             then emit (ConnectionError (Reason code)) s else s)
      in if \<not> outbound_addr_allowed (rn_mode s) addr
         then report ''loopback_address_required'' s
         else if (case oc_expected_peer request of
                    Some expected \<Rightarrow> hm_contains (rn_sessions s) (ex_node_id expected)
                  | None \<Rightarrow> False)
         then s
         else
           let attempt_key = from_request request
           in if attempt_key \<in> set (rn_in_flight s) then s
              else if length (rn_in_flight s) \<ge> MAX_IN_FLIGHT_CONNECTS
              then report ''connect_overloaded'' s
              else s\<lparr>rn_in_flight := hs_insert attempt_key (rn_in_flight s),
                     rn_connecting := rn_connecting s @ [request]\<rparr>)"

definition connect_error_reason :: "io_error_kind \<Rightarrow> string" where
  "connect_error_reason kind =
     (case kind of
        ConnectionRefused \<Rightarrow> ''connection_refused''
      | TimedOut \<Rightarrow> ''timeout''
      | ConnectionReset \<Rightarrow> ''connection_reset''
      | HostUnreachable \<Rightarrow> ''host_unreachable''
      | NetworkUnreachable \<Rightarrow> ''network_unreachable''
      | PermissionDenied \<Rightarrow> ''permission_denied''
      | OtherKind \<Rightarrow> ''connect_error'')"

definition session_error_reason :: "session_error \<Rightarrow> reason" where
  "session_error_reason e =
     (case e of
        HandshakeTimeout \<Rightarrow> Reason ''handshake_timeout''
      | SubscribeTimeout \<Rightarrow> Reason ''subscribe_timeout''
      | _ \<Rightarrow> SessionFailed e)"

text \<open>
  The spawned connect task, from the dial to its end. \<open>elapsed\<close>: the dial timed out;
  \<open>tcp\<close>: the outcome of the system call; \<open>session\<close>: the outcome of the session run over it,
  which ends before the attempt is taken off the in-flight set.
\<close>

definition connect_task ::
    "bool \<Rightarrow> io_error_kind + unit \<Rightarrow> session_error + unit \<Rightarrow> outbound_connect_request \<Rightarrow> runtime \<Rightarrow> runtime" where
  "connect_task elapsed tcp session request s =
     (let report = (\<lambda>r s. if oc_report_errors request
                          then emit (ConnectionError r) s else s);
          (result, dialed) =
            connect_tcp_checked (rn_mode s) (oc_addr request) (\<lambda>addr log. (tcp, log @ [addr])) (rn_dialed s);
          s = s\<lparr>rn_dialed := dialed\<rparr>;
          s = (if elapsed then report (Reason ''timeout'') s
               else
                 case result of
                   Inr _ \<Rightarrow>
                     (case session of
                        Inl e \<Rightarrow> report (session_error_reason e) s
                      | Inr _ \<Rightarrow> s)
                 | Inl kind \<Rightarrow> report (Reason (connect_error_reason kind)) s)
      in s\<lparr>rn_in_flight := hs_remove (from_request request) (rn_in_flight s),
           rn_connecting := remove1 request (rn_connecting s)\<rparr>)"

definition update_latency :: "u32 \<Rightarrow> runtime \<Rightarrow> runtime" where
  "update_latency ms s =
     (let s = s\<lparr>rn_state := (rn_state s)\<lparr>ns_latency_ms := Some ms\<rparr>\<rparr>
      in fold (\<lambda>nid. emit (LatencyUpdate nid (sint ms))) (hm_keys (ns_peers (rn_state s))) s)"

definition scan_command :: "runtime \<Rightarrow> runtime" where
  "scan_command s =
     (case try_send () (rn_scan s) of Inr c \<Rightarrow> s\<lparr>rn_scan := c\<rparr> | Inl _ \<Rightarrow> s)"

section \<open>Outgoing messages and inbound connections\<close>

definition route_outgoing :: "node_id \<Rightarrow> network_message \<Rightarrow> runtime \<Rightarrow> runtime" where
  "route_outgoing target_id msg s =
     (case hm_get (rn_sessions s) target_id of
        Some session \<Rightarrow>
          (case try_send msg (rn_queues s (as_task session)) of
             Inr c \<Rightarrow> s\<lparr>rn_queues := (rn_queues s)(as_task session := c)\<rparr>
           | Inl _ \<Rightarrow>
               let s = cancel_session session s
               in s\<lparr>rn_sessions :=
                      snd (remove_session_if_current target_id (as_session_id session) (rn_sessions s))\<rparr>)
      | None \<Rightarrow> s)"

definition inbound_session_limiter :: nat where
  "inbound_session_limiter = MAX_INBOUND_SESSIONS"

text \<open>A connection without a permit is dropped before the handshake.\<close>

definition accept_connection :: "socket_addr \<Rightarrow> runtime \<Rightarrow> runtime" where
  "accept_connection peer_addr s =
     (if rn_permits s = 0 then s
      else s\<lparr>rn_permits := rn_permits s - 1, rn_inbound := rn_inbound s @ [peer_addr]\<rparr>)"

definition inbound_ended :: "socket_addr \<Rightarrow> runtime \<Rightarrow> runtime" where
  "inbound_ended peer_addr s =
     (if peer_addr \<in> set (rn_inbound s)
      then s\<lparr>rn_permits := rn_permits s + 1, rn_inbound := remove1 peer_addr (rn_inbound s)\<rparr>
      else s)"

section \<open>The tasks together\<close>

text \<open>
  \<open>UiReceive\<close>, \<open>SessionReceive\<close> and \<open>SessionClosed\<close> are turns of the other ends of the queues;
  \<open>CommandReceive\<close> takes a connect request of the discovery task out of the command queue.
\<close>

datatype runtime_event =
    Register bool bool session_register
  | Unregister node_id session_id
  | Incoming node_id network_message
  | Connect outbound_connect_request
  | CommandReceive
  | Latency u32
  | ScanRequested
  | ConnectFinished bool "io_error_kind + unit" "session_error + unit" outbound_connect_request
  | RouteOutgoing node_id network_message
  | MdnsEndpoint instant discovery_endpoint
  | UdpAnnouncement instant discovery_message socket_addr
  | ScanSignal
  | AnnounceTick
  | Accepted socket_addr
  | InboundEnded socket_addr
  | DisplayNameChanged string
  | UiReceive
  | SessionReceive nat
  | SessionClosed nat

definition runtime_command :: "'sk crypto \<Rightarrow> network_command \<Rightarrow> runtime \<Rightarrow> runtime" where
  "runtime_command C cmd s =
     (case cmd of
        RegisterSession reg \<Rightarrow> register_session (cr_sha256 C) True True reg s
      | UnregisterSession nid sid \<Rightarrow> unregister_session nid sid s
      | IncomingMessage sender_id msg \<Rightarrow> snd (forward_incoming_message_to_ui C sender_id msg s)
      | ConnectToPeer request \<Rightarrow> connect_to_peer_command request s
      | UpdateLatency ms \<Rightarrow> update_latency ms s
      | Scan \<Rightarrow> scan_command s)"

definition runtime_step :: "'sk crypto \<Rightarrow> runtime \<Rightarrow> runtime_event \<Rightarrow> runtime option" where
  "runtime_step C s ev =
     Some (case ev of
       Register waiting answered reg \<Rightarrow> register_session (cr_sha256 C) waiting answered reg s
     | Unregister nid sid \<Rightarrow> runtime_command C (UnregisterSession nid sid) s
     | Incoming sender_id msg \<Rightarrow> runtime_command C (IncomingMessage sender_id msg) s
     | Connect request \<Rightarrow> runtime_command C (ConnectToPeer request) s
     | CommandReceive \<Rightarrow>
         (case ch_buf (rn_session_commands s) of
            [] \<Rightarrow> s
          | cmd # rest \<Rightarrow>
              runtime_command C cmd
                (s\<lparr>rn_session_commands := (rn_session_commands s)\<lparr>ch_buf := rest\<rparr>\<rparr>))
     | Latency ms \<Rightarrow> runtime_command C (UpdateLatency ms) s
     | ScanRequested \<Rightarrow> runtime_command C Scan s
     | ConnectFinished elapsed tcp session request \<Rightarrow>
         if request \<in> set (rn_connecting s) then connect_task elapsed tcp session request s else s
     | RouteOutgoing target_id msg \<Rightarrow> route_outgoing target_id msg s
     | MdnsEndpoint now endpoint \<Rightarrow>
         (case rn_discovery s of Some _ \<Rightarrow> mdns_endpoint now endpoint s | None \<Rightarrow> s)
     | UdpAnnouncement now msg addr \<Rightarrow>
         (case rn_discovery s of Some ds \<Rightarrow> udp_announcement now msg addr ds s | None \<Rightarrow> s)
     | ScanSignal \<Rightarrow> (case rn_discovery s of Some ds \<Rightarrow> scan_signal ds s | None \<Rightarrow> s)
     | AnnounceTick \<Rightarrow>
         (case rn_discovery s of
            Some ds \<Rightarrow> announce (announce_msg ds (rn_display_name s)) s
          | None \<Rightarrow> s)
     | Accepted addr \<Rightarrow> accept_connection addr s
     | InboundEnded addr \<Rightarrow> inbound_ended addr s
     | DisplayNameChanged name \<Rightarrow> s\<lparr>rn_display_name := name\<rparr>
     | UiReceive \<Rightarrow> s\<lparr>rn_ui := (rn_ui s)\<lparr>ch_buf := tl (ch_buf (rn_ui s))\<rparr>\<rparr>
     | SessionReceive task \<Rightarrow>
         s\<lparr>rn_queues := (rn_queues s)(task := (rn_queues s task)\<lparr>ch_buf := tl (ch_buf (rn_queues s task))\<rparr>)\<rparr>
     | SessionClosed task \<Rightarrow>
         s\<lparr>rn_queues := (rn_queues s)(task := (rn_queues s task)\<lparr>ch_closed := True\<rparr>)\<rparr>)"

text \<open>
  The start of \<open>run_network_runtime\<close>: the sockets it opens, the events it sends, and the
  state its tasks start from unless it returns at once. \<open>bound\<close> and \<open>port\<close> are the outcomes
  of binding the listener and of reading its port; \<open>discovery\<close> is the outcome of creating
  the discovery service.
\<close>

datatype socket_kind = TcpListener socket_addr | DiscoverySockets

definition run_network_runtime ::
    "network_mode \<Rightarrow> node_id \<Rightarrow> string \<Rightarrow> bool \<Rightarrow> u16 option \<Rightarrow> discovery_service option \<Rightarrow> network_state \<Rightarrow>
     (node_id, active_session) hash_map \<Rightarrow> ui_event chan \<Rightarrow> socket_kind list \<times> ui_event chan \<times> runtime option" where
  "run_network_runtime mode local_id display_name bound port discovery state sessions ui_tx =
     (if mode = Offline then ([], ui_tx, None)
      else
        let bind_addr = session_bind_addr mode
        in if \<not> bound
           then
             let ui_tx = snd (try_emit_ui_event (ConnectionError (Reason ''bind_failed'')) ui_tx);
                 status = (if mode = Lan then LanPortUnavailable SESSION_TCP_PORT else PortUnavailable)
             in ([], snd (try_emit_ui_event (NetworkStatusUpdate status) ui_tx), None)
           else
             case port of
               None \<Rightarrow>
                 let ui_tx = snd (try_emit_ui_event (ConnectionError (Reason ''bind_failed'')) ui_tx)
                 in ([TcpListener bind_addr],
                     snd (try_emit_ui_event (NetworkStatusUpdate PortUnreadable) ui_tx), None)
             | Some session_port \<Rightarrow>
                 let discovery = (if mode \<noteq> Lan then None else discovery)
                 in (TcpListener bind_addr # (if mode = Lan then [DiscoverySockets] else []), ui_tx,
                     Some
                       \<lparr>rn_local_id = local_id, rn_mode = mode, rn_display_name = display_name,
                        rn_state = state, rn_sessions = sessions,
                        rn_queues = (\<lambda>_. session_outgoing_channel), rn_cancelled = [],
                        rn_decisions = [], rn_ui = ui_tx,
                        rn_session_commands = chan_new SESSION_COMMAND_CAPACITY,
                        rn_scan = chan_new SCAN_COMMAND_CAPACITY, rn_in_flight = [],
                        rn_connecting = [], rn_dialed = [], rn_attempts = [],
                        rn_discovery = discovery, rn_announced = [],
                        rn_permits = inbound_session_limiter, rn_inbound = []\<rparr>))"

text \<open>
  The end: every registered session is told to stop. \<open>wait_for_shutdown\<close> looks at the
  current value of the flag first and then at its changes; it returns also when the sender
  is gone, which is the end of the list. Its result is the list of changes not looked at.
\<close>

definition runtime_stopped :: "runtime \<Rightarrow> runtime" where
  "runtime_stopped s = fold (\<lambda>(_, session). cancel_session session) (rn_sessions s) s"

fun shutdown_changes :: "bool list \<Rightarrow> bool list" where
  "shutdown_changes [] = []"
| "shutdown_changes (b # bs) = (if b then bs else shutdown_changes bs)"

definition wait_for_shutdown :: "bool \<Rightarrow> bool list \<Rightarrow> bool list" where
  "wait_for_shutdown now changes = (if now then changes else shutdown_changes changes)"

end
