(* ===== verification/Runtime_Theorems.thy ===== *)
theory Runtime_Theorems
  imports Runtime
begin

text \<open>
  Properties of the network runtime: its resource bounds, the policy on sockets and
  addresses, the agreement of two nodes on one connection, and the life of a registration.
\<close>

section \<open>Invariant\<close>

definition connects_inv :: "runtime \<Rightarrow> bool" where
  "connects_inv s =
     (distinct (map from_request (rn_connecting s))
      \<and> set (rn_in_flight s) = from_request ` set (rn_connecting s)
      \<and> distinct (rn_in_flight s) \<and> length (rn_in_flight s) \<le> MAX_IN_FLIGHT_CONNECTS)"

definition queues_inv :: "runtime \<Rightarrow> bool" where
  "queues_inv s =
     (chan_wf (rn_ui s) \<and> chan_wf (rn_session_commands s) \<and> chan_wf (rn_scan s)
      \<and> (\<forall>task. chan_wf (rn_queues s task)))"

definition tables_inv :: "runtime \<Rightarrow> bool" where
  "tables_inv s =
     (hm_wf (rn_sessions s) \<and> peer_table_inv (ns_peers (rn_state s))
      \<and> hm_wf (rn_attempts s) \<and> hm_len (rn_attempts s) \<le> MAX_DISCOVERY_ENDPOINT_ATTEMPTS)"

definition runtime_inv :: "network_mode \<Rightarrow> runtime \<Rightarrow> bool" where
  "runtime_inv m s =
     (rn_mode s = m \<and> (\<forall>addr \<in> set (rn_dialed s). outbound_addr_allowed m addr)
      \<and> rn_permits s + length (rn_inbound s) = MAX_INBOUND_SESSIONS
      \<and> connects_inv s \<and> queues_inv s \<and> tables_inv s)"

lemmas runtime_invs = runtime_inv_def connects_inv_def queues_inv_def tables_inv_def

lemma emit_wf: "chan_wf c \<Longrightarrow> chan_wf (snd (try_emit_ui_event ev c))"
  using try_send_wf [of c ev] by (auto simp: try_emit_ui_event_def split: sum.splits send_error.splits)

lemma emit_inv [simp, intro]: "runtime_inv m s \<Longrightarrow> runtime_inv m (emit ev s)"
  using emit_wf by (simp add: runtime_invs emit_def)

lemma emits_inv: "runtime_inv m s \<Longrightarrow> runtime_inv m (fold (\<lambda>x. emit (f x)) xs s)"
  by (induction xs arbitrary: s) auto

lemma emit_payload_inv [simp, intro]: "runtime_inv m s \<Longrightarrow> runtime_inv m (emit_payload nid b s)"
  by (auto simp: emit_payload_def split: option.split)

lemma cancel_session_inv [simp, intro]: "runtime_inv m s \<Longrightarrow> runtime_inv m (cancel_session session s)"
  by (simp add: runtime_invs cancel_session_def)

lemma runtime_inv_peers: "runtime_inv m s \<Longrightarrow> peer_table_inv (ns_peers (rn_state s))"
  by (simp add: runtime_invs)

lemma peers_inv_update:
  "runtime_inv m s \<Longrightarrow> peer_table_inv (ns_peers st) \<Longrightarrow> runtime_inv m (s\<lparr>rn_state := st\<rparr>)"
  by (simp add: runtime_invs)

lemma sessions_inv_update:
  "runtime_inv m s \<Longrightarrow> hm_wf sessions \<Longrightarrow> runtime_inv m (s\<lparr>rn_sessions := sessions\<rparr>)"
  by (simp add: runtime_invs)

lemma decisions_inv_update: "runtime_inv m s \<Longrightarrow> runtime_inv m (s\<lparr>rn_decisions := d\<rparr>)"
  by (simp add: runtime_invs)

lemma announce_inv: "runtime_inv m s \<Longrightarrow> runtime_inv m (announce msg s)"
  by (simp add: runtime_invs announce_def)

lemma remove_expired_inv: "peer_table_inv tbl \<Longrightarrow> peer_table_inv (snd (remove_expired now tbl))"
  using table_step_inv [of tbl "T_Expire now"] by simp

section \<open>Each turn keeps the invariant\<close>

lemma forward_inv:
  assumes "runtime_inv m s"
  shows "runtime_inv m (snd (forward_incoming_message_to_ui C sender msg s))"
proof -
  have "runtime_inv m (s\<lparr>rn_ui := c\<rparr>)" if "try_send ev (rn_ui s) = Inr c" for ev c
    using assms try_send_wf [OF _ that] by (simp add: runtime_invs)
  then show ?thesis
    using assms by (auto simp: forward_incoming_message_to_ui_def split: option.split sum.split)
qed

lemma register_endpoint_inv:
  assumes "runtime_inv m s"
  shows "runtime_inv m (snd (register_discovered_endpoint now ep s))"
proof -
  have "peer_table_inv (snd (remove_expired now (add_peer p (ns_peers (rn_state s)))))" for p
    using assms remove_expired_inv add_peer_inv by (auto simp: runtime_inv_def tables_inv_def)
  then show ?thesis
    using assms by (auto simp: register_discovered_endpoint_def Let_def intro!: peers_inv_update)
qed

lemma should_attempt_inv:
  assumes "hm_wf a" and "hm_len a \<le> MAX_DISCOVERY_ENDPOINT_ATTEMPTS"
  shows "hm_wf (snd (should_attempt_discovered_session now nid addr a))
    \<and> hm_len (snd (should_attempt_discovered_session now nid addr a)) \<le> MAX_DISCOVERY_ENDPOINT_ATTEMPTS"
proof (cases "hm_get a nid")
  case None
  then show ?thesis
    using assms hm_insert_evict_bound [of a MAX_DISCOVERY_ENDPOINT_ATTEMPTS nid snd "(addr, now)"]
    by (simp add: should_attempt_discovered_session_def hm_insert_evict_wf MAX_DISCOVERY_ENDPOINT_ATTEMPTS_def)
next
  case (Some p)
  then show ?thesis
    using assms by (auto simp: should_attempt_discovered_session_def hm.len_put split: prod.splits)
qed

lemma mdns_endpoint_inv:
  assumes "runtime_inv m s"
  shows "runtime_inv m (mdns_endpoint now ep s)"
proof -
  obtain addr s1 where r: "register_discovered_endpoint now ep s = (addr, s1)"
    by (cases "register_discovered_endpoint now ep s")
  then have s1: "runtime_inv m s1" using register_endpoint_inv [OF assms, of now ep] by simp
  obtain b a where a: "should_attempt_discovered_session now (de_node_id ep) addr (rn_attempts s1) = (b, a)"
    by (cases "should_attempt_discovered_session now (de_node_id ep) addr (rn_attempts s1)")
  then have s2: "runtime_inv m (s1\<lparr>rn_attempts := a\<rparr>)"
    using s1 should_attempt_inv [of "rn_attempts s1" now "de_node_id ep" addr] by (simp add: runtime_invs)
  then have "runtime_inv m (s1\<lparr>rn_attempts := a, rn_session_commands := c\<rparr>)"
    if "try_send cmd (rn_session_commands s1) = Inr c" for cmd c
    using try_send_wf [OF _ that] by (simp add: runtime_invs)
  then show ?thesis
    using r a s2 by (auto simp: mdns_endpoint_def Let_def split: sum.split)
qed

lemma dedup_wf: "hm_wf sessions \<Longrightarrow> dedup_session lid reg sessions = (a, r, sessions') \<Longrightarrow> hm_wf sessions'"
  by (auto simp: dedup_session_def Let_def split: if_splits)

lemma undo_wf: "hm_wf sessions \<Longrightarrow> hm_wf (undo_registration reg r sessions)"
  by (auto simp: undo_registration_def Let_def split: option.split)

lemma register_session_inv:
  assumes inv: "runtime_inv m s"
  shows "runtime_inv m (register_session sha waiting answered reg s)"
proof -
  obtain a r sessions where d: "dedup_session (rn_local_id s) reg (rn_sessions s) = (a, r, sessions)"
    by (cases "dedup_session (rn_local_id s) reg (rn_sessions s)")
  have wf: "hm_wf sessions" "hm_wf (undo_registration reg r sessions)"
    using dedup_wf [OF _ d] undo_wf inv by (auto simp: runtime_inv_def tables_inv_def)
  let ?s = "s\<lparr>rn_sessions := sessions, rn_decisions := (sr_task reg, a) # rn_decisions s\<rparr>"
  let ?t = "case r of Some previous \<Rightarrow> cancel_session previous ?s | None \<Rightarrow> ?s"
  have "runtime_inv m ?s"
    using inv wf sessions_inv_update decisions_inv_update by blast
  then have t: "runtime_inv m ?t" by (auto split: option.split)
  moreover have "peer_table_inv (add_peer (sr_info reg) (ns_peers (rn_state ?t)))"
    using t add_peer_inv by (auto simp: runtime_inv_def tables_inv_def)
  ultimately have "runtime_inv m (?t\<lparr>rn_state := (rn_state ?t)\<lparr>
        ns_peers := add_peer (sr_info reg) (ns_peers (rn_state ?t)), ns_is_connected := b\<rparr>\<rparr>)" for b
    by (intro peers_inv_update) simp_all
  then show ?thesis
    using inv wf d by (auto simp: register_session_def Let_def
        intro!: emit_inv emit_payload_inv sessions_inv_update decisions_inv_update)
qed

lemma unregister_session_inv:
  assumes "runtime_inv m s"
  shows "runtime_inv m (unregister_session nid sid s)"
proof -
  have "hm_wf (snd (remove_session_if_current nid sid (rn_sessions s)))"
    using assms by (auto simp: remove_session_if_current_def runtime_inv_def tables_inv_def)
  then have "runtime_inv m (s\<lparr>rn_sessions := snd (remove_session_if_current nid sid (rn_sessions s))\<rparr>)"
    using assms by (rule_tac sessions_inv_update)
  then show ?thesis
    using runtime_inv_peers [OF assms]
    by (auto simp: unregister_session_def Let_def split: prod.split
        intro!: emit_inv emit_payload_inv peers_inv_update)
qed

lemma connect_command_inv:
  assumes "runtime_inv m s"
  shows "runtime_inv m (connect_to_peer_command request s)"
proof -
  have "runtime_inv m (s\<lparr>rn_in_flight := hs_insert (from_request request) (rn_in_flight s),
      rn_connecting := rn_connecting s @ [request]\<rparr>)"
    if "from_request request \<notin> set (rn_in_flight s)" "length (rn_in_flight s) < MAX_IN_FLIGHT_CONNECTS"
    using assms that by (auto simp: runtime_invs hs_length)
  then show ?thesis
    using assms by (auto simp: connect_to_peer_command_def Let_def)
qed

text \<open>Taking a finished attempt off both lists, with its address possibly dialed.\<close>

lemma connect_done_inv:
  assumes inv: "runtime_inv m s" and mem: "request \<in> set (rn_connecting s)"
  shows "runtime_inv m (s\<lparr>rn_in_flight := hs_remove (from_request request) (rn_in_flight s),
    rn_connecting := remove1 request (rn_connecting s)\<rparr>)"
proof -
  have dist: "distinct (map from_request (rn_connecting s))"
    and keys: "set (rn_in_flight s) = from_request ` set (rn_connecting s)"
    using inv by (auto simp: runtime_inv_def connects_inv_def)
  have "distinct (rn_connecting s)" "inj_on from_request (set (rn_connecting s))"
    using dist by (auto simp: distinct_map)
  then have "from_request ` set (remove1 request (rn_connecting s)) = set (rn_in_flight s) - {from_request request}"
    using mem keys by (auto simp: inj_on_def)
  moreover have "distinct (map from_request (remove1 request (rn_connecting s)))"
    using dist by (auto simp: distinct_map inj_on_def dest: notin_set_remove1)
  ultimately show ?thesis
    using inv hs_length(2) [of "from_request request" "rn_in_flight s"] by (auto simp: runtime_invs)
qed

lemma connect_task_inv:
  assumes inv: "runtime_inv m s" and mem: "request \<in> set (rn_connecting s)"
  shows "runtime_inv m (connect_task elapsed tcp session request s)"
proof -
  obtain result dialed where d:
    "connect_tcp_checked (rn_mode s) (oc_addr request) (\<lambda>addr log. (tcp, log @ [addr])) (rn_dialed s) = (result, dialed)"
    by force
  then have "set dialed \<subseteq> {addr. outbound_addr_allowed m addr}"
    using inv by (auto simp: connect_tcp_checked_def runtime_inv_def split: if_splits)
  then have "runtime_inv m (s\<lparr>rn_dialed := dialed\<rparr>)"
    using inv by (auto simp: runtime_invs)
  then have "runtime_inv m (emit ev (s\<lparr>rn_dialed := dialed\<rparr>))" "runtime_inv m (s\<lparr>rn_dialed := dialed\<rparr>)" for ev
    by auto
  moreover have "rn_connecting (emit ev (s\<lparr>rn_dialed := dialed\<rparr>)) = rn_connecting s" for ev
    by (simp add: emit_def)
  ultimately show ?thesis
    using mem d connect_done_inv
    by (auto simp: connect_task_def Let_def split: sum.split)
qed

lemma route_outgoing_inv:
  assumes "runtime_inv m s"
  shows "runtime_inv m (route_outgoing target msg s)"
proof -
  have "runtime_inv m (s\<lparr>rn_queues := (rn_queues s)(t := c)\<rparr>)" if "try_send msg (rn_queues s t) = Inr c" for t c
    using assms try_send_wf [OF _ that] by (simp add: runtime_invs)
  moreover have "runtime_inv m ((cancel_session session s)\<lparr>rn_sessions :=
      snd (remove_session_if_current target sid (rn_sessions (cancel_session session s)))\<rparr>)" for session sid
    using cancel_session_inv [OF assms, of session]
    by (intro sessions_inv_update) (auto simp: remove_session_if_current_def runtime_inv_def tables_inv_def)
  ultimately show ?thesis
    using assms by (auto simp: route_outgoing_def Let_def split: option.split sum.split)
qed

lemma inbound_inv:
  "runtime_inv m s \<Longrightarrow> runtime_inv m (accept_connection addr s)"
  "runtime_inv m s \<Longrightarrow> runtime_inv m (inbound_ended addr s)"
proof -
  assume inv: "runtime_inv m s"
  show "runtime_inv m (accept_connection addr s)"
    using inv by (auto simp: runtime_invs accept_connection_def)
  have "Suc (rn_permits s + (length (rn_inbound s) - Suc 0)) = rn_permits s + length (rn_inbound s)"
    if "addr \<in> set (rn_inbound s)"
    using that by (cases "rn_inbound s") auto
  then show "runtime_inv m (inbound_ended addr s)"
    using inv by (auto simp: runtime_invs inbound_ended_def length_remove1)
qed

lemma chan_tl_wf: "chan_wf c \<Longrightarrow> chan_wf (c\<lparr>ch_buf := tl (ch_buf c)\<rparr>)"
  by (simp add: chan_wf_def)

lemma scan_inv:
  assumes "runtime_inv m s"
  shows "runtime_inv m (scan_command s)" and "runtime_inv m (scan_signal ds s)"
proof -
  show "runtime_inv m (scan_command s)"
    using assms try_send_wf by (auto simp: scan_command_def runtime_invs split: sum.split)
  have "runtime_inv m (s\<lparr>rn_scan := (rn_scan s)\<lparr>ch_buf := rest\<rparr>\<rparr>)" if "ch_buf (rn_scan s) = u # rest" for u rest
    using assms that by (simp add: runtime_invs chan_wf_def)
  then show "runtime_inv m (scan_signal ds s)"
    using assms by (auto simp: scan_signal_def intro!: announce_inv split: list.split)
qed

lemma update_latency_inv: "runtime_inv m s \<Longrightarrow> runtime_inv m (update_latency ms s)"
  unfolding update_latency_def Let_def
  by (rule emits_inv) (simp add: runtime_invs)

lemma runtime_command_inv: "runtime_inv m s \<Longrightarrow> runtime_inv m (runtime_command C cmd s)"
  by (cases cmd) (simp_all add: runtime_command_def register_session_inv unregister_session_inv
      forward_inv connect_command_inv update_latency_inv scan_inv)

lemma runtime_step_inv:
  assumes inv: "runtime_inv m s" and step: "runtime_step C s ev = Some s'"
  shows "runtime_inv m s'"
proof (cases ev)
  case CommandReceive
  have "runtime_inv m (s\<lparr>rn_session_commands := (rn_session_commands s)\<lparr>ch_buf := rest\<rparr>\<rparr>)"
    if "ch_buf (rn_session_commands s) = cmd # rest" for cmd rest
    using inv that by (simp add: runtime_invs chan_wf_def)
  then show ?thesis
    using CommandReceive inv step
    by (auto simp: runtime_step_def intro!: runtime_command_inv split: list.splits)
next
  case UiReceive
  then show ?thesis using inv step by (auto simp: runtime_step_def runtime_invs chan_wf_def)
next
  case (SessionReceive t)
  then show ?thesis using inv step by (auto simp: runtime_step_def runtime_invs chan_tl_wf)
next
  case (SessionClosed t)
  then show ?thesis using inv step by (auto simp: runtime_step_def runtime_invs chan_wf_def)
next
  case (DisplayNameChanged name)
  then show ?thesis using inv step by (auto simp: runtime_step_def runtime_invs)
next
  case (UdpAnnouncement now msg addr)
  then show ?thesis
    using inv step by (auto simp: runtime_step_def udp_announcement_def
        intro!: mdns_endpoint_inv announce_inv split: option.splits if_splits)
qed (use inv step in \<open>auto simp: runtime_step_def
    intro!: runtime_command_inv register_session_inv connect_task_inv route_outgoing_inv mdns_endpoint_inv
      announce_inv inbound_inv scan_inv split: option.splits if_splits\<close>)

interpretation nr: event_machine "runtime_step C" "\<lambda>_. True" "runtime_inv m" for C m
  by unfold_locales (rule runtime_step_inv)

section \<open>Bounds and policy\<close>

lemma runtime_boot_inv:
  assumes "run_network_runtime m lid name bound port ds state sessions ui = (socks, ui', Some s)"
    and "hm_wf sessions" and "peer_table_inv (ns_peers state)" and "chan_wf ui"
  shows "runtime_inv m s"
  using assms
  by (auto simp: run_network_runtime_def Let_def runtime_invs chan_new_def chan_wf_def
      session_outgoing_channel_def inbound_session_limiter_def split: if_splits option.splits)

text \<open>
  C11: the runtime is bounded whatever its peers do. From its start, through every
  interleaving of its tasks, there are at most 32 outbound attempts, each to its own peer
  or address, at most 16 inbound connections, 256 remembered attempts and 64 peers, one
  session per peer, and no queue outgrows its capacity.
\<close>

theorem runtime_bounded:
  assumes "run_network_runtime m lid name bound port ds state sessions ui = (socks, ui', Some s0)"
    and "hm_wf sessions" and "peer_table_inv (ns_peers state)" and "chan_wf ui"
    and "run_steps (runtime_step C) s0 events = Some s"
  shows "length (rn_connecting s) \<le> 32 \<and> distinct (map from_request (rn_connecting s))
    \<and> length (rn_inbound s) \<le> 16 \<and> hm_len (rn_attempts s) \<le> 256
    \<and> hm_len (ns_peers (rn_state s)) \<le> 64 \<and> hm_wf (rn_sessions s)
    \<and> length (ch_buf (rn_ui s)) \<le> ch_cap (rn_ui s)
    \<and> (\<forall>task. length (ch_buf (rn_queues s task)) \<le> ch_cap (rn_queues s task))"
proof -
  have inv: "runtime_inv m s"
    using nr.run_inv [OF runtime_boot_inv [OF assms(1-4)] _ assms(5)] by (simp add: list_all_iff)
  then have "length (rn_connecting s) = length (rn_in_flight s)"
    using distinct_card [of "rn_in_flight s"] distinct_card [of "map from_request (rn_connecting s)"]
    by (auto simp: runtime_inv_def connects_inv_def)
  then show ?thesis
    using inv by (auto simp: runtime_invs chan_wf_def peer_table_inv_def MAX_IN_FLIGHT_CONNECTS_def
        MAX_INBOUND_SESSIONS_def MAX_DISCOVERY_ENDPOINT_ATTEMPTS_def MAX_DISCOVERED_PEERS_def)
qed

definition demo_state :: network_state where
  "demo_state = \<lparr>ns_peers = [], ns_is_connected = False, ns_latency_ms = None\<rparr>"

definition demo_boot :: "network_mode \<Rightarrow> runtime" where
  "demo_boot m = the (snd (snd (run_network_runtime m 1 ''Ann'' True (Some 42420) None demo_state []
     create_ui_channel)))"

lemma demo_boot_start:
  "m \<noteq> Offline \<Longrightarrow> run_network_runtime m 1 ''Ann'' True (Some 42420) None demo_state [] create_ui_channel =
     (fst (run_network_runtime m 1 ''Ann'' True (Some 42420) None demo_state [] create_ui_channel),
      create_ui_channel, Some (demo_boot m))"
  by (auto simp: run_network_runtime_def demo_boot_def Let_def)

lemma demo_start_ok: "hm_wf ([] :: (node_id, active_session) hash_map)" "peer_table_inv (ns_peers demo_state)"
    "chan_wf create_ui_channel"
  by (simp_all add: demo_state_def peer_table_inv_def create_ui_channel_def chan_new_def chan_wf_def)

lemma runtime_step_total: "run_steps (runtime_step C) s events \<noteq> None"
  by (induction events arbitrary: s) (auto simp: runtime_step_def)

theorem runtime_bounded_witness:
  "\<exists>s. run_steps (runtime_step demo_crypto) (demo_boot Lan)
      (map (\<lambda>i. Accepted (IPv4 (of_nat i), 1)) [0..<40]) = Some s \<and> length (rn_inbound s) \<le> 16"
proof -
  obtain s where "run_steps (runtime_step demo_crypto) (demo_boot Lan)
      (map (\<lambda>i. Accepted (IPv4 (of_nat i), 1)) [0..<40]) = Some s"
    using runtime_step_total by blast
  moreover from runtime_bounded [OF demo_boot_start demo_start_ok this] have "length (rn_inbound s) \<le> 16"
    by simp
  ultimately show ?thesis by blast
qed

text \<open>
  C20: the network mode decides what the runtime may reach. Offline it opens no socket and
  does not run; in the loopback mode it listens on the loopback interface only, without
  discovery; and through every interleaving it dials only addresses the mode allows, so
  none but loopback addresses in the loopback mode.
\<close>

theorem sockets_follow_mode:
  assumes "run_network_runtime m lid name bound port ds state sessions ui = (socks, ui', started)"
    and "hm_wf sessions" and "peer_table_inv (ns_peers state)" and "chan_wf ui"
  shows "(m = Offline \<longrightarrow> socks = [] \<and> started = None)
    \<and> (m = LoopbackTest \<longrightarrow> (\<forall>sock \<in> set socks. \<exists>ip port. sock = TcpListener (ip, port) \<and> is_loopback ip))
    \<and> (\<forall>s0 events s addr. started = Some s0 \<and> run_steps (runtime_step C) s0 events = Some s
          \<and> addr \<in> set (rn_dialed s)
        \<longrightarrow> outbound_addr_allowed m addr \<and> (m = LoopbackTest \<longrightarrow> is_loopback (fst addr)))"
proof -
  have "is_loopback (IPv4 0x7F000001)"
    by code_simp
  then have "m = LoopbackTest \<longrightarrow> (\<forall>sock \<in> set socks. \<exists>ip port. sock = TcpListener (ip, port) \<and> is_loopback ip)"
    using assms(1) by (auto simp: run_network_runtime_def session_bind_addr_def Let_def
        split: if_splits option.splits)
  moreover have "outbound_addr_allowed m addr"
    if "started = Some s0" "run_steps (runtime_step C) s0 events = Some s" "addr \<in> set (rn_dialed s)"
    for s0 events s addr
  proof -
    have "runtime_inv m s0"
      using assms that(1) by (auto intro: runtime_boot_inv)
    then have "runtime_inv m s"
      using nr.run_inv that(2) by (metis list_all_iff)
    then show ?thesis using that(3) by (simp add: runtime_inv_def)
  qed
  moreover have "m = Offline \<longrightarrow> socks = [] \<and> started = None"
    using assms(1) by (auto simp: run_network_runtime_def)
  ultimately show ?thesis by (auto simp: outbound_addr_allowed_def)
qed

theorem sockets_follow_mode_witness:
  "\<exists>s. run_steps (runtime_step demo_crypto) (demo_boot LoopbackTest)
      [Connect \<lparr>oc_addr = (IPv4 0x7F000001, 9), oc_expected_peer = None, oc_report_errors = True\<rparr>,
       ConnectFinished False (Inl ConnectionRefused) (Inr ())
         \<lparr>oc_addr = (IPv4 0x7F000001, 9), oc_expected_peer = None, oc_report_errors = True\<rparr>] = Some s
     \<and> rn_dialed s = [(IPv4 0x7F000001, 9)] \<and> is_loopback (IPv4 0x7F000001)"
proof -
  let ?events = "[Connect \<lparr>oc_addr = (IPv4 0x7F000001, 9), oc_expected_peer = None, oc_report_errors = True\<rparr>,
       ConnectFinished False (Inl ConnectionRefused) (Inr ())
         \<lparr>oc_addr = (IPv4 0x7F000001, 9), oc_expected_peer = None, oc_report_errors = True\<rparr>]"
  obtain s where s: "run_steps (runtime_step demo_crypto) (demo_boot LoopbackTest) ?events = Some s"
    using runtime_step_total by blast
  moreover have "rn_dialed (the (run_steps (runtime_step demo_crypto) (demo_boot LoopbackTest) ?events))
      = [(IPv4 0x7F000001, 9)]"
    by code_simp
  ultimately have dialed: "rn_dialed s = [(IPv4 0x7F000001, 9)]" by simp
  have "is_loopback (fst (IPv4 0x7F000001, 9 :: u16))"
    using sockets_follow_mode [OF demo_boot_start demo_start_ok, of LoopbackTest demo_crypto] s dialed
    by (metis list.set_intros(1) network_mode.distinct(5))
  then show ?thesis using s dialed by simp
qed

section \<open>One connection between two nodes\<close>

lemma sessions_of_emits [simp]:
  "rn_sessions (emit ev s) = rn_sessions s" "rn_sessions (emit_payload nid b s) = rn_sessions s"
  "rn_sessions (cancel_session session s) = rn_sessions s"
  "rn_local_id (emit ev s) = rn_local_id s" "rn_local_id (emit_payload nid b s) = rn_local_id s"
  "rn_local_id (cancel_session session s) = rn_local_id s"
  "rn_state (emit ev s) = rn_state s" "rn_state (emit_payload nid b s) = rn_state s"
  "rn_state (cancel_session session s) = rn_state s"
  "rn_cancelled (emit ev s) = rn_cancelled s" "rn_cancelled (emit_payload nid b s) = rn_cancelled s"
  by (simp_all add: emit_def emit_payload_def cancel_session_def split: option.split)

text \<open>A registration the session waits for, of a peer whose key is as announced.\<close>

lemma register_answered:
  assumes "fingerprint_ok sha (sr_node_id reg) (sr_info reg) (rn_state s)"
  shows "rn_sessions (register_session sha True True reg s) =
           snd (snd (dedup_session (rn_local_id s) reg (rn_sessions s)))
    \<and> rn_local_id (register_session sha True True reg s) = rn_local_id s
    \<and> ns_peers (rn_state (register_session sha True True reg s)) =
        add_peer (sr_info reg) (ns_peers (rn_state s))"
  using assms by (auto simp: register_session_def Let_def split: prod.split option.split)

text \<open>Session records carry no fingerprint, so adding one keeps the announced one.\<close>

lemma fingerprint_ok_add_peer:
  assumes "fingerprint_ok sha nid info st" and "ns_peers st' = add_peer info' (ns_peers st)"
    and "pi_public_key_fingerprint info' = None"
  shows "fingerprint_ok sha nid info st'"
  using assms
  by (auto simp: fingerprint_ok_def get_peer_def add_peer_def hm_insert_evict_get hm_gets merge_peer_def
      split: option.splits if_splits)

definition session_of :: "session_register \<Rightarrow> active_session" where
  "session_of reg = \<lparr>as_session_id = sr_session_id reg, as_task = sr_task reg, as_direction = sr_direction reg\<rparr>"

definition preferred :: "node_id \<Rightarrow> node_id \<Rightarrow> connection_direction" where
  "preferred local remote = (if local < remote then Outbound else Inbound)"

text \<open>Of two connections of opposite directions the preferred one stays, in either order.\<close>

lemma two_registrations:
  assumes none: "hm_get (rn_sessions s) remote = None"
    and ids: "sr_node_id r1 = remote" "sr_node_id r2 = remote"
    and fp: "fingerprint_ok sha remote (sr_info r1) (rn_state s)"
      "fingerprint_ok sha remote (sr_info r2) (rn_state s)"
      "pi_public_key_fingerprint (sr_info r1) = None"
    and dirs: "sr_direction r1 \<noteq> sr_direction r2"
  shows "hm_get (rn_sessions (register_session sha True True r2 (register_session sha True True r1 s))) remote =
    Some (session_of (if sr_direction r1 = preferred (rn_local_id s) remote then r1 else r2))"
proof -
  let ?s = "register_session sha True True r1 s"
  have one: "rn_sessions ?s = hm_insert remote (session_of r1) (rn_sessions s)" "rn_local_id ?s = rn_local_id s"
    "ns_peers (rn_state ?s) = add_peer (sr_info r1) (ns_peers (rn_state s))"
    using register_answered [of sha r1 s] none ids fp(1) by (auto simp: dedup_session_def session_of_def)
  then have "fingerprint_ok sha (sr_node_id r2) (sr_info r2) (rn_state ?s)"
    using fingerprint_ok_add_peer fp ids by metis
  from register_answered [OF this] show ?thesis
    using one dirs ids none
    by (cases "sr_direction r1"; cases "sr_direction r2")
      (auto simp: dedup_session_def should_replace_session_def session_of_def preferred_def Let_def hm_gets)
qed

text \<open>
  C18: two nodes that dial each other at the same time end up with the same connection.
  Connection X was dialed by \<open>a\<close> and Y by \<open>b\<close>, and each node registers both, in whatever
  order they complete there. Then both nodes keep X if \<open>a\<close> has the smaller id, and both keep
  Y otherwise, so no two nodes can each close the connection the other one kept.
\<close>

theorem simultaneous_dials_agree:
  assumes "a \<noteq> b" and "rn_local_id s = a" and "rn_local_id t = b"
    and "hm_get (rn_sessions s) b = None" and "hm_get (rn_sessions t) a = None"
    and "sr_node_id xa = b" "sr_node_id ya = b" "sr_direction xa = Outbound" "sr_direction ya = Inbound"
    and "sr_node_id xb = a" "sr_node_id yb = a" "sr_direction xb = Inbound" "sr_direction yb = Outbound"
    and "\<forall>r \<in> {xa, ya}. fingerprint_ok sha b (sr_info r) (rn_state s) \<and> pi_public_key_fingerprint (sr_info r) = None"
    and "\<forall>r \<in> {xb, yb}. fingerprint_ok sha a (sr_info r) (rn_state t) \<and> pi_public_key_fingerprint (sr_info r) = None"
    and "regs_a = [xa, ya] \<or> regs_a = [ya, xa]" and "regs_b = [xb, yb] \<or> regs_b = [yb, xb]"
  shows "hm_get (rn_sessions (fold (register_session sha True True) regs_a s)) b =
           Some (session_of (if a < b then xa else ya))
    \<and> hm_get (rn_sessions (fold (register_session sha True True) regs_b t)) a =
           Some (session_of (if a < b then xb else yb))"
proof
  show "hm_get (rn_sessions (fold (register_session sha True True) regs_a s)) b =
      Some (session_of (if a < b then xa else ya))"
    using two_registrations [of s b xa ya sha] two_registrations [of s b ya xa sha] assms(2,4,6-9,14,16)
    by (auto simp: preferred_def)
  show "hm_get (rn_sessions (fold (register_session sha True True) regs_b t)) a =
      Some (session_of (if a < b then xb else yb))"
    using two_registrations [of t a xb yb sha] two_registrations [of t a yb xb sha]
      assms(1,3,5,10-13,15,17)
    by (auto simp: preferred_def not_less_iff_gr_or_eq)
qed

definition demo_register :: "node_id \<Rightarrow> nat \<Rightarrow> connection_direction \<Rightarrow> session_register" where
  "demo_register nid task dir =
     \<lparr>sr_session_id = of_nat (100 + task), sr_node_id = nid, sr_task = task,
      sr_info = demo_info\<lparr>pi_node_id := nid\<rparr>, sr_direction = dir\<rparr>"

theorem simultaneous_dials_agree_witness:
  "hm_get (rn_sessions (fold (register_session (\<lambda>k. k) True True)
       [demo_register 2 0 Outbound, demo_register 2 1 Inbound] (demo_boot Lan))) 2 =
     Some (session_of (demo_register 2 0 Outbound))
   \<and> hm_get (rn_sessions (fold (register_session (\<lambda>k. k) True True)
       [demo_register 1 3 Outbound, demo_register 1 2 Inbound] ((demo_boot Lan)\<lparr>rn_local_id := 2\<rparr>))) 1 =
     Some (session_of (demo_register 1 2 Inbound))"
proof -
  have boot: "rn_local_id (demo_boot Lan) = 1" "rn_sessions (demo_boot Lan) = []"
    "rn_state (demo_boot Lan) = demo_state"
    by (simp_all add: demo_boot_def run_network_runtime_def Let_def)
  have "\<forall>r \<in> {demo_register 2 0 Outbound, demo_register 2 1 Inbound}.
      fingerprint_ok (\<lambda>k. k) 2 (sr_info r) (rn_state (demo_boot Lan)) \<and> pi_public_key_fingerprint (sr_info r) = None"
    "\<forall>r \<in> {demo_register 1 2 Inbound, demo_register 1 3 Outbound}.
      fingerprint_ok (\<lambda>k. k) 1 (sr_info r) (rn_state ((demo_boot Lan)\<lparr>rn_local_id := 2\<rparr>))
      \<and> pi_public_key_fingerprint (sr_info r) = None"
    by (simp_all add: boot fingerprint_ok_def demo_state_def get_peer_def demo_register_def demo_info_def)
  then show ?thesis
    using simultaneous_dials_agree [of 1 2 "demo_boot Lan" "(demo_boot Lan)\<lparr>rn_local_id := 2\<rparr>"
        "demo_register 2 0 Outbound" "demo_register 2 1 Inbound" "demo_register 1 2 Inbound"
        "demo_register 1 3 Outbound" "\<lambda>k. k" "[demo_register 2 0 Outbound, demo_register 2 1 Inbound]"
        "[demo_register 1 3 Outbound, demo_register 1 2 Inbound]"]
    by (simp add: boot demo_register_def)
qed

section \<open>The life of a registration\<close>

text \<open>
  A registration takes effect as a whole or not at all. If the session has stopped
  waiting, the registry, the peers and the cancellation flags are as before. If it is
  answered, the answer is yes exactly when the registry now holds this session, and then
  exactly the session it replaced, if any, is told to stop. And the late unregistration of
  a session that has been replaced changes nothing.
\<close>

theorem registration_atomic:
  assumes "fingerprint_ok sha (sr_node_id reg) (sr_info reg) (rn_state s)"
    and "\<forall>old. hm_get (rn_sessions s) (sr_node_id reg) = Some old \<longrightarrow> as_session_id old \<noteq> sr_session_id reg"
  shows "hm_get (rn_sessions (register_session sha waiting False reg s)) nid = hm_get (rn_sessions s) nid
    \<and> rn_cancelled (register_session sha waiting False reg s) = rn_cancelled s
    \<and> rn_state (register_session sha waiting False reg s) = rn_state s
    \<and> (\<exists>b. rn_decisions (register_session sha True True reg s) = (sr_task reg, b) # rn_decisions s
        \<and> (b \<longleftrightarrow> hm_get (rn_sessions (register_session sha True True reg s)) (sr_node_id reg) = Some (session_of reg))
        \<and> rn_cancelled (register_session sha True True reg s) =
            (case hm_get (rn_sessions s) (sr_node_id reg) of
               Some old \<Rightarrow> if b then as_task old # rn_cancelled s else rn_cancelled s
             | None \<Rightarrow> rn_cancelled s))
    \<and> (\<forall>old. hm_get (rn_sessions s) (sr_node_id reg) = Some old \<longrightarrow>
         unregister_session (sr_node_id reg) (sr_session_id reg) s = s)"
proof -
  have "unregister_session (sr_node_id reg) (sr_session_id reg) s = s"
    if "hm_get (rn_sessions s) (sr_node_id reg) = Some old" for old
    using that assms(2) by (simp add: unregister_session_def remove_session_if_current_def)
  moreover have "rn_decisions (emit ev u) = rn_decisions u" "rn_decisions (emit_payload n b u) = rn_decisions u"
    "rn_decisions (cancel_session q u) = rn_decisions u" "rn_cancelled (cancel_session q u) = as_task q # rn_cancelled u"
    for ev n b u q
    by (simp_all add: emit_def emit_payload_def cancel_session_def split: option.split)
  ultimately show ?thesis
    using assms
    by (auto simp: register_session_def dedup_session_def undo_registration_def session_of_def Let_def
        hm_gets split: option.splits)
qed

theorem registration_atomic_witness:
  "hm_get (rn_sessions (register_session (\<lambda>k. k) True False (demo_register 2 0 Outbound) (demo_boot Lan))) 2 = None"
proof -
  have "rn_sessions (demo_boot Lan) = []" "rn_state (demo_boot Lan) = demo_state"
    by (simp_all add: demo_boot_def run_network_runtime_def Let_def)
  then show ?thesis
    using registration_atomic [of "\<lambda>k. k" "demo_register 2 0 Outbound" "demo_boot Lan" True 2]
    by (simp add: fingerprint_ok_def demo_state_def get_peer_def demo_register_def)
qed

text \<open>
  A session whose outgoing queue overflows disappears without notice. The router task
  removes it from the registry, but the state still says connected and the user interface
  is told nothing, neither then nor when the session later unregisters itself.
\<close>

theorem overflowed_session_not_reported:
  assumes "hm_get (rn_sessions s) nid = Some session" and "try_send msg (rn_queues s (as_task session)) = Inl e"
  defines "s' \<equiv> route_outgoing nid msg s"
  shows "hm_get (rn_sessions s') nid = None \<and> as_task session \<in> set (rn_cancelled s')
    \<and> rn_state s' = rn_state s \<and> rn_ui s' = rn_ui s
    \<and> unregister_session nid (as_session_id session) s' = s'"
  using assms
  by (simp add: route_outgoing_def remove_session_if_current_def unregister_session_def hm_gets Let_def
      cancel_session_def)

theorem overflowed_session_not_reported_witness:
  "\<exists>s. ns_is_connected (rn_state s) \<and> rn_sessions s = [(2, session_of (demo_register 2 0 Outbound))]
     \<and> hm_get (rn_sessions (route_outgoing 2 Ping s)) 2 = None
     \<and> ns_is_connected (rn_state (route_outgoing 2 Ping s)) \<and> rn_ui (route_outgoing 2 Ping s) = rn_ui s"
proof -
  let ?s = "(demo_boot Lan)\<lparr>rn_sessions := [(2, session_of (demo_register 2 0 Outbound))],
    rn_state := demo_state\<lparr>ns_is_connected := True\<rparr>, rn_queues := (\<lambda>_. \<lparr>ch_buf = replicate 256 Ping, ch_cap = 256, ch_closed = False\<rparr>)\<rparr>"
  have "hm_get (rn_sessions ?s) 2 = Some (session_of (demo_register 2 0 Outbound))"
    "try_send Ping (rn_queues ?s (as_task (session_of (demo_register 2 0 Outbound)))) = Inl Full"
    by (simp_all add: hm_get_def try_send_def chan_new_def)
  from overflowed_session_not_reported [OF this] show ?thesis
    by (intro exI [of _ ?s]) simp
qed

end
