(* ===== verification/Manager.thy ===== *)
theory Manager
  imports Runtime
begin

text \<open>
  The network manager, \<open>src/net/mod.rs\<close>: the owner of the runtime's thread and the user
  interface's access to the session registry and the peers.

  \<open>manager\<close> is \<open>NetworkManager\<close>; the parts it shares with the runtime (network state, session
  registry, the sessions' queues) are fields here. The operating system's answers are
  arguments: whether a thread could be spawned, what came back from it, and how the wait for
  its end went. A thread is named by a number.
\<close>

section \<open>State\<close>

definition RUNTIME_COMMAND_CAPACITY :: nat where "RUNTIME_COMMAND_CAPACITY = 256"
definition OUTGOING_MESSAGE_CAPACITY :: nat where "OUTGOING_MESSAGE_CAPACITY = 256"

definition runtime_command_channel :: "network_command chan" where
  "runtime_command_channel = chan_new RUNTIME_COMMAND_CAPACITY"

definition outgoing_message_channel :: "(node_id \<times> network_message) chan" where
  "outgoing_message_channel = chan_new OUTGOING_MESSAGE_CAPACITY"

datatype network_start_error =
    StartOffline
  | AlreadyRunning
  | ShutdownUnconfirmed
  | Startup string

record manager =
  nm_state :: network_state
  nm_local_node_id :: node_id
  nm_local_display_name :: string
  nm_outgoing_tx :: "(node_id \<times> network_message) chan"
  nm_ui_event_tx :: "ui_event chan"
  nm_command_tx :: "network_command chan"
  nm_sessions :: "(node_id, active_session) hash_map"
  nm_queues :: "nat \<Rightarrow> network_message chan"
  nm_network_mode :: network_mode
  nm_runtime_handle :: bool
  nm_thread_handle :: "nat option"
  nm_shutdown_tx :: bool
  nm_thread_done_rx :: bool
  nm_runtime_shutdown_unconfirmed :: bool

text \<open>The receivers of the channels made here are dropped at once: both are closed.\<close>

definition manager_new :: "node_id \<Rightarrow> string \<Rightarrow> ui_event chan \<Rightarrow> manager" where
  "manager_new nid name ui_event_tx =
     \<lparr>nm_state = \<lparr>ns_peers = [], ns_is_connected = False, ns_latency_ms = None\<rparr>,
      nm_local_node_id = nid, nm_local_display_name = name,
      nm_outgoing_tx = outgoing_message_channel\<lparr>ch_closed := True\<rparr>, nm_ui_event_tx = ui_event_tx,
      nm_command_tx = runtime_command_channel\<lparr>ch_closed := True\<rparr>, nm_sessions = [],
      nm_queues = (\<lambda>_. session_outgoing_channel), nm_network_mode = Offline,
      nm_runtime_handle = False, nm_thread_handle = None, nm_shutdown_tx = False,
      nm_thread_done_rx = False, nm_runtime_shutdown_unconfirmed = False\<rparr>"

section \<open>Starting and stopping\<close>

datatype done_signal = Done | DoneTimeout | DoneDisconnected

text \<open>How a thread is waited for: from the thread itself, its signal, its join.\<close>

record thread_end =
  te_own_thread :: bool
  te_signal :: done_signal
  te_join_ok :: bool

definition finish_network_thread :: "thread_end \<Rightarrow> bool" where
  "finish_network_thread te =
     (if te_own_thread te then False
      else
        case te_signal te of
          Done \<Rightarrow> te_join_ok te
        | DoneTimeout \<Rightarrow> False
        | DoneDisconnected \<Rightarrow> False)"

definition shutdown_with_timeout :: "thread_end \<Rightarrow> manager \<Rightarrow> bool \<times> manager" where
  "shutdown_with_timeout te m =
     (let m = m\<lparr>nm_shutdown_tx := True, nm_runtime_handle := False\<rparr>
      in if nm_runtime_shutdown_unconfirmed m \<and> nm_thread_handle m = None
         then (False, m\<lparr>nm_sessions := [], nm_network_mode := Offline\<rparr>)
         else
           let stopped = (case (nm_thread_handle m, nm_thread_done_rx m) of
                            (Some _, True) \<Rightarrow> finish_network_thread te
                          | (Some _, False) \<Rightarrow> False
                          | (None, _) \<Rightarrow> True);
               m = m\<lparr>nm_thread_handle := None, nm_thread_done_rx := False\<rparr>;
               m = (if \<not> stopped then m\<lparr>nm_runtime_shutdown_unconfirmed := True\<rparr> else m)
           in (stopped, m\<lparr>nm_sessions := [], nm_network_mode := Offline\<rparr>))"

definition shutdown :: "thread_end \<Rightarrow> manager \<Rightarrow> bool \<times> manager" where
  "shutdown te m = shutdown_with_timeout te m"

datatype handle_answer = HandleOk | HandleError string | HandleLate string

text \<open>
  \<open>finished\<close>: an existing thread has ended; \<open>old\<close>: how waiting for it goes; \<open>spawned\<close>: the
  new thread, or the error of spawning it; \<open>answer\<close>: what it sent back; \<open>failed\<close>: how waiting for
  it goes when its start failed. The handle holds the sender of the outgoing queue.
\<close>

definition start ::
    "network_mode \<Rightarrow> bool \<Rightarrow> thread_end \<Rightarrow> string + nat \<Rightarrow> handle_answer \<Rightarrow> thread_end \<Rightarrow> manager \<Rightarrow>
     (network_start_error + (node_id \<times> network_message) chan) \<times> manager" where
  "start mode finished old spawned answer failed m =
     (if mode = Offline then (Inl StartOffline, m)
      else if nm_runtime_shutdown_unconfirmed m then (Inl ShutdownUnconfirmed, m)
      else if nm_thread_handle m \<noteq> None \<and> \<not> finished then (Inl AlreadyRunning, m)
      else
        let (stopped, m) = (if nm_thread_handle m \<noteq> None then shutdown old m else (True, m))
        in if \<not> stopped then (Inl ShutdownUnconfirmed, m)
           else
             case spawned of
               Inl error \<Rightarrow> (Inl (Startup (''failed to spawn network thread: '' @ error)), m)
             | Inr thread \<Rightarrow>
                 (case answer of
                    HandleError e \<Rightarrow>
                      (Inl (Startup e),
                       m\<lparr>nm_runtime_shutdown_unconfirmed := \<not> finish_network_thread failed\<rparr>)
                  | HandleLate e \<Rightarrow>
                      (Inl (Startup (''network runtime startup timed out or disconnected: '' @ e)),
                       m\<lparr>nm_runtime_shutdown_unconfirmed := \<not> finish_network_thread failed\<rparr>)
                  | HandleOk \<Rightarrow>
                      (Inr outgoing_message_channel,
                       m\<lparr>nm_outgoing_tx := outgoing_message_channel,
                         nm_command_tx := runtime_command_channel, nm_shutdown_tx := False,
                         nm_network_mode := mode, nm_runtime_handle := True,
                         nm_thread_handle := Some thread, nm_thread_done_rx := True,
                         nm_runtime_shutdown_unconfirmed := False\<rparr>)))"

section \<open>Requests of the user interface\<close>

definition manager_emit :: "ui_event \<Rightarrow> manager \<Rightarrow> manager" where
  "manager_emit ev m =
     (case try_send ev (nm_ui_event_tx m) of Inr c \<Rightarrow> m\<lparr>nm_ui_event_tx := c\<rparr> | Inl _ \<Rightarrow> m)"

definition connect_to_peer :: "socket_addr \<Rightarrow> node_id option \<Rightarrow> manager \<Rightarrow> bool \<times> manager" where
  "connect_to_peer addr target_node_id m =
     (if \<not> outbound_addr_allowed (nm_network_mode m) addr
      then (False, manager_emit (ConnectionError (Reason ''loopback_address_required'')) m)
      else if (case target_node_id of Some nid \<Rightarrow> hm_contains (nm_sessions m) nid | None \<Rightarrow> False)
      then (False, m)
      else
        let expected_peer =
              map_option (\<lambda>nid.
                \<lparr>ex_node_id = nid,
                 ex_public_key_fingerprint =
                   Option.bind (get_peer (ns_peers (nm_state m)) nid) pi_public_key_fingerprint\<rparr>)
                target_node_id
        in case try_send (ConnectToPeer
                  \<lparr>oc_addr = addr, oc_expected_peer = expected_peer, oc_report_errors = True\<rparr>)
                  (nm_command_tx m) of
             Inr c \<Rightarrow> (True, m\<lparr>nm_command_tx := c\<rparr>)
           | Inl _ \<Rightarrow> (False, manager_emit (ConnectionError (Reason ''command_overloaded'')) m))"

definition trigger_scan :: "manager \<Rightarrow> manager" where
  "trigger_scan m =
     (case try_send Scan (nm_command_tx m) of Inr c \<Rightarrow> m\<lparr>nm_command_tx := c\<rparr> | Inl _ \<Rightarrow> m)"

definition session_send :: "network_message \<Rightarrow> active_session \<Rightarrow> manager \<Rightarrow> manager" where
  "session_send msg session m =
     (case try_send msg (nm_queues m (as_task session)) of
        Inr c \<Rightarrow> m\<lparr>nm_queues := (nm_queues m)(as_task session := c)\<rparr>
      | Inl _ \<Rightarrow> m)"

definition update_display_name :: "string \<Rightarrow> manager \<Rightarrow> manager" where
  "update_display_name name m =
     (if \<not> valid_display_name name then m
      else
        let m = m\<lparr>nm_local_display_name := name\<rparr>;
            msg = PeerNameUpdate name;
            m = fold (\<lambda>(_, session). session_send msg session) (nm_sessions m) m
        in case try_send Scan (nm_command_tx m) of Inr c \<Rightarrow> m\<lparr>nm_command_tx := c\<rparr> | Inl _ \<Rightarrow> m)"

definition active_session_ids :: "manager \<Rightarrow> node_id hash_set" where
  "active_session_ids m = hm_keys (nm_sessions m)"

section \<open>Never two runtimes\<close>

text \<open>
  The manager among the threads of the process. \<open>mw_alive\<close> are the runtime threads that
  still run, \<open>mw_next\<close> the next fresh one. A thread may end by itself; a step that waits for
  a thread can succeed only if the thread has ended, since the signal is sent after the
  runtime has been dropped.
\<close>

record manager_world =
  mw_manager :: manager
  mw_alive :: "nat list"
  mw_next :: nat

datatype manager_event =
    M_Start network_mode bool thread_end bool handle_answer thread_end
  | M_Shutdown thread_end
  | M_ThreadEnds nat
  | M_Connect socket_addr "node_id option"
  | M_Rename string

text \<open>\<open>None\<close>: the event cannot happen in this state.\<close>

definition ended :: "manager_world \<Rightarrow> bool" where
  "ended w = (case nm_thread_handle (mw_manager w) of Some t \<Rightarrow> t \<notin> set (mw_alive w) | None \<Rightarrow> True)"

text \<open>Whether a start gets as far as spawning a thread.\<close>

definition spawns :: "manager \<Rightarrow> network_mode \<Rightarrow> bool \<Rightarrow> thread_end \<Rightarrow> bool \<Rightarrow> bool" where
  "spawns m mode finished old can_spawn =
     (mode \<noteq> Offline \<and> \<not> nm_runtime_shutdown_unconfirmed m
      \<and> (nm_thread_handle m = None \<or> finished \<and> nm_thread_done_rx m \<and> finish_network_thread old)
      \<and> can_spawn)"

fun manager_step :: "manager_world \<Rightarrow> manager_event \<Rightarrow> manager_world option" where
  "manager_step w (M_Start mode finished old can_spawn answer failed) =
     (let thread = mw_next w;
          (result, m) = start mode finished old (if can_spawn then Inr thread else Inl []) answer failed (mw_manager w);
          running = (spawns (mw_manager w) mode finished old can_spawn
                     \<and> \<not> (answer \<noteq> HandleOk \<and> finish_network_thread failed))
      in if finished \<and> \<not> ended w \<or> finish_network_thread old \<and> \<not> ended w then None
         else Some \<lparr>mw_manager = m, mw_alive = (if running then thread # mw_alive w else mw_alive w),
                    mw_next = Suc thread\<rparr>)"
| "manager_step w (M_Shutdown te) =
     (if finish_network_thread te \<and> \<not> ended w then None
      else Some (w\<lparr>mw_manager := snd (shutdown te (mw_manager w))\<rparr>))"
| "manager_step w (M_ThreadEnds t) = Some (w\<lparr>mw_alive := removeAll t (mw_alive w)\<rparr>)"
| "manager_step w (M_Connect addr target) = Some (w\<lparr>mw_manager := snd (connect_to_peer addr target (mw_manager w))\<rparr>)"
| "manager_step w (M_Rename name) = Some (w\<lparr>mw_manager := update_display_name name (mw_manager w)\<rparr>)"

text \<open>
  Every running thread is the one the manager holds, or the manager knows that a shutdown
  was not confirmed and holds none.
\<close>

definition manager_inv :: "manager_world \<Rightarrow> bool" where
  "manager_inv w =
     (let m = mw_manager w in
      length (mw_alive w) \<le> 1
      \<and> (\<not> nm_runtime_shutdown_unconfirmed m \<longrightarrow> set (mw_alive w) \<subseteq> set_option (nm_thread_handle m))
      \<and> (nm_runtime_shutdown_unconfirmed m \<longrightarrow> nm_thread_handle m = None)
      \<and> (nm_thread_handle m \<noteq> None \<longrightarrow> nm_thread_done_rx m))"

text \<open>What stopping leaves behind.\<close>

lemma shutdown_facts:
  assumes "shutdown te m = (stopped, m')"
  shows "nm_thread_handle m' = None \<and> nm_network_mode m' = Offline \<and> nm_sessions m' = []
    \<and> nm_runtime_shutdown_unconfirmed m' = (nm_runtime_shutdown_unconfirmed m \<or> \<not> stopped)
    \<and> (nm_thread_handle m \<noteq> None \<longrightarrow> stopped = (nm_thread_done_rx m \<and> finish_network_thread te))"
  using assms
  by (auto simp: shutdown_def shutdown_with_timeout_def Let_def split: if_splits option.splits bool.splits)

lemma requests_keep_thread:
  "nm_thread_handle (snd (connect_to_peer addr target m)) = nm_thread_handle m"
  "nm_thread_done_rx (snd (connect_to_peer addr target m)) = nm_thread_done_rx m"
  "nm_runtime_shutdown_unconfirmed (snd (connect_to_peer addr target m)) = nm_runtime_shutdown_unconfirmed m"
  by (simp_all add: connect_to_peer_def manager_emit_def Let_def split: sum.split)

lemma fold_frame: "(\<And>x m. g (f x m) = g m) \<Longrightarrow> g (fold f xs m) = g m"
  by (induction xs arbitrary: m) auto

lemma session_send_frame:
  "nm_thread_handle (fold (\<lambda>(_, session). session_send msg session) sessions m) = nm_thread_handle m"
  "nm_thread_done_rx (fold (\<lambda>(_, session). session_send msg session) sessions m) = nm_thread_done_rx m"
  "nm_runtime_shutdown_unconfirmed (fold (\<lambda>(_, session). session_send msg session) sessions m) =
     nm_runtime_shutdown_unconfirmed m"
  by (rule fold_frame; auto simp: session_send_def split: sum.splits)+

lemma rename_keeps_thread:
  "nm_thread_handle (update_display_name name m) = nm_thread_handle m
   \<and> nm_thread_done_rx (update_display_name name m) = nm_thread_done_rx m
   \<and> nm_runtime_shutdown_unconfirmed (update_display_name name m) = nm_runtime_shutdown_unconfirmed m"
  by (auto simp: update_display_name_def Let_def session_send_frame split: sum.split)

lemma start_cases:
  assumes "start mode finished old spawned answer failed m = (result, m')"
  obtains (refused) "\<exists>e. result = Inl e" "m' = m"
      "mode = Offline \<or> nm_runtime_shutdown_unconfirmed m \<or> nm_thread_handle m \<noteq> None \<and> \<not> finished \<or> (\<exists>e. spawned = Inl e)"
  | (stuck) "\<exists>e. result = Inl e" "nm_thread_handle m \<noteq> None" "\<not> (nm_thread_done_rx m \<and> finish_network_thread old)"
      "m' = snd (shutdown old m)"
  | (unspawned) "\<exists>e. result = Inl e" "nm_thread_handle m \<noteq> None" "finished" "\<exists>e. spawned = Inl e" "m' = snd (shutdown old m)"
  | (broken) thread where "\<exists>e. result = Inl e" "spawned = Inr thread" "answer \<noteq> HandleOk" "mode \<noteq> Offline"
      "\<not> nm_runtime_shutdown_unconfirmed m"
      "nm_thread_handle m = None \<or> finished \<and> nm_thread_done_rx m \<and> finish_network_thread old"
      "nm_thread_handle m' = None" "nm_runtime_shutdown_unconfirmed m' = (\<not> finish_network_thread failed)"
  | (running) thread where "\<exists>tx. result = Inr tx" "spawned = Inr thread" "answer = HandleOk" "mode \<noteq> Offline"
      "\<not> nm_runtime_shutdown_unconfirmed m"
      "nm_thread_handle m = None \<or> finished \<and> nm_thread_done_rx m \<and> finish_network_thread old"
      "nm_thread_handle m' = Some thread" "nm_thread_done_rx m'" "\<not> nm_runtime_shutdown_unconfirmed m'"
proof (cases "mode = Offline \<or> nm_runtime_shutdown_unconfirmed m \<or> nm_thread_handle m \<noteq> None \<and> \<not> finished")
  case True
  then show ?thesis using assms by (intro refused) (auto simp: start_def split: if_splits)
next
  case ok: False
  obtain stopped m1 where sd: "shutdown old m = (stopped, m1)" by force
  note facts = shutdown_facts [OF sd]
  show ?thesis
  proof (cases "nm_thread_handle m")
    case None
    show ?thesis
    proof (cases spawned)
      case (Inl e)
      then show ?thesis using assms ok None by (intro refused) (auto simp: start_def)
    next
      case (Inr thread)
      then show ?thesis
        using assms ok None by (cases answer) (auto simp: start_def intro: broken running)
    qed
  next
    case (Some t)
    show ?thesis
    proof (cases "stopped \<and> (\<exists>thread. spawned = Inr thread)")
      case True
      then obtain thread where "spawned = Inr thread" "stopped" by blast
      then show ?thesis
        using assms ok Some sd facts broken [of thread] running [of thread]
        by (cases answer) (auto simp: start_def)
    next
      case False
      then show ?thesis
        using assms ok Some sd facts by (cases spawned) (auto simp: start_def split: if_splits intro: stuck unspawned)
    qed
  qed
qed

lemma manager_start_inv:
  assumes inv: "manager_inv w"
    and step: "manager_step w (M_Start mode finished old can_spawn answer failed) = Some w'"
  shows "manager_inv w'"
proof -
  let ?m = "mw_manager w" and ?spawned = "if can_spawn then Inr (mw_next w) else Inl []"
  obtain result m' where st: "start mode finished old ?spawned answer failed ?m = (result, m')" by force
  then have w': "w' = \<lparr>mw_manager = m',
      mw_alive = (if spawns ?m mode finished old can_spawn \<and> \<not> (answer \<noteq> HandleOk \<and> finish_network_thread failed)
                  then mw_next w # mw_alive w else mw_alive w),
      mw_next = Suc (mw_next w)\<rparr>" and can: "finished \<or> finish_network_thread old \<Longrightarrow> ended w"
    using step by (auto simp: Let_def split: if_splits)
  have ends: "mw_alive w = []" if "spawns ?m mode finished old can_spawn"
    using that inv can by (cases "mw_alive w")
      (auto simp: spawns_def manager_inv_def ended_def Let_def split: option.splits)
  obtain stopped m1 where sd: "shutdown old ?m = (stopped, m1)" by force
  note facts = shutdown_facts [OF sd]
  from st show ?thesis
  proof (cases rule: start_cases)
    case refused
    then have "\<not> spawns ?m mode finished old can_spawn"
      by (auto simp: spawns_def split: if_splits)
    then show ?thesis using inv refused unfolding w' manager_inv_def Let_def by simp
  next
    case stuck
    then have "\<not> spawns ?m mode finished old can_spawn" by (auto simp: spawns_def)
    then show ?thesis
      using inv stuck sd facts unfolding w' manager_inv_def Let_def by simp
  next
    case unspawned
    then have "\<not> spawns ?m mode finished old can_spawn" "set (mw_alive w) = {} \<or> nm_runtime_shutdown_unconfirmed ?m"
      using inv can by (cases "mw_alive w"; auto simp: spawns_def manager_inv_def ended_def Let_def
          split: if_splits option.splits)+
    then show ?thesis
      using inv unspawned sd facts unfolding w' manager_inv_def Let_def by auto
  next
    case (broken thread)
    then show ?thesis
      using inv ends unfolding w' manager_inv_def Let_def by (auto simp: spawns_def split: if_splits)
  next
    case (running thread)
    then show ?thesis
      using inv ends unfolding w' manager_inv_def Let_def by (auto simp: spawns_def split: if_splits)
  qed
qed

lemma manager_step_inv:
  assumes inv: "manager_inv w" and step: "manager_step w ev = Some w'"
  shows "manager_inv w'"
proof (cases ev)
  case (M_Start mode finished old can_spawn answer failed)
  then show ?thesis using assms manager_start_inv by blast
next
  case (M_Shutdown te)
  obtain stopped m' where sd: "shutdown te (mw_manager w) = (stopped, m')" by force
  from shutdown_facts [OF sd] show ?thesis
    using inv step M_Shutdown sd by (auto simp: manager_inv_def ended_def Let_def split: if_splits option.splits)
next
  case (M_ThreadEnds t)
  then show ?thesis
    using inv step by (auto simp: manager_inv_def Let_def intro: le_trans [OF length_removeAll_less_eq])
next
  case (M_Connect addr target)
  then show ?thesis using inv step by (auto simp: manager_inv_def Let_def requests_keep_thread)
next
  case (M_Rename name)
  then show ?thesis using inv step rename_keeps_thread by (auto simp: manager_inv_def Let_def)
qed

interpretation mm: event_machine manager_step "\<lambda>_. True" manager_inv
  by unfold_locales (rule manager_step_inv)

text \<open>
  C19: however often networking is started, stopped and restarted, and however the threads
  and the waits for them end, at most one runtime thread is alive; and a manager whose
  shutdown was not confirmed refuses every later start.
\<close>

theorem at_most_one_runtime:
  assumes "run_steps manager_step \<lparr>mw_manager = manager_new nid name ui, mw_alive = [], mw_next = 0\<rparr> events = Some w"
  shows "length (mw_alive w) \<le> 1
    \<and> (nm_runtime_shutdown_unconfirmed (mw_manager w) \<longrightarrow>
         (\<forall>mode finished old spawned answer failed. \<exists>e.
            start mode finished old spawned answer failed (mw_manager w) = (Inl e, mw_manager w)))"
proof -
  have "manager_inv \<lparr>mw_manager = manager_new nid name ui, mw_alive = [], mw_next = 0\<rparr>"
    by (simp add: manager_inv_def manager_new_def)
  then have "manager_inv w"
    using mm.run_inv assms by (metis list_all_iff)
  then show ?thesis
    by (auto simp: manager_inv_def Let_def start_def)
qed

definition demo_end :: "done_signal \<Rightarrow> thread_end" where
  "demo_end sig = \<lparr>te_own_thread = False, te_signal = sig, te_join_ok = True\<rparr>"

definition demo_manager :: manager where
  "demo_manager = manager_new 1 ''Ann'' create_ui_channel"

text \<open>A start, a shutdown that times out, and a second start, which is refused.\<close>

theorem at_most_one_runtime_witness:
  "\<exists>w. run_steps manager_step \<lparr>mw_manager = demo_manager, mw_alive = [], mw_next = 0\<rparr>
      [M_Start Lan False (demo_end DoneTimeout) True HandleOk (demo_end DoneTimeout),
       M_Shutdown (demo_end DoneTimeout),
       M_Start Lan False (demo_end DoneTimeout) True HandleOk (demo_end DoneTimeout)] = Some w
     \<and> nm_runtime_shutdown_unconfirmed (mw_manager w) \<and> length (mw_alive w) \<le> 1"
proof -
  let ?run = "run_steps manager_step \<lparr>mw_manager = demo_manager, mw_alive = [], mw_next = 0\<rparr>
      [M_Start Lan False (demo_end DoneTimeout) True HandleOk (demo_end DoneTimeout),
       M_Shutdown (demo_end DoneTimeout),
       M_Start Lan False (demo_end DoneTimeout) True HandleOk (demo_end DoneTimeout)]"
  have "?run \<noteq> None \<and> nm_runtime_shutdown_unconfirmed (mw_manager (the ?run))"
    by (simp add: demo_manager_def demo_end_def manager_new_def start_def shutdown_def shutdown_with_timeout_def
        finish_network_thread_def Let_def)
  then obtain w where w: "?run = Some w" "nm_runtime_shutdown_unconfirmed (mw_manager w)"
    by fastforce
  from at_most_one_runtime [OF w(1) [unfolded demo_manager_def]] w show ?thesis
    unfolding demo_manager_def by blast
qed

end
