(* ===== verification/Keyboard.thy ===== *)
theory Keyboard
  imports Token
begin

text \<open>
  From keys and buttons to calculator actions: the shortcuts of
  \<open>src/components/keyboard.rs\<close>, the button layout of \<open>src/components/calculator.rs\<close>, the click
  handlers of \<open>src/components/button_grid.rs\<close>, the callbacks \<open>src/main.rs\<close> connects them to, and
  the action names of \<open>src/ui/bridge.rs\<close>. Here every browser event may arrive; \<open>Listener\<close> models
  the script in the web view that decides which do.
\<close>

section \<open>Action names\<close>

text \<open>\<open>str::parse::<u8>\<close>: an optional plus sign, at least one digit, and at most 255.\<close>

definition parse_u8 :: "string \<Rightarrow> nat option" where
  "parse_u8 s =
     (let ds = (case strip_prefix ''+'' s of Some r \<Rightarrow> r | None \<Rightarrow> s)
      in if ds = [] \<or> \<not> list_all is_digit ds then None
         else if string_val ds \<le> 255 then Some (nat (string_val ds)) else None)"

definition parse_action :: "string \<Rightarrow> calc_action option" where
  "parse_action action =
     (if starts_with action ''digit:''
      then case Option.bind (strip_prefix ''digit:'' action) parse_u8 of
             Some d \<Rightarrow> if d \<le> 9 then Some (A_Digit (of_nat d)) else None
           | None \<Rightarrow> None
      else if action = ''operator:add'' \<or> action = ''add'' then Some (A_Operator Add)
      else if action = ''operator:subtract'' \<or> action = ''subtract'' then Some (A_Operator Subtract)
      else if action = ''operator:multiply'' \<or> action = ''multiply'' then Some (A_Operator Multiply)
      else if action = ''operator:divide'' \<or> action = ''divide'' then Some (A_Operator Divide)
      else if action = ''equals'' then Some A_Equals
      else if action = ''decimal-point'' then Some A_DecimalPoint
      else if action = ''backspace'' then Some A_Backspace
      else if action = ''all-clear'' then Some A_AllClear
      else if action = ''clear'' then Some A_Clear
      else if action = ''percent'' then Some A_Percent
      else if action = ''sqrt'' then Some A_SquareRoot
      else if action = ''mu'' then Some A_Mu
      else if action = ''memory-recall'' then Some A_MemoryRecall
      else if action = ''memory-add'' then Some A_MemoryAdd
      else if action = ''memory-subtract'' then Some A_MemorySubtract
      else if action = ''memory-clear'' then Some A_MemoryClear
      else if action = ''plus-minus'' then Some A_PlusMinus
      else None)"

text \<open>The operator names of \<open>handle_operator\<close>.\<close>

definition operator_of :: "string \<Rightarrow> binary_op option" where
  "operator_of op =
     (if op = ''+'' \<or> op = ''add'' then Some Add
      else if op = ''-'' \<or> op = ''subtract'' then Some Subtract
      else if op = ''*'' \<or> op = ''multiply'' then Some Multiply
      else if op = ''/'' \<or> op = ''divide'' then Some Divide
      else None)"

section \<open>Keyboard shortcuts\<close>

record keyboard_message =
  km_event_type :: string
  km_key :: string
  km_code :: string
  km_ctrl_key :: bool
  km_alt_key :: bool
  km_meta_key :: bool
  km_repeat :: bool
  km_from_editable :: bool

datatype keyboard_shortcut =
    KeyCalculator string
  | KeyEscape
  | KeyToggleTheme
  | KeySwitchAudioMode
  | KeyToggleMute
  | KeyShowAbout
  | KeyShowSettings
  | KeyShowNetworkSettings
  | KeyScanPeers

definition is_key_down :: "keyboard_message \<Rightarrow> bool" where
  "is_key_down m = (km_event_type m = ''keydown'')"

definition is_key_up :: "keyboard_message \<Rightarrow> bool" where
  "is_key_up m = (km_event_type m = ''keyup'')"

definition has_blocked_modifier :: "keyboard_message \<Rightarrow> bool" where
  "has_blocked_modifier m = (km_ctrl_key m \<or> km_alt_key m \<or> km_meta_key m)"

definition digit_action_from_code :: "string \<Rightarrow> string option" where
  "digit_action_from_code cd =
     (if cd = ''Numpad0'' then Some ''digit:0''
      else if cd = ''Numpad1'' then Some ''digit:1''
      else if cd = ''Numpad2'' then Some ''digit:2''
      else if cd = ''Numpad3'' then Some ''digit:3''
      else if cd = ''Numpad4'' then Some ''digit:4''
      else if cd = ''Numpad5'' then Some ''digit:5''
      else if cd = ''Numpad6'' then Some ''digit:6''
      else if cd = ''Numpad7'' then Some ''digit:7''
      else if cd = ''Numpad8'' then Some ''digit:8''
      else if cd = ''Numpad9'' then Some ''digit:9''
      else None)"

definition digit_action_from_key :: "string \<Rightarrow> string option" where
  "digit_action_from_key key =
     (if key = ''0'' then Some ''digit:0''
      else if key = ''1'' then Some ''digit:1''
      else if key = ''2'' then Some ''digit:2''
      else if key = ''3'' then Some ''digit:3''
      else if key = ''4'' then Some ''digit:4''
      else if key = ''5'' then Some ''digit:5''
      else if key = ''6'' then Some ''digit:6''
      else if key = ''7'' then Some ''digit:7''
      else if key = ''8'' then Some ''digit:8''
      else if key = ''9'' then Some ''digit:9''
      else None)"

text \<open>The three tables of \<open>shortcut_from_message\<close>: by code, by key, by lower-case key.\<close>

definition shortcut_from_code :: "string \<Rightarrow> keyboard_shortcut option" where
  "shortcut_from_code cd =
     (if cd = ''NumpadAdd'' then Some (KeyCalculator ''add'')
      else if cd = ''NumpadSubtract'' then Some (KeyCalculator ''subtract'')
      else if cd = ''NumpadMultiply'' then Some (KeyCalculator ''multiply'')
      else if cd = ''NumpadDivide'' then Some (KeyCalculator ''divide'')
      else if cd = ''NumpadDecimal'' \<or> cd = ''NumpadComma'' then Some (KeyCalculator ''decimal-point'')
      else if cd = ''NumpadEnter'' then Some (KeyCalculator ''equals'')
      else if cd = ''F1'' then Some KeyShowAbout
      else if cd = ''F2'' then Some KeyShowSettings
      else if cd = ''F3'' then Some KeyShowNetworkSettings
      else if cd = ''F5'' then Some KeyScanPeers
      else if cd = ''F9'' then Some (KeyCalculator ''plus-minus'')
      else None)"

definition shortcut_from_letter :: "string \<Rightarrow> keyboard_shortcut option" where
  "shortcut_from_letter key =
     (let letter = to_ascii_lowercase key in
      if letter = ''a'' then Some (KeyCalculator ''memory-add'')
      else if letter = ''b'' then Some (KeyCalculator ''memory-subtract'')
      else if letter = ''c'' then Some (KeyCalculator ''clear'')
      else if letter = ''m'' then Some (KeyCalculator ''memory-recall'')
      else if letter = ''n'' then Some (KeyCalculator ''plus-minus'')
      else if letter = ''o'' then Some KeySwitchAudioMode
      else if letter = ''p'' then Some (KeyCalculator ''percent'')
      else if letter = ''r'' \<or> letter = ''s'' then Some (KeyCalculator ''sqrt'')
      else if letter = ''t'' then Some KeyToggleTheme
      else if letter = ''u'' then Some (KeyCalculator ''mu'')
      else if letter = ''v'' then Some KeyToggleMute
      else if letter = ''x'' then Some (KeyCalculator ''memory-clear'')
      else None)"

definition shortcut_from_key :: "string \<Rightarrow> keyboard_shortcut option" where
  "shortcut_from_key key =
     (if key = ''+'' then Some (KeyCalculator ''add'')
      else if key = ''-'' then Some (KeyCalculator ''subtract'')
      else if key = ''*'' then Some (KeyCalculator ''multiply'')
      else if key = ''/'' then Some (KeyCalculator ''divide'')
      else if key = ''='' \<or> key = ''Enter'' then Some (KeyCalculator ''equals'')
      else if key = ''.'' \<or> key = '','' then Some (KeyCalculator ''decimal-point'')
      else if key = ''Backspace'' then Some (KeyCalculator ''backspace'')
      else if key = ''Delete'' then Some (KeyCalculator ''clear'')
      else if key = ''Escape'' then Some KeyEscape
      else if key = ''%'' then Some (KeyCalculator ''percent'')
      else shortcut_from_letter key)"

definition shortcut_from_message :: "keyboard_message \<Rightarrow> keyboard_shortcut option" where
  "shortcut_from_message m =
     (if has_blocked_modifier m then None
      else
        case digit_action_from_key (km_key m) of
          Some action \<Rightarrow> Some (KeyCalculator action)
        | None \<Rightarrow>
            (case digit_action_from_code (km_code m) of
               Some action \<Rightarrow> Some (KeyCalculator action)
             | None \<Rightarrow>
                 (case shortcut_from_code (km_code m) of
                    Some shortcut \<Rightarrow> Some shortcut
                  | None \<Rightarrow> shortcut_from_key (km_key m))))"

section \<open>What a key does\<close>

text \<open>The callbacks of \<open>KeyboardHandlerProps\<close>, and what is open on the screen.\<close>

datatype key_call =
    OnKeyboardAction string
  | OnCloseAbout
  | OnCloseSettings
  | OnCloseNetworkSettings
  | OnSwitchAudioMode
  | OnToggleMute
  | OnToggleTheme
  | OnShowAbout
  | OnShowSettings
  | OnShowNetworkSettings
  | OnScanPeers
  | OnKeyboardPressed bool
  | OnLastAction string

record overlays =
  ov_about :: bool
  ov_settings :: bool
  ov_network :: bool

definition overlay_is_open :: "overlays \<Rightarrow> bool" where
  "overlay_is_open ov = (ov_about ov \<or> ov_settings ov \<or> ov_network ov)"

definition close_top_overlay :: "overlays \<Rightarrow> bool \<times> key_call list" where
  "close_top_overlay ov =
     (if ov_about ov then (True, [OnCloseAbout])
      else if ov_settings ov then (True, [OnCloseSettings])
      else if ov_network ov then (True, [OnCloseNetworkSettings])
      else (False, []))"

definition emit_calculator_action :: "string \<Rightarrow> key_call list" where
  "emit_calculator_action action =
     [OnKeyboardPressed True, OnLastAction action, OnKeyboardAction action]"

definition dispatch_shortcut :: "overlays \<Rightarrow> keyboard_shortcut \<Rightarrow> bool \<Rightarrow> bool \<Rightarrow> key_call list" where
  "dispatch_shortcut ov shortcut from_editable repeat =
     (if from_editable then (if shortcut = KeyEscape then snd (close_top_overlay ov) else [])
      else if repeat \<and> (case shortcut of KeyCalculator _ \<Rightarrow> False | _ \<Rightarrow> True) then []
      else
        case shortcut of
          KeyCalculator action \<Rightarrow> if \<not> overlay_is_open ov then emit_calculator_action action else []
        | KeyEscape \<Rightarrow>
            (case close_top_overlay ov of
               (True, calls) \<Rightarrow> calls
             | (False, calls) \<Rightarrow> calls @ emit_calculator_action ''all-clear'')
        | KeyToggleTheme \<Rightarrow> [OnToggleTheme]
        | KeySwitchAudioMode \<Rightarrow> [OnSwitchAudioMode]
        | KeyToggleMute \<Rightarrow> [OnToggleMute]
        | KeyShowAbout \<Rightarrow> if ov_about ov then [OnCloseAbout] else [OnShowAbout]
        | KeyShowSettings \<Rightarrow> if ov_settings ov then [OnCloseSettings] else [OnShowSettings]
        | KeyShowNetworkSettings \<Rightarrow>
            if ov_network ov then [OnCloseNetworkSettings] else [OnShowNetworkSettings]
        | KeyScanPeers \<Rightarrow> (if \<not> ov_network ov then [OnShowNetworkSettings] else []) @ [OnScanPeers])"

definition dispatch_keyboard_message :: "overlays \<Rightarrow> keyboard_message \<Rightarrow> key_call list" where
  "dispatch_keyboard_message ov m =
     (if is_key_up m then [OnKeyboardPressed False]
      else if \<not> is_key_down m then []
      else
        case shortcut_from_message m of
          Some shortcut \<Rightarrow> dispatch_shortcut ov shortcut (km_from_editable m) (km_repeat m)
        | None \<Rightarrow> [])"

section \<open>Buttons\<close>

record button_def =
  bd_label :: "string option"
  bd_icon :: "string option"
  bd_btn_type :: string
  bd_action :: string
  bd_colspan :: u8

definition button_new :: "string \<Rightarrow> string \<Rightarrow> string \<Rightarrow> button_def" where
  "button_new label btn_type action =
     \<lparr>bd_label = Some label, bd_icon = None, bd_btn_type = btn_type, bd_action = action, bd_colspan = 1\<rparr>"

definition button_icon :: "string \<Rightarrow> string \<Rightarrow> string \<Rightarrow> button_def" where
  "button_icon icon btn_type action =
     \<lparr>bd_label = None, bd_icon = Some icon, bd_btn_type = btn_type, bd_action = action, bd_colspan = 1\<rparr>"

definition with_colspan :: "u8 \<Rightarrow> button_def \<Rightarrow> button_def" where
  "with_colspan n b = b\<lparr>bd_colspan := n\<rparr>"

definition BUTTON_ROWS :: "button_def list list" where
  "BUTTON_ROWS =
     [[button_new (''MC'') ''func'' ''memory-clear'',
       button_new (''MR'') ''func'' ''memory-recall'',
       button_new (''M-'') ''func'' ''memory-subtract'',
       button_new (''M+'') ''func'' ''memory-add''],
      [button_new (''%'') ''func'' ''percent'',
       button_new (utf8 [0xE2, 0x88, 0x9A]) ''func'' ''sqrt'',
       with_colspan 2 (button_new (''MU'') ''func'' ''mu'')],
      [button_new (''AC'') ''clear'' ''all-clear'',
       button_new (''C'') ''ci'' ''clear'',
       button_icon (utf8 [0xE2, 0x8C, 0xAB]) ''bs'' ''backspace'',
       button_new (utf8 [0xC3, 0xB7]) ''op'' ''divide''],
      [button_new (''7'') ''digit'' ''digit:7'',
       button_new (''8'') ''digit'' ''digit:8'',
       button_new (''9'') ''digit'' ''digit:9'',
       button_new (utf8 [0xC3, 0x97]) ''op'' ''multiply''],
      [button_new (''4'') ''digit'' ''digit:4'',
       button_new (''5'') ''digit'' ''digit:5'',
       button_new (''6'') ''digit'' ''digit:6'',
       button_new (''-'') ''op'' ''subtract''],
      [button_new (''1'') ''digit'' ''digit:1'',
       button_new (''2'') ''digit'' ''digit:2'',
       button_new (''3'') ''digit'' ''digit:3'',
       button_new (''+'') ''op'' ''add''],
      [button_new (utf8 [0xC2, 0xB1]) ''func'' ''plus-minus'',
       button_new (''0'') ''digit'' ''digit:0'',
       button_new (''.'') ''digit'' ''decimal-point'',
       button_new (''='') ''eq'' ''equals'']]"

text \<open>The callbacks of \<open>ButtonGridProps\<close>.\<close>

datatype grid_call =
    OnDigitPressed u8
  | OnOperatorPressed string
  | OnDecimalPoint
  | OnEquals
  | OnPercent
  | OnMu
  | OnSquareRoot
  | OnBackspace
  | OnClearInput
  | OnAllClear
  | OnPlusMinus
  | OnMemoryRecall
  | OnMemoryAdd
  | OnMemorySubtract
  | OnMemoryClear

definition button_click :: "string \<Rightarrow> grid_call option" where
  "button_click action =
     (if action = ''digit:0'' then Some (OnDigitPressed 0)
      else if action = ''digit:1'' then Some (OnDigitPressed 1)
      else if action = ''digit:2'' then Some (OnDigitPressed 2)
      else if action = ''digit:3'' then Some (OnDigitPressed 3)
      else if action = ''digit:4'' then Some (OnDigitPressed 4)
      else if action = ''digit:5'' then Some (OnDigitPressed 5)
      else if action = ''digit:6'' then Some (OnDigitPressed 6)
      else if action = ''digit:7'' then Some (OnDigitPressed 7)
      else if action = ''digit:8'' then Some (OnDigitPressed 8)
      else if action = ''digit:9'' then Some (OnDigitPressed 9)
      else if action = ''decimal-point'' then Some OnDecimalPoint
      else if action = ''add'' then Some (OnOperatorPressed ''+'')
      else if action = ''subtract'' then Some (OnOperatorPressed ''-'')
      else if action = ''multiply'' then Some (OnOperatorPressed ''*'')
      else if action = ''divide'' then Some (OnOperatorPressed ''/'')
      else if action = ''equals'' then Some OnEquals
      else if action = ''percent'' then Some OnPercent
      else if action = ''mu'' then Some OnMu
      else if action = ''sqrt'' then Some OnSquareRoot
      else if action = ''backspace'' then Some OnBackspace
      else if action = ''clear'' then Some OnClearInput
      else if action = ''all-clear'' then Some OnAllClear
      else if action = ''plus-minus'' then Some OnPlusMinus
      else if action = ''memory-recall'' then Some OnMemoryRecall
      else if action = ''memory-add'' then Some OnMemoryAdd
      else if action = ''memory-subtract'' then Some OnMemorySubtract
      else if action = ''memory-clear'' then Some OnMemoryClear
      else None)"

text \<open>What \<open>main.rs\<close> connects to them: the handlers of \<open>bridge.rs\<close>, and the action each dispatches.\<close>

datatype handler_call =
    HandleDigit u8
  | HandleOperator string
  | HandleAction string

definition connected_handler :: "grid_call \<Rightarrow> handler_call" where
  "connected_handler call =
     (case call of
        OnDigitPressed d \<Rightarrow> HandleDigit d
      | OnOperatorPressed op \<Rightarrow> HandleOperator op
      | OnDecimalPoint \<Rightarrow> HandleAction ''decimal-point''
      | OnEquals \<Rightarrow> HandleAction ''equals''
      | OnPercent \<Rightarrow> HandleAction ''percent''
      | OnMu \<Rightarrow> HandleAction ''mu''
      | OnSquareRoot \<Rightarrow> HandleAction ''sqrt''
      | OnBackspace \<Rightarrow> HandleAction ''backspace''
      | OnClearInput \<Rightarrow> HandleAction ''clear''
      | OnAllClear \<Rightarrow> HandleAction ''all-clear''
      | OnPlusMinus \<Rightarrow> HandleAction ''plus-minus''
      | OnMemoryRecall \<Rightarrow> HandleAction ''memory-recall''
      | OnMemoryAdd \<Rightarrow> HandleAction ''memory-add''
      | OnMemorySubtract \<Rightarrow> HandleAction ''memory-subtract''
      | OnMemoryClear \<Rightarrow> HandleAction ''memory-clear'')"

definition dispatched_action :: "handler_call \<Rightarrow> calc_action option" where
  "dispatched_action call =
     (case call of
        HandleDigit d \<Rightarrow> if d > 9 then None else Some (A_Digit d)
      | HandleOperator op \<Rightarrow> map_option A_Operator (operator_of op)
      | HandleAction action \<Rightarrow> parse_action action)"

section \<open>Keys and buttons mean the same\<close>

text \<open>The names the keyboard uses all stand for valid actions.\<close>

definition known_action :: "string \<Rightarrow> bool" where
  "known_action a = (case parse_action a of Some act \<Rightarrow> valid_action act | None \<Rightarrow> False)"

lemma known_names:
  "known_action ''add''" "known_action ''subtract''" "known_action ''multiply''"
  "known_action ''divide''" "known_action ''decimal-point''" "known_action ''equals''"
  "known_action ''plus-minus''" "known_action ''backspace''" "known_action ''clear''"
  "known_action ''percent''" "known_action ''memory-add''" "known_action ''memory-subtract''"
  "known_action ''memory-recall''" "known_action ''sqrt''" "known_action ''mu''"
  "known_action ''memory-clear''" "known_action ''all-clear''" "known_action ''digit:0''"
  "known_action ''digit:1''" "known_action ''digit:2''" "known_action ''digit:3''"
  "known_action ''digit:4''" "known_action ''digit:5''" "known_action ''digit:6''"
  "known_action ''digit:7''" "known_action ''digit:8''" "known_action ''digit:9''"
  by code_simp+

text \<open>The tables are chains of conditionals; only their results matter here.\<close>

lemma if_SomeE: "(if c then Some x else r) = Some y \<Longrightarrow> (y = x \<Longrightarrow> P) \<Longrightarrow> (r = Some y \<Longrightarrow> P) \<Longrightarrow> P"
  by (cases c) simp_all

lemma digit_shortcuts_known:
  "digit_action_from_key k = Some a \<Longrightarrow> known_action a"
  "digit_action_from_code k = Some a \<Longrightarrow> known_action a"
  unfolding digit_action_from_key_def digit_action_from_code_def
  by (elim if_SomeE; simp add: known_names)+

lemma other_shortcuts_known:
  "shortcut_from_code k = Some (KeyCalculator a) \<Longrightarrow> known_action a"
  "shortcut_from_letter k = Some (KeyCalculator a) \<Longrightarrow> known_action a"
  unfolding shortcut_from_code_def shortcut_from_letter_def Let_def
  by (elim if_SomeE; simp add: known_names)+

lemma key_shortcuts_known: "shortcut_from_key k = Some (KeyCalculator a) \<Longrightarrow> known_action a"
  unfolding shortcut_from_key_def
  by (elim if_SomeE; simp add: known_names other_shortcuts_known)+

lemma shortcut_known: "shortcut_from_message m = Some (KeyCalculator a) \<Longrightarrow> known_action a"
  by (auto simp: shortcut_from_message_def digit_shortcuts_known other_shortcuts_known key_shortcuts_known
      split: if_split_asm option.split_asm)

text \<open>What it takes for a key to reach the calculator.\<close>

lemma keyboard_action_cases:
  assumes "OnKeyboardAction a \<in> set (dispatch_keyboard_message ov m)"
  shows "is_key_down m \<and> \<not> has_blocked_modifier m \<and> \<not> km_from_editable m \<and> \<not> overlay_is_open ov
    \<and> (\<exists>act. parse_action a = Some act \<and> valid_action act)"
proof -
  from assms obtain shortcut where m: "is_key_down m" "shortcut_from_message m = Some shortcut"
    "OnKeyboardAction a \<in> set (dispatch_shortcut ov shortcut (km_from_editable m) (km_repeat m))"
    by (cases "shortcut_from_message m") (auto simp: dispatch_keyboard_message_def split: if_splits)
  from m(3) have d: "\<not> km_from_editable m" "\<not> overlay_is_open ov"
    "shortcut = KeyCalculator a \<or> shortcut = KeyEscape \<and> a = ''all-clear''"
    by (auto simp: dispatch_shortcut_def close_top_overlay_def emit_calculator_action_def overlay_is_open_def
        split: if_splits keyboard_shortcut.splits)
  then have "known_action a"
    using m(2) shortcut_known [of m a] known_names(17) by blast
  then have "\<exists>act. parse_action a = Some act \<and> valid_action act"
    by (simp add: known_action_def split: option.splits)
  then show ?thesis
    using m d by (auto simp: shortcut_from_message_def split: if_splits)
qed

text \<open>
  C38: a key press reaches the calculator only when it should. If it triggers a calculator
  action, it is a key press without a modifier, outside text fields, with no panel open,
  and the action is one the calculator accepts.
\<close>

theorem keyboard_sound:
  assumes "OnKeyboardAction a \<in> set (dispatch_keyboard_message ov m)"
  shows "is_key_down m \<and> \<not> has_blocked_modifier m \<and> \<not> km_from_editable m \<and> \<not> overlay_is_open ov
    \<and> (\<exists>act. parse_action a = Some act \<and> valid_action act)"
  using keyboard_action_cases [OF assms] .

definition no_overlays :: overlays where
  "no_overlays = \<lparr>ov_about = False, ov_settings = False, ov_network = False\<rparr>"

definition press :: "string \<Rightarrow> keyboard_message" where
  "press key = \<lparr>km_event_type = ''keydown'', km_key = key, km_code = [], km_ctrl_key = False,
     km_alt_key = False, km_meta_key = False, km_repeat = False, km_from_editable = False\<rparr>"

theorem keyboard_sound_witness: "\<exists>act. parse_action ''sqrt'' = Some act \<and> valid_action act"
proof -
  have "OnKeyboardAction ''sqrt'' \<in> set (dispatch_keyboard_message no_overlays (press ''R''))"
    by code_simp
  from keyboard_sound [OF this] show ?thesis by blast
qed

text \<open>The keys that type every action.\<close>

definition typing_keys :: "string list" where
  "typing_keys = map (\<lambda>c. [c]) ''0123456789+-*/=.%runmabxc'' @ [''Backspace'', ''Escape'']"

definition typed_actions :: "string \<Rightarrow> calc_action list" where
  "typed_actions key =
     concat (map (\<lambda>call. case call of OnKeyboardAction a \<Rightarrow> (case parse_action a of Some act \<Rightarrow> [act] | None \<Rightarrow> [])
                                     | _ \<Rightarrow> []) (dispatch_keyboard_message no_overlays (press key)))"

definition all_actions :: "calc_action list" where
  "all_actions = map A_Digit [0, 1, 2, 3, 4, 5, 6, 7, 8, 9] @ map A_Operator [Add, Subtract, Multiply, Divide]
     @ [A_DecimalPoint, A_Equals, A_Percent, A_Mu, A_SquareRoot, A_Backspace, A_Clear, A_AllClear, A_PlusMinus,
        A_MemoryRecall, A_MemoryAdd, A_MemorySubtract, A_MemoryClear]"

lemma digit_cases: "\<not> d > (9 :: u8) \<Longrightarrow> d \<in> {0, 1, 2, 3, 4, 5, 6, 7, 8, 9}"
proof -
  assume "\<not> d > 9"
  then have "unat d \<le> 9" by (simp add: word_less_nat_alt)
  then have "unat d \<in> set [0, 1, 2, 3, 4, 5, 6, 7, 8, 9]" by auto
  then have "of_nat (unat d) \<in> set (map of_nat [0, 1, 2, 3, 4, 5, 6, 7, 8, 9] :: u8 list)"
    by (metis image_eqI set_map)
  then show ?thesis by simp
qed

lemma all_actions: "set all_actions = {a. valid_action a}"
proof -
  have "a \<in> set all_actions" if "valid_action a" for a
    using that digit_cases
    by (cases a) (auto simp: all_actions_def valid_action_def split: binary_op.splits intro: binary_op.exhaust)
  moreover have "list_all valid_action all_actions" by code_simp
  ultimately show ?thesis by (auto simp: list_all_iff)
qed

text \<open>
  Keyboard and buttons are complete and agree. Exactly the valid actions can be typed;
  exactly the valid actions are on buttons; clicking a button dispatches the action its
  name stands for, the one the keyboard dispatches under that name; no action has two
  buttons; and each of the seven rows fills the four columns of the grid.
\<close>

theorem keys_and_buttons_complete:
  "{act. \<exists>m a. OnKeyboardAction a \<in> set (dispatch_keyboard_message no_overlays m) \<and> parse_action a = Some act}
     = {act. valid_action act}
   \<and> {act. Some act \<in> set (map (\<lambda>b. parse_action (bd_action b)) (concat BUTTON_ROWS))} = {act. valid_action act}
   \<and> list_all (\<lambda>b. map_option connected_handler (button_click (bd_action b)) \<noteq> None
        \<and> dispatched_action (connected_handler (the (button_click (bd_action b)))) = parse_action (bd_action b))
       (concat BUTTON_ROWS)
   \<and> distinct (map (\<lambda>b. parse_action (bd_action b)) (concat BUTTON_ROWS))
   \<and> map (\<lambda>row. sum_list (map bd_colspan row)) BUTTON_ROWS = replicate 7 4"
proof (intro conjI)
  have "list_all (\<lambda>act. list_ex (\<lambda>key. act \<in> set (typed_actions key)) typing_keys) all_actions"
    by code_simp
  then have typed: "\<exists>key. act \<in> set (typed_actions key)" if "valid_action act" for act
    using that all_actions by (fastforce simp: list_all_iff list_ex_iff)
  show "{act. \<exists>m a. OnKeyboardAction a \<in> set (dispatch_keyboard_message no_overlays m) \<and> parse_action a = Some act}
      = {act. valid_action act}"
  proof (intro equalityI subsetI)
    fix act assume "act \<in> {act. valid_action act}"
    then obtain key where "act \<in> set (typed_actions key)" using typed by blast
    then show "act \<in> {act. \<exists>m a. OnKeyboardAction a \<in> set (dispatch_keyboard_message no_overlays m)
        \<and> parse_action a = Some act}"
      by (force simp: typed_actions_def split: key_call.splits option.splits)
  next
    fix act assume "act \<in> {act. \<exists>m a. OnKeyboardAction a \<in> set (dispatch_keyboard_message no_overlays m)
        \<and> parse_action a = Some act}"
    then show "act \<in> {act. valid_action act}" using keyboard_action_cases by fastforce
  qed
  have "set (map (\<lambda>b. parse_action (bd_action b)) (concat BUTTON_ROWS)) = set (map Some all_actions)"
    by code_simp
  then show "{act. Some act \<in> set (map (\<lambda>b. parse_action (bd_action b)) (concat BUTTON_ROWS))} = {act. valid_action act}"
    using all_actions by auto
qed code_simp+

end
