(* ===== verification/Ui_Texts.thy ===== *)
theory Ui_Texts
  imports Token
begin

text \<open>
  The texts that \<open>src/ui/bridge.rs\<close>, \<open>src/net/runtime.rs\<close> and \<open>src/main.rs\<close> show to the user, as
  the UTF-8 bytes of the string literals. A text with a number or a name inside is cut into
  the parts around it.
\<close>

definition TXT_TIMEOUT :: string where
  "TXT_TIMEOUT =
     utf8 [0xE8, 0xBF, 0x9E, 0xE6, 0x8E, 0xA5, 0xE8, 0xB6, 0x85, 0xE6, 0x97, 0xB6]"
definition TXT_BIND_FAILED :: string where
  "TXT_BIND_FAILED =
     utf8 [0xE7, 0xBD, 0x91, 0xE7, 0xBB, 0x9C, 0xE7, 0xAB, 0xAF, 0xE5, 0x8F, 0xA3, 0xE6, 0x97,
      0xA0, 0xE6, 0xB3, 0x95, 0xE7, 0x9B, 0x91, 0xE5, 0x90, 0xAC]"
definition TXT_REFUSED :: string where
  "TXT_REFUSED =
     utf8 [0xE8, 0xBF, 0x9E, 0xE6, 0x8E, 0xA5, 0xE8, 0xA2, 0xAB, 0xE6, 0x8B, 0x92, 0xE7, 0xBB,
      0x9D]"
definition TXT_RESET :: string where
  "TXT_RESET =
     utf8 [0xE8, 0xBF, 0x9E, 0xE6, 0x8E, 0xA5, 0xE4, 0xB8, 0xAD, 0xE6, 0x96, 0xAD]"
definition TXT_UNREACHABLE :: string where
  "TXT_UNREACHABLE =
     utf8 [0xE8, 0xAE, 0xBE, 0xE5, 0xA4, 0x87, 0xE4, 0xB8, 0x8D, 0xE5, 0x8F, 0xAF, 0xE8, 0xBE,
      0xBE]"
definition TXT_NET_UNREACHABLE :: string where
  "TXT_NET_UNREACHABLE =
     utf8 [0xE7, 0xBD, 0x91, 0xE7, 0xBB, 0x9C, 0xE4, 0xB8, 0x8D, 0xE5, 0x8F, 0xAF, 0xE8, 0xBE,
      0xBE]"
definition TXT_DENIED :: string where
  "TXT_DENIED =
     utf8 [0xE8, 0xAE, 0xBF, 0xE9, 0x97, 0xAE, 0xE8, 0xA2, 0xAB, 0xE6, 0x8B, 0x92, 0xE7, 0xBB,
      0x9D]"
definition TXT_REMOTE_OFF :: string where
  "TXT_REMOTE_OFF =
     utf8 [0xE5, 0xAF, 0xB9, 0xE6, 0x96, 0xB9, 0xE6, 0x9C, 0xAA, 0xE5, 0xBC, 0x80, 0xE5, 0x90,
      0xAF, 0xE8, 0xBF, 0x9C, 0xE7, 0xA8, 0x8B, 0xE6, 0x8E, 0xA7, 0xE5, 0x88, 0xB6]"
definition TXT_FINGERPRINT :: string where
  "TXT_FINGERPRINT =
     utf8 [0xE5, 0x8F, 0x91, 0xE7, 0x8E, 0xB0, 0xE4, 0xBF, 0xA1, 0xE6, 0x81, 0xAF, 0xE4, 0xB8,
      0x8E, 0xE8, 0xBF, 0x9E, 0xE6, 0x8E, 0xA5, 0xE5, 0xAF, 0x86, 0xE9, 0x92, 0xA5, 0xE4,
      0xB8, 0x8D, 0xE4, 0xB8, 0x80, 0xE8, 0x87, 0xB4]"
definition TXT_CONNECT_FAILED :: string where
  "TXT_CONNECT_FAILED =
     utf8 [0xE8, 0xBF, 0x9E, 0xE6, 0x8E, 0xA5, 0xE5, 0xA4, 0xB1, 0xE8, 0xB4, 0xA5, 0x3A, 0x20]"
definition TXT_LAN_PORT_1 :: string where
  "TXT_LAN_PORT_1 =
     utf8 [0xE7, 0xBD, 0x91, 0xE7, 0xBB, 0x9C, 0xE7, 0xAB, 0xAF, 0xE5, 0x8F, 0xA3, 0x20]"
definition TXT_LAN_PORT_2 :: string where
  "TXT_LAN_PORT_2 =
     utf8 [0x20, 0xE8, 0xA2, 0xAB, 0xE5, 0x8D, 0xA0, 0xE7, 0x94, 0xA8, 0xE6, 0x88, 0x96, 0xE4,
      0xB8, 0x8D, 0xE5, 0x8F, 0xAF, 0xE7, 0x94, 0xA8, 0xEF, 0xBC, 0x8C, 0xE5, 0xB1, 0x80,
      0xE5, 0x9F, 0x9F, 0xE7, 0xBD, 0x91, 0xE5, 0x8D, 0x8F, 0xE4, 0xBD, 0x9C, 0xE6, 0x9A,
      0x82, 0xE6, 0x97, 0xB6, 0xE6, 0x97, 0xA0, 0xE6, 0xB3, 0x95, 0xE4, 0xBD, 0xBF, 0xE7,
      0x94, 0xA8, 0xEF, 0xBC, 0x8C, 0xE6, 0x9C, 0xAC, 0xE6, 0x9C, 0xBA, 0xE8, 0xAE, 0xA1,
      0xE7, 0xAE, 0x97, 0xE5, 0x99, 0xA8, 0xE4, 0xBB, 0x8D, 0xE5, 0x8F, 0xAF, 0xE6, 0xAD,
      0xA3, 0xE5, 0xB8, 0xB8, 0xE4, 0xBD, 0xBF, 0xE7, 0x94, 0xA8]"
definition TXT_PORT_UNAVAILABLE :: string where
  "TXT_PORT_UNAVAILABLE =
     utf8 [0xE7, 0xBD, 0x91, 0xE7, 0xBB, 0x9C, 0xE7, 0xAB, 0xAF, 0xE5, 0x8F, 0xA3, 0xE6, 0x97,
      0xA0, 0xE6, 0xB3, 0x95, 0xE7, 0x9B, 0x91, 0xE5, 0x90, 0xAC, 0xEF, 0xBC, 0x8C, 0xE6,
      0x9C, 0xAC, 0xE6, 0x9C, 0xBA, 0xE8, 0xAE, 0xA1, 0xE7, 0xAE, 0x97, 0xE5, 0x99, 0xA8,
      0xE4, 0xBB, 0x8D, 0xE5, 0x8F, 0xAF, 0xE6, 0xAD, 0xA3, 0xE5, 0xB8, 0xB8, 0xE4, 0xBD,
      0xBF, 0xE7, 0x94, 0xA8]"
definition TXT_START_FAILED :: string where
  "TXT_START_FAILED =
     utf8 [0xE7, 0xBD, 0x91, 0xE7, 0xBB, 0x9C, 0xE5, 0x90, 0xAF, 0xE5, 0x8A, 0xA8, 0xE5, 0xA4,
      0xB1, 0xE8, 0xB4, 0xA5, 0xEF, 0xBC, 0x8C, 0xE6, 0x9C, 0xAC, 0xE6, 0x9C, 0xBA, 0xE8,
      0xAE, 0xA1, 0xE7, 0xAE, 0x97, 0xE5, 0x99, 0xA8, 0xE4, 0xBB, 0x8D, 0xE5, 0x8F, 0xAF,
      0xE6, 0xAD, 0xA3, 0xE5, 0xB8, 0xB8, 0xE4, 0xBD, 0xBF, 0xE7, 0x94, 0xA8]"
definition TXT_REMOTE_DEVICE :: string where
  "TXT_REMOTE_DEVICE =
     utf8 [0xE8, 0xBF, 0x9C, 0xE7, 0xA8, 0x8B, 0xE8, 0xAE, 0xBE, 0xE5, 0xA4, 0x87]"
definition TXT_USING_1 :: string where
  "TXT_USING_1 =
     utf8 [0xE6, 0xAD, 0xA3, 0xE5, 0x9C, 0xA8, 0xE4, 0xBD, 0xBF, 0xE7, 0x94, 0xA8, 0x20]"
definition TXT_USING_2 :: string where
  "TXT_USING_2 =
     utf8 [0x20, 0xE8, 0xBF, 0x9C, 0xE7, 0xA8, 0x8B, 0xE8, 0xAE, 0xA1, 0xE7, 0xAE, 0x97]"
definition TXT_CONNECTING :: string where
  "TXT_CONNECTING =
     utf8 [0xE6, 0xAD, 0xA3, 0xE5, 0x9C, 0xA8, 0xE8, 0xBF, 0x9E, 0xE6, 0x8E, 0xA5, 0xE8, 0xAE,
      0xBE, 0xE5, 0xA4, 0x87, 0x2E, 0x2E, 0x2E]"
definition TXT_CONTROLLED :: string where
  "TXT_CONTROLLED =
     utf8 [0xE6, 0xAD, 0xA3, 0xE5, 0x9C, 0xA8, 0xE6, 0x8E, 0xA5, 0xE5, 0x8F, 0x97, 0xE8, 0xBF,
      0x9C, 0xE7, 0xA8, 0x8B, 0xE6, 0x8E, 0xA7, 0xE5, 0x88, 0xB6]"
definition TXT_CONNECTED :: string where
  "TXT_CONNECTED =
     utf8 [0xE5, 0xB7, 0xB2, 0xE8, 0xBF, 0x9E, 0xE6, 0x8E, 0xA5]"
definition TXT_ENABLED :: string where
  "TXT_ENABLED =
     utf8 [0xE5, 0xB7, 0xB2, 0xE5, 0x90, 0xAF, 0xE7, 0x94, 0xA8]"
definition TXT_BAD_ID :: string where
  "TXT_BAD_ID =
     utf8 [0xE6, 0x97, 0xA0, 0xE6, 0x95, 0x88, 0xE7, 0x9A, 0x84, 0xE8, 0x8A, 0x82, 0xE7, 0x82,
      0xB9, 0x49, 0x44]"
definition TXT_SELECTED :: string where
  "TXT_SELECTED =
     utf8 [0xE5, 0xB7, 0xB2, 0xE9, 0x80, 0x89, 0xE6, 0x8B, 0xA9, 0xE8, 0xBF, 0x9C, 0xE7, 0xA8,
      0x8B, 0xE8, 0xAE, 0xA1, 0xE7, 0xAE, 0x97, 0xE8, 0xAE, 0xBE, 0xE5, 0xA4, 0x87]"
definition TXT_CANNOT_CONNECT :: string where
  "TXT_CANNOT_CONNECT =
     utf8 [0xE6, 0x97, 0xA0, 0xE6, 0xB3, 0x95, 0xE5, 0x90, 0xAF, 0xE5, 0x8A, 0xA8, 0xE8, 0xBF,
      0x9E, 0xE6, 0x8E, 0xA5]"
definition TXT_NOT_FOUND :: string where
  "TXT_NOT_FOUND =
     utf8 [0xE6, 0x9C, 0xAA, 0xE6, 0x89, 0xBE, 0xE5, 0x88, 0xB0, 0xE8, 0xAE, 0xBE, 0xE5, 0xA4,
      0x87]"
definition TXT_STOPPED :: string where
  "TXT_STOPPED =
     utf8 [0xE5, 0xB7, 0xB2, 0xE5, 0x81, 0x9C, 0xE6, 0xAD, 0xA2, 0xE8, 0xBF, 0x9C, 0xE7, 0xA8,
      0x8B, 0xE6, 0x89, 0xA7, 0xE8, 0xA1, 0x8C]"
definition TXT_CONTROL_ON :: string where
  "TXT_CONTROL_ON =
     utf8 [0xE8, 0xBF, 0x9C, 0xE7, 0xA8, 0x8B, 0xE6, 0x8E, 0xA7, 0xE5, 0x88, 0xB6, 0xE5, 0xB7,
      0xB2, 0xE5, 0xBC, 0x80, 0xE5, 0x90, 0xAF]"
definition TXT_CONTROL_OFF :: string where
  "TXT_CONTROL_OFF =
     utf8 [0xE8, 0xBF, 0x9C, 0xE7, 0xA8, 0x8B, 0xE6, 0x8E, 0xA7, 0xE5, 0x88, 0xB6, 0xE5, 0xB7,
      0xB2, 0xE5, 0x85, 0xB3, 0xE9, 0x97, 0xAD]"
definition TXT_BAD_NAME :: string where
  "TXT_BAD_NAME =
     utf8 [0xE5, 0x90, 0x8D, 0xE7, 0xA7, 0xB0, 0xE9, 0x9C, 0x80, 0xE4, 0xB8, 0xBA, 0x20, 0x31,
      0x2D, 0x36, 0x34, 0x20, 0xE5, 0xAD, 0x97, 0xE8, 0x8A, 0x82, 0xE4, 0xB8, 0x94, 0xE4,
      0xB8, 0x8D, 0xE8, 0x83, 0xBD, 0xE5, 0x90, 0xAB, 0xE6, 0x8E, 0xA7, 0xE5, 0x88, 0xB6,
      0xE5, 0xAD, 0x97, 0xE7, 0xAC, 0xA6]"
definition TXT_SAVED :: string where
  "TXT_SAVED =
     utf8 [0xE5, 0xB7, 0xB2, 0xE4, 0xBF, 0x9D, 0xE5, 0xAD, 0x98]"
definition TXT_SAVE_FAILED :: string where
  "TXT_SAVE_FAILED =
     utf8 [0xE4, 0xBF, 0x9D, 0xE5, 0xAD, 0x98, 0xE5, 0xA4, 0xB1, 0xE8, 0xB4, 0xA5]"
definition TXT_OFFLINE :: string where
  "TXT_OFFLINE =
     utf8 [0xE7, 0xA6, 0xBB, 0xE7, 0xBA, 0xBF, 0xE6, 0xA8, 0xA1, 0xE5, 0xBC, 0x8F]"
definition TXT_LOOPBACK :: string where
  "TXT_LOOPBACK =
     utf8 [0xE5, 0x9B, 0x9E, 0xE7, 0x8E, 0xAF, 0xE6, 0xB5, 0x8B, 0xE8, 0xAF, 0x95, 0xE6, 0xA8,
      0xA1, 0xE5, 0xBC, 0x8F]"
definition TXT_STORAGE :: string where
  "TXT_STORAGE =
     utf8 [0xE7, 0xBD, 0x91, 0xE7, 0xBB, 0x9C, 0xE5, 0xAD, 0x98, 0xE5, 0x82, 0xA8, 0xE4, 0xB8,
      0x8D, 0xE5, 0x8F, 0xAF, 0xE7, 0x94, 0xA8, 0xEF, 0xBC, 0x8C, 0xE6, 0x9C, 0xAC, 0xE6,
      0x9C, 0xBA, 0xE8, 0xAE, 0xA1, 0xE7, 0xAE, 0x97, 0xE5, 0x99, 0xA8, 0xE4, 0xBB, 0x8D,
      0xE5, 0x8F, 0xAF, 0xE6, 0xAD, 0xA3, 0xE5, 0xB8, 0xB8, 0xE4, 0xBD, 0xBF, 0xE7, 0x94,
      0xA8]"
definition TXT_AUDIO_1 :: string where
  "TXT_AUDIO_1 =
     utf8 [0xE9, 0x9F, 0xB3, 0xE9, 0xA2, 0x91, 0xE6, 0xAD, 0xA3, 0xE5, 0xB8, 0xB8, 0x20, 0x28]"
definition TXT_AUDIO_2 :: string where
  "TXT_AUDIO_2 =
     utf8 [0x20, 0xE4, 0xB8, 0xAA, 0xE9, 0x9F, 0xB3, 0xE6, 0x95, 0x88, 0x29]"
definition TXT_NO_AUDIO :: string where
  "TXT_NO_AUDIO =
     utf8 [0xE6, 0x97, 0xA0, 0xE9, 0x9F, 0xB3, 0xE9, 0xA2, 0x91, 0xE8, 0xAE, 0xBE, 0xE5, 0xA4,
      0x87]"

end
