(* ===== verification/Bridge.thy ===== *)
theory Bridge
  imports Router Audio Manager Keyboard Ui_Texts
begin

text \<open>
  The bridge between the user interface and the program, \<open>src/ui/bridge.rs\<close>, with the state
  it writes (\<open>src/ui/state.rs\<close>) and the start and the callbacks of the application
  (\<open>src/main.rs\<close>).

  The record \<open>app\<close> is what lives on the user interface thread: the signals (\<open>calc_context\<close>; the
  four display signals are the display of the router, which writes them), the thread-local
  cells for the router and the network manager, the audio device, the mode cell of the
  process and the configuration file. \<open>NET_CONTEXT\<close> is set together with \<open>NET_MANAGER\<close> and
  holds the manager's own state, so one cell stands for both.

  Reading the configuration goes through \<open>load_from_path\<close>; every read that falls back to the
  defaults draws a fresh random name, and a write may fail, leaving some file behind: both
  come with the call as \<open>config_io\<close>. A node id in text form is the outcome of parsing it.
  Floating-point numbers are of type \<open>'f\<close> and only passed on.
\<close>

section \<open>Signals\<close>

record 'f audio_ui_state =
  au_mode_indicator :: string
  au_mode :: audio_mode
  au_volume :: 'f
  au_muted :: bool
  au_dark_mode :: bool
  au_about_visible :: bool
  au_audio_status :: string

record peer_display_info =
  pv_name :: string
  pv_address :: "socket_addr option"
  pv_is_connected :: bool
  pv_route_active :: bool
  pv_latency_ms :: int
  pv_index :: int
  pv_node_id :: node_id

record net_ui_state =
  nu_panel_visible :: bool
  nu_scanning :: bool
  nu_status :: string
  nu_connected_peer_index :: int
  nu_peers :: "peer_display_info list"
  nu_remote_controlled :: bool
  nu_executing_remotely :: bool
  nu_allow_remote_control :: bool

record settings_state =
  ss_panel_visible :: bool
  ss_display_name :: string
  ss_save_status :: string

record 'f calc_context =
  cx_audio :: "'f audio_ui_state"
  cx_net :: net_ui_state
  cx_settings :: settings_state
  cx_keyboard_pressed :: bool
  cx_last_keyboard_action :: string

record ('d, 'f) app =
  ap_ctx :: "'f calc_context"
  ap_router :: "'d router option"
  ap_manager :: "manager option"
  ap_mode :: "network_mode option"
  ap_audio :: "(audio_mode \<times> 'f) option"
  ap_has_dir :: bool
  ap_file :: file_read
  ap_volume_generation :: u64

text \<open>The external functions: TOML, the number 0.5, clamping to the unit interval, error texts.\<close>

record 'f app_env =
  ae_parse_toml :: "string \<Rightarrow> string \<Rightarrow> 'f app_config option"
  ae_to_toml :: "'f app_config \<Rightarrow> string option"
  ae_half :: 'f
  ae_clamp :: "'f \<Rightarrow> 'f"
  ae_session_error :: "session_error \<Rightarrow> string"

record config_io =
  ci_random_name :: string
  ci_write_fails :: "file_read option"

abbreviation on_net :: "(net_ui_state \<Rightarrow> net_ui_state) \<Rightarrow> ('d, 'f) app \<Rightarrow> ('d, 'f) app" where
  "on_net f a \<equiv> a\<lparr>ap_ctx := (ap_ctx a)\<lparr>cx_net := f (cx_net (ap_ctx a))\<rparr>\<rparr>"

abbreviation on_audio ::
    "('f audio_ui_state \<Rightarrow> 'f audio_ui_state) \<Rightarrow> ('d, 'f) app \<Rightarrow> ('d, 'f) app" where
  "on_audio f a \<equiv> a\<lparr>ap_ctx := (ap_ctx a)\<lparr>cx_audio := f (cx_audio (ap_ctx a))\<rparr>\<rparr>"

abbreviation on_settings :: "(settings_state \<Rightarrow> settings_state) \<Rightarrow> ('d, 'f) app \<Rightarrow> ('d, 'f) app" where
  "on_settings f a \<equiv> a\<lparr>ap_ctx := (ap_ctx a)\<lparr>cx_settings := f (cx_settings (ap_ctx a))\<rparr>\<rparr>"

definition on_router :: "('d router \<Rightarrow> 'd router) \<Rightarrow> ('d, 'f) app \<Rightarrow> ('d, 'f) app" where
  "on_router f a = a\<lparr>ap_router := map_option f (ap_router a)\<rparr>"

definition set_status :: "string \<Rightarrow> ('d, 'f) app \<Rightarrow> ('d, 'f) app" where
  "set_status s a = on_net (nu_status_update (\<lambda>_. s)) a"

definition set_executing :: "bool \<Rightarrow> ('d, 'f) app \<Rightarrow> ('d, 'f) app" where
  "set_executing b a = on_net (nu_executing_remotely_update (\<lambda>_. b)) a"

section \<open>The configuration file\<close>

definition config_load :: "'f app_env \<Rightarrow> config_io \<Rightarrow> ('d, 'f) app \<Rightarrow> 'f app_config" where
  "config_load E io a =
     (if \<not> ap_has_dir a then app_config_default (ae_half E) (ci_random_name io)
      else load_from_path (ae_parse_toml E) (ae_half E) (ci_random_name io) (ap_file a))"

definition config_save ::
    "'f app_env \<Rightarrow> config_io \<Rightarrow> 'f app_config \<Rightarrow> ('d, 'f) app \<Rightarrow> bool \<times> ('d, 'f) app" where
  "config_save E io cfg a =
     (if \<not> ap_has_dir a then (False, a)
      else
        case ae_to_toml E cfg of
          None \<Rightarrow> (False, a)
        | Some contents \<Rightarrow>
            (case ci_write_fails io of
               None \<Rightarrow> (True, a\<lparr>ap_file := Contents contents\<rparr>)
             | Some left_behind \<Rightarrow> (False, a\<lparr>ap_file := left_behind\<rparr>)))"

definition save_config ::
    "'f app_env \<Rightarrow> config_io \<Rightarrow> ('f app_config \<Rightarrow> 'f app_config) \<Rightarrow> ('d, 'f) app \<Rightarrow> ('d, 'f) app" where
  "save_config E io update a = snd (config_save E io (update (config_load E io a)) a)"

section \<open>Keys and buttons\<close>

definition dispatch_to_router ::
    "'d decimal_ops \<Rightarrow> u64 \<Rightarrow> calc_action \<Rightarrow> ('d, 'f) app \<Rightarrow> ('d, 'f) app option" where
  "dispatch_to_router D now_ms action a =
     (case ap_router a of
        None \<Rightarrow> Some a
      | Some r \<Rightarrow> map_option (\<lambda>r. a\<lparr>ap_router := Some r\<rparr>) (dispatch D now_ms action r))"

definition handle_digit :: "'d decimal_ops \<Rightarrow> u64 \<Rightarrow> u8 \<Rightarrow> ('d, 'f) app \<Rightarrow> ('d, 'f) app option" where
  "handle_digit D now_ms d a = (if d > 9 then Some a else dispatch_to_router D now_ms (A_Digit d) a)"

definition handle_operator :: "'d decimal_ops \<Rightarrow> u64 \<Rightarrow> string \<Rightarrow> ('d, 'f) app \<Rightarrow> ('d, 'f) app option" where
  "handle_operator D now_ms op a =
     (case operator_of op of
        Some binary_op \<Rightarrow> dispatch_to_router D now_ms (A_Operator binary_op) a
      | None \<Rightarrow> Some a)"

definition handle_action :: "'d decimal_ops \<Rightarrow> u64 \<Rightarrow> string \<Rightarrow> ('d, 'f) app \<Rightarrow> ('d, 'f) app option" where
  "handle_action D now_ms action a =
     (case parse_action action of
        Some calc_action \<Rightarrow> dispatch_to_router D now_ms calc_action a
      | None \<Rightarrow> Some a)"

definition handle_call :: "'d decimal_ops \<Rightarrow> u64 \<Rightarrow> handler_call \<Rightarrow> ('d, 'f) app \<Rightarrow> ('d, 'f) app option" where
  "handle_call D now_ms call a =
     (case call of
        HandleDigit d \<Rightarrow> handle_digit D now_ms d a
      | HandleOperator op \<Rightarrow> handle_operator D now_ms op a
      | HandleAction action \<Rightarrow> handle_action D now_ms action a)"

section \<open>Appearance, sound and panels\<close>

definition toggle_theme :: "'f app_env \<Rightarrow> config_io \<Rightarrow> ('d, 'f) app \<Rightarrow> ('d, 'f) app" where
  "toggle_theme E io a =
     (let next = \<not> au_dark_mode (cx_audio (ap_ctx a));
          a = on_audio (au_dark_mode_update (\<lambda>_. next)) a
      in save_config E io (ac_dark_mode_update (\<lambda>_. next)) a)"

definition set_router_user_mute :: "bool \<Rightarrow> ('d, 'f) app \<Rightarrow> ('d, 'f) app" where
  "set_router_user_mute user_muted a =
     on_router (\<lambda>r. set_audio_muted (user_muted \<or> is_muted r) r) a"

definition audio_mode_from_config :: "string \<Rightarrow> audio_mode" where
  "audio_mode_from_config value =
     (if value = ''broken'' then Broken
      else if value = ''music'' then Music
      else if value = ''silent'' then Silent
      else Normal)"

fun audio_mode_to_config :: "audio_mode \<Rightarrow> string" where
  "audio_mode_to_config Normal = ''normal''"
| "audio_mode_to_config Broken = ''broken''"
| "audio_mode_to_config Music = ''music''"
| "audio_mode_to_config Silent = ''silent''"

definition close_all_panels :: "('d, 'f) app \<Rightarrow> ('d, 'f) app" where
  "close_all_panels a =
     on_net (nu_panel_visible_update (\<lambda>_. False))
       (on_settings (ss_panel_visible_update (\<lambda>_. False))
         (on_audio (au_about_visible_update (\<lambda>_. False)) a))"

definition on_switch_audio_mode :: "'f app_env \<Rightarrow> config_io \<Rightarrow> ('d, 'f) app \<Rightarrow> ('d, 'f) app" where
  "on_switch_audio_mode E io a =
     (let next = mode_next (au_mode (cx_audio (ap_ctx a)));
          a = a\<lparr>ap_audio := map_option (\<lambda>(_, volume). (next, volume)) (ap_audio a)\<rparr>;
          a = on_audio (au_mode_update (\<lambda>_. next)) a;
          a = on_audio (au_mode_indicator_update (\<lambda>_. mode_name next)) a
      in save_config E io (ac_audio_mode_update (\<lambda>_. audio_mode_to_config next)) a)"

definition on_toggle_mute :: "'f app_env \<Rightarrow> config_io \<Rightarrow> ('d, 'f) app \<Rightarrow> ('d, 'f) app" where
  "on_toggle_mute E io a =
     (let next = \<not> au_muted (cx_audio (ap_ctx a));
          a = on_audio (au_muted_update (\<lambda>_. next)) a;
          a = set_router_user_mute next a
      in save_config E io (ac_muted_update (\<lambda>_. next)) a)"

text \<open>
  A change of the volume schedules a save half a second later, which happens only if no
  other change came in between. The result is the number under which the save is scheduled.
\<close>

definition schedule_volume_save :: "('d, 'f) app \<Rightarrow> u64 \<times> ('d, 'f) app" where
  "schedule_volume_save a =
     (let generation = ap_volume_generation a + 1
      in (generation, a\<lparr>ap_volume_generation := generation\<rparr>))"

definition volume_timer ::
    "'f app_env \<Rightarrow> config_io \<Rightarrow> u64 \<Rightarrow> 'f \<Rightarrow> ('d, 'f) app \<Rightarrow> ('d, 'f) app" where
  "volume_timer E io generation volume a =
     (if ap_volume_generation a = generation
      then save_config E io (ac_volume_update (\<lambda>_. ae_clamp E volume)) a else a)"

definition on_volume_changed :: "'f \<Rightarrow> ('d, 'f) app \<Rightarrow> u64 \<times> ('d, 'f) app" where
  "on_volume_changed v a =
     (let a = on_audio (au_volume_update (\<lambda>_. v)) a;
          a = a\<lparr>ap_audio := map_option (\<lambda>(mode, _). (mode, v)) (ap_audio a)\<rparr>
      in schedule_volume_save a)"

definition on_show_about :: "('d, 'f) app \<Rightarrow> ('d, 'f) app" where
  "on_show_about a = on_audio (au_about_visible_update (\<lambda>_. True)) (close_all_panels a)"

definition on_close_about :: "('d, 'f) app \<Rightarrow> ('d, 'f) app" where
  "on_close_about a = on_audio (au_about_visible_update (\<lambda>_. False)) a"

definition on_show_settings :: "('d, 'f) app \<Rightarrow> ('d, 'f) app" where
  "on_show_settings a = on_settings (ss_panel_visible_update (\<lambda>_. True)) (close_all_panels a)"

definition on_close_settings :: "('d, 'f) app \<Rightarrow> ('d, 'f) app" where
  "on_close_settings a = on_settings (ss_panel_visible_update (\<lambda>_. False)) a"

definition on_show_network_settings :: "('d, 'f) app \<Rightarrow> ('d, 'f) app" where
  "on_show_network_settings a = on_net (nu_panel_visible_update (\<lambda>_. True)) (close_all_panels a)"

definition on_close_network_settings :: "('d, 'f) app \<Rightarrow> ('d, 'f) app" where
  "on_close_network_settings a = on_net (nu_panel_visible_update (\<lambda>_. False)) a"

section \<open>State synchronisation\<close>

text \<open>The rows of the peer list, in the iteration order of the peer table.\<close>

definition peer_rows :: "node_id option \<Rightarrow> node_id hash_set \<Rightarrow> network_state \<Rightarrow> peer_display_info list" where
  "peer_rows active_target active_sessions state =
     map (\<lambda>(i, (nid, peer)).
       \<lparr>pv_name = pi_display_name peer, pv_address = display_endpoint peer,
        pv_is_connected = nid \<in> set active_sessions, pv_route_active = (active_target = Some nid),
        pv_latency_ms = (case ns_latency_ms state of Some v \<Rightarrow> sint v | None \<Rightarrow> -1),
        pv_index = int i, pv_node_id = nid\<rparr>)
       (List.enumerate 0 (ns_peers state))"

text \<open>The index and the name of the active target; of several matches the last would count.\<close>

definition active_row :: "node_id option \<Rightarrow> network_state \<Rightarrow> int \<times> string option" where
  "active_row active_target state =
     foldl (\<lambda>acc (i, (nid, peer)).
         if active_target = Some nid then (int i, Some (pi_display_name peer)) else acc)
       (-1, None) (List.enumerate 0 (ns_peers state))"

definition status_line :: "'d router \<Rightarrow> network_state \<Rightarrow> string" where
  "status_line r state =
     (if is_executing_remotely r
      then TXT_USING_1 @ (case snd (active_row (rt_active_executor r) state) of
                            Some name \<Rightarrow> name | None \<Rightarrow> TXT_REMOTE_DEVICE) @ TXT_USING_2
      else if rt_active_executor r \<noteq> None then TXT_CONNECTING
      else if rt_active_controllers r \<noteq> [] then TXT_CONTROLLED
      else if ns_is_connected state then TXT_CONNECTED
      else TXT_ENABLED)"

definition active_sessions_of :: "('d, 'f) app \<Rightarrow> node_id hash_set" where
  "active_sessions_of a = (case ap_manager a of Some m \<Rightarrow> active_session_ids m | None \<Rightarrow> [])"

definition sync_network_state :: "('d, 'f) app \<Rightarrow> ('d, 'f) app" where
  "sync_network_state a =
     (case ap_router a of
        None \<Rightarrow> a
      | Some r \<Rightarrow>
          let active_target = rt_active_executor r;
              active_sessions = active_sessions_of a;
              user_muted = au_muted (cx_audio (ap_ctx a));
              r = set_audio_muted (user_muted \<or> is_executing_remotely r) r;
              a = a\<lparr>ap_router := Some r\<rparr>
          in case ap_manager a of
               None \<Rightarrow> a
             | Some m \<Rightarrow>
                 on_net (\<lambda>n. n\<lparr>nu_peers := peer_rows active_target active_sessions (nm_state m),
                   nu_connected_peer_index := fst (active_row active_target (nm_state m)),
                   nu_status := status_line r (nm_state m),
                   nu_executing_remotely := is_executing_remotely r,
                   nu_remote_controlled := rt_active_controllers r \<noteq> []\<rparr>) a)"

section \<open>Events from the network\<close>

fun replace_row :: "peer_display_info \<Rightarrow> peer_display_info list \<Rightarrow> peer_display_info list" where
  "replace_row info [] = [info]"
| "replace_row info (p # ps) =
     (if pv_node_id p = pv_node_id info then info # ps else p # replace_row info ps)"

fun set_row_latency :: "node_id \<Rightarrow> int \<Rightarrow> peer_display_info list \<Rightarrow> peer_display_info list" where
  "set_row_latency nid ms [] = []"
| "set_row_latency nid ms (p # ps) =
     (if pv_node_id p = nid then p\<lparr>pv_latency_ms := ms\<rparr> # ps else p # set_row_latency nid ms ps)"

text \<open>The text of an error code; for a session error it is the text of that error.\<close>

definition reason_text :: "'f app_env \<Rightarrow> reason \<Rightarrow> string" where
  "reason_text E reason =
     (case reason of
        Reason c \<Rightarrow>
          if c = ''timeout'' \<or> c = ''handshake_timeout'' then TXT_TIMEOUT
          else if c = ''bind_failed'' then TXT_BIND_FAILED
          else if c = ''connection_refused'' then TXT_REFUSED
          else if c = ''connection_reset'' then TXT_RESET
          else if c = ''host_unreachable'' then TXT_UNREACHABLE
          else if c = ''network_unreachable'' then TXT_NET_UNREACHABLE
          else if c = ''permission_denied'' then TXT_DENIED
          else if c = ''remote_control_disabled'' then TXT_REMOTE_OFF
          else if c = ''fingerprint_mismatch'' then TXT_FINGERPRINT
          else TXT_CONNECT_FAILED @ c
      | SessionFailed e \<Rightarrow> TXT_CONNECT_FAILED @ ae_session_error E e)"

definition status_update_text :: "status_text \<Rightarrow> string" where
  "status_update_text s =
     (case s of
        LanPortUnavailable port \<Rightarrow> TXT_LAN_PORT_1 @ num_to_string (uint port) @ TXT_LAN_PORT_2
      | PortUnavailable \<Rightarrow> TXT_PORT_UNAVAILABLE
      | PortUnreadable \<Rightarrow> TXT_BIND_FAILED
      | StartFailed \<Rightarrow> TXT_START_FAILED)"

text \<open>What the router learns of the manager's sessions after a session event.\<close>

definition refresh_peers :: "('d, 'f) app \<Rightarrow> 'd router \<Rightarrow> 'd router" where
  "refresh_peers a r =
     (case ap_manager a of Some m \<Rightarrow> set_connected_peers (active_session_ids m) r | None \<Rightarrow> r)"

definition session_established :: "node_id \<Rightarrow> ('d, 'f) app \<Rightarrow> ('d, 'f) app" where
  "session_established nid a =
     on_router (\<lambda>r.
       let r = snd (add_remote_session nid r);
           r = (case ap_manager a of
                  None \<Rightarrow> r
                | Some m \<Rightarrow>
                    (case get_peer (ns_peers (nm_state m)) nid of
                       Some peer \<Rightarrow> set_remote_public_key nid (pi_public_key peer) r
                     | None \<Rightarrow> r))
       in refresh_peers a r) a"

definition session_lost :: "node_id \<Rightarrow> ('d, 'f) app \<Rightarrow> ('d, 'f) app" where
  "session_lost nid a = on_router (\<lambda>r. refresh_peers a (cleanup_peer_disconnect nid r)) a"

definition rename_peer :: "instant \<Rightarrow> node_id \<Rightarrow> string \<Rightarrow> ('d, 'f) app \<Rightarrow> ('d, 'f) app" where
  "rename_peer now nid name a =
     (if \<not> valid_display_name name then a
      else a\<lparr>ap_manager := map_option (\<lambda>m. m\<lparr>nm_state := (nm_state m)\<lparr>
               ns_peers := snd (update_name now nid name (ns_peers (nm_state m)))\<rparr>\<rparr>) (ap_manager a)\<rparr>)"

definition deliver_message ::
    "'d decimal_ops \<Rightarrow> instant \<Rightarrow> u64 \<Rightarrow> node_id \<Rightarrow> network_message \<Rightarrow> ('d, 'f) app \<Rightarrow> ('d, 'f) app option" where
  "deliver_message D now now_ms sender msg a =
     (let a = (case msg of PeerNameUpdate name \<Rightarrow> rename_peer now sender name a | _ \<Rightarrow> a)
      in case ap_router a of
           None \<Rightarrow> Some a
         | Some r \<Rightarrow>
             map_option (\<lambda>r. a\<lparr>ap_router := Some r\<rparr>) (handle_network_message D now now_ms sender msg r))"

text \<open>The flag says whether the caller synchronises the state afterwards.\<close>

definition dispatch_event ::
    "'d decimal_ops \<Rightarrow> 'f app_env \<Rightarrow> 'sk crypto \<Rightarrow> instant \<Rightarrow> u64 \<Rightarrow> ui_event \<Rightarrow> ('d, 'f) app \<Rightarrow>
     (bool \<times> ('d, 'f) app) option" where
  "dispatch_event D E C now now_ms event a =
     (case event of
        PeerDiscovered payload \<Rightarrow>
          (let info = \<lparr>pv_name = pd_name payload, pv_address = pd_address payload,
                       pv_is_connected = pd_is_connected payload, pv_route_active = False,
                       pv_latency_ms = pd_latency_ms payload, pv_index = pd_index payload,
                       pv_node_id = pd_node_id payload\<rparr>
           in Some (False, on_net (nu_peers_update (replace_row info)) a))
      | PeerLost nid \<Rightarrow> Some (False, on_net (nu_peers_update (filter (\<lambda>p. pv_node_id p \<noteq> nid))) a)
      | SessionEstablished nid \<Rightarrow> Some (True, session_established nid a)
      | SessionLost nid \<Rightarrow> Some (True, session_lost nid a)
      | NetworkMessage sender bytes \<Rightarrow>
          (case cr_decode C bytes of
             Some (msg, consumed) \<Rightarrow>
               if consumed = length bytes
               then map_option (Pair True) (deliver_message D now now_ms sender msg a)
               else Some (True, a)
           | None \<Rightarrow> Some (True, a))
      | ConnectionError reason \<Rightarrow>
          (let a = on_router clear_remote_executor a;
               a = set_status (reason_text E reason) a
           in Some (True, set_executing False a))
      | LatencyUpdate nid latency_ms \<Rightarrow>
          Some (False, on_net (nu_peers_update (set_row_latency nid latency_ms)) a)
      | RemoteControlStatus remote_controlled executing_remotely \<Rightarrow>
          Some (False, on_net (\<lambda>n. n\<lparr>nu_remote_controlled := remote_controlled,
                                     nu_executing_remotely := executing_remotely\<rparr>) a)
      | NetworkStatusUpdate status \<Rightarrow> Some (False, set_status (status_update_text status) a))"

text \<open>One turn of the event loop.\<close>

definition event_loop_turn ::
    "'d decimal_ops \<Rightarrow> 'f app_env \<Rightarrow> 'sk crypto \<Rightarrow> instant \<Rightarrow> u64 \<Rightarrow> ui_event \<Rightarrow> ('d, 'f) app \<Rightarrow>
     ('d, 'f) app option" where
  "event_loop_turn D E C now now_ms event a =
     (case dispatch_event D E C now now_ms event a of
        None \<Rightarrow> None
      | Some (needs_sync, a) \<Rightarrow> Some (if needs_sync then sync_network_state a else a))"

section \<open>Network handlers\<close>

text \<open>\<open>target\<close>: the parsed node id, \<open>None\<close> if the text is not one.\<close>

definition handle_connect_peer :: "node_id option \<Rightarrow> ('d, 'f) app \<Rightarrow> ('d, 'f) app" where
  "handle_connect_peer parsed a =
     (case (parsed, ap_router a) of
        (None, _) \<Rightarrow> set_status TXT_BAD_ID a
      | (Some target, None) \<Rightarrow> a
      | (Some target, Some r) \<Rightarrow>
          if target = rt_local_node_id r then a
          else if rt_active_executor r = Some target then sync_network_state a
          else
            let a = a\<lparr>ap_router := Some (snd (select_remote_executor target r))\<rparr>
            in if target \<in> set (active_sessions_of a)
               then set_executing True (set_status TXT_SELECTED a)
               else
                 case Option.bind (ap_manager a)
                        (\<lambda>m. Option.bind (get_peer (ns_peers (nm_state m)) target) pi_service_endpoint) of
                   Some addr \<Rightarrow>
                     (let a = set_executing False (set_status TXT_CONNECTING a)
                      in case ap_manager a of
                           Some m \<Rightarrow>
                             (case connect_to_peer addr (Some target) m of
                                (True, m) \<Rightarrow> a\<lparr>ap_manager := Some m\<rparr>
                              | (False, m) \<Rightarrow>
                                  set_status TXT_CANNOT_CONNECT
                                    (on_router (clear_remote_executor_if target) (a\<lparr>ap_manager := Some m\<rparr>)))
                         | None \<Rightarrow>
                             set_status TXT_CANNOT_CONNECT (on_router (clear_remote_executor_if target) a))
                 | None \<Rightarrow>
                     set_status TXT_NOT_FOUND (on_router (clear_remote_executor_if target) a))"

definition handle_disconnect_peer :: "node_id option \<Rightarrow> ('d, 'f) app \<Rightarrow> ('d, 'f) app" where
  "handle_disconnect_peer parsed a =
     (case (parsed, ap_router a) of
        (None, _) \<Rightarrow> a
      | (Some target, None) \<Rightarrow> a
      | (Some target, Some r) \<Rightarrow>
          if target = rt_local_node_id r then a
          else
            let a = on_router (clear_remote_executor_if target) a;
                a = set_executing False a;
                a = set_status TXT_STOPPED a
            in sync_network_state a)"

text \<open>The scanning flag is taken back two seconds later.\<close>

definition handle_scan_peers :: "('d, 'f) app \<Rightarrow> ('d, 'f) app" where
  "handle_scan_peers a =
     (let a = on_net (nu_scanning_update (\<lambda>_. True)) a
      in a\<lparr>ap_manager := map_option trigger_scan (ap_manager a)\<rparr>)"

definition scan_timer :: "('d, 'f) app \<Rightarrow> ('d, 'f) app" where
  "scan_timer a = on_net (nu_scanning_update (\<lambda>_. False)) a"

definition handle_toggle_remote_control :: "'f app_env \<Rightarrow> config_io \<Rightarrow> ('d, 'f) app \<Rightarrow> ('d, 'f) app" where
  "handle_toggle_remote_control E io a =
     (let next = \<not> nu_allow_remote_control (cx_net (ap_ctx a));
          a = on_net (nu_allow_remote_control_update (\<lambda>_. next)) a;
          a = save_config E io (ac_network_update (nc_allow_remote_control_update (\<lambda>_. next))) a;
          a = on_router (set_allow_remote_control next) a;
          a = sync_network_state a
      in set_status (if next then TXT_CONTROL_ON else TXT_CONTROL_OFF) a)"

definition handle_save_display_name ::
    "'f app_env \<Rightarrow> config_io \<Rightarrow> string \<Rightarrow> ('d, 'f) app \<Rightarrow> ('d, 'f) app" where
  "handle_save_display_name E io name a =
     (let trimmed = str_trim name
      in if \<not> valid_display_name trimmed
         then on_settings (ss_save_status_update (\<lambda>_. TXT_BAD_NAME)) a
         else
           let a = on_settings (ss_display_name_update (\<lambda>_. trimmed)) a;
               a = a\<lparr>ap_manager := map_option (update_display_name trimmed) (ap_manager a)\<rparr>;
               cfg = ac_network_update (nc_display_name_update (\<lambda>_. trimmed)) (config_load E io a)
           in case config_save E io cfg a of
                (True, a) \<Rightarrow> on_settings (ss_save_status_update (\<lambda>_. TXT_SAVED)) a
              | (False, a) \<Rightarrow> on_settings (ss_save_status_update (\<lambda>_. TXT_SAVE_FAILED)) a)"

section \<open>Start\<close>

definition create_router :: "'d decimal_ops \<Rightarrow> calc_display \<Rightarrow> node_id \<Rightarrow> ('d, 'f) app \<Rightarrow> ('d, 'f) app" where
  "create_router D disp new_id a =
     a\<lparr>ap_router := Some (router_new (calc_new D) (Some []) disp new_id)\<rparr>"

text \<open>
  \<open>identity\<close>: the node id of the storage. The operating system's answers to starting the
  network thread are those of \<open>start\<close>. The result is whether networking runs, and the event
  channel if the manager does not hold it.
\<close>

definition init_networking ::
    "'f app_config \<Rightarrow> node_id \<Rightarrow> string + nat \<Rightarrow> handle_answer \<Rightarrow> thread_end \<Rightarrow> ui_event chan \<Rightarrow>
     ('d, 'f) app \<Rightarrow> bool \<times> ui_event chan \<times> ('d, 'f) app" where
  "init_networking cfg identity spawned answer failed ui_tx a =
     (let mode = mode_current (ap_mode a)
      in if mode = Offline then (False, ui_tx, a)
         else
           case ap_router a of
             None \<Rightarrow> (False, ui_tx, a)
           | Some r \<Rightarrow>
               let nm = manager_new identity (nc_display_name (ac_network cfg)) ui_tx;
                   r = set_local_node_id (nm_local_node_id nm) r;
                   r = set_allow_remote_control (nc_allow_remote_control (ac_network cfg)) r
               in case start mode False failed spawned answer failed nm of
                    (Inl error, nm) \<Rightarrow>
                      (False, snd (try_emit_ui_event (NetworkStatusUpdate StartFailed) ui_tx),
                       a\<lparr>ap_router := Some r\<rparr>)
                  | (Inr outgoing_tx, nm) \<Rightarrow>
                      (True, ui_tx,
                       a\<lparr>ap_router := Some (set_outgoing_tx outgoing_tx r), ap_manager := Some nm\<rparr>))"

text \<open>
  The application before its first-use hook, and the hook. \<open>device\<close>: whether an audio
  device could be opened, with the number of its sounds; \<open>storage\<close>: the node id of the
  device identity if the storage could be opened. \<open>main\<close> reads the configuration on its own for
  the network mode: \<open>boot\<close> is what that read finds, with the name it would draw.
\<close>

definition new_context :: "'f \<Rightarrow> 'f calc_context" where
  "new_context one =
     \<lparr>cx_audio = \<lparr>au_mode_indicator = [], au_mode = Normal, au_volume = one, au_muted = False,
                  au_dark_mode = False, au_about_visible = False, au_audio_status = []\<rparr>,
      cx_net = \<lparr>nu_panel_visible = False, nu_scanning = False, nu_status = [],
                nu_connected_peer_index = -1, nu_peers = [], nu_remote_controlled = False,
                nu_executing_remotely = False, nu_allow_remote_control = False\<rparr>,
      cx_settings = \<lparr>ss_panel_visible = False, ss_display_name = [], ss_save_status = []\<rparr>,
      cx_keyboard_pressed = False, cx_last_keyboard_action = []\<rparr>"

definition mode_status :: "network_mode \<Rightarrow> string" where
  "mode_status mode =
     (case mode of Lan \<Rightarrow> TXT_ENABLED | Offline \<Rightarrow> TXT_OFFLINE | LoopbackTest \<Rightarrow> TXT_LOOPBACK)"

definition configure :: "'f app_env \<Rightarrow> 'f app_config \<Rightarrow> ('d, 'f) app \<Rightarrow> ('d, 'f) app" where
  "configure E cfg a =
     (let configured_mode = audio_mode_from_config (ac_audio_mode cfg);
          configured_volume = ae_clamp E (ac_volume cfg);
          a = on_audio (\<lambda>u. u\<lparr>au_mode := configured_mode, au_mode_indicator := mode_name configured_mode,
                au_volume := configured_volume, au_muted := ac_muted cfg,
                au_dark_mode := ac_dark_mode cfg\<rparr>) a;
          a = on_settings (ss_display_name_update (\<lambda>_. nc_display_name (ac_network cfg))) a;
          a = on_net (nu_allow_remote_control_update (\<lambda>_. nc_allow_remote_control (ac_network cfg))) a
      in set_status (mode_status (mode_current (ap_mode a))) a)"

definition app_start ::
    "'d decimal_ops \<Rightarrow> 'f app_env \<Rightarrow> string \<times> file_read \<Rightarrow> config_io \<Rightarrow> string list \<Rightarrow> string option \<Rightarrow> bool \<Rightarrow> file_read \<Rightarrow> 'f \<Rightarrow>
     nat option \<Rightarrow> node_id option \<Rightarrow> node_id \<Rightarrow> string + nat \<Rightarrow> handle_answer \<Rightarrow> thread_end \<Rightarrow>
     string + ui_event chan \<times> ('d, 'f) app" where
  "app_start D E boot io args env has_dir file one device storage new_id spawned answer failed =
     (let a = \<lparr>ap_ctx = new_context one, ap_router = None, ap_manager = None, ap_mode = None,
               ap_audio = map_option (\<lambda>_. (Normal, ae_half E)) device, ap_has_dir = has_dir,
               ap_file = file, ap_volume_generation = 0\<rparr>;
          boot_cfg = (if \<not> has_dir then app_config_default (ae_half E) (fst boot)
                      else load_from_path (ae_parse_toml E) (ae_half E) (fst boot) (snd boot));
          cfg = config_load E io a
      in case resolve_network_mode args env (ac_network boot_cfg) of
           Inl e \<Rightarrow> Inl e
         | Inr mode \<Rightarrow>
             let a = configure E cfg (a\<lparr>ap_mode := mode_set mode (ap_mode a)\<rparr>);
                 a = a\<lparr>ap_audio := map_option (\<lambda>_. (audio_mode_from_config (ac_audio_mode cfg),
                         ae_clamp E (ac_volume cfg))) (ap_audio a)\<rparr>;
                 a = on_audio (au_audio_status_update (\<lambda>_. case device of
                         Some sounds \<Rightarrow> TXT_AUDIO_1 @ num_to_string (int sounds) @ TXT_AUDIO_2
                       | None \<Rightarrow> TXT_NO_AUDIO)) a;
                 a = create_router D \<lparr>dp_text = ''0'', dp_history = [], dp_memory_indicator = [],
                       dp_is_error = False\<rparr> new_id a;
                 a = set_router_user_mute (ac_muted cfg) a
             in Inr (case storage of
                       Some identity \<Rightarrow>
                         snd (init_networking cfg identity spawned answer failed create_ui_channel a)
                     | None \<Rightarrow> (create_ui_channel, set_status TXT_STORAGE a)))"

section \<open>The application as an event machine\<close>

text \<open>
  \<open>U_\<close> events come from the user and from the two timers, \<open>N_Event\<close> from the event channel.
  \<open>N_Runtime\<close> is what the tasks of the runtime do to the state they share with the manager.
\<close>

datatype 'f app_event =
    U_Call u64 handler_call
  | U_SwitchAudioMode config_io
  | U_ToggleMute config_io
  | U_Volume 'f
  | U_VolumeTimer config_io u64 'f
  | U_ToggleTheme config_io
  | U_ShowAbout
  | U_CloseAbout
  | U_ShowSettings
  | U_CloseSettings
  | U_ShowNetwork
  | U_CloseNetwork
  | U_SaveName config_io string
  | U_Connect "node_id option"
  | U_Disconnect "node_id option"
  | U_Scan
  | U_ScanTimer
  | U_ToggleRemoteControl config_io
  | U_KeyboardPressed bool
  | U_LastAction string
  | N_Event instant u64 ui_event
  | N_Runtime network_state "(node_id, active_session) hash_map"
  | N_Drain nat

fun app_step ::
    "'d decimal_ops \<Rightarrow> 'f app_env \<Rightarrow> 'sk crypto \<Rightarrow> ('d, 'f) app \<Rightarrow> 'f app_event \<Rightarrow> ('d, 'f) app option" where
  "app_step D E C a (U_Call now_ms call) = handle_call D now_ms call a"
| "app_step D E C a (U_SwitchAudioMode io) = Some (on_switch_audio_mode E io a)"
| "app_step D E C a (U_ToggleMute io) = Some (on_toggle_mute E io a)"
| "app_step D E C a (U_Volume v) = Some (snd (on_volume_changed v a))"
| "app_step D E C a (U_VolumeTimer io g v) = Some (volume_timer E io g v a)"
| "app_step D E C a (U_ToggleTheme io) = Some (toggle_theme E io a)"
| "app_step D E C a U_ShowAbout = Some (on_show_about a)"
| "app_step D E C a U_CloseAbout = Some (on_close_about a)"
| "app_step D E C a U_ShowSettings = Some (on_show_settings a)"
| "app_step D E C a U_CloseSettings = Some (on_close_settings a)"
| "app_step D E C a U_ShowNetwork = Some (on_show_network_settings a)"
| "app_step D E C a U_CloseNetwork = Some (on_close_network_settings a)"
| "app_step D E C a (U_SaveName io name) = Some (handle_save_display_name E io name a)"
| "app_step D E C a (U_Connect target) = Some (handle_connect_peer target a)"
| "app_step D E C a (U_Disconnect target) = Some (handle_disconnect_peer target a)"
| "app_step D E C a U_Scan = Some (handle_scan_peers a)"
| "app_step D E C a U_ScanTimer = Some (scan_timer a)"
| "app_step D E C a (U_ToggleRemoteControl io) = Some (handle_toggle_remote_control E io a)"
| "app_step D E C a (U_KeyboardPressed b) = Some (a\<lparr>ap_ctx := (ap_ctx a)\<lparr>cx_keyboard_pressed := b\<rparr>\<rparr>)"
| "app_step D E C a (U_LastAction s) = Some (a\<lparr>ap_ctx := (ap_ctx a)\<lparr>cx_last_keyboard_action := s\<rparr>\<rparr>)"
| "app_step D E C a (N_Event now now_ms event) = event_loop_turn D E C now now_ms event a"
| "app_step D E C a (N_Runtime state sessions) =
     Some (a\<lparr>ap_manager := map_option (\<lambda>m. m\<lparr>nm_state := state, nm_sessions := sessions\<rparr>) (ap_manager a)\<rparr>)"
| "app_step D E C a (N_Drain n) =
     Some (on_router (\<lambda>r. r\<lparr>rt_outgoing_tx :=
             map_option (\<lambda>tx. tx\<lparr>ch_buf := drop n (ch_buf tx)\<rparr>) (rt_outgoing_tx r)\<rparr>) a)"

end
