(* ===== verification/Bridge_Theorems.thy ===== *)
theory Bridge_Theorems
  imports Bridge Router_Theorems
begin

text \<open>
  Properties of the bridge of \<open>src/ui/bridge.rs\<close> and the application around it: what the
  user sees agrees with the state after every synchronisation, settings survive a restart,
  and three ways in which what is shown or heard departs from the state.
\<close>

lemmas net_frames = on_router_def set_status_def set_executing_def

subsection \<open>Connection errors\<close>

text \<open>
  The text of a connection error is never seen. The event loop writes it and then
  synchronises, which overwrites the status with one of the three texts of a node without an
  executor; the result does not depend on the error at all.
\<close>

theorem connection_error_not_shown:
  assumes "ap_router a = Some r" and "ap_manager a = Some m"
  shows "event_loop_turn D E C now now_ms (ConnectionError reason) a =
      event_loop_turn D E C now now_ms (ConnectionError reason') a
    \<and> map_option (\<lambda>a. nu_status (cx_net (ap_ctx a)))
        (event_loop_turn D E C now now_ms (ConnectionError reason) a)
      \<in> {Some TXT_CONTROLLED, Some TXT_CONNECTED, Some TXT_ENABLED}"
  using assms
  by (simp_all add: event_loop_turn_def dispatch_event_def sync_network_state_def net_frames Let_def
      status_line_def clear_remote_executor_def set_audio_muted_def is_executing_remotely_def active_sessions_of_def)

subsection \<open>What is shown agrees with the state\<close>

text \<open>
  The agreement: one row per known peer, connected exactly if it has a session, marked as
  the route exactly if it is the executor; the index points to the executor's row and to no
  row if it has none; the flags say whether keys go to another device and whether another
  device sends keys; and local speech is off exactly if the user wants it off or keys go
  elsewhere.
\<close>

definition mirrors :: "('d, 'f) app \<Rightarrow> bool" where
  "mirrors a =
     (case (ap_router a, ap_manager a) of
        (Some r, Some m) \<Rightarrow>
          (let n = cx_net (ap_ctx a) in
           map pv_node_id (nu_peers n) = hm_keys (ns_peers (nm_state m))
           \<and> (\<forall>p \<in> set (nu_peers n).
                (pv_is_connected p \<longleftrightarrow> hm_get (nm_sessions m) (pv_node_id p) \<noteq> None)
                \<and> (pv_route_active p \<longleftrightarrow> rt_active_executor r = Some (pv_node_id p)))
           \<and> (if nu_connected_peer_index n < 0
              then list_all (\<lambda>p. \<not> pv_route_active p) (nu_peers n)
              else nat (nu_connected_peer_index n) < length (nu_peers n)
                \<and> rt_active_executor r = Some (pv_node_id (nu_peers n ! nat (nu_connected_peer_index n))))
           \<and> nu_executing_remotely n = is_executing_remotely r
           \<and> nu_remote_controlled n = (rt_active_controllers r \<noteq> [])
           \<and> rt_audio_muted r = (au_muted (cx_audio (ap_ctx a)) \<or> is_executing_remotely r))
      | _ \<Rightarrow> True)"

text \<open>The fold over the peer table finds the executor's row.\<close>

definition row_ok :: "node_id option \<Rightarrow> (nat \<times> node_id \<times> peer_info) list \<Rightarrow> int \<Rightarrow> bool" where
  "row_ok target xs i =
     (if i < 0 then list_all (\<lambda>(_, nid, _). target \<noteq> Some nid) xs
      else \<exists>k nid peer. i = int k \<and> (k, nid, peer) \<in> set xs \<and> target = Some nid)"

lemma active_row_fold:
  "row_ok target xs (fst (foldl (\<lambda>acc (i, (nid, peer)).
       if target = Some nid then (int i, Some (pi_display_name peer)) else acc) (-1, None) xs))"
proof (induction xs rule: rev_induct)
  case Nil
  then show ?case by (simp add: row_ok_def)
next
  case (snoc x xs)
  obtain k nid peer where x: "x = (k, nid, peer)" by (cases x)
  show ?case
  proof (cases "target = Some nid")
    case True
    then show ?thesis by (simp add: x row_ok_def) blast
  next
    case False
    then show ?thesis
      using snoc.IH by (auto simp: x row_ok_def split: if_splits)
  qed
qed

lemma peer_rows_nth:
  "i < length (ns_peers st) \<Longrightarrow>
     pv_node_id (peer_rows target sessions st ! i) = fst (ns_peers st ! i)
     \<and> pv_route_active (peer_rows target sessions st ! i) = (target = Some (fst (ns_peers st ! i)))
     \<and> pv_is_connected (peer_rows target sessions st ! i) = (fst (ns_peers st ! i) \<in> set sessions)"
  by (simp add: peer_rows_def nth_enumerate_eq split: prod.split)

lemma length_peer_rows [simp]: "length (peer_rows target sessions st) = length (ns_peers st)"
  by (simp add: peer_rows_def)

lemma active_row_ok:
  assumes "i = fst (active_row target st)"
  shows "if i < 0 then list_all (\<lambda>p. \<not> pv_route_active p) (peer_rows target sessions st)
    else nat i < length (ns_peers st) \<and> target = Some (pv_node_id (peer_rows target sessions st ! nat i))"
proof -
  have ok: "row_ok target (List.enumerate 0 (ns_peers st)) i"
    unfolding assms active_row_def by (rule active_row_fold)
  show ?thesis
  proof (cases "i < 0")
    case True
    then have "\<forall>k < length (ns_peers st). target \<noteq> Some (fst (ns_peers st ! k))"
      using ok by (simp add: row_ok_def list_all_length nth_enumerate_eq case_prod_beta)
    then show ?thesis
      using True by (auto simp: list_all_length peer_rows_nth)
  next
    case False
    then obtain k nid peer where "i = int k" "(k, nid, peer) \<in> set (List.enumerate 0 (ns_peers st))"
        "target = Some nid"
      using ok by (auto simp: row_ok_def)
    then show ?thesis
      by (auto simp: in_set_enumerate_eq peer_rows_nth)
  qed
qed

lemma set_audio_muted_frame [simp]:
  "rt_connected_peers (set_audio_muted b r) = rt_connected_peers r"
  "rt_active_executor (set_audio_muted b r) = rt_active_executor r"
  "rt_active_controllers (set_audio_muted b r) = rt_active_controllers r"
  "rt_peer_public_keys (set_audio_muted b r) = rt_peer_public_keys r"
  "rt_last_remote_seq (set_audio_muted b r) = rt_last_remote_seq r"
  "rt_remote_rate_windows (set_audio_muted b r) = rt_remote_rate_windows r"
  "rt_audio_muted (set_audio_muted b r) = b"
  "rt_outgoing_tx (set_audio_muted b r) = rt_outgoing_tx r"
  "rt_calculator (set_audio_muted b r) = rt_calculator r"
  "rt_audio (set_audio_muted b r) = rt_audio r"
  "rt_allow_remote_control (set_audio_muted b r) = rt_allow_remote_control r"
  "is_executing_remotely (set_audio_muted b r) = is_executing_remotely r"
  "remote_target (set_audio_muted b r) = remote_target r"
  by (simp_all add: set_audio_muted_def is_executing_remotely_def remote_target_def split: option.split)

lemma sync_mirrors [simp]: "mirrors (sync_network_state a)"
proof (cases "ap_router a"; cases "ap_manager a")
  fix r m
  assume rm: "ap_router a = Some r" "ap_manager a = Some m"
  have keys: "map pv_node_id (peer_rows t ss (nm_state m)) = hm_keys (ns_peers (nm_state m))" for t ss
    by (rule nth_equalityI) (simp_all add: hm_keys_def peer_rows_nth)
  have rows: "\<forall>p \<in> set (peer_rows t (active_session_ids m) (nm_state m)).
      (pv_is_connected p \<longleftrightarrow> hm_get (nm_sessions m) (pv_node_id p) \<noteq> None)
      \<and> (pv_route_active p \<longleftrightarrow> t = Some (pv_node_id p))" for t
    using hm_keys_get [of _ "nm_sessions m"]
    by (auto simp: peer_rows_def active_session_ids_def)
  show ?thesis
    using rm active_row_ok [OF refl, of "rt_active_executor r" "nm_state m" "active_session_ids m"]
    by (simp add: mirrors_def sync_network_state_def Let_def active_sessions_of_def keys rows)
qed (simp_all add: mirrors_def sync_network_state_def Let_def)

text \<open>The events after which the event loop synchronises.\<close>

fun syncing :: "ui_event \<Rightarrow> bool" where
  "syncing (SessionEstablished _) = True"
| "syncing (SessionLost _) = True"
| "syncing (NetworkMessage _ _) = True"
| "syncing (ConnectionError _) = True"
| "syncing _ = False"

lemma syncing_turn:
  assumes "syncing event" and "event_loop_turn D E C now now_ms event a = Some a'"
  obtains a1 where "a' = sync_network_state a1"
  using assms
  by (cases event) (auto simp: event_loop_turn_def dispatch_event_def Let_def split: option.splits if_splits)

lemma mirrors_status [simp]: "mirrors (set_status s a) = mirrors a"
  by (simp add: mirrors_def set_status_def Let_def split: option.split)

text \<open>
  C13: after every session event, every message and every connection error, and after
  opening or closing remote control and leaving a remote device, the view agrees with the
  state: the rows are the known peers with their connections and the route, the flags and the
  index are right, and this device is silent while it sends its keys elsewhere.
\<close>

theorem view_follows_state:
  assumes "syncing event" and "event_loop_turn D E C now now_ms event a = Some a'"
    and "ap_router a = Some r" and "target \<noteq> rt_local_node_id r"
  shows "mirrors a' \<and> mirrors (handle_toggle_remote_control E io a)
    \<and> mirrors (handle_disconnect_peer (Some target) a)"
proof -
  obtain a1 where "a' = sync_network_state a1"
    using syncing_turn [OF assms(1,2)] .
  then show ?thesis
    using assms(3,4)
    by (simp add: handle_toggle_remote_control_def handle_disconnect_peer_def Let_def)
qed

text \<open>
  After a session event the router tracks the session registry. Its peers are the
  first 64 nodes of the registry, so its executor, its controllers, the sequence numbers,
  the rate windows and the keys it keeps all belong to nodes with a session, and a key is
  never sent to a node without one.
\<close>

theorem router_follows_registry:
  assumes "event = SessionEstablished nid \<or> event = SessionLost nid"
    and "ap_router a = Some r" and "ap_manager a = Some m"
    and "event_loop_turn D E C now now_ms event a = Some a'"
  shows "\<exists>r'. ap_router a' = Some r' \<and> ap_manager a' = Some m
    \<and> rt_connected_peers r' = take 64 (active_session_ids m)
    \<and> (\<forall>k. rt_active_executor r' = Some k \<or> k \<in> set (rt_active_controllers r')
          \<or> k \<in> set (hm_keys (rt_peer_public_keys r')) \<or> k \<in> set (hm_keys (rt_last_remote_seq r'))
          \<or> k \<in> set (hm_keys (rt_remote_rate_windows r')) \<or> remote_target r' = Some k
        \<longrightarrow> hm_get (nm_sessions m) k \<noteq> None)"
proof -
  let ?ids = "active_session_ids m"
  have tracks: "rt_connected_peers (set_connected_peers ?ids q) = take 64 ?ids
      \<and> (rt_active_executor (set_connected_peers ?ids q) = Some k
          \<or> k \<in> set (rt_active_controllers (set_connected_peers ?ids q))
          \<or> k \<in> set (hm_keys (rt_peer_public_keys (set_connected_peers ?ids q)))
          \<or> k \<in> set (hm_keys (rt_last_remote_seq (set_connected_peers ?ids q)))
          \<or> k \<in> set (hm_keys (rt_remote_rate_windows (set_connected_peers ?ids q)))
        \<longrightarrow> k \<in> set (take 64 ?ids))" for q :: "'a router" and k
    by (auto simp: set_connected_peers_def Let_def MAX_TRACKED_REMOTE_PEERS_def hm_keys_retain_key
        split: option.splits if_splits)
  have inside: "k \<in> set (take 64 ?ids) \<Longrightarrow> hm_get (nm_sessions m) k \<noteq> None" for k
    using hm_keys_get [of k "nm_sessions m"] in_set_takeD [of k 64 ?ids] by (simp add: active_session_ids_def)
  obtain q where q: "a' = sync_network_state (a\<lparr>ap_router := Some (set_connected_peers ?ids q)\<rparr>)"
    using assms
    by (auto simp: event_loop_turn_def dispatch_event_def session_established_def session_lost_def
        refresh_peers_def on_router_def Let_def)
  let ?r = "set_audio_muted (au_muted (cx_audio (ap_ctx a)) \<or> is_executing_remotely (set_connected_peers ?ids q))
      (set_connected_peers ?ids q)"
  have r': "ap_router a' = Some ?r" "ap_manager a' = Some m"
    using assms(3) by (simp_all add: q sync_network_state_def Let_def)
  have target: "remote_target (set_connected_peers ?ids q) = Some k \<Longrightarrow>
      rt_active_executor (set_connected_peers ?ids q) = Some k" for k
    by (auto simp: remote_target_def split: option.splits if_splits)
  show ?thesis
    by (rule exI [of _ ?r]) (use tracks [of q] inside r' target in auto)
qed

subsection \<open>Rediscovery\<close>

lemma peer_payload_some:
  assumes "hm_get (ns_peers state) nid \<noteq> None"
  obtains payload where "peer_payload_of state nid b = Some payload"
    and "pd_node_id payload = nid" and "pd_is_connected payload = b"
proof -
  let ?P = "\<lambda>(index :: nat, (pid :: node_id, peer :: peer_info)). pid = nid"
  obtain k where "k < length (ns_peers state)" "fst (ns_peers state ! k) = nid"
    using assms hm_keys_get [of nid "ns_peers state"] by (auto simp: hm_keys_def in_set_conv_nth)
  then have "(k, ns_peers state ! k) \<in> set (List.enumerate 0 (ns_peers state))" "?P (k, ns_peers state ! k)"
    by (auto simp: in_set_enumerate_eq split: prod.split)
  then have "find ?P (List.enumerate 0 (ns_peers state)) \<noteq> None"
    unfolding find_None_iff not_not by (intro exI conjI)
  then obtain i pid peer where found: "find ?P (List.enumerate 0 (ns_peers state)) = Some (i, pid, peer)"
    by (metis not_None_eq prod_cases3)
  then have "pid = nid"
    unfolding find_Some_iff by auto
  then show thesis
    using that found by (simp add: peer_payload_of_def)
qed

lemma mirrors_row:
  "mirrors a \<Longrightarrow> ap_router a = Some r \<Longrightarrow> ap_manager a = Some m \<Longrightarrow> p \<in> set (nu_peers (cx_net (ap_ctx a))) \<Longrightarrow>
     pv_is_connected p \<longleftrightarrow> hm_get (nm_sessions m) (pv_node_id p) \<noteq> None"
  by (simp add: mirrors_def Let_def)

lemma replace_row_mem: "info \<in> set (replace_row info ps)"
  by (induction ps) auto

text \<open>
  A connected peer that is discovered again is shown as disconnected. Discovery reports
  every endpoint it hears of as not connected; the event replaces the peer's row, also that
  of the executor, and no synchronisation follows, so the view departs from the state.
\<close>

theorem rediscovered_peer_shown_disconnected:
  assumes "peer_table_inv (ns_peers (rn_state s))" and "\<not> ch_closed (rn_ui s)"
    and "length (ch_buf (rn_ui s)) < ch_cap (rn_ui s)"
  shows "\<exists>payload a' p.
      ch_buf (rn_ui (snd (register_discovered_endpoint now ep s))) = ch_buf (rn_ui s) @ [PeerDiscovered payload]
    \<and> event_loop_turn D E C t t_ms (PeerDiscovered payload) a = Some a'
    \<and> p \<in> set (nu_peers (cx_net (ap_ctx a'))) \<and> pv_node_id p = de_node_id ep
    \<and> \<not> pv_is_connected p \<and> \<not> pv_route_active p
    \<and> (\<forall>r m. ap_router a = Some r \<and> ap_manager a = Some m \<and> hm_get (nm_sessions m) (de_node_id ep) \<noteq> None
        \<longrightarrow> \<not> mirrors a')"
proof -
  let ?nid = "de_node_id ep"
  let ?peer = "\<lparr>pi_node_id = ?nid, pi_display_name = de_display_name ep,
             pi_service_endpoint = Some (de_address ep), pi_session_peer_addr = None, pi_last_seen = now,
             pi_public_key = zero_key, pi_public_key_fingerprint = de_public_key_fingerprint ep\<rparr>"
  let ?tbl = "add_peer ?peer (ns_peers (rn_state s))"
  let ?st = "(rn_state s)\<lparr>ns_peers := snd (remove_expired now ?tbl)\<rparr>"
  have "hm_wf ?tbl"
    using add_peer_inv [OF assms(1), of ?peer] by (simp add: peer_table_inv_def)
  moreover have "\<exists>peer. hm_get ?tbl ?nid = Some peer \<and> pi_last_seen peer = now"
    by (auto simp: add_peer_def merge_peer_def hm_gets hm_insert_evict_get split: option.split)
  ultimately have "hm_get (ns_peers ?st) ?nid \<noteq> None"
    by (auto simp: remove_expired_def Let_def hm.get_keep duration_since_def PEER_EXPIRY_DURATION_def from_secs_def)
  then obtain payload where payload: "peer_payload_of ?st ?nid False = Some payload"
      "pd_node_id payload = ?nid" "\<not> pd_is_connected payload"
    using peer_payload_some [of ?st ?nid False] by metis
  have sent: "ch_buf (rn_ui (snd (register_discovered_endpoint now ep s)))
      = ch_buf (rn_ui s) @ [PeerDiscovered payload]"
    using payload(1) assms(2,3)
    by (simp add: register_discovered_endpoint_def Let_def emit_payload_def emit_def try_emit_ui_event_def
        try_send_def)
  let ?info = "\<lparr>pv_name = pd_name payload, pv_address = pd_address payload, pv_is_connected = False,
      pv_route_active = False, pv_latency_ms = pd_latency_ms payload, pv_index = pd_index payload,
      pv_node_id = ?nid\<rparr>"
  let ?a' = "on_net (nu_peers_update (replace_row ?info)) a"
  have turn: "event_loop_turn D E C t t_ms (PeerDiscovered payload) a = Some ?a'"
    using payload(2,3) by (simp add: event_loop_turn_def dispatch_event_def)
  have row: "?info \<in> set (nu_peers (cx_net (ap_ctx ?a')))"
    using replace_row_mem by simp
  have "ap_router a = Some r \<Longrightarrow> ap_manager a = Some m \<Longrightarrow> hm_get (nm_sessions m) ?nid \<noteq> None
      \<Longrightarrow> \<not> mirrors ?a'" for r m
    using mirrors_row [of ?a' r m ?info] row by auto
  then show ?thesis
    using sent turn row by (intro exI [of _ payload] exI [of _ ?a'] exI [of _ ?info]) simp
qed

subsection \<open>Taking a remote device into use\<close>

lemma dispatch_sent:
  assumes "valid_action action" and "remote_target r = Some target"
    and "rt_outgoing_tx r = Some tx" and "\<not> ch_closed tx" and "length (ch_buf tx) < ch_cap tx"
    and "calc_dispatch D action (rt_calculator r) = Some (c, res)"
  shows "\<exists>r'. dispatch D now_ms action r = Some r'
    \<and> rt_outgoing_tx r' = Some (tx\<lparr>ch_buf := ch_buf tx
        @ [(target, Action \<lparr>env_seq = u64_saturating_add (rt_local_seq r) 1, env_source_id = rt_local_node_id r,
             env_timestamp_ms = now_ms, env_action = action\<rparr>)]\<rparr>)
    \<and> rt_audio r' = (if rt_audio_muted r then rt_audio r
        else map_option (\<lambda>calls. calls @ [r_events res]) (rt_audio r))"
  using assms
  by (simp add: dispatch_def build_envelope_def send_message_to_def try_send_def apply_speculative_def
      apply_result_def Let_def split: option.split)

text \<open>
  After a device with an existing session has been selected, the first key is spoken
  here although it is executed there: selecting does not synchronise, and only the
  synchronisation turns the local speech off.
\<close>

theorem first_remote_key_spoken_here:
  assumes "ap_router a = Some r" and "rt_audio r = Some calls" and "\<not> rt_audio_muted r"
    and "target \<noteq> rt_local_node_id r" and "rt_active_executor r \<noteq> Some target"
    and "target \<in> set (rt_connected_peers r)" and "target \<in> set (active_sessions_of a)"
    and "rt_outgoing_tx r = Some tx" and "\<not> ch_closed tx" and "length (ch_buf tx) < ch_cap tx"
    and "valid_action action" and "calc_dispatch D action (rt_calculator r) = Some (c, res)"
  shows "nu_executing_remotely (cx_net (ap_ctx (handle_connect_peer (Some target) a)))
    \<and> (\<exists>a' r' env. dispatch_to_router D now_ms action (handle_connect_peer (Some target) a) = Some a'
         \<and> ap_router a' = Some r' \<and> rt_outgoing_tx r' = Some (tx\<lparr>ch_buf := ch_buf tx @ [(target, Action env)]\<rparr>)
         \<and> rt_audio r' = Some (calls @ [r_events res]))
    \<and> (\<exists>a' r'. dispatch_to_router D now_ms action (sync_network_state (handle_connect_peer (Some target) a)) = Some a'
         \<and> ap_router a' = Some r' \<and> rt_audio r' = Some calls)"
proof -
  let ?r = "snd (select_remote_executor target r)" and ?a = "handle_connect_peer (Some target) a"
  have r: "remote_target ?r = Some target" "is_executing_remotely ?r" "rt_outgoing_tx ?r = Some tx"
    "rt_calculator ?r = rt_calculator r" "rt_audio ?r = Some calls" "\<not> rt_audio_muted ?r"
    using assms(2,3,6,8)
    by (simp_all add: select_remote_executor_def remote_target_def is_executing_remotely_def)
  have a: "ap_router ?a = Some ?r" "nu_executing_remotely (cx_net (ap_ctx ?a))"
    using assms(1,4,5,7)
    by (simp_all add: handle_connect_peer_def Let_def active_sessions_of_def set_executing_def set_status_def)
  let ?q = "set_audio_muted (au_muted (cx_audio (ap_ctx ?a)) \<or> is_executing_remotely ?r) ?r"
  have q: "remote_target ?q = Some target" "rt_outgoing_tx ?q = Some tx" "rt_calculator ?q = rt_calculator r"
    "rt_audio ?q = Some calls" "rt_audio_muted ?q"
    using r by simp_all
  have sync: "ap_router (sync_network_state ?a) = Some ?q"
    using a(1) by (simp add: sync_network_state_def Let_def split: option.split)
  obtain r1 where r1: "dispatch D now_ms action ?r = Some r1" "rt_audio r1 = Some (calls @ [r_events res])"
      "\<exists>env. rt_outgoing_tx r1 = Some (tx\<lparr>ch_buf := ch_buf tx @ [(target, Action env)]\<rparr>)"
    using dispatch_sent [of action ?r target tx D c res now_ms] assms(9-12) r by auto
  obtain r2 where r2: "dispatch D now_ms action ?q = Some r2" "rt_audio r2 = Some calls"
    using dispatch_sent [of action ?q target tx D c res now_ms] assms(9-12) q by auto
  from r1(3) obtain env where env: "rt_outgoing_tx r1 = Some (tx\<lparr>ch_buf := ch_buf tx @ [(target, Action env)]\<rparr>)" ..
  have "dispatch_to_router D now_ms action ?a = Some (?a\<lparr>ap_router := Some r1\<rparr>)"
    using a(1) r1(1) by (simp add: dispatch_to_router_def)
  moreover have "dispatch_to_router D now_ms action (sync_network_state ?a)
      = Some ((sync_network_state ?a)\<lparr>ap_router := Some r2\<rparr>)"
    using sync r2(1) by (simp add: dispatch_to_router_def)
  ultimately show ?thesis
    using a(2) r1(2) env r2(2) by simp (rule exI, rule refl)
qed

section \<open>Invariants of the application\<close>

text \<open>What the invariant says of the router, given what is shown and whether the application is offline.\<close>

definition router_ok :: "bool \<Rightarrow> bool \<Rightarrow> 'd router \<Rightarrow> bool" where
  "router_ok visible offline r =
     (router_inv r \<and> (rt_allow_remote_control r \<longrightarrow> visible) \<and> (offline \<longrightarrow> rt_outgoing_tx r = None))"

lemma execute_local_frame:
  "execute_local D action r = Some r' \<Longrightarrow>
     rt_allow_remote_control r' = rt_allow_remote_control r \<and> rt_outgoing_tx r' = rt_outgoing_tx r"
  by (auto simp: execute_local_def split: option.splits)

lemma send_message_to_frame:
  "rt_allow_remote_control (snd (send_message_to nid msg r)) = rt_allow_remote_control r"
  "rt_outgoing_tx r = None \<Longrightarrow> snd (send_message_to nid msg r) = r"
  by (auto simp: send_message_to_def split: option.split sum.split)

lemma dispatch_frame:
  assumes "dispatch D now_ms action r = Some r'"
  shows "rt_allow_remote_control r' = rt_allow_remote_control r
    \<and> (rt_outgoing_tx r = None \<longrightarrow> rt_outgoing_tx r' = None)"
proof (cases "valid_action action")
  case True
  show ?thesis
  proof (cases "remote_target r")
    case None
    then show ?thesis
      using assms True execute_local_frame [of D action r r'] by (simp add: dispatch_def)
  next
    case (Some target)
    obtain env r1 where env: "build_envelope now_ms action r = (env, r1)" by force
    obtain sent r2 where sent: "send_message_to target (Action env) r1 = (sent, r2)" by force
    have r2: "rt_allow_remote_control r2 = rt_allow_remote_control r"
      "rt_outgoing_tx r = None \<Longrightarrow> rt_outgoing_tx r2 = None"
      using env sent send_message_to_frame(1) [of target "Action env" r1]
        send_message_to_frame(2) [of r1 target "Action env"]
      by (auto simp: build_envelope_def Let_def)
    show ?thesis
      using assms True Some env sent r2 execute_local_frame [of D action _ r']
      by (fastforce simp: dispatch_def apply_speculative_eq clear_remote_executor_if_def
          clear_remote_executor_def split: if_splits)
  qed
next
  case False
  then show ?thesis using assms by (simp add: dispatch_def)
qed

lemma dispatch_ok:
  "router_ok visible offline r \<Longrightarrow> dispatch D now_ms action r = Some r' \<Longrightarrow> router_ok visible offline r'"
  using dispatch_frame [of D now_ms action r r'] dispatch_inv [of r D now_ms action r']
  by (auto simp: router_ok_def)

lemma handle_network_message_frame:
  assumes "handle_network_message D now now_ms sender msg r = Some r'"
  shows "rt_allow_remote_control r' = rt_allow_remote_control r
    \<and> (rt_outgoing_tx r = None \<longrightarrow> rt_outgoing_tx r' = None)"
proof (cases msg)
  case (Action env)
  obtain res r1 where ad: "admit_remote_action now now_ms sender env r = (res, r1)" by force
  have r1: "rt_allow_remote_control r1 = rt_allow_remote_control r" "rt_outgoing_tx r1 = rt_outgoing_tx r"
    using ad by (auto simp: admit_remote_action_def consume_rate_budget_def Let_def split: if_splits)
  show ?thesis
  proof (cases res)
    case None
    then obtain c result where
        "calc_dispatch D (env_action env) (rt_calculator r1) = Some (c, result)"
      and r': "r' = snd (send_message_to sender (StateUpdate (build_state_snapshot result (env_seq env)))
                 (apply_result result (r1\<lparr>rt_calculator := c\<rparr>)))"
      using assms ad Action
      by (auto simp: handle_network_message_def handle_remote_action_def Let_def split: option.splits)
    then show ?thesis
      using r1 by (simp add: send_message_to_frame)
  next
    case (Some reason)
    then show ?thesis
      using assms ad Action r1 by (simp add: handle_network_message_def handle_remote_action_def)
  qed
qed (use assms in \<open>auto simp: handle_network_message_def handle_remote_state_def Let_def split: if_splits\<close>)

lemma handle_network_message_ok:
  "router_ok visible offline r \<Longrightarrow> handle_network_message D now now_ms sender msg r = Some r' \<Longrightarrow>
     router_ok visible offline r'"
  using handle_network_message_frame [of D now now_ms sender msg r r']
    handle_network_message_inv [of r D now now_ms sender msg r']
  by (auto simp: router_ok_def)

lemma router_ops_ok:
  assumes "router_ok visible offline r"
  shows "router_ok visible offline (set_audio_muted b r)"
    and "router_ok visible offline (snd (add_remote_session nid r))"
    and "router_ok visible offline (set_remote_public_key nid key r)"
    and "distinct peers \<Longrightarrow> router_ok visible offline (set_connected_peers peers r)"
    and "router_ok visible offline (cleanup_peer_disconnect nid r)"
    and "router_ok visible offline (clear_remote_executor r)"
    and "router_ok visible offline (clear_remote_executor_if nid r)"
    and "router_ok visible offline (snd (select_remote_executor nid r))"
    and "router_ok allow offline (set_allow_remote_control allow r)"
    and "router_ok visible offline (r\<lparr>rt_outgoing_tx :=
           map_option (\<lambda>tx. tx\<lparr>ch_buf := drop n (ch_buf tx)\<rparr>) (rt_outgoing_tx r)\<rparr>)"
proof -
  have r: "router_inv r" "rt_allow_remote_control r \<longrightarrow> visible" "offline \<longrightarrow> rt_outgoing_tx r = None"
    using assms by (simp_all add: router_ok_def)
  note invs = simple_steps_inv [OF r(1)] add_remote_session_inv [OF r(1)] set_remote_public_key_inv [OF r(1)]
    set_connected_peers_inv [OF r(1)] remove_remote_session_inv [OF r(1)] clear_executor_inv [OF r(1)]
    set_allow_remote_control_inv [OF r(1)]
  show "router_ok visible offline (set_audio_muted b r)"
    "router_ok visible offline (snd (select_remote_executor nid r))"
    "router_ok visible offline (r\<lparr>rt_outgoing_tx :=
           map_option (\<lambda>tx. tx\<lparr>ch_buf := drop n (ch_buf tx)\<rparr>) (rt_outgoing_tx r)\<rparr>)"
    using r invs by (simp_all add: router_ok_def select_remote_executor_def)
  show "router_ok visible offline (clear_remote_executor r)"
    "router_ok visible offline (clear_remote_executor_if nid r)"
    using r invs by (simp_all add: router_ok_def clear_remote_executor_if_def clear_remote_executor_def)
  show "router_ok visible offline (snd (add_remote_session nid r))"
    "router_ok visible offline (set_remote_public_key nid key r)"
    using r invs by (simp_all add: router_ok_def add_remote_session_def set_remote_public_key_def)
  show "router_ok visible offline (cleanup_peer_disconnect nid r)"
    using r invs by (simp add: router_ok_def cleanup_peer_disconnect_def remove_remote_session_def Let_def)
  show "distinct peers \<Longrightarrow> router_ok visible offline (set_connected_peers peers r)"
    using r invs(9) [of peers] by (auto simp: router_ok_def set_connected_peers_def Let_def split: option.split)
  show "router_ok allow offline (set_allow_remote_control allow r)"
    using r invs by (simp add: router_ok_def set_allow_remote_control_def Let_def)
qed

text \<open>
  What holds of the application at all times: at most one panel is open; the audio mode on
  the screen is the mode of the device; a router that takes remote actions shows the switch
  on; the router's own invariant; and an offline application has neither a network manager
  nor a way out.
\<close>

definition panels_open :: "('d, 'f) app \<Rightarrow> nat" where
  "panels_open a =
     of_bool (au_about_visible (cx_audio (ap_ctx a))) + of_bool (ss_panel_visible (cx_settings (ap_ctx a)))
     + of_bool (nu_panel_visible (cx_net (ap_ctx a)))"

definition app_inv :: "('d, 'f) app \<Rightarrow> bool" where
  "app_inv a =
     (panels_open a \<le> 1
      \<and> au_mode_indicator (cx_audio (ap_ctx a)) = mode_name (au_mode (cx_audio (ap_ctx a)))
      \<and> (\<forall>mode volume. ap_audio a = Some (mode, volume) \<longrightarrow> mode = au_mode (cx_audio (ap_ctx a)))
      \<and> (\<forall>r. ap_router a = Some r \<longrightarrow>
            router_ok (nu_allow_remote_control (cx_net (ap_ctx a))) (mode_current (ap_mode a) = Offline) r)
      \<and> (mode_current (ap_mode a) = Offline \<longrightarrow> ap_manager a = None)
      \<and> (\<forall>m. ap_manager a = Some m \<longrightarrow> hm_wf (nm_sessions m)))"

definition app_admissible :: "'f app_event \<Rightarrow> bool" where
  "app_admissible ev = (case ev of N_Runtime state sessions \<Rightarrow> hm_wf sessions | _ \<Rightarrow> True)"

lemma save_config_frame [simp]:
  "ap_ctx (snd (config_save E io cfg a)) = ap_ctx a"
  "ap_router (snd (config_save E io cfg a)) = ap_router a"
  "ap_manager (snd (config_save E io cfg a)) = ap_manager a"
  "ap_mode (snd (config_save E io cfg a)) = ap_mode a"
  "ap_audio (snd (config_save E io cfg a)) = ap_audio a"
  "ap_has_dir (snd (config_save E io cfg a)) = ap_has_dir a"
  by (simp_all add: config_save_def split: option.split)

lemma config_save_inv: "app_inv (snd (config_save E io cfg a)) = app_inv a"
  by (simp add: app_inv_def panels_open_def)

lemma save_config_inv [simp]: "app_inv (save_config E io update a) = app_inv a"
  by (simp add: save_config_def config_save_inv)

lemma on_router_inv:
  assumes "app_inv a"
    and "\<And>r visible offline. router_ok visible offline r \<Longrightarrow> router_ok visible offline (f r)"
  shows "app_inv (on_router f a)"
  using assms by (auto simp: app_inv_def panels_open_def on_router_def)

lemma set_router_inv:
  assumes "app_inv a"
    and "\<And>visible offline. router_ok visible offline r \<Longrightarrow> router_ok visible offline r'"
    and "ap_router a = Some r"
  shows "app_inv (a\<lparr>ap_router := Some r'\<rparr>)"
  using assms by (auto simp: app_inv_def panels_open_def)

lemma on_net_inv:
  assumes "app_inv a" and "\<And>n. nu_panel_visible (f n) = nu_panel_visible n"
    and "\<And>n. nu_allow_remote_control (f n) = nu_allow_remote_control n"
  shows "app_inv (on_net f a)"
  using assms by (simp add: app_inv_def panels_open_def)

lemma on_settings_inv:
  assumes "app_inv a" and "\<And>n. ss_panel_visible (f n) = ss_panel_visible n"
  shows "app_inv (on_settings f a)"
  using assms by (simp add: app_inv_def panels_open_def)

lemma set_status_inv [simp]: "app_inv a \<Longrightarrow> app_inv (set_status s a)"
  unfolding set_status_def by (rule on_net_inv) simp_all

lemma set_executing_inv [simp]: "app_inv a \<Longrightarrow> app_inv (set_executing b a)"
  unfolding set_executing_def by (rule on_net_inv) simp_all

lemma manager_inv_keep:
  assumes "app_inv a" and "\<And>m. hm_wf (nm_sessions m) \<Longrightarrow> hm_wf (nm_sessions (f m))"
  shows "app_inv (a\<lparr>ap_manager := map_option f (ap_manager a)\<rparr>)"
  using assms by (auto simp: app_inv_def panels_open_def)

lemma sync_inv [simp]:
  assumes "app_inv a"
  shows "app_inv (sync_network_state a)"
proof (cases "ap_router a")
  case None
  then show ?thesis using assms by (simp add: sync_network_state_def)
next
  case (Some r)
  let ?a = "a\<lparr>ap_router := Some (set_audio_muted (au_muted (cx_audio (ap_ctx a)) \<or> is_executing_remotely r) r)\<rparr>"
  have "app_inv ?a"
    by (rule set_router_inv [OF assms router_ops_ok(1) Some])
  then show ?thesis
    using Some by (auto simp: sync_network_state_def Let_def app_inv_def panels_open_def split: option.split)
qed

lemma active_ids_distinct: "app_inv a \<Longrightarrow> ap_manager a = Some m \<Longrightarrow> distinct (active_session_ids m)"
  by (simp add: app_inv_def active_session_ids_def hm_wf_def)

lemma refresh_peers_ok:
  "app_inv a \<Longrightarrow> router_ok visible offline r \<Longrightarrow> router_ok visible offline (refresh_peers a r)"
  by (auto simp: refresh_peers_def intro: router_ops_ok(4) active_ids_distinct split: option.split)

lemma session_events_inv:
  assumes "app_inv a"
  shows "app_inv (session_established nid a)" and "app_inv (session_lost nid a)"
  unfolding session_established_def session_lost_def Let_def
  by (auto intro!: on_router_inv assms refresh_peers_ok router_ops_ok split: option.split)

lemma deliver_message_inv:
  assumes "app_inv a" and "deliver_message D now now_ms sender msg a = Some a'"
  shows "app_inv a'"
proof -
  let ?a = "case msg of PeerNameUpdate name \<Rightarrow> rename_peer now sender name a | _ \<Rightarrow> a"
  have a: "app_inv ?a"
    using assms(1) by (auto simp: rename_peer_def intro!: manager_inv_keep split: network_message.split)
  have router: "ap_router ?a = ap_router a"
    by (simp add: rename_peer_def split: network_message.split)
  show ?thesis
  proof (cases "ap_router a")
    case None
    then show ?thesis using assms(2) a router by (simp add: deliver_message_def)
  next
    case (Some r)
    then obtain r' where r': "handle_network_message D now now_ms sender msg r = Some r'"
        "a' = ?a\<lparr>ap_router := Some r'\<rparr>"
      using assms(2) router by (auto simp: deliver_message_def)
    show ?thesis
      unfolding r'(2)
      by (rule set_router_inv [OF a]) (use handle_network_message_ok [OF _ r'(1)] Some router in auto)
  qed
qed

lemma dispatch_event_inv:
  assumes "app_inv a" and "dispatch_event D E C now now_ms event a = Some (b, a')"
  shows "app_inv a'"
proof (cases event)
  case (NetworkMessage sender bytes)
  then show ?thesis
    using assms deliver_message_inv [OF assms(1)]
    by (auto simp: dispatch_event_def split: option.splits if_splits)
next
  case (ConnectionError reason)
  have "app_inv (on_router clear_remote_executor a)"
    by (rule on_router_inv [OF assms(1) router_ops_ok(6)])
  then show ?thesis
    using ConnectionError assms(2) by (auto simp: dispatch_event_def Let_def)
next
  case (SessionEstablished nid)
  then show ?thesis using assms by (auto simp: dispatch_event_def session_events_inv)
next
  case (SessionLost nid)
  then show ?thesis using assms by (auto simp: dispatch_event_def session_events_inv)
next
  case (NetworkStatusUpdate status)
  then show ?thesis using assms by (auto simp: dispatch_event_def)
qed (use assms in \<open>auto simp: dispatch_event_def Let_def intro!: on_net_inv\<close>)

lemma event_loop_turn_inv:
  "app_inv a \<Longrightarrow> event_loop_turn D E C now now_ms event a = Some a' \<Longrightarrow> app_inv a'"
  by (auto simp: event_loop_turn_def dest: dispatch_event_inv split: option.splits prod.splits)

lemma dispatch_to_router_inv:
  assumes "app_inv a" and "dispatch_to_router D now_ms action a = Some a'"
  shows "app_inv a'"
proof (cases "ap_router a")
  case None
  then show ?thesis using assms by (simp add: dispatch_to_router_def)
next
  case (Some r)
  then obtain r' where r': "dispatch D now_ms action r = Some r'" "a' = a\<lparr>ap_router := Some r'\<rparr>"
    using assms(2) by (auto simp: dispatch_to_router_def)
  show ?thesis
    unfolding r'(2) by (rule set_router_inv [OF assms(1) _ Some]) (rule dispatch_ok [OF _ r'(1)])
qed

lemma handle_call_inv: "app_inv a \<Longrightarrow> handle_call D now_ms call a = Some a' \<Longrightarrow> app_inv a'"
  by (auto simp: handle_call_def handle_digit_def handle_operator_def handle_action_def
      dest: dispatch_to_router_inv split: handler_call.splits option.splits if_splits)

lemma connect_to_peer_sessions: "nm_sessions (snd (connect_to_peer addr target m)) = nm_sessions m"
  by (simp add: connect_to_peer_def manager_emit_def Let_def split: option.split sum.split)

lemma drop_executor_inv:
  "app_inv a \<Longrightarrow> app_inv (set_status s (on_router (clear_remote_executor_if target) a))"
  by (intro set_status_inv on_router_inv router_ops_ok(7))

lemma connect_sent_inv:
  "app_inv a \<Longrightarrow> ap_manager a = Some m \<Longrightarrow>
     app_inv (a\<lparr>ap_manager := Some (snd (connect_to_peer addr target m))\<rparr>)"
  using connect_to_peer_sessions [of addr target m] by (auto simp: app_inv_def panels_open_def)

lemma handle_connect_peer_inv:
  assumes "app_inv a"
  shows "app_inv (handle_connect_peer parsed a)"
proof (cases "parsed = None \<or> ap_router a = None")
  case True
  then show ?thesis using assms by (auto simp: handle_connect_peer_def split: option.split)
next
  case False
  then obtain target r where tr: "parsed = Some target" "ap_router a = Some r" by auto
  let ?a = "a\<lparr>ap_router := Some (snd (select_remote_executor target r))\<rparr>"
  have a: "app_inv ?a"
    by (rule set_router_inv [OF assms router_ops_ok(8) tr(2)])
  show ?thesis
  proof (cases "target = rt_local_node_id r \<or> rt_active_executor r = Some target
      \<or> target \<in> set (active_sessions_of ?a)")
    case True
    then show ?thesis using tr a assms by (auto simp: handle_connect_peer_def Let_def)
  next
    case new: False
    show ?thesis
    proof (cases "Option.bind (ap_manager a)
        (\<lambda>m. Option.bind (get_peer (ns_peers (nm_state m)) target) pi_service_endpoint)")
      case None
      then show ?thesis using tr a new drop_executor_inv [OF a] by (simp add: handle_connect_peer_def Let_def)
    next
      case (Some addr)
      then obtain m where m: "ap_manager a = Some m" by (cases "ap_manager a") auto
      let ?b = "set_executing False (set_status TXT_CONNECTING ?a)"
      have b: "app_inv ?b"
        by (intro set_executing_inv set_status_inv a)
      have bm: "ap_manager ?b = Some m"
        using m by (simp add: set_status_def set_executing_def)
      obtain ok m' where con: "connect_to_peer addr (Some target) m = (ok, m')" by force
      have "handle_connect_peer parsed a =
          (if ok then ?b\<lparr>ap_manager := Some m'\<rparr>
           else set_status TXT_CANNOT_CONNECT
             (on_router (clear_remote_executor_if target) (?b\<lparr>ap_manager := Some m'\<rparr>)))"
        using tr new Some bm con m by (simp add: handle_connect_peer_def Let_def split: bool.split)
      then show ?thesis
        using connect_sent_inv [OF b bm, of addr "Some target"] con by (simp add: drop_executor_inv)
    qed
  qed
qed

lemma handle_disconnect_peer_inv:
  assumes "app_inv a"
  shows "app_inv (handle_disconnect_peer parsed a)"
proof -
  have "app_inv (on_router (clear_remote_executor_if target) a)" for target
    by (rule on_router_inv [OF assms router_ops_ok(7)])
  then show ?thesis
    using assms by (auto simp: handle_disconnect_peer_def Let_def split: option.split)
qed

lemma on_audio_inv:
  assumes "app_inv a" and "\<And>u. au_about_visible (f u) = au_about_visible u"
    and "\<And>u. au_mode (f u) = au_mode u" and "\<And>u. au_mode_indicator (f u) = au_mode_indicator u"
  shows "app_inv (on_audio f a)"
  using assms by (simp add: app_inv_def panels_open_def)

lemma panels_inv:
  assumes "app_inv a"
  shows "app_inv (on_show_about a)" and "app_inv (on_close_about a)" and "app_inv (on_show_settings a)"
    and "app_inv (on_close_settings a)" and "app_inv (on_show_network_settings a)"
    and "app_inv (on_close_network_settings a)"
  using assms
  by (auto simp: on_show_about_def on_close_about_def on_show_settings_def on_close_settings_def
      on_show_network_settings_def on_close_network_settings_def close_all_panels_def app_inv_def
      panels_open_def of_bool_def split: if_splits)

lemma allow_inv:
  assumes "app_inv a"
  shows "app_inv (on_router (set_allow_remote_control b)
    (save_config E io update (on_net (nu_allow_remote_control_update (\<lambda>_. b)) a)))"
  using assms router_ops_ok(9) [of "nu_allow_remote_control (cx_net (ap_ctx a))"]
  by (auto simp: on_router_def save_config_def app_inv_def panels_open_def)

lemma session_sends_sessions:
  "nm_sessions (fold (\<lambda>(_, session). session_send msg session) xs m) = nm_sessions m"
  by (induction xs arbitrary: m) (auto simp: session_send_def split: sum.split)

lemma update_display_name_sessions: "nm_sessions (update_display_name n m) = nm_sessions m"
  by (simp add: update_display_name_def Let_def session_sends_sessions split: sum.split)

lemma settings_inv:
  assumes "app_inv a"
  shows "app_inv (on_switch_audio_mode E io a)" and "app_inv (toggle_theme E io a)"
    and "app_inv (on_toggle_mute E io a)" and "app_inv (snd (on_volume_changed v a))"
    and "app_inv (volume_timer E io g v a)" and "app_inv (handle_save_display_name E io name a)"
    and "app_inv (handle_toggle_remote_control E io a)"
proof -
  show "app_inv (on_switch_audio_mode E io a)"
    unfolding on_switch_audio_mode_def Let_def save_config_inv
    using assms by (auto simp: app_inv_def panels_open_def)
  show "app_inv (toggle_theme E io a)"
    using assms by (auto simp: toggle_theme_def Let_def intro!: on_audio_inv)
  show "app_inv (on_toggle_mute E io a)"
    using assms by (auto simp: on_toggle_mute_def set_router_user_mute_def Let_def
        intro!: on_audio_inv on_router_inv router_ops_ok(1))
  show "app_inv (snd (on_volume_changed v a))"
    using assms
    by (auto simp: on_volume_changed_def schedule_volume_save_def Let_def app_inv_def panels_open_def)
  show "app_inv (volume_timer E io g v a)"
    using assms by (simp add: volume_timer_def)
  show "app_inv (handle_toggle_remote_control E io a)"
    unfolding handle_toggle_remote_control_def Let_def by (intro set_status_inv sync_inv allow_inv assms)
  have "app_inv (on_settings (ss_display_name_update (\<lambda>_. n)) a)" for n
    by (rule on_settings_inv [OF assms]) simp
  then have m: "app_inv ((on_settings (ss_display_name_update (\<lambda>_. n)) a)\<lparr>ap_manager :=
      map_option (update_display_name n) (ap_manager a)\<rparr>)" for n
    using manager_inv_keep [of "on_settings (ss_display_name_update (\<lambda>_. n)) a" "update_display_name n"]
    by (simp add: update_display_name_sessions)
  have status: "app_inv b \<Longrightarrow> app_inv (on_settings (ss_save_status_update (\<lambda>_. t)) b)" for b :: "('a, 'b) app" and t
    by (rule on_settings_inv) simp_all
  have "app_inv (case config_save E io cfg b of
           (True, a) \<Rightarrow> on_settings (ss_save_status_update (\<lambda>_. TXT_SAVED)) a
         | (False, a) \<Rightarrow> on_settings (ss_save_status_update (\<lambda>_. TXT_SAVE_FAILED)) a)"
    if "app_inv b" for b :: "('a, 'b) app" and cfg
    using config_save_inv [of E io cfg b] that status
    by (cases "config_save E io cfg b") (auto split: bool.split)
  then show "app_inv (handle_save_display_name E io name a)"
    using m status [OF assms] by (simp add: handle_save_display_name_def Let_def)
qed

lemma app_step_inv:
  assumes "app_inv a" and "app_admissible ev" and "app_step D E C a ev = Some a'"
  shows "app_inv a'"
proof (cases ev)
  case (U_Call now_ms call)
  then show ?thesis using assms handle_call_inv by auto
next
  case (N_Event now now_ms event)
  then show ?thesis using assms event_loop_turn_inv by auto
next
  case (N_Runtime state sessions)
  then show ?thesis using assms by (auto simp: app_admissible_def intro!: manager_inv_keep)
next
  case (N_Drain n)
  then show ?thesis using assms by (auto intro!: on_router_inv router_ops_ok(10))
next
  case U_Scan
  have "nm_sessions (trigger_scan m) = nm_sessions m" for m
    by (simp add: trigger_scan_def split: sum.split)
  then show ?thesis
    using U_Scan assms manager_inv_keep [of "on_net (nu_scanning_update (\<lambda>_. True)) a" trigger_scan]
      on_net_inv [OF assms(1), of "nu_scanning_update (\<lambda>_. True)"]
    by (auto simp: handle_scan_peers_def Let_def)
next
  case U_ScanTimer
  then show ?thesis using assms by (auto simp: scan_timer_def intro!: on_net_inv)
next
  case (U_KeyboardPressed b)
  then show ?thesis using assms by (auto simp: app_inv_def panels_open_def)
next
  case (U_LastAction s)
  then show ?thesis using assms by (auto simp: app_inv_def panels_open_def)
qed (use assms in \<open>auto simp: panels_inv settings_inv handle_connect_peer_inv handle_disconnect_peer_inv\<close>)

interpretation am: event_machine "app_step D E C" app_admissible app_inv for D E C
  by unfold_locales (rule app_step_inv)

lemma init_networking_inv:
  assumes "app_inv a" and "nu_allow_remote_control (cx_net (ap_ctx a)) = nc_allow_remote_control (ac_network cfg)"
  shows "app_inv (snd (snd (init_networking cfg identity spawned answer failed ui a)))"
proof (cases "mode_current (ap_mode a) = Offline \<or> ap_router a = None")
  case True
  then show ?thesis using assms by (auto simp: init_networking_def Let_def)
next
  case False
  then obtain r where r: "ap_router a = Some r" and lan: "mode_current (ap_mode a) \<noteq> Offline" by auto
  let ?allow = "nc_allow_remote_control (ac_network cfg)"
  let ?nm = "manager_new identity (nc_display_name (ac_network cfg)) ui"
  have ok: "router_ok ?allow False r"
    using assms r lan by (auto simp: app_inv_def)
  let ?r = "set_allow_remote_control ?allow (set_local_node_id (nm_local_node_id ?nm) r)"
  have ids: "router_ok ?allow False (set_local_node_id i r)" for i
    using ok simple_steps_inv(1) [of r i] by (simp add: router_ok_def set_local_node_id_def)
  have ok': "router_ok ?allow False ?r"
    by (rule router_ops_ok(9) [OF ids])
  obtain result nm' where start: "start (mode_current (ap_mode a)) False failed spawned answer failed ?nm = (result, nm')"
    by force
  have sessions: "nm_sessions nm' = []" and channel: "result = Inr tx \<Longrightarrow> chan_wf tx" for tx
    using start lan
    by (auto simp: start_def manager_new_def Let_def outgoing_message_channel_def chan_new_def chan_wf_def
        split: sum.splits handle_answer.splits)
  have out: "router_ok ?allow False (set_outgoing_tx tx ?r)" if "chan_wf tx" for tx
    using ok' that simple_steps_inv(5) [of ?r tx] by (auto simp: router_ok_def set_outgoing_tx_def)
  show ?thesis
  proof (cases result)
    case (Inl e)
    then show ?thesis
      using assms r lan start ok' by (auto simp: init_networking_def Let_def app_inv_def panels_open_def)
  next
    case (Inr tx)
    then show ?thesis
      using assms r lan start out [OF channel [OF Inr]] sessions
      by (auto simp: init_networking_def Let_def app_inv_def panels_open_def)
  qed
qed

lemma app_start_inv:
  assumes "app_start D E boot io args env has_dir file one device storage new_id spawned answer failed = Inr (ui, a)"
  shows "app_inv a"
proof -
  let ?a0 = "(\<lparr>ap_ctx = new_context one, ap_router = None, ap_manager = None, ap_mode = None,
               ap_audio = map_option (\<lambda>_. (Normal, ae_half E)) device, ap_has_dir = has_dir,
               ap_file = file, ap_volume_generation = 0\<rparr> :: ('a, 'b) app)"
  let ?cfg = "config_load E io ?a0"
  let ?boot = "if \<not> has_dir then app_config_default (ae_half E) (fst boot)
                      else load_from_path (ae_parse_toml E) (ae_half E) (fst boot) (snd boot)"
  obtain mode where mode: "resolve_network_mode args env (ac_network ?boot) = Inr mode"
    using assms by (auto simp: app_start_def Let_def split: sum.splits)
  let ?a1 = "configure E ?cfg (?a0\<lparr>ap_mode := mode_set mode None\<rparr>)"
  let ?a2 = "?a1\<lparr>ap_audio := map_option (\<lambda>_. (audio_mode_from_config (ac_audio_mode ?cfg),
                         ae_clamp E (ac_volume ?cfg))) (ap_audio ?a1)\<rparr>"
  let ?a3 = "on_audio (au_audio_status_update (\<lambda>_. case device of
                         Some sounds \<Rightarrow> TXT_AUDIO_1 @ num_to_string (int sounds) @ TXT_AUDIO_2
                       | None \<Rightarrow> TXT_NO_AUDIO)) ?a2"
  let ?a4 = "set_router_user_mute (ac_muted ?cfg) (create_router D \<lparr>dp_text = ''0'', dp_history = [],
      dp_memory_indicator = [], dp_is_error = False\<rparr> new_id ?a3)"
  have a3: "panels_open ?a3 = 0"
    "au_mode_indicator (cx_audio (ap_ctx ?a3)) = mode_name (au_mode (cx_audio (ap_ctx ?a3)))"
    "\<forall>m v. ap_audio ?a3 = Some (m, v) \<longrightarrow> m = au_mode (cx_audio (ap_ctx ?a3))"
    "ap_manager ?a3 = None"
    "nu_allow_remote_control (cx_net (ap_ctx ?a3)) = nc_allow_remote_control (ac_network ?cfg)"
    by (auto simp: configure_def Let_def set_status_def panels_open_def new_context_def)
  have "app_inv (create_router D disp new_id b)"
    if "panels_open b = 0" "au_mode_indicator (cx_audio (ap_ctx b)) = mode_name (au_mode (cx_audio (ap_ctx b)))"
      "\<forall>m v. ap_audio b = Some (m, v) \<longrightarrow> m = au_mode (cx_audio (ap_ctx b))" "ap_manager b = None"
    for b :: "('a, 'b) app" and disp
    using that router_new_inv [OF calc_new_inv, of D "Some []" disp new_id]
    by (simp add: app_inv_def create_router_def panels_open_def router_ok_def) (simp add: router_new_def)
  from this [OF a3(1-4)] have a4: "app_inv ?a4"
    unfolding set_router_user_mute_def by (intro on_router_inv router_ops_ok(1))
  have shown4: "nu_allow_remote_control (cx_net (ap_ctx ?a4)) = nc_allow_remote_control (ac_network ?cfg)"
    using a3(5) by (simp add: set_router_user_mute_def on_router_def create_router_def)
  have start: "a = (case storage of
      Some identity \<Rightarrow> snd (snd (init_networking ?cfg identity spawned answer failed create_ui_channel ?a4))
    | None \<Rightarrow> set_status TXT_STORAGE ?a4)"
    using assms mode by (auto simp: app_start_def Let_def split: option.splits)
  show ?thesis
    unfolding start using init_networking_inv [OF a4 shown4] set_status_inv [OF a4] by (auto split: option.split)
qed

text \<open>
  C12: whatever the user, the timers and the network do to a started application, at most
  one panel is open; the audio mode on the screen is the mode in use; remote actions are
  taken only while the switch is shown on; the router keeps its bounds; and an offline
  application never gets a network manager or an outgoing channel.
\<close>

theorem application_consistent:
  assumes "app_start D E boot io args env has_dir file one device storage new_id spawned answer failed = Inr (ui, a0)"
    and "run_steps (app_step D E C) a0 events = Some a" and "list_all app_admissible events"
  shows "panels_open a \<le> 1
    \<and> au_mode_indicator (cx_audio (ap_ctx a)) = mode_name (au_mode (cx_audio (ap_ctx a)))
    \<and> (\<forall>mode volume. ap_audio a = Some (mode, volume) \<longrightarrow> mode = au_mode (cx_audio (ap_ctx a)))
    \<and> (\<forall>r. ap_router a = Some r \<longrightarrow>
          (rt_allow_remote_control r \<longrightarrow> nu_allow_remote_control (cx_net (ap_ctx a)))
          \<and> length (rt_connected_peers r) \<le> 64 \<and> router_inv r
          \<and> (mode_current (ap_mode a) = Offline \<longrightarrow> rt_outgoing_tx r = None))
    \<and> (mode_current (ap_mode a) = Offline \<longrightarrow> ap_manager a = None)"
proof -
  have "app_inv a"
    using am.run_inv [OF app_start_inv [OF assms(1)] assms(3,2)] .
  then show ?thesis
    by (auto simp: app_inv_def router_ok_def router_inv_def sessions_inv_def MAX_TRACKED_REMOTE_PEERS_def)
qed

section \<open>Settings\<close>

text \<open>
  The settings a running application shows, and those in its configuration file. The volume
  is left out: it is saved half a second late.
\<close>

definition shown_settings :: "('d, 'f) app \<Rightarrow> audio_mode \<times> bool \<times> bool \<times> string \<times> bool" where
  "shown_settings a =
     (au_mode (cx_audio (ap_ctx a)), au_muted (cx_audio (ap_ctx a)), au_dark_mode (cx_audio (ap_ctx a)),
      ss_display_name (cx_settings (ap_ctx a)), nu_allow_remote_control (cx_net (ap_ctx a)))"

definition file_settings :: "'f app_config \<Rightarrow> audio_mode \<times> bool \<times> bool \<times> string \<times> bool" where
  "file_settings cfg =
     (audio_mode_from_config (ac_audio_mode cfg), ac_muted cfg, ac_dark_mode cfg,
      nc_display_name (ac_network cfg), nc_allow_remote_control (ac_network cfg))"

definition persisted :: "'f app_env \<Rightarrow> ('d, 'f) app \<Rightarrow> bool" where
  "persisted E a =
     (ap_has_dir a
      \<and> (\<exists>contents cfg. ap_file a = Contents contents \<and> (\<forall>name. ae_parse_toml E name contents = Some cfg)
           \<and> file_settings cfg = shown_settings a))"

text \<open>
  The contract of the TOML crate on configurations: what is written has every field, so that
  reading it draws no name. And events whose writes succeed.
\<close>

definition toml_roundtrip :: "'f app_env \<Rightarrow> bool" where
  "toml_roundtrip E = (\<forall>cfg. \<exists>contents. ae_to_toml E cfg = Some contents \<and> (\<forall>name. ae_parse_toml E name contents = Some cfg))"

definition writes_succeed :: "'f app_event \<Rightarrow> bool" where
  "writes_succeed ev =
     (case ev of
        U_SwitchAudioMode io \<Rightarrow> ci_write_fails io = None
      | U_ToggleMute io \<Rightarrow> ci_write_fails io = None
      | U_VolumeTimer io g v \<Rightarrow> ci_write_fails io = None
      | U_ToggleTheme io \<Rightarrow> ci_write_fails io = None
      | U_SaveName io name \<Rightarrow> ci_write_fails io = None
      | U_ToggleRemoteControl io \<Rightarrow> ci_write_fails io = None
      | _ \<Rightarrow> True)"

lemma audio_mode_config: "audio_mode_from_config (audio_mode_to_config mode) = mode"
  by (cases mode) (simp_all add: audio_mode_from_config_def)

text \<open>A successful save changes the file as it should and nothing else.\<close>

lemma save_over:
  assumes "toml_roundtrip E" and "ci_write_fails io = None"
    and "ap_has_dir a" and "ap_file a = Contents contents" and "\<forall>name. ae_parse_toml E name contents = Some cfg"
  shows "\<exists>contents'. config_save E io (update (config_load E io a)) a = (True, a\<lparr>ap_file := Contents contents'\<rparr>)
    \<and> (\<forall>name. ae_parse_toml E name contents' = Some (update cfg))"
proof -
  obtain c where "ae_to_toml E (update cfg) = Some c" "\<forall>name. ae_parse_toml E name c = Some (update cfg)"
    using assms(1) unfolding toml_roundtrip_def by blast
  then show ?thesis
    using assms by (intro exI [of _ c]) (simp add: config_save_def config_load_def load_from_path_def)
qed

lemma persisted_update:
  assumes "toml_roundtrip E" and "ci_write_fails io = None" and "persisted E a"
    and "ap_has_dir b = ap_has_dir a" and "ap_file b = ap_file a"
    and "\<And>cfg. file_settings cfg = shown_settings a \<Longrightarrow> file_settings (update cfg) = shown_settings b"
  shows "persisted E (save_config E io update b)"
proof -
  obtain contents cfg where old: "ap_has_dir a" "ap_file a = Contents contents"
      "\<forall>name. ae_parse_toml E name contents = Some cfg" "file_settings cfg = shown_settings a"
    using assms(3) by (auto simp: persisted_def)
  obtain c where "save_config E io update b = b\<lparr>ap_file := Contents c\<rparr>"
      "\<forall>name. ae_parse_toml E name c = Some (update cfg)"
    using save_over [OF assms(1,2), of b contents cfg update] old assms(4,5)
    by (auto simp: save_config_def)
  then show ?thesis
    using assms(4,6) old by (simp add: persisted_def shown_settings_def)
qed

text \<open>Everything else keeps both the shown settings and the file.\<close>

definition same_settings :: "('d, 'f) app \<Rightarrow> ('d, 'f) app \<Rightarrow> bool" where
  "same_settings a b =
     (shown_settings b = shown_settings a \<and> ap_has_dir b = ap_has_dir a \<and> ap_file b = ap_file a)"

lemma same_settings_persisted: "same_settings a b \<Longrightarrow> persisted E a \<Longrightarrow> persisted E b"
  by (auto simp: same_settings_def persisted_def)

lemma same_settings_refl [simp]: "same_settings a a"
  by (simp add: same_settings_def)

lemma same_settings_trans [trans]: "same_settings a b \<Longrightarrow> same_settings b c \<Longrightarrow> same_settings a c"
  by (simp add: same_settings_def)

lemma same_settings_basic [simp]:
  "same_settings a (on_router f b) = same_settings a b"
  "same_settings a (set_status s b) = same_settings a b"
  "same_settings a (set_executing e b) = same_settings a b"
  "same_settings a (sync_network_state b) = same_settings a b"
  "same_settings a (b\<lparr>ap_router := r\<rparr>) = same_settings a b"
  "same_settings a (b\<lparr>ap_manager := m\<rparr>) = same_settings a b"
  by (auto simp: same_settings_def shown_settings_def on_router_def set_status_def set_executing_def
      sync_network_state_def Let_def split: option.splits)

lemma same_settings_events [simp]:
  "nu_allow_remote_control n = nu_allow_remote_control (cx_net (ap_ctx a)) \<Longrightarrow>
     same_settings a (a\<lparr>ap_ctx := (ap_ctx a)\<lparr>cx_net := n\<rparr>\<rparr>)"
  "same_settings a (rename_peer now nid name a)"
  "same_settings a (session_established nid a)" "same_settings a (session_lost nid a)"
  by (auto simp: same_settings_def shown_settings_def on_router_def set_status_def set_executing_def
      rename_peer_def session_established_def session_lost_def Let_def split: option.split)

lemma deliver_message_settings:
  "deliver_message D now now_ms sender msg a = Some a' \<Longrightarrow> same_settings a a'"
proof -
  have "same_settings a (case msg of PeerNameUpdate name \<Rightarrow> rename_peer now sender name a | _ \<Rightarrow> a)"
    by (cases msg) simp_all
  then show "deliver_message D now now_ms sender msg a = Some a' \<Longrightarrow> same_settings a a'"
    by (auto simp: deliver_message_def Let_def split: option.splits)
qed

lemma dispatch_event_settings:
  "dispatch_event D E C now now_ms event a = Some (b, a') \<Longrightarrow> same_settings a a'"
  by (cases event) (auto simp: dispatch_event_def Let_def dest: deliver_message_settings split: option.splits if_splits)

lemma handle_call_settings: "handle_call D now_ms call a = Some a' \<Longrightarrow> same_settings a a'"
  by (auto simp: handle_call_def handle_digit_def handle_operator_def handle_action_def dispatch_to_router_def
      split: handler_call.splits option.splits if_splits)

lemma connect_settings:
  "same_settings a (handle_connect_peer t a)" "same_settings a (handle_disconnect_peer t a)"
  by (simp_all add: handle_connect_peer_def handle_disconnect_peer_def Let_def
      split: option.split prod.split bool.split)

lemma event_loop_settings:
  "event_loop_turn D E C now now_ms event a = Some a' \<Longrightarrow> same_settings a a'"
  by (auto simp: event_loop_turn_def dest: dispatch_event_settings split: option.splits prod.splits)

lemma app_step_persisted:
  assumes "toml_roundtrip E" and "persisted E a" and "writes_succeed ev" and "app_step D E C a ev = Some a'"
  shows "persisted E a'"
proof (cases ev)
  case (U_Call now_ms call)
  then show ?thesis using assms handle_call_settings same_settings_persisted by (metis app_step.simps(1))
next
  case (U_Connect t)
  then show ?thesis using assms by (auto intro: same_settings_persisted [OF connect_settings(1)])
next
  case (U_Disconnect t)
  then show ?thesis using assms by (auto intro: same_settings_persisted [OF connect_settings(2)])
next
  case (N_Event now now_ms event)
  then show ?thesis using assms event_loop_settings same_settings_persisted by (metis app_step.simps(21))
next
  case (U_SwitchAudioMode io)
  then show ?thesis
    using assms
    by (auto simp: on_switch_audio_mode_def Let_def writes_succeed_def shown_settings_def file_settings_def
        audio_mode_config intro!: persisted_update [of E io a])
next
  case (U_ToggleMute io)
  then show ?thesis
    using assms
    by (auto simp: on_toggle_mute_def set_router_user_mute_def on_router_def Let_def writes_succeed_def
        shown_settings_def file_settings_def intro!: persisted_update [of E io a])
next
  case (U_ToggleTheme io)
  then show ?thesis
    using assms
    by (auto simp: toggle_theme_def Let_def writes_succeed_def shown_settings_def file_settings_def
        intro!: persisted_update [of E io a])
next
  case (U_VolumeTimer io g v)
  then show ?thesis
    using assms
    by (auto simp: volume_timer_def writes_succeed_def shown_settings_def file_settings_def
        intro!: persisted_update [of E io a])
next
  case (U_ToggleRemoteControl io)
  let ?b = "on_net (nu_allow_remote_control_update (\<lambda>_. \<not> nu_allow_remote_control (cx_net (ap_ctx a)))) a"
  let ?u = "ac_network_update (nc_allow_remote_control_update (\<lambda>_. \<not> nu_allow_remote_control (cx_net (ap_ctx a))))"
  have "persisted E (save_config E io ?u ?b)"
    by (rule persisted_update [OF assms(1) _ assms(2)])
      (use U_ToggleRemoteControl assms(3) in \<open>auto simp: writes_succeed_def shown_settings_def file_settings_def\<close>)
  moreover have "same_settings (save_config E io ?u ?b) a'"
    using U_ToggleRemoteControl assms(4) by (auto simp: handle_toggle_remote_control_def Let_def)
  ultimately show ?thesis
    using same_settings_persisted by blast
next
  case (U_SaveName io name)
  show ?thesis
  proof (cases "valid_display_name (str_trim name)")
    case False
    then have "same_settings a a'"
      using U_SaveName assms(4)
      by (auto simp: handle_save_display_name_def Let_def same_settings_def shown_settings_def)
    then show ?thesis using assms(2) same_settings_persisted by blast
  next
    case True
    let ?b = "(on_settings (ss_display_name_update (\<lambda>_. str_trim name)) a)\<lparr>ap_manager :=
      map_option (update_display_name (str_trim name)) (ap_manager a)\<rparr>"
    let ?u = "ac_network_update (nc_display_name_update (\<lambda>_. str_trim name))"
    obtain contents cfg where "ap_has_dir ?b" "ap_file ?b = Contents contents" "\<forall>name. ae_parse_toml E name contents = Some cfg"
      using assms(2) by (auto simp: persisted_def)
    moreover have "ci_write_fails io = None"
      using U_SaveName assms(3) by (simp add: writes_succeed_def)
    ultimately obtain c where
        "config_save E io (?u (config_load E io ?b)) ?b = (True, ?b\<lparr>ap_file := Contents c\<rparr>)"
      using save_over [OF assms(1), of io ?b contents cfg ?u] by blast
    then have "same_settings (save_config E io ?u ?b) a'"
      using U_SaveName assms(4) True
      by (auto simp: handle_save_display_name_def Let_def save_config_def same_settings_def shown_settings_def)
    moreover have "persisted E (save_config E io ?u ?b)"
      by (rule persisted_update [OF assms(1) _ assms(2)])
        (use U_SaveName assms(3) in \<open>auto simp: writes_succeed_def shown_settings_def file_settings_def\<close>)
    ultimately show ?thesis
      using same_settings_persisted by blast
  qed
qed (use assms in \<open>auto simp: on_show_about_def on_close_about_def on_show_settings_def on_close_settings_def
      on_show_network_settings_def on_close_network_settings_def close_all_panels_def on_volume_changed_def
      schedule_volume_save_def handle_scan_peers_def scan_timer_def Let_def
      intro!: same_settings_persisted [of a] simp: same_settings_def shown_settings_def on_router_def\<close>)

interpretation pm: event_machine "app_step D E C" writes_succeed "\<lambda>a. toml_roundtrip E \<and> persisted E a"
  for D E C
  by unfold_locales (use app_step_persisted in blast)

text \<open>What a start shows is what it read.\<close>

lemma app_start_settings:
  assumes "app_start D E boot io args env has_dir file one device storage new_id spawned answer failed = Inr (ui, a)"
  shows "ap_has_dir a = has_dir" and "ap_file a = file"
    and "shown_settings a = file_settings
      (if has_dir then load_from_path (ae_parse_toml E) (ae_half E) (ci_random_name io) file
       else app_config_default (ae_half E) (ci_random_name io))"
proof -
  let ?cfg = "if has_dir then load_from_path (ae_parse_toml E) (ae_half E) (ci_random_name io) file
       else app_config_default (ae_half E) (ci_random_name io)"
  have "ap_has_dir a = has_dir \<and> ap_file a = file \<and> shown_settings a = file_settings ?cfg"
    using assms
    by (cases storage)
      (auto simp: app_start_def Let_def config_load_def configure_def set_router_user_mute_def create_router_def
        on_router_def set_status_def shown_settings_def file_settings_def
        init_networking_def split: sum.splits option.splits if_splits prod.splits)
  then show "ap_has_dir a = has_dir" "ap_file a = file" "shown_settings a = file_settings ?cfg"
    by auto
qed

text \<open>
  C14: the settings survive a restart. Started from a configuration file that can be read and
  names the device, after any user and network events whose writes succeed, the next start shows
  the audio mode, the mute and dark switches, the display name and the remote-control switch as
  they were left. (A file without a name is covered by \<open>nameless_file_renamed\<close> below, a missing
  one by \<open>first_run_name_lost\<close>.)
\<close>

theorem settings_survive_restart:
  assumes "toml_roundtrip E" and "\<forall>name. ae_parse_toml E name contents = Some cfg"
    and "app_start D E boot io args env True (Contents contents) one device storage new_id spawned answer failed = Inr (ui, a0)"
    and "run_steps (app_step D E C) a0 events = Some a" and "list_all writes_succeed events"
    and "app_start D E boot' io' args' env' True (ap_file a) one device' storage' new_id' spawned' answer' failed' = Inr (ui', b)"
  shows "shown_settings b = shown_settings a"
proof -
  have "persisted E a0"
    using app_start_settings [OF assms(3)] assms(2) by (simp add: persisted_def load_from_path_def)
  then have "persisted E a"
    using pm.run_inv [of E a0 events D C a] assms(1,4,5) by blast
  then show ?thesis
    using app_start_settings(3) [OF assms(6)] by (auto simp: persisted_def load_from_path_def)
qed

text \<open>A file that leaves out the name gives the device another name at every start.\<close>

lemma nameless_file_renamed:
  assumes "\<forall>name. ae_parse_toml E name contents
      = Some (cfg\<lparr>ac_network := (ac_network cfg)\<lparr>nc_display_name := name\<rparr>\<rparr>)"
    and "app_start D E boot io args env True (Contents contents) one device storage new_id spawned answer failed = Inr (ui, a)"
  shows "ss_display_name (cx_settings (ap_ctx a)) = ci_random_name io \<and> ap_file a = Contents contents"
  using app_start_settings [OF assms(2)] assms(1)
  by (simp add: load_from_path_def shown_settings_def file_settings_def)

text \<open>
  Without a configuration file the name of the first run is lost. Every read of the
  missing file draws a new random name; the first setting that is saved stores such a name,
  not the one that has been shown and announced, and the next start uses it.
\<close>

theorem first_run_name_lost:
  assumes "toml_roundtrip E" and "ci_write_fails save = None"
    and "app_start D E boot io args env True NotFound one device storage new_id spawned answer failed = Inr (ui, a)"
    and "app_start D E boot' io' args' env' True (ap_file (toggle_theme E save a)) one device' storage' new_id' spawned' answer' failed'
      = Inr (ui', b)"
  shows "ss_display_name (cx_settings (ap_ctx (toggle_theme E save a))) = ci_random_name io
    \<and> ss_display_name (cx_settings (ap_ctx b)) = ci_random_name save"
proof -
  have a: "ap_has_dir a" "ap_file a = NotFound" "ss_display_name (cx_settings (ap_ctx a)) = ci_random_name io"
    using app_start_settings [OF assms(3)]
    by (simp_all add: load_from_path_def shown_settings_def file_settings_def app_config_default_def
        network_config_default_def)
  let ?cfg = "ac_dark_mode_update (\<lambda>_. \<not> au_dark_mode (cx_audio (ap_ctx a)))
      (app_config_default (ae_half E) (ci_random_name save))"
  obtain c where c: "ae_to_toml E ?cfg = Some c" "\<forall>name. ae_parse_toml E name c = Some ?cfg"
    using assms(1) unfolding toml_roundtrip_def by blast
  have "ap_file (toggle_theme E save a) = Contents c"
    using a c(1) assms(2)
    by (simp add: toggle_theme_def save_config_def config_save_def config_load_def load_from_path_def Let_def)
  then have "shown_settings b = file_settings ?cfg"
    using app_start_settings(3) [OF assms(4)] c(2) by (simp add: load_from_path_def)
  then show ?thesis
    using a by (simp add: shown_settings_def file_settings_def app_config_default_def network_config_default_def
        toggle_theme_def save_config_def Let_def)
qed

section \<open>The theorems at concrete inputs\<close>

text \<open>A configuration format that reads back what it wrote: every text is written with a mark
  before each character and one at its end.\<close>

fun put_str :: "string \<Rightarrow> string \<Rightarrow> string" where
  "put_str [] rest = CHR ''.'' # rest"
| "put_str (c # cs) rest = CHR ''+'' # c # put_str cs rest"

fun take_str :: "string \<Rightarrow> string \<times> string" where
  "take_str (mark # c # rest) =
     (if mark = CHR ''.'' then ([], c # rest) else case take_str rest of (s, r) \<Rightarrow> (c # s, r))"
| "take_str [mark] = ([], [])"
| "take_str [] = ([], [])"

lemma take_put [simp]: "take_str (put_str s rest) = (s, rest)"
  by (induction s) (cases rest; simp)+

abbreviation flag_text :: "bool \<Rightarrow> string" where "flag_text b \<equiv> if b then ''t'' else []"

abbreviation opt_text :: "string option \<Rightarrow> string" where
  "opt_text t \<equiv> case t of None \<Rightarrow> [] | Some s \<Rightarrow> CHR ''s'' # s"

definition demo_to_toml :: "unit app_config \<Rightarrow> string option" where
  "demo_to_toml cfg =
     Some (put_str (ac_audio_mode cfg) (put_str (flag_text (ac_muted cfg)) (put_str (flag_text (ac_dark_mode cfg))
       (put_str (opt_text (ac_music_assets_path cfg)) (put_str (flag_text (nc_enabled (ac_network cfg)))
         (put_str (nc_display_name (ac_network cfg)) (put_str (flag_text (nc_allow_remote_control (ac_network cfg)))
           (put_str (opt_text (nc_mode (ac_network cfg))) []))))))))"

definition demo_parse_toml :: "string \<Rightarrow> string \<Rightarrow> unit app_config option" where
  "demo_parse_toml random_name t =
     (let (audio_mode, t) = take_str t; (muted, t) = take_str t; (dark, t) = take_str t; (path, t) = take_str t;
          (enabled, t) = take_str t; (name, t) = take_str t; (allow, t) = take_str t; (mode, t) = take_str t
      in Some \<lparr>ac_audio_mode = audio_mode, ac_volume = (), ac_muted = muted \<noteq> [], ac_dark_mode = dark \<noteq> [],
           ac_music_assets_path = (if path = [] then None else Some (tl path)),
           ac_network = \<lparr>nc_enabled = enabled \<noteq> [], nc_display_name = name,
             nc_allow_remote_control = allow \<noteq> [], nc_mode = (if mode = [] then None else Some (tl mode))\<rparr>\<rparr>)"

definition demo_app_env :: "unit app_env" where
  "demo_app_env = \<lparr>ae_parse_toml = demo_parse_toml, ae_to_toml = demo_to_toml, ae_half = (), ae_clamp = (\<lambda>v. v),
     ae_session_error = (\<lambda>_. ''error'')\<rparr>"

lemma demo_toml: "toml_roundtrip demo_app_env"
  by (auto simp: toml_roundtrip_def demo_app_env_def demo_to_toml_def demo_parse_toml_def split: option.split)

text \<open>An application on the LAN with one connected peer, number 7.\<close>

definition demo_app :: "(int, unit) app" where
  "demo_app = \<lparr>ap_ctx = new_context (), ap_router = Some demo_router,
     ap_manager = Some (demo_manager\<lparr>nm_sessions :=
       [(7, \<lparr>as_session_id = 1, as_task = 0, as_direction = Inbound\<rparr>)]\<rparr>),
     ap_mode = Some Lan, ap_audio = None, ap_has_dir = True, ap_file = NotFound, ap_volume_generation = 0\<rparr>"

lemma demo_router_fields [simp]:
  "rt_local_node_id demo_router = 1" "rt_active_executor demo_router = None"
  "rt_connected_peers demo_router = [7]" "rt_audio demo_router = Some []" "\<not> rt_audio_muted demo_router"
  "rt_outgoing_tx demo_router = Some (chan_new 4)" "rt_calculator demo_router = calc_new fx_ops"
  by (simp_all add: demo_router_def router_new_def)

theorem connection_error_not_shown_witness:
  "event_loop_turn fx_ops demo_app_env demo_crypto 0 0 (ConnectionError (Reason ''timeout'')) demo_app
   = event_loop_turn fx_ops demo_app_env demo_crypto 0 0 (ConnectionError (Reason ''bind_failed'')) demo_app"
  by (rule conjunct1 [OF connection_error_not_shown]) (simp_all add: demo_app_def)

lemma demo_turn:
  "\<exists>a. event_loop_turn fx_ops demo_app_env demo_crypto 0 0 (SessionLost 9) demo_app = Some a"
  by (simp add: event_loop_turn_def dispatch_event_def)

theorem view_follows_state_witness:
  "\<exists>a. event_loop_turn fx_ops demo_app_env demo_crypto 0 0 (SessionLost 9) demo_app = Some a \<and> mirrors a
     \<and> mirrors (handle_toggle_remote_control demo_app_env \<lparr>ci_random_name = [], ci_write_fails = None\<rparr> demo_app)
     \<and> mirrors (handle_disconnect_peer (Some 7) demo_app)"
proof -
  obtain a where a: "event_loop_turn fx_ops demo_app_env demo_crypto 0 0 (SessionLost 9) demo_app = Some a"
    using demo_turn ..
  then show ?thesis
    using view_follows_state [OF _ a, of demo_router 7] by (simp add: demo_app_def)
qed

theorem router_follows_registry_witness:
  "\<exists>a r. event_loop_turn fx_ops demo_app_env demo_crypto 0 0 (SessionLost 9) demo_app = Some a
     \<and> ap_router a = Some r \<and> rt_connected_peers r = [7]"
proof -
  obtain a where a: "event_loop_turn fx_ops demo_app_env demo_crypto 0 0 (SessionLost 9) demo_app = Some a"
    using demo_turn ..
  have "ap_router demo_app = Some demo_router" "ap_manager demo_app = Some (the (ap_manager demo_app))"
    by (simp_all add: demo_app_def)
  from router_follows_registry [OF disjI2 [OF refl] this a] a show ?thesis
    by (auto simp: demo_app_def active_session_ids_def hm_keys_def)
qed

theorem rediscovered_peer_shown_disconnected_witness:
  "\<exists>payload a' p.
     event_loop_turn fx_ops demo_app_env demo_crypto 0 0 (PeerDiscovered payload) demo_app = Some a'
   \<and> p \<in> set (nu_peers (cx_net (ap_ctx a'))) \<and> pv_node_id p = 7 \<and> \<not> pv_is_connected p \<and> \<not> mirrors a'"
proof -
  let ?ep = "\<lparr>de_node_id = 7, de_display_name = ''Fox'', de_address = (IPv4 1, 42420), de_session_port = 42420, de_transport_hint = Multicast,
    de_public_key_fingerprint = None\<rparr> :: discovery_endpoint"
  let ?s = "undefined\<lparr>rn_state := \<lparr>ns_peers = [], ns_is_connected = False, ns_latency_ms = None\<rparr>,
    rn_ui := create_ui_channel\<rparr> :: runtime"
  have "peer_table_inv (ns_peers (rn_state ?s))" "\<not> ch_closed (rn_ui ?s)" "length (ch_buf (rn_ui ?s)) < ch_cap (rn_ui ?s)"
    by (simp_all add: peer_table_inv_def hm_wf_def hm_keys_def hm_len_def hm_get_def create_ui_channel_def chan_new_def UI_EVENT_CAPACITY_def)
  from rediscovered_peer_shown_disconnected [OF this, of 0 ?ep fx_ops demo_app_env demo_crypto 0 0 demo_app]
  show ?thesis
    by (simp add: demo_app_def hm_get_def) blast
qed

theorem first_remote_key_spoken_here_witness:
  "\<exists>a' r'. dispatch_to_router fx_ops 1000 (A_Digit 4) (handle_connect_peer (Some 7) demo_app) = Some a'
     \<and> ap_router a' = Some r' \<and> (\<exists>spoken. rt_audio r' = Some [spoken])"
proof -
  have "calc_dispatch fx_ops (A_Digit 4) (rt_calculator demo_router) \<noteq> None"
    by code_simp
  then obtain c res where c: "calc_dispatch fx_ops (A_Digit 4) (rt_calculator demo_router) = Some (c, res)"
    by auto
  have v: "valid_action (A_Digit 4)" by code_simp
  have sessions: "7 \<in> set (active_sessions_of demo_app)"
    by (simp add: active_sessions_of_def demo_app_def active_session_ids_def hm_keys_def)
  have app: "ap_router demo_app = Some demo_router"
    by (simp add: demo_app_def)
  have room: "\<not> ch_closed (chan_new 4)" "length (ch_buf (chan_new 4)) < ch_cap (chan_new 4)"
    by (simp_all add: chan_new_def)
  have "\<exists>a' r' env. dispatch_to_router fx_ops 1000 (A_Digit 4) (handle_connect_peer (Some 7) demo_app) = Some a'
      \<and> ap_router a' = Some r'
      \<and> rt_outgoing_tx r' = Some ((chan_new 4)\<lparr>ch_buf := ch_buf (chan_new 4) @ [(7, Action env)]\<rparr>)
      \<and> rt_audio r' = Some ([] @ [r_events res])"
    by (rule first_remote_key_spoken_here [OF app _ _ _ _ _ sessions _ room v c, THEN conjunct2, THEN conjunct1])
      simp_all
  then show ?thesis by auto
qed

definition demo_start :: "string \<Rightarrow> file_read \<Rightarrow> string + ui_event chan \<times> (int, unit) app" where
  "demo_start name file_now = app_start fx_ops demo_app_env (name, file_now) \<lparr>ci_random_name = name, ci_write_fails = None\<rparr>
     [] None True file_now () None None 1 (Inl ''none'') HandleOk (demo_end Done)"

lemma app_start_fails:
  assumes "app_start D E boot io args env has_dir file one device storage new_id spawned answer failed = Inl e"
  shows "resolve_network_mode args env (ac_network
      (if \<not> has_dir then app_config_default (ae_half E) (fst boot)
       else load_from_path (ae_parse_toml E) (ae_half E) (fst boot) (snd boot))) = Inl e"
  using assms by (auto simp: app_start_def Let_def split: sum.splits)

lemma demo_starts_with:
  assumes "nc_mode (ac_network (load_from_path demo_parse_toml () name file_now)) = None"
  shows "\<exists>ui a. demo_start name file_now = Inr (ui, a)"
proof (cases "demo_start name file_now")
  case (Inl e)
  then show ?thesis
    using assms app_start_fails [OF Inl [unfolded demo_start_def]]
    by (simp add: resolve_network_mode_def demo_app_env_def)
qed simp

lemma demo_starts: "\<exists>ui a. demo_start name NotFound = Inr (ui, a)"
  by (rule demo_starts_with) (simp add: load_from_path_def app_config_default_def network_config_default_def)

theorem application_consistent_witness:
  "\<exists>a. run_steps (app_step fx_ops demo_app_env demo_crypto) (snd (projr (demo_start ''Ann'' NotFound)))
      [U_ShowAbout, U_ShowSettings, U_Scan] = Some a \<and> panels_open a \<le> 1"
proof -
  obtain ui a0 where a0: "demo_start ''Ann'' NotFound = Inr (ui, a0)"
    using demo_starts by blast
  obtain a where a: "run_steps (app_step fx_ops demo_app_env demo_crypto) a0 [U_ShowAbout, U_ShowSettings, U_Scan] = Some a"
    by simp
  show ?thesis
    using application_consistent [OF a0 [unfolded demo_start_def] a] a a0 by (simp add: app_admissible_def)
qed

theorem first_run_name_lost_witness:
  "\<exists>ui a ui' b. demo_start ''Ann'' NotFound = Inr (ui, a)
     \<and> demo_start ''Cat'' (ap_file (toggle_theme demo_app_env \<lparr>ci_random_name = ''Bob'', ci_write_fails = None\<rparr> a))
         = Inr (ui', b)
     \<and> ss_display_name (cx_settings (ap_ctx b)) = ''Bob''"
proof -
  let ?io = "\<lparr>ci_random_name = ''Bob'', ci_write_fails = None\<rparr>"
  obtain ui a where a: "demo_start ''Ann'' NotFound = Inr (ui, a)"
    using demo_starts by blast
  have f: "ap_has_dir a" "ap_file a = NotFound"
    using app_start_settings(1,2) [OF a [unfolded demo_start_def]] by simp_all
  have "\<exists>c cfg. ap_file (toggle_theme demo_app_env ?io a) = Contents c \<and> demo_parse_toml ''Cat'' c = Some cfg
      \<and> nc_mode (ac_network cfg) = None"
    using f
    by (simp add: toggle_theme_def save_config_def config_save_def config_load_def load_from_path_def Let_def
        demo_app_env_def demo_to_toml_def demo_parse_toml_def app_config_default_def network_config_default_def)
  then obtain ui' b where b: "demo_start ''Cat'' (ap_file (toggle_theme demo_app_env ?io a)) = Inr (ui', b)"
    using demo_starts_with [of "''Cat''" "ap_file (toggle_theme demo_app_env ?io a)"] by (auto simp: load_from_path_def)
  show ?thesis
    using first_run_name_lost [OF demo_toml _ a [unfolded demo_start_def] b [unfolded demo_start_def]] a b by auto
qed

theorem settings_survive_restart_witness:
  "\<exists>ui a0 a ui' b. demo_start ''Ann'' (Contents (the (demo_to_toml (app_config_default () ''Fox'')))) = Inr (ui, a0)
     \<and> run_steps (app_step fx_ops demo_app_env demo_crypto) a0
         [U_ToggleMute \<lparr>ci_random_name = ''Bob'', ci_write_fails = None\<rparr>] = Some a
     \<and> demo_start ''Cat'' (ap_file a) = Inr (ui', b) \<and> shown_settings b = shown_settings a"
proof -
  let ?t = "the (demo_to_toml (app_config_default () ''Fox''))"
  let ?evs = "[U_ToggleMute \<lparr>ci_random_name = ''Bob'', ci_write_fails = None\<rparr>] :: unit app_event list"
  have t: "ae_parse_toml demo_app_env name ?t = Some (app_config_default () ''Fox'')" for name
    by (simp add: demo_app_env_def demo_to_toml_def demo_parse_toml_def app_config_default_def network_config_default_def)
  have starts: "\<exists>ui a. demo_start name (Contents c) = Inr (ui, a)"
    if "ae_parse_toml demo_app_env name c = Some cfg" "nc_mode (ac_network cfg) = None" for name c cfg
    using that by (intro demo_starts_with) (simp add: load_from_path_def demo_app_env_def)
  have "nc_mode (ac_network (app_config_default () ''Fox'')) = None"
    by (simp add: app_config_default_def network_config_default_def)
  from starts [OF t this] obtain ui a0 where a0: "demo_start ''Ann'' (Contents ?t) = Inr (ui, a0)"
    by blast
  obtain a where a: "run_steps (app_step fx_ops demo_app_env demo_crypto) a0 ?evs = Some a"
    by simp
  have f: "ap_has_dir a0" "ap_file a0 = Contents ?t"
    using app_start_settings(1,2) [OF a0 [unfolded demo_start_def]] by simp_all
  have "\<exists>c cfg. ap_file a = Contents c \<and> ae_parse_toml demo_app_env ''Cat'' c = Some cfg \<and> nc_mode (ac_network cfg) = None"
    using a f t
    by (auto simp: on_toggle_mute_def set_router_user_mute_def on_router_def save_config_def config_save_def
        config_load_def load_from_path_def Let_def app_config_default_def network_config_default_def)
      (simp add: demo_app_env_def demo_to_toml_def demo_parse_toml_def)
  then obtain ui' b where b: "demo_start ''Cat'' (ap_file a) = Inr (ui', b)"
    using starts by fastforce
  have "list_all writes_succeed ?evs"
    by (simp add: writes_succeed_def)
  have "\<forall>name. ae_parse_toml demo_app_env name ?t = Some (app_config_default () ''Fox'')"
    using t by blast
  note survive = settings_survive_restart [OF demo_toml this a0 [unfolded demo_start_def] a \<open>list_all writes_succeed ?evs\<close> b [unfolded demo_start_def]]
  show ?thesis using survive a0 a b by blast
qed

end
