(* ===== verification/Delivery.thy ===== *)
theory Delivery
  imports Bridge_Theorems
begin

text \<open>
  A key pressed on one device and executed on another, through all components in between:
  the bridge and the router of the controller, its runtime and session, the session and the
  runtime of the executor, its bridge and router, and the answer back the same way.
\<close>

section \<open>One message from queue to queue\<close>

text \<open>
  The path of a message between the outgoing queue of a router and the event queue of the
  peer's application: the sender's runtime, the two ends of the session, the peer's runtime.
\<close>

record link =
  ln_runtime :: runtime
  ln_sender :: session_loop
  ln_receiver :: session_loop
  ln_peer_runtime :: runtime

text \<open>
  One turn of each task on the path. The queue of the session is shared by the sender's
  runtime, which writes it, and the session, which reads it; the frames the sender has
  written are what the receiver reads.
\<close>

definition carry :: "'sk crypto \<Rightarrow> u64 \<Rightarrow> node_id \<Rightarrow> network_message \<Rightarrow> link \<Rightarrow> link" where
  "carry C now_ms target msg l =
     (let rt = route_outgoing target msg (ln_runtime l);
          out = (case hm_get (rn_sessions (ln_runtime l)) target of
                   Some session \<Rightarrow> (ln_sender l)\<lparr>sl_outgoing := rn_queues rt (as_task session)\<rparr>
                 | None \<Rightarrow> ln_sender l);
          sent = outgoing_ready C out;
          frames = drop (length (st_written (sl_stream out))) (st_written (sl_stream sent));
          inn = (ln_receiver l)\<lparr>sl_stream := (sl_stream (ln_receiver l))
                  \<lparr>st_reads := st_reads (sl_stream (ln_receiver l)) @ map Frame frames\<rparr>\<rparr>;
          got = tcp_read C now_ms inn
      in \<lparr>ln_runtime = (case hm_get (rn_sessions (ln_runtime l)) target of
             Some session \<Rightarrow> rt\<lparr>rn_queues := (rn_queues rt)(as_task session := sl_outgoing sent)\<rparr>
           | None \<Rightarrow> rt),
          ln_sender = sent, ln_receiver = got,
          ln_peer_runtime = fold (runtime_command C) (drop (length (sl_commands inn)) (sl_commands got))
            (ln_peer_runtime l)\<rparr>)"

text \<open>A link that is up and idle: everything before has been delivered, and there is room.\<close>

definition idle :: "'m chan \<Rightarrow> bool" where
  "idle c = (ch_buf c = [] \<and> \<not> ch_closed c \<and> 0 < ch_cap c)"

definition has_room :: "'m chan \<Rightarrow> bool" where
  "has_room c = (\<not> ch_closed c \<and> length (ch_buf c) < ch_cap c)"

definition link_up :: "node_id \<Rightarrow> node_id \<Rightarrow> link \<Rightarrow> bool" where
  "link_up sender target l =
     ((case hm_get (rn_sessions (ln_runtime l)) target of
         Some session \<Rightarrow> idle (rn_queues (ln_runtime l) (as_task session))
       | None \<Rightarrow> False)
      \<and> sl_ended (ln_sender l) = None \<and> st_write_ok (sl_stream (ln_sender l)) = []
      \<and> sl_ended (ln_receiver l) = None \<and> st_reads (sl_stream (ln_receiver l)) = []
      \<and> sl_remote_id (ln_receiver l) = sender
      \<and> has_room (rn_ui (ln_peer_runtime l)))"

lemma send_transmits_stream:
  "transmits C msg \<Longrightarrow> st_write_ok st = [] \<Longrightarrow>
     send_msg C msg st = (Inr (), st\<lparr>st_written := st_written st @ [frame_of C msg]\<rparr>)"
  by (auto simp: transmits_def send_msg_def write_frame_def frame_of_def)

lemma try_send_room: "has_room c \<Longrightarrow> try_send x c = Inr (c\<lparr>ch_buf := ch_buf c @ [x]\<rparr>)"
  by (simp add: has_room_def try_send_def)

lemma idle_room: "idle c \<Longrightarrow> has_room c"
  by (simp add: idle_def has_room_def)

lemma tcp_read_transmits:
  assumes "transmits C msg" and "forwardable msg" and "st_reads (sl_stream s) = [Frame (frame_of C msg)]"
  shows "\<exists>s'. tcp_read C now_ms s = s'
    \<and> sl_commands s' = sl_commands s @ [IncomingMessage (sl_remote_id s) msg]
    \<and> sl_ended s' = sl_ended s \<and> st_reads (sl_stream s') = [] \<and> sl_remote_id s' = sl_remote_id s"
  using assms decode_transmits [OF assms(1)] handle_forwarded [OF assms(2), of now_ms]
  by (simp add: tcp_read_def has_magic_def send_command_def Let_def)

lemma carry_delivers:
  assumes "link_up sender target l" and "transmits C msg" and "forwardable msg"
  shows "\<exists>bytes. cr_decode C bytes = Some (msg, length bytes)
    \<and> rn_ui (ln_peer_runtime (carry C now_ms target msg l)) =
        (rn_ui (ln_peer_runtime l))\<lparr>ch_buf := ch_buf (rn_ui (ln_peer_runtime l)) @ [NetworkMessage sender bytes]\<rparr>"
proof -
  obtain session where session: "hm_get (rn_sessions (ln_runtime l)) target = Some session"
      "idle (rn_queues (ln_runtime l) (as_task session))"
    using assms(1) by (auto simp: link_up_def split: option.splits)
  let ?q = "(rn_queues (ln_runtime l) (as_task session))\<lparr>ch_buf := [msg]\<rparr>"
  let ?out = "(ln_sender l)\<lparr>sl_outgoing := ?q\<rparr>"
  have queued: "rn_queues (route_outgoing target msg (ln_runtime l)) (as_task session) = ?q"
    using session try_send_room [OF idle_room [OF session(2)], of msg]
    by (simp add: route_outgoing_def idle_def)
  have written: "st_written (sl_stream (outgoing_ready C ?out)) =
      st_written (sl_stream (ln_sender l)) @ [frame_of C msg]"
    using assms(1) send_transmits_stream [OF assms(2)]
    by (simp add: outgoing_ready_def link_up_def Let_def)
  let ?inn = "(ln_receiver l)\<lparr>sl_stream := (sl_stream (ln_receiver l))\<lparr>st_reads := [Frame (frame_of C msg)]\<rparr>\<rparr>"
  have got: "sl_commands (tcp_read C now_ms ?inn) =
      sl_commands (ln_receiver l) @ [IncomingMessage sender msg]"
    using tcp_read_transmits [OF assms(2,3), of ?inn now_ms] assms(1) by (simp add: link_up_def)
  have peer: "ln_peer_runtime (carry C now_ms target msg l) =
      runtime_command C (IncomingMessage sender msg) (ln_peer_runtime l)"
    using assms(1) session queued written got by (simp add: carry_def Let_def link_up_def)
  obtain bytes where bytes: "cr_encode C msg = Some bytes" "cr_decode C bytes = Some (msg, length bytes)"
    using assms(2) by (auto simp: transmits_def)
  have "has_room (rn_ui (ln_peer_runtime l))"
    using assms(1) by (simp add: link_up_def)
  then show ?thesis
    using bytes
    by (intro exI [of _ bytes])
      (simp add: peer runtime_command_def forward_incoming_message_to_ui_def try_send_room)
qed

section \<open>One message into the router\<close>

lemma turn_delivers:
  assumes "cr_decode C bytes = Some (msg, length bytes)" and "\<forall>name. msg \<noteq> PeerNameUpdate name"
    and "ap_router a = Some r" and "handle_network_message D now now_ms sender msg r = Some r'"
  shows "\<exists>a' b. event_loop_turn D E C now now_ms (NetworkMessage sender bytes) a = Some a'
    \<and> ap_router a' = Some (set_audio_muted b r')"
proof -
  have "(case msg of PeerNameUpdate name \<Rightarrow> rename_peer now sender name a | _ \<Rightarrow> a) = a"
    using assms(2) by (auto split: network_message.split)
  then have "event_loop_turn D E C now now_ms (NetworkMessage sender bytes) a =
      Some (sync_network_state (a\<lparr>ap_router := Some r'\<rparr>))"
    using assms by (simp add: event_loop_turn_def dispatch_event_def deliver_message_def)
  moreover have "ap_router (sync_network_state (a\<lparr>ap_router := Some r'\<rparr>)) =
      Some (set_audio_muted (au_muted (cx_audio (ap_ctx a)) \<or> is_executing_remotely r') r')"
    by (simp add: sync_network_state_def Let_def split: option.split)
  ultimately show ?thesis by blast
qed

text \<open>What the router of the controller remembers after it has sent a key.\<close>

lemma dispatch_sent_state:
  assumes "valid_action action" and "remote_target r = Some target"
    and "rt_outgoing_tx r = Some tx" and "has_room tx"
    and "calc_dispatch D action (rt_calculator r) = Some (c, res)"
    and "env = \<lparr>env_seq = u64_saturating_add (rt_local_seq r) 1, env_source_id = rt_local_node_id r,
      env_timestamp_ms = now_ms, env_action = action\<rparr>"
  shows "\<exists>r'. dispatch D now_ms action r = Some r'
    \<and> rt_outgoing_tx r' = Some (tx\<lparr>ch_buf := ch_buf tx @ [(target, Action env)]\<rparr>)
    \<and> rt_active_executor r' = Some target \<and> target \<in> set (rt_connected_peers r')
    \<and> rt_local_seq r' = env_seq env \<and> rt_last_state_update_seq r' = rt_last_state_update_seq r
    \<and> rt_display r' = display_of res"
  using assms
  by (auto simp: dispatch_def build_envelope_def send_message_to_def try_send_room apply_speculative_def
      apply_result_def Let_def remote_target_def display_of_def update_display_def update_history_def
      update_memory_indicator_def set_error_state_def split: option.split option.splits if_splits)

lemma set_audio_muted_display [simp]: "rt_display (set_audio_muted b r) = rt_display r"
  by (simp add: set_audio_muted_def)

lemma executed_calculator:
  assumes "may_execute now now_ms sender env q"
    and "calc_dispatch D (env_action env) (rt_calculator q) = Some (c, res)"
    and "handle_remote_action D now now_ms sender env q = Some q'"
  shows "rt_calculator q' = c"
proof -
  obtain q1 where ad: "admit_remote_action now now_ms sender env q = (None, q1)"
    using admit_iff [of now now_ms sender env q] assms(1) by (metis prod.collapse)
  then have "rt_calculator q1 = rt_calculator q"
    using admit_accepted [OF ad] by auto
  then show ?thesis
    using ad assms(2,3) by (auto simp: handle_remote_action_def Let_def)
qed

lemma next_seq_newer:
  assumes "(x :: u64) \<le> y" and "y \<noteq> - 1"
  shows "x < u64_saturating_add y 1 \<and> u64_saturating_add y 1 \<noteq> 0"
proof -
  have "unat y \<noteq> unat (- 1 :: u64)"
    using assms(2) by (metis word_unat_eq_iff)
  moreover have "unat (- 1 :: u64) = 2 ^ 64 - 1"
    by (simp add: unsigned_minus_1_eq_mask mask_eq_exp_minus_1)
  ultimately have "unat y + 1 < 2 ^ 64"
    using unsigned_less [of y, where ?'a = nat] by simp
  then have "unat (u64_saturating_add y 1) = unat y + 1"
    by (simp add: u64_saturating_add_def unat_word_ariths)
  then show ?thesis
    using assms(1) by (simp add: word_less_nat_alt word_le_nat_alt word_unat_eq_iff)
qed

section \<open>From key to display\<close>

text \<open>
  C4: a key pressed while another device is in use takes effect there and shows here, if
  nothing on the way refuses it: the session is up and idle in both directions, there is room
  in the outgoing queues and the event queues, the two messages are ones the codec transmits,
  and the executor may execute the key (remote control is on, the timestamp is recent, the rate
  budget is not used up). Then the controller queues one envelope; runtime, session and peer
  runtime carry it into the event queue of the executor; the executor runs its calculator
  exactly once and queues one snapshot, which comes back the same way. If the controller
  accepts the snapshot's text as a number, its display then shows exactly what the executor
  shows and its calculator rests on that value; if it does not (the exponents that
  \<open>format_display\<close> writes for large and small numbers), it goes on showing its own prediction.
\<close>

theorem remote_key_round_trip:
  assumes "ap_router a = Some r" and "ap_router b = Some q"
    and "remote_target r = Some (rt_local_node_id q)" and "router_inv r" and "rt_local_seq r \<noteq> - 1"
    and "rt_outgoing_tx r = Some tx" and "has_room tx" and "rt_outgoing_tx q = Some ty" and "has_room ty"
    and "valid_action action" and "calc_dispatch D action (rt_calculator r) = Some (c0, res0)"
    and "calc_dispatch D action (rt_calculator q) = Some (c, res)"
    and "env = \<lparr>env_seq = u64_saturating_add (rt_local_seq r) 1, env_source_id = rt_local_node_id r,
      env_timestamp_ms = now_ms, env_action = action\<rparr>"
    and "may_execute now now_ms (rt_local_node_id r) env q"
    and "snap = build_state_snapshot res (env_seq env)"
    and "link_up (rt_local_node_id r) (rt_local_node_id q) there" and "transmits C (Action env)"
    and "link_up (rt_local_node_id q) (rt_local_node_id r) returning" and "transmits C (StateUpdate snap)"
  shows "\<exists>a' b' a'' r' q' r'' sent reply.
      dispatch_to_router D now_ms action a = Some a' \<and> ap_router a' = Some r'
    \<and> rt_outgoing_tx r' = Some (tx\<lparr>ch_buf := ch_buf tx @ [(rt_local_node_id q, Action env)]\<rparr>)
    \<and> ch_buf (rn_ui (ln_peer_runtime (carry C now_ms (rt_local_node_id q) (Action env) there))) =
        ch_buf (rn_ui (ln_peer_runtime there)) @ [NetworkMessage (rt_local_node_id r) sent]
    \<and> event_loop_turn D E C now now_ms (NetworkMessage (rt_local_node_id r) sent) b = Some b'
    \<and> ap_router b' = Some q' \<and> rt_calculator q' = c
    \<and> rt_outgoing_tx q' = Some (ty\<lparr>ch_buf := ch_buf ty @ [(rt_local_node_id r, StateUpdate snap)]\<rparr>)
    \<and> ch_buf (rn_ui (ln_peer_runtime (carry C now_ms (rt_local_node_id r) (StateUpdate snap) returning))) =
        ch_buf (rn_ui (ln_peer_runtime returning)) @ [NetworkMessage (rt_local_node_id q) reply]
    \<and> event_loop_turn D E C now now_ms (NetworkMessage (rt_local_node_id q) reply) a' = Some a''
    \<and> ap_router a'' = Some r'' \<and> rt_display q' = display_of res
    \<and> (if valid_state_snapshot D snap
       then rt_display r'' = rt_display q'
         \<and> (\<not> r_is_error res \<longrightarrow> d_from_str D (r_display res) = Some (c_acc (rt_calculator r'')))
       else rt_display r'' = display_of res0)"
proof -
  let ?cid = "rt_local_node_id r" and ?eid = "rt_local_node_id q"
  obtain r' where r': "dispatch D now_ms action r = Some r'"
      "rt_outgoing_tx r' = Some (tx\<lparr>ch_buf := ch_buf tx @ [(?eid, Action env)]\<rparr>)"
      "rt_active_executor r' = Some ?eid" "?eid \<in> set (rt_connected_peers r')"
      "rt_local_seq r' = env_seq env" "rt_last_state_update_seq r' = rt_last_state_update_seq r"
      "rt_display r' = display_of res0"
    using dispatch_sent_state [OF assms(10,3,6,7,11,13)] by blast
  have a': "dispatch_to_router D now_ms action a = Some (a\<lparr>ap_router := Some r'\<rparr>)"
    using assms(1) r'(1) by (simp add: dispatch_to_router_def)
  obtain sent where sent: "cr_decode C sent = Some (Action env, length sent)"
      "rn_ui (ln_peer_runtime (carry C now_ms ?eid (Action env) there)) =
        (rn_ui (ln_peer_runtime there))\<lparr>ch_buf := ch_buf (rn_ui (ln_peer_runtime there)) @ [NetworkMessage ?cid sent]\<rparr>"
    using carry_delivers [OF assms(16,17), of now_ms] by (auto simp: forwardable_def)
  have disp: "calc_dispatch D (env_action env) (rt_calculator q) = Some (c, res)"
    using assms(12,13) by simp
  obtain q' where q': "handle_remote_action D now now_ms ?cid env q = Some q'"
      "rt_display q' = display_of res"
      "rt_outgoing_tx q' = Some (ty\<lparr>ch_buf := ch_buf ty @ [(?cid, StateUpdate snap)]\<rparr>)"
    using executor_replies [OF assms(14) disp assms(8)] assms(9,15) by (auto simp: has_room_def)
  have calc: "rt_calculator q' = c"
    using executed_calculator [OF assms(14) disp q'(1)] .
  obtain b' x where b': "event_loop_turn D E C now now_ms (NetworkMessage ?cid sent) b = Some b'"
      "ap_router b' = Some (set_audio_muted x q')"
    using turn_delivers [OF sent(1) _ assms(2), of D now now_ms ?cid q' E] q'(1)
    by (auto simp: handle_network_message_def)
  obtain reply where reply: "cr_decode C reply = Some (StateUpdate snap, length reply)"
      "rn_ui (ln_peer_runtime (carry C now_ms ?cid (StateUpdate snap) returning)) =
        (rn_ui (ln_peer_runtime returning))\<lparr>ch_buf := ch_buf (rn_ui (ln_peer_runtime returning)) @ [NetworkMessage ?eid reply]\<rparr>"
    using carry_delivers [OF assms(18,19), of now_ms] by (auto simp: forwardable_def)
  have "rt_last_state_update_seq r \<le> rt_local_seq r"
    using assms(4) by (simp add: router_inv_def seq_inv_def)
  then have newer: "rt_last_state_update_seq r < env_seq env" "env_seq env \<noteq> 0"
    using next_seq_newer [OF _ assms(5), of "rt_last_state_update_seq r"] assms(13) by simp_all
  have acc: "accepts_snapshot D ?eid snap r' = valid_state_snapshot D snap"
    using r'(3-6) assms(15) newer by (auto simp: accepts_snapshot_def)
  let ?r = "handle_remote_state D ?eid snap r'"
  obtain a'' y where a'': "event_loop_turn D E C now now_ms (NetworkMessage ?eid reply) (a\<lparr>ap_router := Some r'\<rparr>) = Some a''"
      "ap_router a'' = Some (set_audio_muted y ?r)"
    using turn_delivers [OF reply(1), of "a\<lparr>ap_router := Some r'\<rparr>" r' D now now_ms ?eid ?r E]
    by (auto simp: handle_network_message_def)
  have shown: "if valid_state_snapshot D snap
      then rt_display ?r = display_of res
        \<and> (\<not> r_is_error res \<longrightarrow> d_from_str D (r_display res) = Some (c_acc (rt_calculator ?r)))
      else rt_display ?r = display_of res0"
  proof (cases "valid_state_snapshot D snap")
    case True
    then have "accepts_snapshot D ?eid snap r'" by (simp add: acc)
    then show ?thesis
      using True controller_adopts(1,3) [of D ?eid snap r'] assms(15) by (simp add: display_of_def)
  next
    case False
    then have "\<not> accepts_snapshot D ?eid snap r'" by (simp add: acc)
    then show ?thesis
      using False r'(7) by (simp add: handle_remote_state_def)
  qed
  show ?thesis
    by (rule exI [of _ "a\<lparr>ap_router := Some r'\<rparr>"], rule exI [of _ b'], rule exI [of _ a''], rule exI [of _ r'],
        rule exI [of _ "set_audio_muted x q'"], rule exI [of _ "set_audio_muted y ?r"],
        rule exI [of _ sent], rule exI [of _ reply])
      (simp add: a' b' a'' r'(2) q'(2,3) calc sent(2) reply(2) shown)
qed

text \<open>Two nodes, 7 and 1, with a session in both directions and a codec for the two messages.\<close>

definition demo_link :: "node_id \<Rightarrow> node_id \<Rightarrow> link" where
  "demo_link from_id to_id =
     (let fresh = \<lparr>st_reads = [], st_written = [], st_write_ok = []\<rparr>;
          sessions = [(to_id, \<lparr>as_session_id = 1, as_task = 0, as_direction = Outbound\<rparr>)];
          rt = (\<lambda>nid ss. the (snd (snd (run_network_runtime Lan nid ''Ann'' True (Some 42420) None
                   \<lparr>ns_peers = [], ns_is_connected = True, ns_latency_ms = None\<rparr> ss create_ui_channel))));
          side = (\<lambda>remote. the (snd (session_enter True (Some True) 1 0 fresh remote demo_info Outbound)))
      in \<lparr>ln_runtime = rt from_id sessions, ln_sender = side to_id, ln_receiver = side from_id,
          ln_peer_runtime = rt to_id []\<rparr>)"

lemma demo_link_up: "link_up from_id to_id (demo_link from_id to_id)"
  by (simp add: link_up_def demo_link_def run_network_runtime_def session_enter_def Let_def idle_def has_room_def
      session_outgoing_channel_def SESSION_OUTGOING_CAPACITY_def chan_new_def create_ui_channel_def
      UI_EVENT_CAPACITY_def hm_get_def)

definition demo_codec :: "network_message \<Rightarrow> network_message \<Rightarrow> u8 crypto" where
  "demo_codec first second = demo_crypto
     \<lparr>cr_encode := (\<lambda>msg. if msg = first then Some [0] else if msg = second then Some [1] else None),
      cr_decode := (\<lambda>bs. if bs = [0] then Some (first, 1) else if bs = [1] then Some (second, 1) else None)\<rparr>"

lemma demo_codec_transmits:
  "transmits (demo_codec first second) first" "first \<noteq> second \<Longrightarrow> transmits (demo_codec first second) second"
  by (simp_all add: transmits_def demo_codec_def)

definition demo_sender :: "int router" where
  "demo_sender = (router_new (calc_new fx_ops) None demo_display 7)
     \<lparr>rt_connected_peers := [1], rt_active_executor := Some 1, rt_outgoing_tx := Some (chan_new 4)\<rparr>"

lemma demo_sender_fields [simp]:
  "rt_local_node_id demo_sender = 7" "remote_target demo_sender = Some 1" "rt_local_seq demo_sender = 0"
  "rt_outgoing_tx demo_sender = Some (chan_new 4)" "rt_calculator demo_sender = calc_new fx_ops"
  by (simp_all add: demo_sender_def router_new_def remote_target_def)

lemma demo_sender_inv: "router_inv demo_sender"
  using calc_new_inv [of fx_ops]
  by (simp add: router_inv_def sessions_inv_def rates_inv_def seq_inv_def queue_inv_def demo_sender_def
      router_new_def MAX_TRACKED_REMOTE_PEERS_def hm_keys_def hm_wf_def chan_wf_def chan_new_def)

theorem remote_key_round_trip_witness:
  "\<exists>(C :: u8 crypto) a' b' a'' r'' q' sent reply.
     dispatch_to_router fx_ops 1000 (A_Digit 5) (demo_app\<lparr>ap_router := Some demo_sender\<rparr>) = Some a'
   \<and> event_loop_turn fx_ops demo_app_env C 0 1000 (NetworkMessage 7 sent) demo_app = Some b' \<and> ap_router b' = Some q'
   \<and> event_loop_turn fx_ops demo_app_env C 0 1000 (NetworkMessage 1 reply) a' = Some a'' \<and> ap_router a'' = Some r''
   \<and> dp_text (rt_display q') = ''5'' \<and> dp_text (rt_display r'') = ''5''"
proof -
  let ?env = "demo_envelope 1 (A_Digit 5)"
  have "map_option (\<lambda>(c, res). (r_display res, valid_state_snapshot fx_ops (build_state_snapshot res 1)))
      (calc_dispatch fx_ops (A_Digit 5) (calc_new fx_ops)) = Some (''5'', True)"
    by code_simp
  then obtain c res where c: "calc_dispatch fx_ops (A_Digit 5) (calc_new fx_ops) = Some (c, res)"
      "r_display res = ''5''" and snap: "valid_state_snapshot fx_ops (build_state_snapshot res 1)"
    by auto
  let ?snap = "build_state_snapshot res (env_seq ?env)"
  let ?C = "demo_codec (Action ?env) (StateUpdate ?snap)"
  have room: "has_room (chan_new 4)"
    by (simp add: has_room_def chan_new_def)
  have env: "?env = \<lparr>env_seq = u64_saturating_add (rt_local_seq demo_sender) 1,
      env_source_id = rt_local_node_id demo_sender, env_timestamp_ms = 1000, env_action = A_Digit 5\<rparr>"
    by (simp add: demo_envelope_def u64_saturating_add_def)
  have may: "may_execute 0 1000 7 ?env demo_router" and va: "valid_action (A_Digit 5)"
    by code_simp+
  have apps: "ap_router (demo_app\<lparr>ap_router := Some demo_sender\<rparr>) = Some demo_sender"
      "ap_router demo_app = Some demo_router"
    by (simp_all add: demo_app_def)
  have there: "link_up (rt_local_node_id demo_sender) (rt_local_node_id demo_router) (demo_link 7 1)"
    "link_up (rt_local_node_id demo_router) (rt_local_node_id demo_sender) (demo_link 1 7)"
    using demo_link_up by simp_all
  have codec: "transmits ?C (Action ?env)" "transmits ?C (StateUpdate ?snap)"
    using demo_codec_transmits by simp_all
  have target: "remote_target demo_sender = Some (rt_local_node_id demo_router)"
      "rt_local_seq demo_sender \<noteq> - 1" "rt_outgoing_tx demo_sender = Some (chan_new 4)"
      "rt_outgoing_tx demo_router = Some (chan_new 4)"
      "calc_dispatch fx_ops (A_Digit 5) (rt_calculator demo_sender) = Some (c, res)"
      "calc_dispatch fx_ops (A_Digit 5) (rt_calculator demo_router) = Some (c, res)"
      "may_execute 0 1000 (rt_local_node_id demo_sender) ?env demo_router"
      "valid_state_snapshot fx_ops ?snap"
    using c(1) snap may by (simp_all add: demo_envelope_def)
  note trip = remote_key_round_trip [where E = demo_app_env, OF apps target(1) demo_sender_inv target(2,3) room target(4) room va
      target(5,6) env target(7) refl there(1) codec(1) there(2) codec(2)]
  from trip obtain a' b' a'' r' q' r'' sent reply where t:
    "dispatch_to_router fx_ops 1000 (A_Digit 5) (demo_app\<lparr>ap_router := Some demo_sender\<rparr>) = Some a'"
    "event_loop_turn fx_ops demo_app_env ?C 0 1000 (NetworkMessage (rt_local_node_id demo_sender) sent) demo_app = Some b'"
    "ap_router b' = Some q'"
    "event_loop_turn fx_ops demo_app_env ?C 0 1000 (NetworkMessage (rt_local_node_id demo_router) reply) a' = Some a''"
    "ap_router a'' = Some r''" "rt_display q' = display_of res" "rt_display r'' = rt_display q'"
    unfolding if_P [OF target(8)] by (elim exE conjE) (rule that; assumption)
  show ?thesis
    by (rule exI [of _ ?C], rule exI [of _ a'], rule exI [of _ b'], rule exI [of _ a''], rule exI [of _ r''],
        rule exI [of _ q'], rule exI [of _ sent], rule exI [of _ reply])
      (use t c(2) in \<open>simp add: display_of_def\<close>)
qed

end
