(* ===== verification/Convergence.thy ===== *)
theory Convergence
  imports Delivery
begin

text \<open>
  A controller and its executor (two routers of \<open>src/net/router.rs\<close>) while one session between
  them lasts, with every interleaving of key presses, other peers' messages and the messages
  under way. \<open>duo_step\<close> is the step relation: what a router queues is collected onto a wire,
  which delivers it in order. The theorem is that the two displays converge: whenever nothing
  is under way, the last action of the controller that reached the executor was executed and
  answered, and nobody else has changed since then what the two show, both show the same.
\<close>

section \<open>Two routers and the wires between them\<close>

text \<open>
  \<open>du_fresh\<close> only observes. The last action of the controller that reached the executor was
  executed and answered by a valid snapshot (not rejected, and the answer not dropped), and
  since then no key and no message of another device has changed what the executor shows, and
  no message of another device what the controller calculates with or shows.
\<close>

record 'd duo =
  du_ctrl :: "'d router"
  du_exec :: "'d router"
  du_there :: "network_message list"
  du_back :: "network_message list"
  du_fresh :: bool

abbreviation ctrl_id :: "'d duo \<Rightarrow> node_id" where "ctrl_id d \<equiv> rt_local_node_id (du_ctrl d)"
abbreviation exec_id :: "'d duo \<Rightarrow> node_id" where "exec_id d \<equiv> rt_local_node_id (du_exec d)"

text \<open>Whether a valid snapshot was queued between two states of a router.\<close>

definition answered :: "'d decimal_ops \<Rightarrow> 'd router \<Rightarrow> 'd router \<Rightarrow> bool" where
  "answered D q q' =
     (case rt_outgoing_tx q' of
        Some tx \<Rightarrow> rt_outgoing_tx q' \<noteq> rt_outgoing_tx q
          \<and> (case last (ch_buf tx) of (_, StateUpdate s) \<Rightarrow> valid_state_snapshot D s | _ \<Rightarrow> False)
      | None \<Rightarrow> False)"

inductive duo_step :: "'d decimal_ops \<Rightarrow> 'd duo \<Rightarrow> 'd duo \<Rightarrow> bool" for D where
  Key: "dispatch D now_ms action (du_ctrl d) = Some r \<Longrightarrow> duo_step D d (d\<lparr>du_ctrl := r\<rparr>)"
| Collect: "rt_outgoing_tx (du_ctrl d) = Some tx \<Longrightarrow> ch_buf tx = (nid, msg) # rest \<Longrightarrow>
    duo_step D d (d\<lparr>du_ctrl := (du_ctrl d)\<lparr>rt_outgoing_tx := Some (tx\<lparr>ch_buf := rest\<rparr>)\<rparr>,
      du_there := du_there d @ (if nid = exec_id d then [msg] else [])\<rparr>)"
| Deliver: "du_there d = msg # rest \<Longrightarrow>
    handle_network_message D now now_ms (ctrl_id d) msg (du_exec d) = Some q \<Longrightarrow>
    duo_step D d (d\<lparr>du_exec := q, du_there := rest, du_fresh := answered D (du_exec d) q\<rparr>)"
| CollectBack: "rt_outgoing_tx (du_exec d) = Some tx \<Longrightarrow> ch_buf tx = (nid, msg) # rest \<Longrightarrow>
    duo_step D d (d\<lparr>du_exec := (du_exec d)\<lparr>rt_outgoing_tx := Some (tx\<lparr>ch_buf := rest\<rparr>)\<rparr>,
      du_back := du_back d @ (if nid = ctrl_id d then [msg] else [])\<rparr>)"
| DeliverBack: "du_back d = msg # rest \<Longrightarrow>
    handle_network_message D now now_ms (exec_id d) msg (du_ctrl d) = Some r \<Longrightarrow>
    duo_step D d (d\<lparr>du_ctrl := r, du_back := rest\<rparr>)"
| ExecKey: "dispatch D now_ms action (du_exec d) = Some q \<Longrightarrow>
    duo_step D d (d\<lparr>du_exec := q, du_fresh := du_fresh d \<and> rt_display q = rt_display (du_exec d)\<rparr>)"
| ExecOther: "other \<noteq> ctrl_id d \<Longrightarrow>
    handle_network_message D now now_ms other msg (du_exec d) = Some q \<Longrightarrow>
    duo_step D d (d\<lparr>du_exec := q, du_fresh := du_fresh d \<and> rt_display q = rt_display (du_exec d)\<rparr>)"
| CtrlOther: "other \<noteq> exec_id d \<Longrightarrow>
    handle_network_message D now now_ms other msg (du_ctrl d) = Some r \<Longrightarrow>
    duo_step D d (d\<lparr>du_ctrl := r, du_fresh := du_fresh d \<and> rt_display r = rt_display (du_ctrl d)
      \<and> rt_calculator r = rt_calculator (du_ctrl d)\<rparr>)"

inductive duo_run :: "'d decimal_ops \<Rightarrow> 'd duo \<Rightarrow> 'd duo \<Rightarrow> bool" for D d0 where
  start: "duo_run D d0 d0"
| step: "duo_run D d0 d \<Longrightarrow> duo_step D d d' \<Longrightarrow> duo_run D d0 d'"

section \<open>What is under way\<close>

definition queued_for :: "node_id \<Rightarrow> 'd router \<Rightarrow> network_message list" where
  "queued_for nid r =
     (case rt_outgoing_tx r of
        None \<Rightarrow> []
      | Some tx \<Rightarrow> map snd (filter (\<lambda>(n, _). n = nid) (ch_buf tx)))"

definition actions_under_way :: "'d duo \<Rightarrow> network_message list" where
  "actions_under_way d = du_there d @ queued_for (exec_id d) (du_ctrl d)"

definition answers_under_way :: "'d duo \<Rightarrow> network_message list" where
  "answers_under_way d = du_back d @ queued_for (ctrl_id d) (du_exec d)"

text \<open>What a snapshot shows is what the router shows.\<close>

definition depicts :: "state_snapshot \<Rightarrow> 'd router \<Rightarrow> bool" where
  "depicts s q = (rt_display q = \<lparr>dp_text = sn_display s, dp_history = sn_history s,
     dp_memory_indicator = sn_memory_indicator s, dp_is_error = sn_is_error s\<rparr>)"

text \<open>The controller shows what the executor shows and rests on the shown value.\<close>

definition agrees :: "'d decimal_ops \<Rightarrow> 'd router \<Rightarrow> 'd router \<Rightarrow> bool" where
  "agrees D r q =
     (rt_display r = rt_display q
      \<and> (if dp_is_error (rt_display q) then c_state (rt_calculator r) = Error
         else c_state (rt_calculator r) = Evaluated
           \<and> d_from_str D (dp_text (rt_display q)) = Some (c_acc (rt_calculator r))))"

definition up_to_date :: "'d decimal_ops \<Rightarrow> 'd duo \<Rightarrow> bool" where
  "up_to_date D d =
     (if answers_under_way d = []
      then actions_under_way d = [] \<and> remote_target (du_ctrl d) = Some (exec_id d)
        \<longrightarrow> agrees D (du_ctrl d) (du_exec d)
      else \<exists>s. last (answers_under_way d) = StateUpdate s \<and> valid_state_snapshot D s \<and> depicts s (du_exec d))"

definition answers_ordered :: "'d duo \<Rightarrow> bool" where
  "answers_ordered d =
     (\<exists>ss. answers_under_way d = map StateUpdate ss \<and> sorted_wrt (<) (map sn_last_seq_applied ss)
       \<and> (\<forall>s \<in> set ss. rt_last_state_update_seq (du_ctrl d) < sn_last_seq_applied s
            \<and> sn_last_seq_applied s \<le> last_seq (ctrl_id d) (du_exec d)))"

definition duo_core :: "'d duo \<Rightarrow> bool" where
  "duo_core d =
     (ctrl_id d \<noteq> exec_id d \<and> rt_active_executor (du_exec d) = None
      \<and> (rt_active_executor (du_ctrl d) = None \<or> rt_active_executor (du_ctrl d) = Some (exec_id d))
      \<and> (\<forall>msg \<in> set (actions_under_way d). \<exists>env. msg = Action env \<and> env_seq env \<le> rt_local_seq (du_ctrl d))
      \<and> answers_ordered d
      \<and> rt_last_state_update_seq (du_ctrl d) \<le> last_seq (ctrl_id d) (du_exec d)
      \<and> last_seq (ctrl_id d) (du_exec d) \<le> rt_local_seq (du_ctrl d))"

definition duo_inv :: "'d decimal_ops \<Rightarrow> 'd duo \<Rightarrow> bool" where
  "duo_inv D d = (duo_core d \<and> (du_fresh d \<longrightarrow> up_to_date D d))"

section \<open>One operation of a router\<close>

lemma send_cases:
  obtains (sent) tx where "rt_outgoing_tx r = Some tx"
      "send_message_to nid msg r = (True, r\<lparr>rt_outgoing_tx := Some (tx\<lparr>ch_buf := ch_buf tx @ [(nid, msg)]\<rparr>)\<rparr>)"
  | (dropped) "send_message_to nid msg r = (False, r)"
  by (rule send_message_to_cases [of r nid msg]) (auto simp: try_send_def split: if_splits)

lemma queued_append:
  "rt_outgoing_tx r = Some tx \<Longrightarrow> rt_outgoing_tx r' = Some (tx\<lparr>ch_buf := ch_buf tx @ [(n, msg)]\<rparr>) \<Longrightarrow>
     queued_for nid r' = queued_for nid r @ (if n = nid then [msg] else [])"
  by (simp add: queued_for_def)

lemma queued_pop:
  "rt_outgoing_tx r = Some tx \<Longrightarrow> ch_buf tx = (n, msg) # rest \<Longrightarrow>
     queued_for nid r = (if n = nid then [msg] else [])
       @ queued_for nid (r\<lparr>rt_outgoing_tx := Some (tx\<lparr>ch_buf := rest\<rparr>)\<rparr>)"
  by (simp add: queued_for_def)

lemma queued_same: "rt_outgoing_tx r' = rt_outgoing_tx r \<Longrightarrow> queued_for nid r' = queued_for nid r"
  by (simp add: queued_for_def)

lemma apply_result_frame [simp]:
  "rt_outgoing_tx (apply_result res r) = rt_outgoing_tx r"
  "rt_local_node_id (apply_result res r) = rt_local_node_id r"
  "rt_active_executor (apply_result res r) = rt_active_executor r"
  "rt_connected_peers (apply_result res r) = rt_connected_peers r"
  "rt_local_seq (apply_result res r) = rt_local_seq r"
  "rt_last_state_update_seq (apply_result res r) = rt_last_state_update_seq r"
  "rt_last_remote_seq (apply_result res r) = rt_last_remote_seq r"
  "rt_calculator (apply_result res r) = rt_calculator r"
  by (simp_all add: apply_result_def Let_def split: option.split)

lemma remote_target_cong:
  "rt_active_executor r' = rt_active_executor r \<Longrightarrow> rt_connected_peers r' = rt_connected_peers r \<Longrightarrow>
     remote_target r' = remote_target r"
  by (simp add: remote_target_def split: option.split)

lemma queue_frame [simp]:
  "agrees D (r\<lparr>rt_outgoing_tx := x\<rparr>) q = agrees D r q"
  "agrees D r (q\<lparr>rt_outgoing_tx := x\<rparr>) = agrees D r q"
  "depicts s (q\<lparr>rt_outgoing_tx := x\<rparr>) = depicts s q"
  "remote_target (r\<lparr>rt_outgoing_tx := x\<rparr>) = remote_target r"
  by (simp_all add: agrees_def depicts_def) (rule remote_target_cong; simp)

text \<open>What a local key leaves alone, whether it is executed here or not.\<close>

lemma executed_frame:
  assumes "execute_local D action r = Some r'"
  shows "rt_outgoing_tx r' = rt_outgoing_tx r" "rt_local_node_id r' = rt_local_node_id r"
    "rt_active_executor r' = rt_active_executor r" "rt_connected_peers r' = rt_connected_peers r"
    "rt_local_seq r' = rt_local_seq r" "rt_last_state_update_seq r' = rt_last_state_update_seq r"
    "rt_last_remote_seq r' = rt_last_remote_seq r"
  using assms by (auto simp: execute_local_def split: option.splits)

lemma key_cases:
  assumes "dispatch D now_ms action r = Some r'"
  obtains (refused) "r' = r"
  | (sent) env target tx where "remote_target r = Some target" "rt_outgoing_tx r = Some tx"
      "rt_outgoing_tx r' = Some (tx\<lparr>ch_buf := ch_buf tx @ [(target, Action env)]\<rparr>)"
      "env_seq env = rt_local_seq r'" "rt_local_seq r \<le> rt_local_seq r'"
      "rt_local_node_id r' = rt_local_node_id r" "remote_target r' = remote_target r"
      "rt_active_executor r' = rt_active_executor r"
      "rt_last_state_update_seq r' = rt_last_state_update_seq r" "rt_last_remote_seq r' = rt_last_remote_seq r"
  | (here) "remote_target r' = None" "rt_outgoing_tx r' = rt_outgoing_tx r" "rt_local_seq r \<le> rt_local_seq r'"
      "rt_local_node_id r' = rt_local_node_id r"
      "rt_last_state_update_seq r' \<le> rt_last_state_update_seq r" "rt_last_remote_seq r' = rt_last_remote_seq r"
      "rt_active_executor r' = None \<or> rt_active_executor r' = rt_active_executor r"
proof (cases "valid_action action")
  case False
  then show thesis using assms refused by (simp add: dispatch_def)
next
  case valid: True
  show thesis
  proof (cases "remote_target r")
    case None
    then have "execute_local D action r = Some r'"
      using assms valid by (simp add: dispatch_def)
    from executed_frame [OF this] None show thesis
      by (intro here) (auto simp: remote_target_def split: option.splits if_splits)
  next
    case (Some target)
    define r1 where "r1 = r\<lparr>rt_local_seq := u64_saturating_add (rt_local_seq r) 1\<rparr>"
    define env where "env = \<lparr>env_seq = rt_local_seq r1, env_source_id = rt_local_node_id r1,
        env_timestamp_ms = now_ms, env_action = action\<rparr>"
    have d: "(let (sent, r) = send_message_to target (Action env) r1
        in if sent then apply_speculative D action r
           else execute_local D action (clear_remote_executor_if target r)) = Some r'"
      using assms valid Some by (simp add: dispatch_def build_envelope_def Let_def r1_def env_def)
    have seq: "rt_local_seq r \<le> rt_local_seq r1"
      by (simp add: r1_def u64_saturating_add_ge)
    show thesis
    proof (rule send_cases [of r1 target "Action env"])
      fix tx
      assume tx: "rt_outgoing_tx r1 = Some tx"
        and s: "send_message_to target (Action env) r1 =
          (True, r1\<lparr>rt_outgoing_tx := Some (tx\<lparr>ch_buf := ch_buf tx @ [(target, Action env)]\<rparr>)\<rparr>)"
      obtain c res where "calc_dispatch D action (rt_calculator r1) = Some (c, res)"
        using d s by (auto simp: apply_speculative_def split: option.splits)
      then have r': "r' = apply_result res (r1\<lparr>rt_outgoing_tx := Some (tx\<lparr>ch_buf := ch_buf tx @ [(target, Action env)]\<rparr>),
          rt_calculator := c\<rparr>)"
        using d s by (simp add: apply_speculative_def)
      show thesis
        by (rule sent [of target tx env]) (use Some tx seq remote_target_cong [of r' r] in \<open>simp_all add: r' env_def r1_def\<close>)
    next
      assume s: "send_message_to target (Action env) r1 = (False, r1)"
      then have e: "execute_local D action (clear_remote_executor_if target r1) = Some r'"
        using d by simp
      have "rt_active_executor r = Some target"
        using Some by (auto simp: remote_target_def split: option.splits if_splits)
      then show thesis
        using executed_frame [OF e] seq
        by (intro here) (simp_all add: r1_def clear_remote_executor_if_def clear_remote_executor_def remote_target_def)
    qed
  qed
qed

text \<open>An action of another node: nothing happens, or it is executed and perhaps answered.\<close>

lemma action_cases:
  assumes "handle_remote_action D now now_ms sender env q = Some q'"
  obtains (rejected) w where "q' = q\<lparr>rt_remote_rate_windows := w\<rparr>"
  | (unanswered) "last_seq sender q < env_seq env" "last_seq sender q' = env_seq env"
      "\<And>nid. nid \<noteq> sender \<Longrightarrow> last_seq nid q' = last_seq nid q"
      "rt_outgoing_tx q' = rt_outgoing_tx q" "rt_local_node_id q' = rt_local_node_id q"
      "rt_active_executor q' = rt_active_executor q" "rt_connected_peers q' = rt_connected_peers q"
      "rt_local_seq q' = rt_local_seq q" "rt_last_state_update_seq q' = rt_last_state_update_seq q"
  | (answered) tx s where "last_seq sender q < env_seq env" "last_seq sender q' = env_seq env"
      "\<And>nid. nid \<noteq> sender \<Longrightarrow> last_seq nid q' = last_seq nid q"
      "rt_outgoing_tx q = Some tx" "rt_outgoing_tx q' = Some (tx\<lparr>ch_buf := ch_buf tx @ [(sender, StateUpdate s)]\<rparr>)"
      "sn_last_seq_applied s = env_seq env" "depicts s q'" "rt_local_node_id q' = rt_local_node_id q"
      "rt_active_executor q' = rt_active_executor q" "rt_connected_peers q' = rt_connected_peers q"
      "rt_local_seq q' = rt_local_seq q" "rt_last_state_update_seq q' = rt_last_state_update_seq q"
proof -
  obtain rej q1 where ad: "admit_remote_action now now_ms sender env q = (rej, q1)" by force
  show thesis
  proof (cases rej)
    case (Some reason)
    then obtain w where "q1 = q\<lparr>rt_remote_rate_windows := w\<rparr>"
      using admit_rejected [of now now_ms sender env q reason q1] ad by blast
    then show thesis
      using rejected assms ad Some by (auto simp: handle_remote_action_def)
  next
    case None
    then obtain w where q1: "q1 = q\<lparr>rt_remote_rate_windows := w,
        rt_last_remote_seq := hm_insert sender (env_seq env) (rt_last_remote_seq q),
        rt_active_controllers := hs_insert sender (rt_active_controllers q)\<rparr>"
      using admit_accepted [of now now_ms sender env q q1] ad by blast
    have newer: "last_seq sender q < env_seq env"
      using admit_iff [of now now_ms sender env q] ad None by (simp add: may_execute_def fresh_last_seq)
    obtain c res where c: "calc_dispatch D (env_action env) (rt_calculator q1) = Some (c, res)"
      using assms ad None by (auto simp: handle_remote_action_def split: option.splits)
    define q2 where "q2 = apply_result res (q1\<lparr>rt_calculator := c\<rparr>)"
    define s where "s = build_state_snapshot res (env_seq env)"
    have q': "q' = snd (send_message_to sender (StateUpdate s) q2)"
      using assms ad None c by (simp add: handle_remote_action_def Let_def q2_def s_def)
    have seqs: "last_seq sender q2 = env_seq env" "\<And>nid. nid \<noteq> sender \<Longrightarrow> last_seq nid q2 = last_seq nid q"
      by (simp_all add: q2_def q1 last_seq_def hm_gets)
    have frame: "rt_outgoing_tx q2 = rt_outgoing_tx q" "rt_local_node_id q2 = rt_local_node_id q"
      "rt_active_executor q2 = rt_active_executor q" "rt_connected_peers q2 = rt_connected_peers q"
      "rt_local_seq q2 = rt_local_seq q" "rt_last_state_update_seq q2 = rt_last_state_update_seq q"
      by (simp_all add: q2_def q1)
    have dep: "depicts s q2"
      by (simp add: depicts_def s_def q2_def display_of_def)
    show thesis
    proof (rule send_cases [of q2 sender "StateUpdate s"])
      fix tx
      assume tx: "rt_outgoing_tx q2 = Some tx" and s': "send_message_to sender (StateUpdate s) q2 =
          (True, q2\<lparr>rt_outgoing_tx := Some (tx\<lparr>ch_buf := ch_buf tx @ [(sender, StateUpdate s)]\<rparr>)\<rparr>)"
      have q'': "q' = q2\<lparr>rt_outgoing_tx := Some (tx\<lparr>ch_buf := ch_buf tx @ [(sender, StateUpdate s)]\<rparr>)\<rparr>"
        using q' s' by simp
      have same: "last_seq nid q' = last_seq nid q2" for nid
        unfolding q'' by (rule last_seq_cong) simp
      show thesis
        by (rule answered [of tx s])
          (use newer tx seqs frame dep same in \<open>simp_all add: q'' s_def depicts_def\<close>)
    next
      assume "send_message_to sender (StateUpdate s) q2 = (False, q2)"
      then show thesis
        using unanswered q' newer seqs frame by simp
    qed
  qed
qed

section \<open>Every step keeps the invariant\<close>

lemma core_ctrl:
  assumes "duo_core d" and "rt_local_node_id r = ctrl_id d"
    and "queued_for (exec_id d) r = queued_for (exec_id d) (du_ctrl d) @ map Action es"
    and "\<forall>env \<in> set es. env_seq env \<le> rt_local_seq r" and "rt_local_seq (du_ctrl d) \<le> rt_local_seq r"
    and "rt_last_state_update_seq r \<le> rt_last_state_update_seq (du_ctrl d)"
    and "rt_active_executor r = None \<or> rt_active_executor r = rt_active_executor (du_ctrl d)"
  shows "duo_core (d\<lparr>du_ctrl := r\<rparr>)" and "duo_core (d\<lparr>du_ctrl := r, du_fresh := b\<rparr>)"
proof -
  have "\<forall>msg \<in> set (du_there d @ queued_for (exec_id d) r). \<exists>env. msg = Action env \<and> env_seq env \<le> rt_local_seq r"
  proof
    fix msg
    assume "msg \<in> set (du_there d @ queued_for (exec_id d) r)"
    then have "msg \<in> set (actions_under_way d) \<or> msg \<in> Action ` set es"
      using assms(3) by (auto simp: actions_under_way_def)
    then show "\<exists>env. msg = Action env \<and> env_seq env \<le> rt_local_seq r"
      using assms(1,4,5) by (auto simp: duo_core_def intro: order_trans)
  qed
  moreover obtain ss where "answers_under_way d = map StateUpdate ss" "sorted_wrt (<) (map sn_last_seq_applied ss)"
      "\<forall>s \<in> set ss. rt_last_state_update_seq (du_ctrl d) < sn_last_seq_applied s
            \<and> sn_last_seq_applied s \<le> last_seq (ctrl_id d) (du_exec d)"
    using assms(1) by (auto simp: duo_core_def answers_ordered_def)
  then have "answers_ordered (d\<lparr>du_ctrl := r\<rparr>)"
    using assms(2,6) unfolding answers_ordered_def
    by (intro exI [of _ ss]) (auto simp: answers_under_way_def intro: le_less_trans)
  moreover have bounds: "rt_last_state_update_seq (du_ctrl d) \<le> last_seq (ctrl_id d) (du_exec d)"
      "last_seq (ctrl_id d) (du_exec d) \<le> rt_local_seq (du_ctrl d)"
      "rt_active_executor (du_ctrl d) = None \<or> rt_active_executor (du_ctrl d) = Some (exec_id d)"
    using assms(1) by (simp_all add: duo_core_def)
  moreover note order_trans [OF assms(6) bounds(1)] order_trans [OF bounds(2) assms(5)]
  moreover have "rt_active_executor r = None \<or> rt_active_executor r = Some (exec_id d)"
    using assms(7) bounds(3) by presburger
  ultimately show "duo_core (d\<lparr>du_ctrl := r\<rparr>)"
    using assms(1,2) by (simp add: duo_core_def actions_under_way_def)
  then show "duo_core (d\<lparr>du_ctrl := r, du_fresh := b\<rparr>)"
    by (simp add: duo_core_def actions_under_way_def answers_under_way_def answers_ordered_def)
qed

lemma core_exec:
  assumes "duo_core d" and "rt_local_node_id q = exec_id d" and "rt_active_executor q = None"
    and "queued_for (ctrl_id d) q = queued_for (ctrl_id d) (du_exec d)"
    and "last_seq (ctrl_id d) q = last_seq (ctrl_id d) (du_exec d)"
  shows "duo_core (d\<lparr>du_exec := q, du_fresh := b\<rparr>)"
  using assms by (simp add: duo_core_def actions_under_way_def answers_under_way_def answers_ordered_def)

text \<open>Changes by others, which count only if they change what is shown.\<close>

lemma exec_change_inv:
  assumes "duo_inv D d" and "rt_local_node_id q = exec_id d" and "rt_active_executor q = None"
    and "queued_for (ctrl_id d) q = queued_for (ctrl_id d) (du_exec d)"
    and "last_seq (ctrl_id d) q = last_seq (ctrl_id d) (du_exec d)"
  shows "duo_inv D (d\<lparr>du_exec := q, du_fresh := du_fresh d \<and> rt_display q = rt_display (du_exec d)\<rparr>)"
proof -
  have "up_to_date D (d\<lparr>du_exec := q, du_fresh := b\<rparr>)"
    if "up_to_date D d" "rt_display q = rt_display (du_exec d)" for b
  proof -
    let ?d = "d\<lparr>du_exec := q, du_fresh := b\<rparr>"
    have "answers_under_way ?d = answers_under_way d" "actions_under_way ?d = actions_under_way d"
      using assms(2,4) by (simp_all add: answers_under_way_def actions_under_way_def)
    moreover have "agrees D r q = agrees D r (du_exec d)" "depicts s q = depicts s (du_exec d)" for r s
      using that(2) by (simp_all add: agrees_def depicts_def)
    ultimately show ?thesis
      using that(1) assms(2) by (simp add: up_to_date_def)
  qed
  then show ?thesis
    using assms(1) core_exec [OF _ assms(2-5)] by (simp add: duo_inv_def)
qed

lemma ctrl_change_inv:
  assumes "duo_inv D d" and "rt_local_node_id r = ctrl_id d"
    and "queued_for (exec_id d) r = queued_for (exec_id d) (du_ctrl d)"
    and "rt_local_seq r = rt_local_seq (du_ctrl d)"
    and "rt_last_state_update_seq r = rt_last_state_update_seq (du_ctrl d)"
    and "rt_active_executor r = rt_active_executor (du_ctrl d)"
    and "rt_connected_peers r = rt_connected_peers (du_ctrl d)"
  shows "duo_inv D (d\<lparr>du_ctrl := r, du_fresh := du_fresh d \<and> rt_display r = rt_display (du_ctrl d)
      \<and> rt_calculator r = rt_calculator (du_ctrl d)\<rparr>)"
proof -
  have "up_to_date D (d\<lparr>du_ctrl := r, du_fresh := b\<rparr>)"
    if "up_to_date D d" "rt_display r = rt_display (du_ctrl d)" "rt_calculator r = rt_calculator (du_ctrl d)" for b
  proof -
    let ?d = "d\<lparr>du_ctrl := r, du_fresh := b\<rparr>"
    have "answers_under_way ?d = answers_under_way d" "actions_under_way ?d = actions_under_way d"
      using assms(2,3) by (simp_all add: answers_under_way_def actions_under_way_def)
    moreover have "agrees D r q = agrees D (du_ctrl d) q" for q
      using that(2,3) by (simp add: agrees_def)
    ultimately show ?thesis
      using that(1) remote_target_cong [OF assms(6,7)] by (simp add: up_to_date_def)
  qed
  moreover have "duo_core (d\<lparr>du_ctrl := r, du_fresh := b\<rparr>)" for b
    using assms by (intro core_ctrl(2) [where es = "[]"]) (simp_all add: duo_inv_def)
  ultimately show ?thesis
    using assms(1) by (simp add: duo_inv_def)
qed

lemma key_inv:
  assumes "duo_inv D d" and "dispatch D now_ms action (du_ctrl d) = Some r"
  shows "duo_inv D (d\<lparr>du_ctrl := r\<rparr>)"
  using assms(2)
proof (cases rule: key_cases)
  case refused
  then show ?thesis using assms(1) by simp
next
  case (sent env target tx)
  let ?es = "if target = exec_id d then [env] else []"
  have q: "queued_for (exec_id d) r = queued_for (exec_id d) (du_ctrl d) @ map Action ?es"
    using queued_append [OF sent(2,3)] by simp
  have "duo_core (d\<lparr>du_ctrl := r\<rparr>)"
    using assms(1) sent q by (intro core_ctrl(1) [where es = ?es]) (auto simp: duo_inv_def)
  moreover have "up_to_date D (d\<lparr>du_ctrl := r\<rparr>)" if "up_to_date D d"
    using that sent q by (auto simp: up_to_date_def actions_under_way_def answers_under_way_def)
  ultimately show ?thesis
    using assms(1) by (simp add: duo_inv_def)
next
  case here
  have "duo_core (d\<lparr>du_ctrl := r\<rparr>)"
    using assms(1) here queued_same by (intro core_ctrl(1) [where es = "[]"]) (auto simp: duo_inv_def)
  moreover have "up_to_date D (d\<lparr>du_ctrl := r\<rparr>)" if "up_to_date D d"
    using that here by (auto simp: up_to_date_def answers_under_way_def)
  ultimately show ?thesis
    using assms(1) by (simp add: duo_inv_def)
qed

lemma collect_inv:
  assumes "duo_inv D d" and "rt_outgoing_tx (du_ctrl d) = Some tx" and "ch_buf tx = (nid, msg) # rest"
  shows "duo_inv D (d\<lparr>du_ctrl := (du_ctrl d)\<lparr>rt_outgoing_tx := Some (tx\<lparr>ch_buf := rest\<rparr>)\<rparr>,
      du_there := du_there d @ (if nid = exec_id d then [msg] else [])\<rparr>)" (is "duo_inv D ?d")
proof -
  have "actions_under_way ?d = actions_under_way d"
    using queued_pop [OF assms(2,3), of "exec_id d"] by (simp add: actions_under_way_def)
  moreover have "answers_under_way ?d = answers_under_way d"
    by (simp add: answers_under_way_def)
  ultimately show ?thesis
    using assms(1) by (simp add: duo_inv_def duo_core_def up_to_date_def answers_ordered_def)
qed

lemma collect_back_inv:
  assumes "duo_inv D d" and "rt_outgoing_tx (du_exec d) = Some tx" and "ch_buf tx = (nid, msg) # rest"
  shows "duo_inv D (d\<lparr>du_exec := (du_exec d)\<lparr>rt_outgoing_tx := Some (tx\<lparr>ch_buf := rest\<rparr>)\<rparr>,
      du_back := du_back d @ (if nid = ctrl_id d then [msg] else [])\<rparr>)" (is "duo_inv D ?d")
proof -
  have "answers_under_way ?d = answers_under_way d"
    using queued_pop [OF assms(2,3), of "ctrl_id d"] by (simp add: answers_under_way_def)
  moreover have "actions_under_way ?d = actions_under_way d"
    by (simp add: actions_under_way_def)
  moreover have "last_seq nid (du_exec ?d) = last_seq nid (du_exec d)" for nid
    by (rule last_seq_cong) simp
  ultimately show ?thesis
    using assms(1) by (simp add: duo_inv_def duo_core_def up_to_date_def answers_ordered_def)
qed

lemma deliver_inv:
  assumes "duo_inv D d" and "du_there d = msg # rest"
    and "handle_network_message D now now_ms (ctrl_id d) msg (du_exec d) = Some q"
  shows "duo_inv D (d\<lparr>du_exec := q, du_there := rest, du_fresh := answered D (du_exec d) q\<rparr>)" (is "duo_inv D ?d")
proof -
  have core: "duo_core d" using assms(1) by (simp add: duo_inv_def)
  obtain env where env: "msg = Action env" "env_seq env \<le> rt_local_seq (du_ctrl d)"
    using core assms(2) by (auto simp: duo_core_def actions_under_way_def)
  then have act: "handle_remote_action D now now_ms (ctrl_id d) env (du_exec d) = Some q"
    using assms(3) by (simp add: handle_network_message_def)
  have rest: "\<forall>msg \<in> set (rest @ queued_for (exec_id d) (du_ctrl d)). \<exists>env. msg = Action env \<and> env_seq env \<le> rt_local_seq (du_ctrl d)"
    using core assms(2) by (simp add: duo_core_def actions_under_way_def)
  from act show ?thesis
  proof (cases rule: action_cases)
    case (rejected w)
    then have "\<not> answered D (du_exec d) q"
      by (auto simp: answered_def split: option.split)
    moreover have "queued_for nid q = queued_for nid (du_exec d)" "last_seq nid q = last_seq nid (du_exec d)" for nid
      using rejected by (auto intro: queued_same last_seq_cong)
    ultimately show ?thesis
      using core rest rejected
      by (simp add: duo_inv_def duo_core_def answers_ordered_def actions_under_way_def answers_under_way_def)
  next
    case unanswered
    then have "\<not> answered D (du_exec d) q"
      by (auto simp: answered_def split: option.split)
    moreover have same: "queued_for nid q = queued_for nid (du_exec d)" for nid
      using unanswered by (auto intro: queued_same)
    moreover obtain ss where "answers_under_way d = map StateUpdate ss" "sorted_wrt (<) (map sn_last_seq_applied ss)"
        "\<forall>s \<in> set ss. rt_last_state_update_seq (du_ctrl d) < sn_last_seq_applied s
            \<and> sn_last_seq_applied s \<le> last_seq (ctrl_id d) (du_exec d)"
      using core by (auto simp: duo_core_def answers_ordered_def)
    then have "answers_ordered ?d"
      unfolding answers_ordered_def using same unanswered(1,2)
      by (intro exI [of _ ss]) (auto simp: answers_under_way_def intro: order_trans less_imp_le)
    moreover have "rt_last_state_update_seq (du_ctrl d) \<le> env_seq env"
      using core unanswered(1) by (auto simp: duo_core_def)
    ultimately show ?thesis
      using core rest unanswered(2,5-9) env
      by (simp add: duo_inv_def duo_core_def actions_under_way_def)
  next
    case (answered tx s)
    have answers: "answers_under_way ?d = answers_under_way d @ [StateUpdate s]"
      using queued_append [OF answered(4,5), of "ctrl_id d"] by (simp add: answers_under_way_def)
    obtain ss where ss: "answers_under_way d = map StateUpdate ss" "sorted_wrt (<) (map sn_last_seq_applied ss)"
        "\<forall>s \<in> set ss. rt_last_state_update_seq (du_ctrl d) < sn_last_seq_applied s
            \<and> sn_last_seq_applied s \<le> last_seq (ctrl_id d) (du_exec d)"
      using core by (auto simp: duo_core_def answers_ordered_def)
    have "answers_ordered ?d"
      unfolding answers_ordered_def answers
      using ss answered(1,2,6) core
      by (intro exI [of _ "ss @ [s]"]) (fastforce simp: sorted_wrt_append duo_core_def)
    moreover have "up_to_date D ?d" if "Convergence.answered D (du_exec d) q"
    proof -
      have "valid_state_snapshot D s"
        using that answered(5) by (simp add: Convergence.answered_def)
      then show ?thesis
        unfolding up_to_date_def answers using answered(7) by simp
    qed
    ultimately show ?thesis
      using core rest answered(1,2,8,9) env
      by (auto simp: duo_inv_def duo_core_def actions_under_way_def)
  qed
qed

lemma state_frame [simp]:
  "rt_outgoing_tx (handle_remote_state D sender s r) = rt_outgoing_tx r"
  "rt_local_node_id (handle_remote_state D sender s r) = rt_local_node_id r"
  "rt_active_executor (handle_remote_state D sender s r) = rt_active_executor r"
  "rt_connected_peers (handle_remote_state D sender s r) = rt_connected_peers r"
  "rt_local_seq (handle_remote_state D sender s r) = rt_local_seq r"
  by (simp_all add: handle_remote_state_def Let_def)

lemma deliver_back_inv:
  assumes "duo_inv D d" and "du_back d = msg # rest"
    and "handle_network_message D now now_ms (exec_id d) msg (du_ctrl d) = Some r"
  shows "duo_inv D (d\<lparr>du_ctrl := r, du_back := rest\<rparr>)" (is "duo_inv D ?d")
proof -
  have core: "duo_core d" using assms(1) by (simp add: duo_inv_def)
  obtain s ss where ss: "answers_under_way d = map StateUpdate (s # ss)" "msg = StateUpdate s"
      "sorted_wrt (<) (map sn_last_seq_applied (s # ss))"
      "\<forall>s' \<in> set (s # ss). rt_last_state_update_seq (du_ctrl d) < sn_last_seq_applied s'
            \<and> sn_last_seq_applied s' \<le> last_seq (ctrl_id d) (du_exec d)"
    using core assms(2) by (fastforce simp: duo_core_def answers_ordered_def answers_under_way_def Cons_eq_map_conv)
  have r: "r = handle_remote_state D (exec_id d) s (du_ctrl d)"
    using assms(3) ss(2) by (simp add: handle_network_message_def)
  have answers: "answers_under_way ?d = map StateUpdate ss"
    using ss(1) assms(2) by (simp add: answers_under_way_def r)
  have there: "actions_under_way ?d = actions_under_way d"
    using queued_same [of r "du_ctrl d"] by (simp add: actions_under_way_def r)
  have upd: "rt_last_state_update_seq r = (if accepts_snapshot D (exec_id d) s (du_ctrl d) then sn_last_seq_applied s
      else rt_last_state_update_seq (du_ctrl d))"
    using controller_adopts(4) [of D "exec_id d" s "du_ctrl d"] by (auto simp: r handle_remote_state_def)
  have "answers_ordered ?d"
    unfolding answers_ordered_def answers using ss(3,4) upd r by (intro exI [of _ ss]) auto
  moreover have "up_to_date D ?d" if fresh: "up_to_date D d"
  proof (cases "ss = []")
    case True
    have valid: "valid_state_snapshot D s" "depicts s (du_exec d)"
      using fresh ss(1) True by (auto simp: up_to_date_def)
    have "agrees D r (du_exec d)" if "remote_target r = Some (exec_id d)"
    proof -
      have "rt_active_executor (du_ctrl d) = Some (exec_id d)" "exec_id d \<in> set (rt_connected_peers (du_ctrl d))"
        using that by (auto simp: remote_target_def r split: option.splits if_splits)
      moreover have "sn_last_seq_applied s \<le> rt_local_seq (du_ctrl d)"
          "rt_last_state_update_seq (du_ctrl d) < sn_last_seq_applied s"
        using ss(4) core by (auto simp: duo_core_def)
      ultimately have acc: "accepts_snapshot D (exec_id d) s (du_ctrl d)"
        using valid(1) by (auto simp: accepts_snapshot_def word_gt_0)
      show ?thesis
        using controller_adopts(1-3) [OF acc] valid(2) by (auto simp: agrees_def r depicts_def)
    qed
    then show ?thesis
      using True by (simp add: up_to_date_def answers)
  next
    case False
    then show ?thesis
      using fresh ss(1) by (simp add: up_to_date_def answers last_map)
  qed
  ultimately show ?thesis
    using assms(1) core ss(4) upd there by (auto simp: duo_inv_def duo_core_def r)
qed

lemma exec_key_inv:
  assumes "duo_inv D d" and "dispatch D now_ms action (du_exec d) = Some q"
  shows "duo_inv D (d\<lparr>du_exec := q, du_fresh := du_fresh d \<and> rt_display q = rt_display (du_exec d)\<rparr>)"
proof -
  have core: "duo_core d" using assms(1) by (simp add: duo_inv_def)
  then have none: "rt_active_executor (du_exec d) = None" by (simp add: duo_core_def)
  from assms(2) show ?thesis
  proof (cases rule: key_cases)
    case refused
    then show ?thesis using assms(1) none by (intro exec_change_inv) simp_all
  next
    case (sent env target tx)
    then show ?thesis using none by (simp add: remote_target_def)
  next
    case here
    then show ?thesis
      using assms(1) none by (intro exec_change_inv) (auto intro: queued_same last_seq_cong)
  qed
qed

lemma other_message_cases:
  assumes "handle_network_message D now now_ms sender msg q = Some q'"
  obtains env where "msg = Action env" "handle_remote_action D now now_ms sender env q = Some q'"
  | s where "msg = StateUpdate s" "q' = handle_remote_state D sender s q"
  | "q' = q"
  using assms by (cases msg) (auto simp: handle_network_message_def)

lemma exec_other_inv:
  assumes "duo_inv D d" and "other \<noteq> ctrl_id d"
    and "handle_network_message D now now_ms other msg (du_exec d) = Some q"
  shows "duo_inv D (d\<lparr>du_exec := q, du_fresh := du_fresh d \<and> rt_display q = rt_display (du_exec d)\<rparr>)"
proof -
  have core: "duo_core d" using assms(1) by (simp add: duo_inv_def)
  then have none: "rt_active_executor (du_exec d) = None" by (simp add: duo_core_def)
  from assms(3) show ?thesis
  proof (cases rule: other_message_cases)
    case (1 env)
    from 1(2) show ?thesis
    proof (cases rule: action_cases)
      case (rejected w)
      then show ?thesis
        using assms(1) none by (intro exec_change_inv) (auto intro: queued_same last_seq_cong)
    next
      case unanswered
      then show ?thesis
        using assms(1,2) none by (intro exec_change_inv) (auto intro: queued_same)
    next
      case (answered tx s)
      then show ?thesis
        using assms(1,2) none queued_append [OF answered(4,5), of "ctrl_id d"] by (intro exec_change_inv) auto
    qed
  next
    case (2 s)
    then have "q = du_exec d"
      using none by (simp add: handle_remote_state_def accepts_snapshot_def)
    then show ?thesis using assms(1) none by (intro exec_change_inv) simp_all
  next
    case 3
    then show ?thesis using assms(1) none by (intro exec_change_inv) simp_all
  qed
qed

lemma ctrl_other_inv:
  assumes "duo_inv D d" and "other \<noteq> exec_id d"
    and "handle_network_message D now now_ms other msg (du_ctrl d) = Some r"
  shows "duo_inv D (d\<lparr>du_ctrl := r, du_fresh := du_fresh d \<and> rt_display r = rt_display (du_ctrl d)
      \<and> rt_calculator r = rt_calculator (du_ctrl d)\<rparr>)"
proof -
  have core: "duo_core d" using assms(1) by (simp add: duo_inv_def)
  from assms(3) show ?thesis
  proof (cases rule: other_message_cases)
    case (1 env)
    from 1(2) show ?thesis
    proof (cases rule: action_cases)
      case (rejected w)
      then show ?thesis
        using assms(1) by (intro ctrl_change_inv) (auto intro: queued_same)
    next
      case unanswered
      then show ?thesis
        using assms(1,2) by (intro ctrl_change_inv) (auto intro: queued_same)
    next
      case (answered tx s)
      then show ?thesis
        using assms(1,2) queued_append [OF answered(4,5), of "exec_id d"]
        by (intro ctrl_change_inv) auto
    qed
  next
    case (2 s)
    then have "r = du_ctrl d"
      using core assms(2) by (auto simp: duo_core_def handle_remote_state_def accepts_snapshot_def)
    then show ?thesis using assms(1) by (intro ctrl_change_inv) simp_all
  next
    case 3
    then show ?thesis using assms(1) by (intro ctrl_change_inv) simp_all
  qed
qed

lemma duo_step_inv: "duo_step D d d' \<Longrightarrow> duo_inv D d \<Longrightarrow> duo_inv D d'"
  by (cases rule: duo_step.cases)
    (blast intro: key_inv collect_inv deliver_inv collect_back_inv deliver_back_inv exec_key_inv
      exec_other_inv ctrl_other_inv)+

lemma duo_run_inv: "duo_run D d0 d \<Longrightarrow> duo_inv D d0 \<Longrightarrow> duo_inv D d"
  by (induction rule: duo_run.induct) (auto intro: duo_step_inv)


section \<open>Convergence\<close>

text \<open>A controller and its executor when they start to talk to each other.\<close>

definition paired :: "'d duo \<Rightarrow> bool" where
  "paired d =
     (ctrl_id d \<noteq> exec_id d \<and> rt_active_executor (du_exec d) = None
      \<and> rt_active_executor (du_ctrl d) = Some (exec_id d)
      \<and> actions_under_way d = [] \<and> answers_under_way d = [] \<and> \<not> du_fresh d
      \<and> rt_last_state_update_seq (du_ctrl d) \<le> last_seq (ctrl_id d) (du_exec d)
      \<and> last_seq (ctrl_id d) (du_exec d) \<le> rt_local_seq (du_ctrl d))"

lemma paired_inv: "paired d \<Longrightarrow> duo_inv D d"
  by (simp add: paired_def duo_inv_def duo_core_def answers_ordered_def)

text \<open>
  C3: a controller and its executor converge. However key presses on both devices, messages of
  other devices and the collection and delivery of their own messages interleave, whatever is
  refused, dropped from a full queue or declined on the way: suppose that nothing is under way
  between them, the controller still uses this executor, and the last action of the controller
  that reached the executor was executed and answered with a valid snapshot (if it was rejected
  instead, the controller goes on showing its own prediction), and that since then neither a
  key pressed on the executor nor another device has changed what the executor shows, or what
  the controller shows and calculates with. Then both show the same display and history, and the
  controller rests on the shown value, or on the shown error.
\<close>

theorem controllers_converge:
  assumes "paired d0" and "duo_run D d0 d"
    and "actions_under_way d = []" and "answers_under_way d = []"
    and "remote_target (du_ctrl d) = Some (exec_id d)" and "du_fresh d"
  shows "rt_display (du_ctrl d) = rt_display (du_exec d)
    \<and> (if dp_is_error (rt_display (du_exec d)) then c_state (rt_calculator (du_ctrl d)) = Error
       else c_state (rt_calculator (du_ctrl d)) = Evaluated
         \<and> d_from_str D (dp_text (rt_display (du_exec d))) = Some (c_acc (rt_calculator (du_ctrl d))))"
  using duo_run_inv [OF assms(2) paired_inv [OF assms(1)]] assms(3-6)
  by (simp add: duo_inv_def up_to_date_def agrees_def)

definition demo_duo :: "int duo" where
  "demo_duo = \<lparr>du_ctrl = demo_sender, du_exec = demo_router, du_there = [], du_back = [], du_fresh = False\<rparr>"

lemma demo_duo_paired: "paired demo_duo"
  by (simp add: paired_def demo_duo_def actions_under_way_def answers_under_way_def queued_for_def chan_new_def)
    (simp add: demo_sender_def demo_router_def router_new_def last_seq_def hm_get_def)

text \<open>One key, from the controller to the executor and back, as a run.\<close>

theorem controllers_converge_witness:
  "\<exists>d. duo_run fx_ops demo_duo d \<and> rt_display (du_ctrl d) = rt_display (du_exec d)
     \<and> dp_text (rt_display (du_ctrl d)) = ''5''"
proof -
  let ?env = "demo_envelope 1 (A_Digit 5)"
  have "map_option (\<lambda>(c, res). (r_display res, valid_state_snapshot fx_ops (build_state_snapshot res 1)))
      (calc_dispatch fx_ops (A_Digit 5) (calc_new fx_ops)) = Some (''5'', True)"
    by code_simp
  then obtain c res where c: "calc_dispatch fx_ops (A_Digit 5) (calc_new fx_ops) = Some (c, res)"
      "r_display res = ''5''" "valid_state_snapshot fx_ops (build_state_snapshot res 1)"
    by auto
  have may: "may_execute 0 1000 7 ?env demo_router" and va: "valid_action (A_Digit 5)"
    by code_simp+
  let ?snap = "build_state_snapshot res 1"
  let ?full = "\<lambda>n msg. (chan_new 4)\<lparr>ch_buf := [(n, msg)]\<rparr>"
  obtain r where r: "dispatch fx_ops 1000 (A_Digit 5) demo_sender = Some r"
      "rt_outgoing_tx r = Some (?full 1 (Action ?env))" "remote_target r = Some 1" "rt_local_node_id r = 7"
      "rt_local_seq r = 1" "rt_last_state_update_seq r = 0" "rt_active_executor r = Some 1"
  proof -
    have env: "?env = \<lparr>env_seq = u64_saturating_add (rt_local_seq demo_sender) 1,
        env_source_id = rt_local_node_id demo_sender, env_timestamp_ms = 1000, env_action = A_Digit 5\<rparr>"
      by (simp add: demo_envelope_def u64_saturating_add_def)
    have "has_room (chan_new 4)" by (simp add: has_room_def chan_new_def)
    from dispatch_sent_state [OF va demo_sender_fields(2,4) this _ env, of fx_ops c res] c(1)
    obtain r where r: "dispatch fx_ops 1000 (A_Digit 5) demo_sender = Some r"
        "rt_outgoing_tx r = Some (?full 1 (Action ?env))" "rt_active_executor r = Some 1"
        "1 \<in> set (rt_connected_peers r)" "rt_local_seq r = 1" "rt_last_state_update_seq r = 0"
      by (auto simp: chan_new_def demo_envelope_def demo_sender_def router_new_def)
    moreover have "rt_local_node_id r = 7"
      using r(1) by (cases rule: key_cases) simp_all
    ultimately show thesis
      by (intro that) (simp_all add: remote_target_def)
  qed
  obtain q where q: "handle_remote_action fx_ops 0 1000 7 ?env demo_router = Some q"
      "rt_display q = display_of res" "rt_outgoing_tx q = Some (?full 7 (StateUpdate ?snap))"
    using executor_replies [OF may, of fx_ops c res "chan_new 4"] c(1) by (auto simp: chan_new_def demo_envelope_def)
  have q_id: "rt_local_node_id q = 1"
    using q(1) by (cases rule: action_cases) simp_all
  have acc: "accepts_snapshot fx_ops 1 ?snap r"
    using r c(3) by (auto simp: accepts_snapshot_def remote_target_def split: if_splits)
  let ?rs = "handle_remote_state fx_ops 1 ?snap (r\<lparr>rt_outgoing_tx := Some (chan_new 4)\<rparr>)"
  define d where "d = demo_duo\<lparr>du_ctrl := r\<rparr>"
  define d2 where "d2 = d\<lparr>du_ctrl := r\<lparr>rt_outgoing_tx := Some (chan_new 4)\<rparr>, du_there := [Action ?env]\<rparr>"
  define d3 where "d3 = d2\<lparr>du_exec := q, du_there := [], du_fresh := True\<rparr>"
  define d4 where "d4 = d3\<lparr>du_exec := q\<lparr>rt_outgoing_tx := Some (chan_new 4)\<rparr>, du_back := [StateUpdate ?snap]\<rparr>"
  define d5 where "d5 = d4\<lparr>du_ctrl := ?rs, du_back := []\<rparr>"
  have s1: "duo_step fx_ops demo_duo d"
    unfolding d_def by (rule duo_step.Key) (use r(1) in \<open>simp add: demo_duo_def\<close>)
  have s2: "duo_step fx_ops d d2"
    using duo_step.Collect [of d "?full 1 (Action ?env)" 1 "Action ?env" "[]" fx_ops] r(2)
    by (simp add: d2_def d_def demo_duo_def chan_new_def)
  have s3: "duo_step fx_ops d2 d3"
    using duo_step.Deliver [of d2 "Action ?env" "[]" fx_ops 0 1000 q] q r(4) c(3)
    by (simp add: d3_def d2_def d_def demo_duo_def handle_network_message_def Convergence.answered_def chan_new_def)
  have s4: "duo_step fx_ops d3 d4"
    using duo_step.CollectBack [of d3 "?full 7 (StateUpdate ?snap)" 7 "StateUpdate ?snap" "[]" fx_ops] q(3) r(4)
    by (simp add: d4_def d3_def d2_def d_def demo_duo_def chan_new_def)
  have s5: "duo_step fx_ops d4 d5"
    using duo_step.DeliverBack [of d4 "StateUpdate ?snap" "[]" fx_ops 0 1000 ?rs] q_id
    by (simp add: d5_def d4_def d3_def d2_def d_def demo_duo_def handle_network_message_def)
  have run: "duo_run fx_ops demo_duo d5"
    by (rule duo_run.step [OF _ s5], rule duo_run.step [OF _ s4], rule duo_run.step [OF _ s3],
        rule duo_run.step [OF _ s2], rule duo_run.step [OF _ s1], rule duo_run.start)
  have "remote_target ?rs = remote_target r"
    by (rule remote_target_cong) simp_all
  then have end_state: "actions_under_way d5 = []" "answers_under_way d5 = []"
      "remote_target (du_ctrl d5) = Some (exec_id d5)" "du_fresh d5"
    using r(3) q_id
    by (simp_all add: d5_def d4_def d3_def d2_def d_def demo_duo_def actions_under_way_def
        answers_under_way_def queued_for_def chan_new_def)
  have "rt_display (du_exec d5) = display_of res"
    using q(2) by (simp add: d5_def d4_def)
  then show ?thesis
    using controllers_converge [OF demo_duo_paired run end_state] run c(2)
    by (intro exI [of _ d5]) (simp add: display_of_def)
qed

end
