(* ===== verification/Storage.thy ===== *)
theory Storage
  imports Discovery
begin

text \<open>
  The device identity (\<open>src/app/identity.rs\<close>) and the persistent storage
  (\<open>src/app/storage.rs\<close>). The key files are what reading them gives; Ed25519 and SHA-256 are
  the parameter \<open>key_crypto\<close>. The database is its two tables; a redb transaction takes effect
  as a whole or not at all. Outcomes of file and database operations are arguments.
\<close>

section \<open>Device identity\<close>

definition SECRET_KEY_LENGTH :: nat where "SECRET_KEY_LENGTH = 32"
definition PUBLIC_KEY_LENGTH :: nat where "PUBLIC_KEY_LENGTH = 32"

record key_crypto =
  kc_verifying_key :: "bytes \<Rightarrow> bytes"
  kc_key_ok :: "bytes \<Rightarrow> bool"
  kc_sha256 :: "bytes \<Rightarrow> bytes"

record device_identity =
  di_secret_key :: bytes
  di_public_key :: bytes
  di_node_id :: node_id

datatype key_file = Absent | KeyBytes bytes

record key_dir =
  kd_key :: key_file
  kd_pub :: key_file

text \<open>
  What the system answers when a start looks at the files: whether the metadata of each can be
  read, without which \<open>Path::exists\<close> says no, and whether each can be read. A write that fails
  leaves some file behind.
\<close>

record look_io =
  lo_stat_key :: bool
  lo_stat_pub :: bool
  lo_read_key :: bool
  lo_read_pub :: bool

definition path_exists :: "bool \<Rightarrow> key_file \<Rightarrow> bool" where
  "path_exists stat file_now = (stat \<and> file_now \<noteq> Absent)"

record save_io =
  si_mkdir :: bool
  si_key :: "key_file option"
  si_pub :: "key_file option"

datatype identity_error =
    KeyUnreadable
  | KeyLength nat
  | PubLength nat
  | BadPublicKey
  | NotAPair
  | NotSaved

text \<open>\<open>random\<close>: the bytes of the system's random number generator; its failure is a panic.\<close>

definition identity_generate :: "key_crypto \<Rightarrow> bytes option \<Rightarrow> device_identity option" where
  "identity_generate K random =
     map_option (\<lambda>secret_key.
       let public_key = kc_verifying_key K secret_key
       in \<lparr>di_secret_key = secret_key, di_public_key = public_key,
           di_node_id = derive_node_id (kc_sha256 K) public_key\<rparr>) random"

definition identity_save :: "save_io \<Rightarrow> device_identity \<Rightarrow> key_dir \<Rightarrow> bool \<times> key_dir" where
  "identity_save io ident dir =
     (if \<not> si_mkdir io then (False, dir)
      else
        case si_key io of
          Some left_behind \<Rightarrow> (False, dir\<lparr>kd_key := left_behind\<rparr>)
        | None \<Rightarrow>
            let dir = dir\<lparr>kd_key := KeyBytes (di_secret_key ident)\<rparr>
            in case si_pub io of
                 Some left_behind \<Rightarrow> (False, dir\<lparr>kd_pub := left_behind\<rparr>)
               | None \<Rightarrow> (True, dir\<lparr>kd_pub := KeyBytes (di_public_key ident)\<rparr>))"

text \<open>Verifying keys are compared by their bytes.\<close>

definition load_or_create ::
    "key_crypto \<Rightarrow> bytes option \<Rightarrow> look_io \<Rightarrow> save_io \<Rightarrow> key_dir \<Rightarrow>
     ((identity_error + device_identity) \<times> key_dir) option" where
  "load_or_create K random look io dir =
     (if path_exists (lo_stat_key look) (kd_key dir) \<and> path_exists (lo_stat_pub look) (kd_pub dir)
      then
        case (kd_key dir, kd_pub dir) of
          (KeyBytes secret_bytes, KeyBytes public_bytes) \<Rightarrow>
            if \<not> lo_read_key look \<or> \<not> lo_read_pub look then Some (Inl KeyUnreadable, dir)
            else if length secret_bytes \<noteq> SECRET_KEY_LENGTH
            then Some (Inl (KeyLength (length secret_bytes)), dir)
            else if length public_bytes \<noteq> PUBLIC_KEY_LENGTH
            then Some (Inl (PubLength (length public_bytes)), dir)
            else if \<not> kc_key_ok K public_bytes then Some (Inl BadPublicKey, dir)
            else if kc_verifying_key K secret_bytes \<noteq> public_bytes then Some (Inl NotAPair, dir)
            else Some (Inr \<lparr>di_secret_key = secret_bytes, di_public_key = public_bytes,
                            di_node_id = derive_node_id (kc_sha256 K) public_bytes\<rparr>, dir)
        | _ \<Rightarrow> Some (Inl KeyUnreadable, dir)
      else
        case identity_generate K random of
          None \<Rightarrow> None
        | Some ident \<Rightarrow>
            (case identity_save io ident dir of
               (False, dir) \<Rightarrow> Some (Inl NotSaved, dir)
             | (True, dir) \<Rightarrow> Some (Inr ident, dir)))"

section \<open>The database and its migrations\<close>

definition SCHEMA_VERSION :: u32 where "SCHEMA_VERSION = 3"

definition to_le_bytes :: "u32 \<Rightarrow> bytes" where
  "to_le_bytes v = [ucast v, ucast (drop_bit 8 v), ucast (drop_bit 16 v), ucast (drop_bit 24 v)]"

definition from_le_bytes :: "bytes \<Rightarrow> u32" where
  "from_le_bytes bs = foldr (\<lambda>b acc. ucast b + 256 * acc) bs 0"

text \<open>A table that has never been opened in a write transaction is missing.\<close>

record database =
  db_metadata :: "(string, bytes) hash_map option"
  db_legacy :: "(bytes \<times> bytes) list option"

definition opened :: "'a list option \<Rightarrow> 'a list option" where
  "opened t = (case t of None \<Rightarrow> Some [] | Some rows \<Rightarrow> Some rows)"

definition init_schema :: "database \<Rightarrow> database" where
  "init_schema db =
     (let db = db\<lparr>db_metadata := opened (db_metadata db)\<rparr>
      in if db_metadata db = Some []
         then db\<lparr>db_metadata := Some (hm_insert ''schema_version'' (to_le_bytes SCHEMA_VERSION) []),
                 db_legacy := opened (db_legacy db)\<rparr>
         else db)"

definition stored_version :: "database \<Rightarrow> u32" where
  "stored_version db =
     (case Option.bind (db_metadata db) (\<lambda>m. hm_get m ''schema_version'') of
        Some v \<Rightarrow> if 4 \<le> length v then from_le_bytes (take 4 v) else 0
      | None \<Rightarrow> 0)"

definition set_metadata_bytes :: "string \<Rightarrow> bytes \<Rightarrow> database \<Rightarrow> database" where
  "set_metadata_bytes key val db =
     db\<lparr>db_metadata := map_option (hm_insert key val) (opened (db_metadata db))\<rparr>"

text \<open>Which of the transactions of a run go through.\<close>

record migration_io =
  mi_init :: bool
  mi_read :: bool
  mi_migrate :: bool
  mi_set :: bool

definition migrate :: "bool \<Rightarrow> u32 \<Rightarrow> database \<Rightarrow> bool \<times> database" where
  "migrate ok from_version db =
     (if from_version < 1
      then if ok then (True, db\<lparr>db_legacy := opened (db_legacy db)\<rparr>) else (False, db)
      else (True, db))"

definition run_migrations :: "migration_io \<Rightarrow> database \<Rightarrow> bool \<times> database" where
  "run_migrations io db =
     (if \<not> mi_init io then (False, db)
      else
        let db = init_schema db
        in if \<not> mi_read io then (False, db)
           else
             let current = stored_version db
             in if current < SCHEMA_VERSION
                then case migrate (mi_migrate io) current db of
                       (False, db) \<Rightarrow> (False, db)
                     | (True, db) \<Rightarrow>
                         if mi_set io
                         then (True, set_metadata_bytes ''schema_version'' (to_le_bytes SCHEMA_VERSION) db)
                         else (False, db)
                else (True, db))"

section \<open>Opening the storage\<close>

datatype storage_error = IdentityFailed identity_error | DirFailed | DatabaseFailed | MigrationFailed

record store =
  so_dir :: key_dir
  so_db :: database

record open_io =
  oi_random :: "bytes option"
  oi_look :: look_io
  oi_save :: save_io
  oi_mkdir :: bool
  oi_database :: bool
  oi_migrations :: migration_io

definition storage_open ::
    "key_crypto \<Rightarrow> open_io \<Rightarrow> store \<Rightarrow> ((storage_error + device_identity) \<times> store) option" where
  "storage_open K io st =
     (case load_or_create K (oi_random io) (oi_look io) (oi_save io) (so_dir st) of
        None \<Rightarrow> None
      | Some (Inl e, dir) \<Rightarrow> Some (Inl (IdentityFailed e), st\<lparr>so_dir := dir\<rparr>)
      | Some (Inr ident, dir) \<Rightarrow>
          (let st = st\<lparr>so_dir := dir\<rparr>
           in if \<not> oi_mkdir io then Some (Inl DirFailed, st)
              else if \<not> oi_database io then Some (Inl DatabaseFailed, st)
              else
                case run_migrations (oi_migrations io) (so_db st) of
                  (False, db) \<Rightarrow> Some (Inl MigrationFailed, st\<lparr>so_db := db\<rparr>)
                | (True, db) \<Rightarrow> Some (Inr ident, st\<lparr>so_db := db\<rparr>)))"

section \<open>The identity is stable\<close>

text \<open>The documented behaviour of Ed25519: every 32 bytes are a secret key with a valid public key.\<close>

definition ed25519_keys :: "key_crypto \<Rightarrow> bool" where
  "ed25519_keys K =
     (\<forall>sk. length sk = SECRET_KEY_LENGTH \<longrightarrow>
        length (kc_verifying_key K sk) = PUBLIC_KEY_LENGTH \<and> kc_key_ok K (kc_verifying_key K sk))"

definition identity_ok :: "key_crypto \<Rightarrow> device_identity \<Rightarrow> bool" where
  "identity_ok K ident =
     (length (di_secret_key ident) = SECRET_KEY_LENGTH
      \<and> di_public_key ident = kc_verifying_key K (di_secret_key ident)
      \<and> di_node_id ident = derive_node_id (kc_sha256 K) (di_public_key ident))"

definition random_ok :: "open_io \<Rightarrow> bool" where
  "random_ok io = (\<forall>bs. oi_random io = Some bs \<longrightarrow> length bs = SECRET_KEY_LENGTH)"

definition holds_identity :: "device_identity \<Rightarrow> key_dir \<Rightarrow> bool" where
  "holds_identity ident dir =
     (kd_key dir = KeyBytes (di_secret_key ident) \<and> kd_pub dir = KeyBytes (di_public_key ident))"

lemma loaded_identity:
  assumes "ed25519_keys K" and "\<forall>bs. random = Some bs \<longrightarrow> length bs = SECRET_KEY_LENGTH"
    and "load_or_create K random look io dir = Some (Inr ident, dir')"
  shows "identity_ok K ident \<and> holds_identity ident dir'"
  using assms
  by (auto simp: load_or_create_def path_exists_def identity_generate_def identity_save_def identity_ok_def holds_identity_def Let_def
      split: if_splits key_file.splits option.splits)

text \<open>The metadata of both key files can be read.\<close>

definition files_seen :: "open_io \<Rightarrow> bool" where
  "files_seen io = (lo_stat_key (oi_look io) \<and> lo_stat_pub (oi_look io))"

lemma load_again:
  assumes "ed25519_keys K" and "identity_ok K ident" and "holds_identity ident dir"
    and "lo_stat_key look \<and> lo_stat_pub look"
  shows "load_or_create K random look io dir
    = Some (if lo_read_key look \<and> lo_read_pub look then Inr ident else Inl KeyUnreadable, dir)"
  using assms by (simp add: load_or_create_def path_exists_def identity_ok_def holds_identity_def ed25519_keys_def)

lemma open_again:
  assumes "ed25519_keys K" and "identity_ok K ident" and "holds_identity ident (so_dir st)"
    and "files_seen io" and "storage_open K io st = Some (res, st')"
  shows "holds_identity ident (so_dir st') \<and> (\<forall>other. res = Inr other \<longrightarrow> other = ident)"
  using assms(3,5) load_again [OF assms(1-3), of "oi_look io" "oi_random io" "oi_save io"] assms(4)
  by (auto simp: storage_open_def files_seen_def Let_def split: if_splits prod.splits bool.splits)

lemma open_identity:
  assumes "ed25519_keys K" and "random_ok io" and "storage_open K io st = Some (Inr ident, st')"
  shows "identity_ok K ident \<and> holds_identity ident (so_dir st')"
proof -
  obtain dir where "load_or_create K (oi_random io) (oi_look io) (oi_save io) (so_dir st) = Some (Inr ident, dir)"
      "so_dir st' = dir"
    using assms(3) by (auto simp: storage_open_def Let_def split: option.splits sum.splits if_splits prod.splits bool.splits)
  then show ?thesis
    using loaded_identity [OF assms(1)] assms(2) by (auto simp: random_ok_def)
qed

text \<open>Starts of the program, each with its own outcomes; only the storage stays.\<close>

definition start_step :: "key_crypto \<Rightarrow> store \<Rightarrow> open_io \<Rightarrow> store option" where
  "start_step K st io = map_option snd (storage_open K io st)"

lemma start_step_keeps:
  assumes "ed25519_keys K \<and> identity_ok K ident \<and> holds_identity ident (so_dir st)"
    and "files_seen io" and "start_step K st io = Some st'"
  shows "ed25519_keys K \<and> identity_ok K ident \<and> holds_identity ident (so_dir st')"
proof -
  obtain res where "storage_open K io st = Some (res, st')"
    using assms(3) by (auto simp: start_step_def)
  then show ?thesis
    using assms(1,2) open_again [of K ident st io res st'] by blast
qed

interpretation im: event_machine "start_step K" files_seen
    "\<lambda>st. ed25519_keys K \<and> identity_ok K ident \<and> holds_identity ident (so_dir st)" for K ident
  by unfold_locales (rule start_step_keeps)

text \<open>
  C15: the identity is stable. After the first start that opens the storage, every later start
  that opens it has the same keys and node id, whatever else fails in the starts in between, as
  long as the metadata of the two key files can be read at each start (otherwise the identity is
  replaced, \<open>hidden_identity_replaced\<close> below); the node id is the one derived from the public
  key, which belongs to the secret key.
\<close>

theorem identity_stable:
  assumes "ed25519_keys K" and "random_ok io" and "storage_open K io st = Some (Inr ident, st1)"
    and "run_steps (start_step K) st1 starts = Some st2" and "storage_open K io' st2 = Some (Inr later, st3)"
    and "list_all files_seen (starts @ [io'])"
  shows "later = ident \<and> di_public_key ident = kc_verifying_key K (di_secret_key ident)
    \<and> di_node_id ident = derive_node_id (kc_sha256 K) (di_public_key ident)"
proof -
  have st1: "ed25519_keys K \<and> identity_ok K ident \<and> holds_identity ident (so_dir st1)"
    using open_identity [OF assms(1-3)] assms(1) by simp
  have "list_all files_seen starts" "files_seen io'"
    using assms(6) by simp_all
  then have "identity_ok K ident \<and> holds_identity ident (so_dir st2)"
    using im.run_inv [OF st1 _ assms(4)] by simp
  then show ?thesis
    using open_again [OF assms(1) _ _ \<open>files_seen io'\<close> assms(5)] by (auto simp: identity_ok_def)
qed

text \<open>
  A start that cannot read the metadata of a key file takes the identity for missing and
  overwrites both files with a new one.
\<close>

lemma hidden_identity_replaced:
  assumes "\<not> lo_stat_key look \<or> \<not> lo_stat_pub look" and "si_mkdir io" and "si_key io = None" and "si_pub io = None"
  shows "load_or_create K (Some sk) look io dir =
    Some (Inr \<lparr>di_secret_key = sk, di_public_key = kc_verifying_key K sk,
        di_node_id = derive_node_id (kc_sha256 K) (kc_verifying_key K sk)\<rparr>,
      \<lparr>kd_key = KeyBytes sk, kd_pub = KeyBytes (kc_verifying_key K sk)\<rparr>)"
  using assms by (cases dir) (auto simp: load_or_create_def path_exists_def identity_generate_def identity_save_def Let_def)

section \<open>Migrations are safe\<close>

abbreviation rows :: "'a list option \<Rightarrow> 'a list" where
  "rows t \<equiv> case t of None \<Rightarrow> [] | Some xs \<Rightarrow> xs"

lemma schema_bytes: "length (to_le_bytes v) = 4" "from_le_bytes (to_le_bytes SCHEMA_VERSION) = SCHEMA_VERSION"
  by (simp add: to_le_bytes_def) code_simp

text \<open>A database that some runs have worked on, against its first state.\<close>

definition migrating :: "database \<Rightarrow> database \<Rightarrow> bool" where
  "migrating db0 db =
     (rows (db_legacy db) = rows (db_legacy db0)
      \<and> (\<forall>k. k \<noteq> ''schema_version'' \<longrightarrow> hm_get (rows (db_metadata db)) k = hm_get (rows (db_metadata db0)) k)
      \<and> (stored_version db = stored_version db0 \<or> stored_version db = max SCHEMA_VERSION (stored_version db0)))"

lemma stored_insert:
  "stored_version (db\<lparr>db_metadata := Some (hm_insert ''schema_version'' (to_le_bytes SCHEMA_VERSION) m)\<rparr>) = SCHEMA_VERSION"
  by (simp add: stored_version_def hm_get_update schema_bytes)

lemma stored_legacy [simp]: "stored_version (db\<lparr>db_legacy := t\<rparr>) = stored_version db"
  by (simp add: stored_version_def)

lemma stored_empty: "rows (db_metadata db) = [] \<Longrightarrow> stored_version db = 0"
  by (auto simp: stored_version_def hm_get_def split: option.splits)

lemma rows_opened [simp]: "rows (opened t) = rows t" "opened t \<noteq> None"
  by (simp_all add: opened_def split: option.split)

lemma migrating_legacy: "migrating db0 db \<Longrightarrow> migrating db0 (db\<lparr>db_legacy := opened (db_legacy db)\<rparr>)"
  by (simp add: migrating_def)

lemma migrating_set:
  assumes "migrating db0 db" and "stored_version db < SCHEMA_VERSION" and "rows m = rows (db_metadata db)"
  shows "migrating db0 (db\<lparr>db_metadata := Some (hm_insert ''schema_version'' (to_le_bytes SCHEMA_VERSION) (rows m))\<rparr>)"
  using assms stored_insert [where db = db and m = "rows m"]
  by (auto simp: migrating_def hm_get_update max_def split: if_splits)

lemma init_schema_migrating:
  assumes "migrating db0 db"
  shows "migrating db0 (init_schema db)"
proof (cases "rows (db_metadata db) = []")
  case True
  then have "stored_version db = 0"
    by (rule stored_empty)
  then have "migrating db0 (db\<lparr>db_metadata := Some (hm_insert ''schema_version'' (to_le_bytes SCHEMA_VERSION) [])\<rparr>)"
    using migrating_set [OF assms, of "db_metadata db"] True by (simp add: SCHEMA_VERSION_def)
  from migrating_legacy [OF this] show ?thesis
    using True by (auto simp: init_schema_def opened_def split: option.splits)
next
  case False
  then obtain m where "db_metadata db = Some m" "m \<noteq> []"
    by (auto split: option.splits)
  then have "init_schema db = db"
    by (cases db) (simp add: init_schema_def opened_def)
  then show ?thesis using assms by simp
qed

lemma run_migrating:
  assumes "migrating db0 db" and "run_migrations io db = (ok, db')"
  shows "migrating db0 db' \<and> (ok \<longrightarrow> SCHEMA_VERSION \<le> stored_version db')"
proof -
  let ?db = "init_schema db"
  have init: "migrating db0 ?db"
    using init_schema_migrating [OF assms(1)] .
  let ?set = "\<lambda>d. d\<lparr>db_metadata := Some (hm_insert ''schema_version'' (to_le_bytes SCHEMA_VERSION) (rows (db_metadata d)))\<rparr>"
  have set: "set_metadata_bytes ''schema_version'' (to_le_bytes SCHEMA_VERSION) d = ?set d" for d
    by (simp add: set_metadata_bytes_def opened_def split: option.split)
  have step: "migrating db0 (?set d) \<and> stored_version (?set d) = SCHEMA_VERSION"
    if "migrating db0 d" "stored_version d < SCHEMA_VERSION" for d
    using migrating_set [OF that refl] stored_insert by simp
  show ?thesis
    using assms init step [OF init] step [OF migrating_legacy [OF init]] migrating_legacy [OF init]
    by (auto simp: run_migrations_def migrate_def Let_def set not_less split: if_splits prod.splits bool.splits)
qed

interpretation mm: event_machine "\<lambda>db io. Some (snd (run_migrations io db))" "\<lambda>_. True" "migrating db0" for db0
  by unfold_locales (metis option.inject prod.collapse run_migrating)

text \<open>
  C16: migrations keep what is there. Whatever runs were cut short before, at any point, a run
  that completes leaves the rows of the legacy table and every other metadata entry as they were
  before the first run, and the schema version is the current one, or a newer one that was there
  already; a further complete run changes nothing.
\<close>

theorem migrations_safe:
  assumes "run_steps (\<lambda>db io. Some (snd (run_migrations io db))) db0 interrupted = Some db1"
    and "run_migrations io db1 = (True, db2)"
  shows "rows (db_legacy db2) = rows (db_legacy db0)
    \<and> (\<forall>k. k \<noteq> ''schema_version'' \<longrightarrow> hm_get (rows (db_metadata db2)) k = hm_get (rows (db_metadata db0)) k)
    \<and> stored_version db2 = max SCHEMA_VERSION (stored_version db0)
    \<and> (\<forall>io'. snd (run_migrations io' db2) = db2)"
proof -
  have "migrating db0 db0"
    by (simp add: migrating_def)
  then have "migrating db0 db1"
    using mm.run_inv [of db0 db0 interrupted db1] assms(1) by (simp add: list_all_iff)
  from run_migrating [OF this assms(2)]
  have db2: "migrating db0 db2" "SCHEMA_VERSION \<le> stored_version db2" by simp_all
  have "rows (db_metadata db2) \<noteq> []"
  proof
    assume "rows (db_metadata db2) = []"
    then have "stored_version db2 = 0"
      by (rule stored_empty)
    then show False
      using db2(2) by (simp add: SCHEMA_VERSION_def)
  qed
  then obtain m where "db_metadata db2 = Some m" "m \<noteq> []"
    by (auto split: option.splits)
  then have "init_schema db2 = db2"
    by (cases db2) (simp add: init_schema_def opened_def)
  then have "snd (run_migrations io' db2) = db2" for io'
    using db2(2) by (simp add: run_migrations_def Let_def)
  then show ?thesis
    using db2 by (auto simp: migrating_def max_def)
qed

section \<open>At concrete inputs\<close>

definition demo_keys :: key_crypto where
  "demo_keys = \<lparr>kc_verifying_key = (\<lambda>sk. map (\<lambda>b. b + 1) sk), kc_key_ok = (\<lambda>_. True), kc_sha256 = (\<lambda>k. k)\<rparr>"

definition demo_old_db :: database where
  "demo_old_db = \<lparr>db_metadata = Some [(''schema_version'', to_le_bytes 2)], db_legacy = Some [([7], [255, 0])]\<rparr>"

definition demo_open :: "u8 \<Rightarrow> open_io" where
  "demo_open b = \<lparr>oi_random = Some (replicate 32 b),
     oi_look = \<lparr>lo_stat_key = True, lo_stat_pub = True, lo_read_key = True, lo_read_pub = True\<rparr>, oi_save = \<lparr>si_mkdir = True, si_key = None, si_pub = None\<rparr>,
     oi_mkdir = True, oi_database = True,
     oi_migrations = \<lparr>mi_init = True, mi_read = True, mi_migrate = True, mi_set = True\<rparr>\<rparr>"

definition demo_store :: store where
  "demo_store = \<lparr>so_dir = \<lparr>kd_key = Absent, kd_pub = Absent\<rparr>, so_db = demo_old_db\<rparr>"

lemma demo_ed25519: "ed25519_keys demo_keys"
  by (simp add: ed25519_keys_def demo_keys_def SECRET_KEY_LENGTH_def PUBLIC_KEY_LENGTH_def)

theorem identity_stable_witness:
  "\<exists>ident st1 st2 st3. storage_open demo_keys (demo_open 5) demo_store = Some (Inr ident, st1)
     \<and> run_steps (start_step demo_keys) st1 [(demo_open 6)\<lparr>oi_database := False\<rparr>] = Some st2
     \<and> storage_open demo_keys (demo_open 7) st2 = Some (Inr ident, st3)"
proof -
  let ?one = "the (storage_open demo_keys (demo_open 5) demo_store)"
  let ?two = "the (run_steps (start_step demo_keys) (snd ?one) [(demo_open 6)\<lparr>oi_database := False\<rparr>])"
  let ?three = "the (storage_open demo_keys (demo_open 7) ?two)"
  have run: "storage_open demo_keys (demo_open 5) demo_store = Some (Inr (projr (fst ?one)), snd ?one)"
      "run_steps (start_step demo_keys) (snd ?one) [(demo_open 6)\<lparr>oi_database := False\<rparr>] = Some ?two"
      "storage_open demo_keys (demo_open 7) ?two = Some (Inr (projr (fst ?three)), snd ?three)"
    by code_simp+
  have seen: "list_all files_seen ([(demo_open 6)\<lparr>oi_database := False\<rparr>] @ [demo_open 7])"
    by (simp add: files_seen_def demo_open_def)
  have "random_ok (demo_open 5)"
    by (simp add: random_ok_def demo_open_def SECRET_KEY_LENGTH_def)
  then show ?thesis
    using run identity_stable [OF demo_ed25519 _ run] seen
    by (intro exI [of _ "projr (fst ?one)"] exI [of _ "snd ?one"] exI [of _ ?two] exI [of _ "snd ?three"]) simp
qed

theorem migrations_safe_witness:
  "\<exists>db. run_migrations (oi_migrations (demo_open 0)) demo_old_db = (True, db)
     \<and> rows (db_legacy db) = [([7], [255, 0])] \<and> stored_version db = 3"
proof -
  have "fst (run_migrations (oi_migrations (demo_open 0)) demo_old_db)"
    by code_simp
  then obtain db where db: "run_migrations (oi_migrations (demo_open 0)) demo_old_db = (True, db)"
    by (metis prod.collapse)
  have "stored_version demo_old_db = 2"
    by code_simp
  then show ?thesis
    using migrations_safe [of demo_old_db "[]", OF _ db] db
    by (simp add: demo_old_db_def SCHEMA_VERSION_def max_def)
qed

end
