(* ===== verification/Transports.thy ===== *)
theory Transports
  imports Runtime
begin

text \<open>
  The discovery transports: mDNS (\<open>src/net/discovery/mdns.rs\<close>) and UDP multicast
  (\<open>src/net/discovery/multicast.rs\<close>). The mDNS daemon is the service it is given and the events
  it delivers; a socket is the datagrams that go in and out. The text of a UUID and bincode
  belong to external crates and are parameters.
\<close>

section \<open>mDNS\<close>

definition MDNS_SERVICE_TYPE :: string where "MDNS_SERVICE_TYPE = ''_vocalcalc._tcp.local.''"

record uuid_text =
  ut_hyphenated :: "node_id \<Rightarrow> string"
  ut_simple :: "node_id \<Rightarrow> string"
  ut_parse :: "string \<Rightarrow> node_id option"

text \<open>What is registered, and what the daemon of another node resolves it to.\<close>

record service_info =
  sv_type :: string
  sv_instance :: string
  sv_host :: string
  sv_ip :: u32
  sv_port :: u16
  sv_props :: "(string \<times> string) list"

record resolved_service =
  rs_property :: "string \<Rightarrow> string option"
  rs_fullname :: string
  rs_port :: u16
  rs_addresses :: "ip_addr list"
  rs_addresses_v4 :: "u32 list"

datatype service_event =
    ServiceResolved resolved_service
  | ServiceRemoved string string
  | OtherServiceEvent

definition short_node_id :: "uuid_text \<Rightarrow> node_id \<Rightarrow> string" where
  "short_node_id U nid = take 12 (ut_simple U nid)"

text \<open>\<open>accepted\<close>: \<open>ServiceInfo::new\<close> takes the values.\<close>

definition build_service_info ::
    "uuid_text \<Rightarrow> bool \<Rightarrow> node_id \<Rightarrow> string \<Rightarrow> u16 \<Rightarrow> string \<Rightarrow> string \<Rightarrow> u32 \<Rightarrow> string \<Rightarrow>
     string + service_info" where
  "build_service_info U accepted nid name session_port host instance_name ip fingerprint =
     (if \<not> valid_display_name name then Inl ''invalid mDNS display name''
      else if \<not> accepted then Inl ''service info''
      else Inr
        \<lparr>sv_type = MDNS_SERVICE_TYPE, sv_instance = instance_name, sv_host = host, sv_ip = ip,
         sv_port = session_port,
         sv_props =
           [(''node_id'', ut_hyphenated U nid), (''proto'', num_to_string (uint PROTOCOL_VERSION)),
            (''name'', name), (''cap_control'', ''1''), (''cap_execute'', ''1''),
            (''pkfp'', fingerprint)]\<rparr>)"

record mdns_discovery =
  md_registered :: "service_info list"
  md_local_node_id :: node_id
  md_host_name :: string
  md_instance_name :: string
  md_ip :: u32
  md_session_port :: u16
  md_public_key :: bytes

text \<open>\<open>daemon\<close>, \<open>registered\<close>: the answers of the daemon; \<open>local_ip\<close>: the result of \<open>local_ipv4\<close>.\<close>

definition mdns_new ::
    "uuid_text \<Rightarrow> (bytes \<Rightarrow> bytes) \<Rightarrow> bool \<Rightarrow> bool \<Rightarrow> bool \<Rightarrow> u32 option \<Rightarrow> node_id \<Rightarrow> string \<Rightarrow> u16 \<Rightarrow>
     bytes \<Rightarrow> string + mdns_discovery" where
  "mdns_new U sha256 daemon accepted registered local_ip nid name session_port public_key =
     (if \<not> daemon then Inl ''daemon''
      else
        let ip = (case local_ip of Some ip \<Rightarrow> ip | None \<Rightarrow> 0x7F000001);
            host_name = ''vocalcalc-'' @ short_node_id U nid @ ''.local.'';
            instance_name = ''vc-'' @ short_node_id U nid;
            fingerprint = public_key_fingerprint sha256 public_key
        in case build_service_info U accepted nid name session_port host_name instance_name ip fingerprint of
             Inl e \<Rightarrow> Inl e
           | Inr service \<Rightarrow>
               if \<not> registered then Inl ''register''
               else Inr
                 \<lparr>md_registered = [service], md_local_node_id = nid, md_host_name = host_name,
                  md_instance_name = instance_name, md_ip = ip, md_session_port = session_port,
                  md_public_key = public_key\<rparr>)"

definition mdns_update_display_name ::
    "uuid_text \<Rightarrow> (bytes \<Rightarrow> bytes) \<Rightarrow> bool \<Rightarrow> bool \<Rightarrow> string \<Rightarrow> mdns_discovery \<Rightarrow> bool \<times> mdns_discovery" where
  "mdns_update_display_name U sha256 accepted registered name md =
     (case build_service_info U accepted (md_local_node_id md) name (md_session_port md) (md_host_name md)
             (md_instance_name md) (md_ip md) (public_key_fingerprint sha256 (md_public_key md)) of
        Inl e \<Rightarrow> (False, md)
      | Inr service \<Rightarrow>
          if registered then (True, md\<lparr>md_registered := md_registered md @ [service]\<rparr>) else (False, md))"

definition is_ipv4 :: "ip_addr \<Rightarrow> bool" where
  "is_ipv4 ip = (case ip of IPv4 _ \<Rightarrow> True | IPv6 _ \<Rightarrow> False)"

definition choose_address :: "ip_addr list \<Rightarrow> ip_addr option" where
  "choose_address addrs =
     (case find (\<lambda>ip. is_ipv4 ip \<and> \<not> is_loopback ip) addrs of
        Some ip \<Rightarrow> Some ip
      | None \<Rightarrow> (case addrs of [] \<Rightarrow> None | ip # _ \<Rightarrow> Some ip))"

text \<open>What one resolved service contributes; \<open>None\<close> is a \<open>continue\<close> of the loop.\<close>

definition endpoint_of_service :: "uuid_text \<Rightarrow> node_id \<Rightarrow> resolved_service \<Rightarrow> discovery_endpoint option" where
  "endpoint_of_service U local_id service =
     (case Option.bind (rs_property service ''node_id'') (ut_parse U) of
        None \<Rightarrow> None
      | Some nid \<Rightarrow>
          if nid = local_id then None
          else
            let name = (case rs_property service ''name'' of Some n \<Rightarrow> n | None \<Rightarrow> rs_fullname service)
            in if \<not> valid_display_name name then None
               else if rs_port service = 0 then None
               else
                 let ip = (case choose_address (rs_addresses service) of
                             Some ip \<Rightarrow> ip
                           | None \<Rightarrow>
                               (case rs_addresses_v4 service of
                                  ip # _ \<Rightarrow> IPv4 ip
                                | [] \<Rightarrow> IPv4 0x7F000001))
                 in Some
                   \<lparr>de_node_id = nid, de_display_name = name, de_address = (ip, rs_port service),
                    de_session_port = rs_port service, de_transport_hint = Mdns,
                    de_public_key_fingerprint = rs_property service ''pkfp''\<rparr>)"

text \<open>
  The loop takes events off the daemon's channel until one of them is an endpoint; \<open>None\<close> is
  the error of a closed channel. The other result is what remains in the channel.
\<close>

fun recv_endpoint ::
    "uuid_text \<Rightarrow> node_id \<Rightarrow> service_event list \<Rightarrow> discovery_endpoint option \<times> service_event list" where
  "recv_endpoint U local_id [] = (None, [])"
| "recv_endpoint U local_id (ev # evs) =
     (case ev of
        ServiceResolved service \<Rightarrow>
          (case endpoint_of_service U local_id service of
             Some endpoint \<Rightarrow> (Some endpoint, evs)
           | None \<Rightarrow> recv_endpoint U local_id evs)
      | ServiceRemoved _ _ \<Rightarrow> recv_endpoint U local_id evs
      | OtherServiceEvent \<Rightarrow> recv_endpoint U local_id evs)"

section \<open>Multicast\<close>

definition MAX_DISCOVERY_DATAGRAM_LENGTH :: nat where "MAX_DISCOVERY_DATAGRAM_LENGTH = 1024"

text \<open>bincode with the limit of \<open>MAX_DISCOVERY_DATAGRAM_LENGTH\<close>.\<close>

record discovery_codec =
  dc_encode :: "discovery_message \<Rightarrow> bytes option"
  dc_decode :: "bytes \<Rightarrow> (discovery_message \<times> nat) option"

datatype discovery_error =
    EncodeFailed
  | SendFailed
  | InvalidMagic
  | BareMagic
  | UndecodableMessage
  | TrailingBytesIn nat nat
  | InvalidName
  | ReceiveFailed

text \<open>\<open>sends\<close>: the outcomes of the three sends. The result comes with the datagrams sent.\<close>

definition multicast_announce ::
    "discovery_codec \<Rightarrow> bool \<times> bool \<times> bool \<Rightarrow> discovery_message \<Rightarrow> (discovery_error + unit) \<times> bytes list" where
  "multicast_announce D sends msg =
     (case dc_encode D msg of
        None \<Rightarrow> (Inl EncodeFailed, [])
      | Some bincode_bytes \<Rightarrow>
          let payload = PROTOCOL_MAGIC @ bincode_bytes;
              outcomes = [fst sends, fst (snd sends), snd (snd sends)]
          in (if list_all id outcomes then Inr () else Inl SendFailed,
              map (\<lambda>_. payload) (filter id outcomes)))"

definition decode_discovery_message :: "discovery_codec \<Rightarrow> bytes \<Rightarrow> discovery_error + discovery_message" where
  "decode_discovery_message D bs =
     (case dc_decode D bs of
        None \<Rightarrow> Inl UndecodableMessage
      | Some (message, consumed) \<Rightarrow>
          if consumed \<noteq> length bs then Inl (TrailingBytesIn consumed (length bs))
          else
            let name_is_valid = (case message of
                  Announce _ name _ _ \<Rightarrow> valid_display_name name
                | AnnounceV2 _ name _ _ _ _ _ \<Rightarrow> valid_display_name name
                | Discover \<Rightarrow> True)
            in if \<not> name_is_valid then Inl InvalidName else Inr message)"

text \<open>
  The datagram is cut off at the size of the buffer, as the socket does; \<open>None\<close> is an error
  of the socket.
\<close>

definition multicast_recv ::
    "discovery_codec \<Rightarrow> (bytes \<times> socket_addr) option \<Rightarrow> discovery_error + discovery_message \<times> socket_addr" where
  "multicast_recv D received =
     (case received of
        None \<Rightarrow> Inl ReceiveFailed
      | Some (datagram, addr) \<Rightarrow>
          let buf = take MAX_DISCOVERY_DATAGRAM_LENGTH datagram
          in if length buf < length PROTOCOL_MAGIC \<or> take (length PROTOCOL_MAGIC) buf \<noteq> PROTOCOL_MAGIC
             then Inl InvalidMagic
             else if length buf = length PROTOCOL_MAGIC then Inl BareMagic
             else
               case decode_discovery_message D (drop (length PROTOCOL_MAGIC) buf) of
                 Inl e \<Rightarrow> Inl e
               | Inr msg \<Rightarrow> Inr (msg, addr))"

section \<open>A published service is found\<close>

text \<open>The documented behaviour of the uuid crate, and of DNS-SD: a resolved service has the
  properties, the port and the address it was registered with.\<close>

definition uuid_roundtrip :: "uuid_text \<Rightarrow> bool" where
  "uuid_roundtrip U = (\<forall>nid. ut_parse U (ut_hyphenated U nid) = Some nid)"

definition resolves :: "service_info \<Rightarrow> resolved_service \<Rightarrow> bool" where
  "resolves sv rs =
     (rs_property rs = map_of (sv_props sv) \<and> rs_port rs = sv_port sv \<and> rs_addresses rs = [IPv4 (sv_ip sv)])"

text \<open>The loop is the search for the first event that is an endpoint.\<close>

definition offered :: "uuid_text \<Rightarrow> node_id \<Rightarrow> service_event \<Rightarrow> discovery_endpoint option" where
  "offered U local_id ev =
     (case ev of ServiceResolved service \<Rightarrow> endpoint_of_service U local_id service | _ \<Rightarrow> None)"

lemma recv_endpoint_skip:
  "list_all (\<lambda>ev. offered U local_id ev = None) skipped \<Longrightarrow>
     recv_endpoint U local_id (skipped @ evs) = recv_endpoint U local_id evs"
  by (induction skipped) (auto simp: offered_def split: service_event.splits)

lemma recv_endpoint_first:
  "recv_endpoint U local_id evs =
     (case dropWhile (\<lambda>ev. offered U local_id ev = None) evs of
        [] \<Rightarrow> (None, [])
      | ev # rest \<Rightarrow> (offered U local_id ev, rest))"
  by (induction evs) (auto simp: offered_def split: service_event.splits option.splits)

lemma props_of_service:
  assumes "build_service_info U accepted nid name port host inst ip fp = Inr sv" and "resolves sv rs"
  shows "rs_property rs ''node_id'' = Some (ut_hyphenated U nid)" and "rs_property rs ''name'' = Some name"
    and "rs_property rs ''pkfp'' = Some fp" and "rs_port rs = port" and "rs_addresses rs = [IPv4 ip]"
    and "valid_display_name name"
  using assms by (auto simp: build_service_info_def resolves_def split: if_splits)

lemma choose_single: "choose_address [ip] = Some ip"
  by (simp add: choose_address_def)

text \<open>
  A node that is published over mDNS is found by its peers: whatever else the daemon
  delivers before, a peer takes up its node id, its name, its address and the port of its
  sessions, and the fingerprint with which the later handshake is compared; after a change
  of the name the new name. The node itself skips its own service.
\<close>

theorem mdns_published_found:
  assumes "uuid_roundtrip U" and "mdns_new U sha256 daemon accepted registered local_ip nid name port key = Inr md"
    and "port \<noteq> 0" and "peer \<noteq> nid"
    and "mdns_update_display_name U sha256 True True name' md = (True, md')"
    and "resolves (last (md_registered md)) old" and "resolves (last (md_registered md')) new"
    and "list_all (\<lambda>ev. offered U peer ev = None) noise"
  shows "fst (recv_endpoint U peer (noise @ ServiceResolved old # evs)) =
      Some \<lparr>de_node_id = nid, de_display_name = name, de_address = (IPv4 (md_ip md), port), de_session_port = port,
        de_transport_hint = Mdns, de_public_key_fingerprint = Some (public_key_fingerprint sha256 key)\<rparr>
    \<and> fst (recv_endpoint U peer (noise @ ServiceResolved new # evs)) =
      Some \<lparr>de_node_id = nid, de_display_name = name', de_address = (IPv4 (md_ip md), port), de_session_port = port,
        de_transport_hint = Mdns, de_public_key_fingerprint = Some (public_key_fingerprint sha256 key)\<rparr>
    \<and> recv_endpoint U nid (ServiceResolved new # evs) = recv_endpoint U nid evs"
proof -
  let ?fp = "public_key_fingerprint sha256 key"
  obtain host inst sv where sv: "build_service_info U accepted nid name port host inst (md_ip md) ?fp = Inr sv"
      "last (md_registered md) = sv" "md_host_name md = host" "md_instance_name md = inst"
      "md_local_node_id md = nid" "md_session_port md = port" "md_public_key md = key"
    using assms(2) by (auto simp: mdns_new_def Let_def split: if_splits sum.splits)
  obtain sv' where sv': "build_service_info U True nid name' port host inst (md_ip md) ?fp = Inr sv'"
      "last (md_registered md') = sv'"
    using assms(5) sv(3-7) by (auto simp: mdns_update_display_name_def split: sum.splits)
  have parse: "ut_parse U (ut_hyphenated U nid) = Some nid"
    using assms(1) by (simp add: uuid_roundtrip_def)
  note old = props_of_service [OF sv(1) assms(6) [unfolded sv(2)]]
    and new = props_of_service [OF sv'(1) assms(7) [unfolded sv'(2)]]
  show ?thesis
    using assms(3,4) parse old new
    by (auto simp: recv_endpoint_skip [OF assms(8)] endpoint_of_service_def choose_single Let_def)
qed

section \<open>Datagrams\<close>

text \<open>
  An announcement arrives as it was sent if it fits into a datagram, and a longer one is
  never taken for another message of the same content; a packet without the magic, with
  nothing after it, with trailing bytes or with an invalid name is refused. Each of the
  three copies that are sent is the whole message, and the announcement is reported as
  failed as soon as one of them could not be sent.
\<close>

lemma multicast_roundtrip:
  assumes "dc_encode D msg = Some bs" and "dc_decode D bs = Some (msg, length bs)" and "bs \<noteq> []"
    and "length bs + length PROTOCOL_MAGIC \<le> MAX_DISCOVERY_DATAGRAM_LENGTH"
    and "\<forall>nid name port caps. msg = Announce nid name port caps \<longrightarrow> valid_display_name name"
    and "\<forall>nid name port caps hint host sport. msg = AnnounceV2 nid name port caps hint host sport \<longrightarrow> valid_display_name name"
  shows "(\<forall>datagram \<in> set (snd (multicast_announce D sends msg)). multicast_recv D (Some (datagram, addr)) = Inr (msg, addr))
    \<and> (fst (multicast_announce D sends msg) = Inr () \<longleftrightarrow> length (snd (multicast_announce D sends msg)) = 3)
    \<and> (\<forall>junk received from_addr. multicast_recv D (Some (received, from_addr)) = Inr junk \<longrightarrow>
         (\<exists>rest. take MAX_DISCOVERY_DATAGRAM_LENGTH received = PROTOCOL_MAGIC @ rest \<and> rest \<noteq> []
            \<and> dc_decode D rest = Some (fst junk, length rest) \<and> snd junk = from_addr))"
proof -
  have whole: "multicast_recv D (Some (PROTOCOL_MAGIC @ bs, addr)) = Inr (msg, addr)"
    using assms by (auto simp: multicast_recv_def decode_discovery_message_def Let_def split: discovery_message.split)
  have copies: "snd (multicast_announce D sends msg) = map (\<lambda>_. PROTOCOL_MAGIC @ bs)
      (filter id [fst sends, fst (snd sends), snd (snd sends)])"
    using assms(1) by (simp add: multicast_announce_def Let_def)
  have "fst (multicast_announce D sends msg) = Inr () \<longleftrightarrow> length (snd (multicast_announce D sends msg)) = 3"
    unfolding copies using assms(1) by (auto simp: multicast_announce_def Let_def)
  moreover have "\<exists>rest. take MAX_DISCOVERY_DATAGRAM_LENGTH received = PROTOCOL_MAGIC @ rest \<and> rest \<noteq> []
      \<and> dc_decode D rest = Some (fst junk, length rest) \<and> snd junk = from_addr"
    if r: "multicast_recv D (Some (received, from_addr)) = Inr junk" for junk received from_addr
  proof -
    let ?buf = "take MAX_DISCOVERY_DATAGRAM_LENGTH received" and ?n = "length PROTOCOL_MAGIC"
    have "?buf = PROTOCOL_MAGIC @ drop ?n ?buf" "?n < length ?buf"
      using r append_take_drop_id [of ?n ?buf] by (auto simp: multicast_recv_def Let_def split: if_splits)
    moreover have "dc_decode D (drop ?n ?buf) = Some (fst junk, length (drop ?n ?buf)) \<and> snd junk = from_addr"
      using r by (auto simp: multicast_recv_def decode_discovery_message_def Let_def
          split: if_splits option.splits sum.splits prod.splits)
    ultimately show ?thesis
      by (intro exI [of _ "drop ?n ?buf"]) (auto simp del: drop_take)
  qed
  ultimately show ?thesis
    using whole copies by auto
qed

text \<open>A concrete text of a UUID, as short as the witnesses need it: a tally.\<close>

definition tally_text :: uuid_text where
  "tally_text = \<lparr>ut_hyphenated = (\<lambda>nid. replicate (unat nid) CHR ''0''), ut_simple = (\<lambda>nid. replicate (unat nid) CHR ''0''),
     ut_parse = (\<lambda>s. Some (of_nat (length s)))\<rparr>"

lemma tally_roundtrip: "uuid_roundtrip tally_text"
  by (simp add: uuid_roundtrip_def tally_text_def)

definition demo_mdns :: mdns_discovery where
  "demo_mdns = (case mdns_new tally_text id True True True (Some 0xC0A80002) 1 ''Desk'' 42420 [7] of Inr md \<Rightarrow> md)"

definition demo_renamed :: mdns_discovery where
  "demo_renamed = snd (mdns_update_display_name tally_text id True True ''Shelf'' demo_mdns)"

definition resolution :: "service_info \<Rightarrow> resolved_service" where
  "resolution sv = \<lparr>rs_property = map_of (sv_props sv), rs_fullname = sv_instance sv, rs_port = sv_port sv,
     rs_addresses = [IPv4 (sv_ip sv)], rs_addresses_v4 = []\<rparr>"

lemma resolution_resolves: "resolves sv (resolution sv)"
  by (simp add: resolves_def resolution_def)

lemma demo_names: "valid_display_name ''Desk''" "valid_display_name ''Shelf''"
  by code_simp+

lemma demo_mdns_new:
  "mdns_new tally_text id True True True (Some 0xC0A80002) 1 ''Desk'' 42420 [7] = Inr demo_mdns"
  unfolding demo_mdns_def
  by (simp add: mdns_new_def build_service_info_def demo_names Let_def)

lemma demo_mdns_update:
  "mdns_update_display_name tally_text id True True ''Shelf'' demo_mdns = (True, demo_renamed)"
  unfolding demo_renamed_def
  by (simp add: mdns_update_display_name_def build_service_info_def demo_names)

theorem mdns_published_found_witness:
  "fst (recv_endpoint tally_text 2 ([OtherServiceEvent, ServiceRemoved ''a'' ''b'']
      @ ServiceResolved (resolution (last (md_registered demo_renamed))) # [])) =
    Some \<lparr>de_node_id = 1, de_display_name = ''Shelf'', de_address = (IPv4 (md_ip demo_mdns), 42420),
      de_session_port = 42420, de_transport_hint = Mdns,
      de_public_key_fingerprint = Some (public_key_fingerprint id [7])\<rparr>"
  using mdns_published_found [OF tally_roundtrip demo_mdns_new _ _ demo_mdns_update
      resolution_resolves resolution_resolves, of 2 "[OtherServiceEvent, ServiceRemoved ''a'' ''b'']" "[]"]
  by (simp add: offered_def)

text \<open>
  C40: a node that announces itself by multicast is found: of the copies the network takes,
  each one gives every other node that receives it the endpoint of the sender (its id and
  name, the address the packet came from, and the announced session port), and the sender
  itself ignores it; the announcement succeeds exactly if all three copies were sent.
\<close>

theorem announced_node_found:
  assumes "dc_encode D (announce_msg ds name) = Some bs"
    and "dc_decode D bs = Some (announce_msg ds name, length bs)" and "bs \<noteq> []"
    and "length bs + length PROTOCOL_MAGIC \<le> MAX_DISCOVERY_DATAGRAM_LENGTH"
    and "valid_display_name name" and "ds_session_port ds \<noteq> 0"
  shows "(\<forall>datagram \<in> set (snd (multicast_announce D sends (announce_msg ds name))).
      \<exists>msg. multicast_recv D (Some (datagram, (ip, port))) = Inr (msg, (ip, port))
        \<and> endpoint_from_announcement ds' msg (ip, port) =
            (if ds_local_node_id ds' = ds_local_node_id ds then None
             else Some \<lparr>de_node_id = ds_local_node_id ds, de_display_name = name,
                de_address = (ip, ds_session_port ds), de_session_port = ds_session_port ds,
                de_transport_hint = Multicast, de_public_key_fingerprint = None\<rparr>))
    \<and> (fst (multicast_announce D sends (announce_msg ds name)) = Inr () \<longleftrightarrow>
         length (snd (multicast_announce D sends (announce_msg ds name))) = 3)"
proof -
  note sent = multicast_roundtrip [OF assms(1-4), of sends "(ip, port)"]
  have "endpoint_from_announcement ds' (announce_msg ds name) (ip, port) =
      (if ds_local_node_id ds' = ds_local_node_id ds then None
       else Some \<lparr>de_node_id = ds_local_node_id ds, de_display_name = name,
          de_address = (ip, ds_session_port ds), de_session_port = ds_session_port ds,
          de_transport_hint = Multicast, de_public_key_fingerprint = None\<rparr>)"
    using assms(5,6) by (simp add: endpoint_from_announcement_def announce_msg_def make_announce_def Let_def)
  then show ?thesis
    using sent assms(5) by (auto simp: announce_msg_def make_announce_def)
qed

definition tally_codec :: discovery_codec where
  "tally_codec = \<lparr>dc_encode = (\<lambda>_. Some [0]),
     dc_decode = (\<lambda>bs. if bs = [0] then Some (announce_msg (demo_service 1) ''Desk'', 1) else None)\<rparr>"

theorem announced_node_found_witness:
  "list_all (\<lambda>datagram. map_option de_address (case multicast_recv tally_codec (Some (datagram, (IPv4 1, 999))) of
        Inr (msg, from_addr) \<Rightarrow> endpoint_from_announcement (demo_service 2) msg from_addr
      | Inl _ \<Rightarrow> None) = Some (IPv4 1, 42420))
    (snd (multicast_announce tally_codec (True, False, True) (announce_msg (demo_service 1) ''Desk'')))"
  using announced_node_found [of tally_codec "demo_service 1" "''Desk''" "[0]" "(True, False, True)" "IPv4 1" 999
      "demo_service 2"] demo_names
  by (fastforce simp: list_all_iff tally_codec_def PROTOCOL_MAGIC_def MAX_DISCOVERY_DATAGRAM_LENGTH_def
      demo_service_def)

end
