(* ===== verification/Floats.thy ===== *)
theory Floats
  imports Format
begin

text \<open>
  Finite floating-point numbers as the rationals they denote. \<open>round_to p\<close> rounds a rational
  to \<open>p\<close> significant bits, ties to even; \<open>f64\<close> is the result of one operation of Rust's
  \<open>f64\<close>, \<open>f32\<close> of one of \<open>f32\<close>. Exponents are unbounded here, which is exact for the
  magnitudes the sound code computes with: nothing there comes near the ends of the exponent
  range. The sign of zero is not kept; no result of the code depends on it.
\<close>

section \<open>Rounding\<close>

definition exp2 :: "rat \<Rightarrow> int" where
  "exp2 x =
     (let (n, d) = quotient_of x; e = bit_len n - bit_len d
      in if x < 2 powi e then e - 1 else e)"

definition round_even :: "rat \<Rightarrow> int" where
  "round_even x = (let (n, d) = quotient_of x in round_div n d)"

definition round_pos :: "nat \<Rightarrow> rat \<Rightarrow> rat" where
  "round_pos p x =
     (let e = exp2 x - (int p - 1) in of_int (round_even (x * 2 powi (- e))) * 2 powi e)"

definition round_to :: "nat \<Rightarrow> rat \<Rightarrow> rat" where
  "round_to p x = (if x = 0 then 0 else if 0 < x then round_pos p x else - round_pos p (- x))"

abbreviation f64 :: "rat \<Rightarrow> rat" where "f64 \<equiv> round_to 53"
abbreviation f32 :: "rat \<Rightarrow> rat" where "f32 \<equiv> round_to 24"

text \<open>The conversions \<open>as usize\<close>, \<open>as u32\<close> and \<open>as i32\<close> trunc and saturate.\<close>

definition trunc :: "rat \<Rightarrow> int" where
  "trunc x = (if x < 0 then - \<lfloor>- x\<rfloor> else \<lfloor>x\<rfloor>)"

definition as_unsigned :: "nat \<Rightarrow> rat \<Rightarrow> nat" where
  "as_unsigned w x = min (2 ^ w - 1) (nat (trunc x))"

definition as_signed :: "nat \<Rightarrow> rat \<Rightarrow> int" where
  "as_signed w x = max (- (2 ^ (w - 1))) (min (2 ^ (w - 1) - 1) (trunc x))"

definition clamp :: "rat \<Rightarrow> rat \<Rightarrow> rat \<Rightarrow> rat" where
  "clamp lo hi x = (if x < lo then lo else if hi < x then hi else x)"

section \<open>Error and monotonicity\<close>

lemma bit_len_bounds: "0 < n \<Longrightarrow> 0 < bit_len n \<and> 2 ^ nat (bit_len n - 1) \<le> n \<and> n < 2 ^ nat (bit_len n)"
proof (induction n rule: bit_len.induct)
  case (1 n)
  have step: "bit_len n = 1 + bit_len (n div 2)"
    using 1 by (subst bit_len.simps) simp
  show ?case
  proof (cases "n = 1")
    case True
    then show ?thesis by (simp add: step bit_len.simps)
  next
    case False
    then have half: "0 < n div 2" using 1 by simp
    with 1 have IH: "0 < bit_len (n div 2)" "2 ^ nat (bit_len (n div 2) - 1) \<le> n div 2"
        "n div 2 < 2 ^ nat (bit_len (n div 2))"
      by auto
    have "nat (bit_len (n div 2)) = Suc (nat (bit_len (n div 2) - 1))"
      "nat (1 + bit_len (n div 2)) = Suc (nat (bit_len (n div 2)))"
      using IH(1) by simp_all
    then show ?thesis
      using IH by (simp add: step del: One_nat_def) linarith
  qed
qed

lemma exp2_bounds:
  assumes "0 < x"
  shows "2 powi (exp2 x) \<le> x" and "x < 2 powi (exp2 x + 1)"
proof -
  obtain n d where q: "quotient_of x = (n, d)" by (cases "quotient_of x")
  have d: "0 < d" and x: "x = of_int n / of_int d"
    using quotient_of_denom_pos [OF q] quotient_of_div [OF q] by simp_all
  then have n: "0 < n"
    using assms by (simp add: zero_less_divide_iff)
  have real: "(2 :: rat) powi (bit_len m - 1) \<le> of_int m \<and> (of_int m :: rat) < 2 powi bit_len m" if "0 < m" for m
  proof -
    have "2 ^ nat (bit_len m - 1) \<le> m" "m < 2 ^ nat (bit_len m)" "0 < bit_len m"
      using bit_len_bounds [OF that] by simp_all
    then have "of_int (2 ^ nat (bit_len m - 1)) \<le> (of_int m :: rat)" "(of_int m :: rat) < of_int (2 ^ nat (bit_len m))"
      by (simp_all only: of_int_le_iff of_int_less_iff)
    then show ?thesis
      using \<open>0 < bit_len m\<close> by (simp add: power_int_def)
  qed
  note bn = real [OF n] and bd = real [OF d]
  let ?e = "bit_len n - bit_len d"
  have "x < 2 powi bit_len n / 2 powi (bit_len d - 1)"
    unfolding x using bn bd d by (intro frac_less) (auto simp: n less_imp_le)
  also have "\<dots> = 2 powi (?e + 1)"
    by (simp add: power_int_diff power_int_add)
  finally have upper: "x < 2 powi (?e + 1)" .
  have "2 powi (?e - 1) = 2 powi (bit_len n - 1) / (2 :: rat) powi bit_len d"
    by (simp add: power_int_diff)
  also have "\<dots> \<le> x"
    unfolding x using bn bd d n by (intro frac_le) auto
  finally have lower: "2 powi (?e - 1) \<le> x" .
  show "2 powi (exp2 x) \<le> x" "x < 2 powi (exp2 x + 1)"
    using upper lower by (auto simp: exp2_def q Let_def)
qed

lemma round_div_near:
  assumes "0 < q"
  shows "2 * \<bar>round_div p q * q - p\<bar> \<le> q"
proof -
  let ?d = "p div q" and ?r = "p mod q"
  have r: "0 \<le> ?r" "?r < q" using assms by simp_all
  have p: "?d * q - p = - ?r" "(?d + 1) * q - p = q - ?r"
    using div_mult_mod_eq [of p q] by (simp_all add: algebra_simps)
  have "round_div p q = ?d \<and> 2 * ?r \<le> q \<or> round_div p q = ?d + 1 \<and> q \<le> 2 * ?r"
    by (auto simp: round_div_def Let_def)
  then show ?thesis
    using r p by auto
qed

lemma round_even_near: "\<bar>of_int (round_even x) - x\<bar> \<le> 1 / 2"
proof -
  obtain n d where q: "quotient_of x = (n, d)" by (cases "quotient_of x")
  have d: "0 < d" and x: "x = of_int n / of_int d"
    using quotient_of_denom_pos [OF q] quotient_of_div [OF q] by simp_all
  let ?m = "round_div n d"
  have "\<bar>of_int ?m - x\<bar> * of_int d = of_int \<bar>?m * d - n\<bar>"
    using d by (simp add: x abs_mult_pos' [symmetric] field_simps flip: abs_mult_pos)
  moreover have "2 * \<bar>?m * d - n\<bar> \<le> d"
    using round_div_near [OF d] .
  then have "2 * of_int \<bar>?m * d - n\<bar> \<le> (of_int d :: rat)"
    by (metis of_int_le_iff of_int_mult of_int_numeral)
  ultimately have "2 * \<bar>of_int ?m - x\<bar> * of_int d \<le> (of_int d :: rat)"
    by simp
  then show ?thesis
    using d by (simp add: round_even_def q)
qed

lemma round_even_mono: "x \<le> y \<Longrightarrow> round_even x \<le> round_even y"
proof (rule ccontr)
  assume le: "x \<le> y" and "\<not> round_even x \<le> round_even y"
  then have gap: "of_int (round_even y) + 1 \<le> (of_int (round_even x) :: rat)"
    by (metis of_int_1 of_int_add of_int_le_iff not_le zless_iff_Suc_zadd add1_zle_eq)
  then have "x = y"
    using round_even_near [of x] round_even_near [of y] le by (simp add: abs_le_iff)
  then show False using gap by simp
qed

lemma round_even_of_int [simp]: "round_even (of_int k) = k"
proof -
  have "\<bar>of_int (round_even (of_int k)) - (of_int k :: rat)\<bar> < 1"
    using round_even_near [of "of_int k"] by (rule le_less_trans) simp
  then have "(of_int \<bar>round_even (of_int k) - k\<bar> :: rat) < of_int 1"
    by simp
  then show ?thesis by (simp only: of_int_less_iff)
qed

lemma powi_cancel: "2 powi (- e) * (2 :: rat) powi e = 1"
  by (simp flip: power_int_add)

lemma powi_less_iff: "(2 :: rat) powi m < 2 powi n \<longleftrightarrow> m < n"
proof
  assume "(2 :: rat) powi m < 2 powi n"
  then show "m < n"
    using power_int_increasing [of n m "2 :: rat"] by (force simp: not_less)
qed (simp add: power_int_strict_increasing)

lemma round_pos_error:
  assumes "0 < x" and "0 < p"
  shows "\<bar>round_pos p x - x\<bar> \<le> x / 2 ^ p"
proof -
  let ?e = "exp2 x - (int p - 1)"
  let ?y = "x * 2 powi (- ?e)"
  have y: "?y * 2 powi ?e = x"
    by (simp only: mult.assoc powi_cancel mult_1_right)
  have "round_pos p x - x = (of_int (round_even ?y) - ?y) * 2 powi ?e"
    unfolding round_pos_def Let_def using y by (simp add: algebra_simps)
  then have "\<bar>round_pos p x - x\<bar> = \<bar>of_int (round_even ?y) - ?y\<bar> * 2 powi ?e"
    by (simp add: abs_mult)
  also have "\<dots> \<le> 1 / 2 * 2 powi ?e"
    using round_even_near by (intro mult_right_mono) auto
  also have "\<dots> = 2 powi (exp2 x) / 2 ^ p"
    by (simp add: power_int_diff power_int_add)
  also have "\<dots> \<le> x / 2 ^ p"
    using exp2_bounds(1) [OF assms(1)] by (intro divide_right_mono) auto
  finally show ?thesis .
qed

lemma round_pos_range:
  assumes "0 < x" and "0 < p"
  shows "2 powi exp2 x \<le> round_pos p x" and "round_pos p x \<le> 2 powi (exp2 x + 1)"
proof -
  let ?e = "exp2 x - (int p - 1)"
  let ?y = "x * 2 powi (- ?e)"
  have "exp2 x - ?e = int (p - 1)" "exp2 x + 1 - ?e = int p"
    using assms(2) by (simp_all add: of_nat_diff)
  then have "2 ^ (p - 1) = 2 powi exp2 x * (2 :: rat) powi (- ?e)" "2 ^ p = 2 powi (exp2 x + 1) * (2 :: rat) powi (- ?e)"
    by (simp_all only: power_int_add [symmetric] zero_neq_numeral [symmetric] simp_thms diff_conv_add_uminus [symmetric] power_int_of_nat)
  moreover have "2 powi exp2 x * 2 powi (- ?e) \<le> ?y" "?y \<le> 2 powi (exp2 x + 1) * 2 powi (- ?e)"
    using exp2_bounds [OF assms(1)] by (auto intro!: mult_right_mono)
  ultimately have "of_int (2 ^ (p - 1)) \<le> ?y" "?y \<le> of_int (2 ^ p)"
    by simp_all
  then have "2 ^ (p - 1) \<le> round_even ?y" "round_even ?y \<le> 2 ^ p"
    using round_even_mono by (metis round_even_of_int)+
  then have m: "(2 :: rat) ^ (p - 1) \<le> of_int (round_even ?y)" "of_int (round_even ?y) \<le> (2 :: rat) ^ p"
    by (metis of_int_le_iff of_int_numeral of_int_power)+
  have "2 powi exp2 x = 2 ^ (p - 1) * (2 :: rat) powi ?e" "2 powi (exp2 x + 1) = 2 ^ p * (2 :: rat) powi ?e"
    using assms(2) by (simp_all flip: power_int_of_nat power_int_add add: of_nat_diff)
  then show "2 powi exp2 x \<le> round_pos p x" "round_pos p x \<le> 2 powi (exp2 x + 1)"
    using m by (simp_all add: round_pos_def Let_def)
qed

lemma round_pos_mono:
  assumes "0 < x" and "x \<le> y" and "0 < p"
  shows "round_pos p x \<le> round_pos p y"
proof -
  have y: "0 < y" using assms by simp
  have "2 powi exp2 x \<le> x" "x \<le> y" "y < 2 powi (exp2 y + 1)"
    using exp2_bounds(1) [OF assms(1)] assms(2) exp2_bounds(2) [OF y] by simp_all
  then have "(2 :: rat) powi exp2 x < 2 powi (exp2 y + 1)"
    by (blast intro: le_less_trans order_trans)
  then have le: "exp2 x \<le> exp2 y"
    by (simp add: powi_less_iff)
  show ?thesis
  proof (cases "exp2 x = exp2 y")
    case True
    let ?e = "exp2 y - (int p - 1)"
    have "x * 2 powi (- ?e) \<le> y * 2 powi (- ?e)"
      using assms(2) by (intro mult_right_mono) auto
    then show ?thesis
      using True round_even_mono by (auto simp: round_pos_def Let_def)
  next
    case False
    have "round_pos p x \<le> 2 powi (exp2 x + 1)"
      using round_pos_range(2) [OF assms(1,3)] .
    also have "\<dots> \<le> 2 powi exp2 y"
      using le False by (intro power_int_increasing) auto
    also have "\<dots> \<le> round_pos p y"
      using round_pos_range(1) [OF y assms(3)] .
    finally show ?thesis .
  qed
qed

lemma round_pos_positive: "0 < x \<Longrightarrow> 0 < p \<Longrightarrow> 0 < round_pos p x"
  using round_pos_range(1) [of x p] zero_less_power_int [of "2 :: rat" "exp2 x"] by linarith

lemma round_to_minus: "round_to p (- x) = - round_to p x"
  by (simp add: round_to_def)

lemma round_to_error: "0 < p \<Longrightarrow> \<bar>round_to p x - x\<bar> \<le> \<bar>x\<bar> / 2 ^ p"
  using round_pos_error [of x p] round_pos_error [of "- x" p]
  by (auto simp: round_to_def abs_if split: if_splits)

lemma round_to_mono: "0 < p \<Longrightarrow> x \<le> y \<Longrightarrow> round_to p x \<le> round_to p y"
  using round_pos_mono [of x y p] round_pos_mono [of "- y" "- x" p]
    round_pos_positive [of y p] round_pos_positive [of "- x" p]
  by (auto simp: round_to_def)

lemma round_to_zero [simp]: "round_to p 0 = 0"
  by (simp add: round_to_def)

text \<open>Integers of at most \<open>p\<close> bits are exact.\<close>

lemma round_pos_int:
  assumes "0 < k" and "k < 2 ^ p"
  shows "round_pos p (of_int k) = of_int k"
proof -
  let ?e = "exp2 (of_int k) - (int p - 1)"
  have "(2 :: rat) powi exp2 (of_int k) \<le> of_int k"
    using exp2_bounds(1) [of "of_int k"] assms by simp
  also have "\<dots> < of_int (2 ^ p)"
    using assms(2) by (simp only: of_int_less_iff)
  also have "\<dots> = 2 powi int p" by simp
  finally have "?e \<le> 0"
    unfolding powi_less_iff by simp
  then have "of_int k * 2 powi (- ?e) = (of_int (k * 2 ^ nat (- ?e)) :: rat)"
    by (simp add: power_int_def)
  then have "round_pos p (of_int k) = of_int (k * 2 ^ nat (- ?e)) * 2 powi ?e"
    by (simp only: round_pos_def Let_def round_even_of_int)
  also have "\<dots> = of_int k * (2 powi (- ?e) * 2 powi ?e)"
    using \<open>?e \<le> 0\<close> by (simp add: power_int_def)
  also have "\<dots> = of_int k"
    by (simp only: powi_cancel mult_1_right)
  finally show ?thesis .
qed

lemma round_to_int: "\<bar>k\<bar> < 2 ^ p \<Longrightarrow> round_to p (of_int k) = of_int k"
  using round_pos_int [of k p] round_pos_int [of "- k" p] by (auto simp: round_to_def abs_if split: if_splits)

lemma f64_le_int: "x \<le> of_int k \<Longrightarrow> \<bar>k\<bar> < 2 ^ 53 \<Longrightarrow> f64 x \<le> of_int k"
  using round_to_mono [of 53 x "of_int k"] round_to_int [of k 53] by simp

lemma f64_ge_int: "of_int k \<le> x \<Longrightarrow> \<bar>k\<bar> < 2 ^ 53 \<Longrightarrow> of_int k \<le> f64 x"
  using round_to_mono [of 53 "of_int k" x] round_to_int [of k 53] by simp

lemma f64_abs_le_int: "\<bar>x\<bar> \<le> of_int k \<Longrightarrow> \<bar>k\<bar> < 2 ^ 53 \<Longrightarrow> \<bar>f64 x\<bar> \<le> of_int k"
  using f64_le_int [of x k] f64_ge_int [of "- k" x] by (simp add: abs_le_iff)

lemma exp2_eqI:
  fixes x :: rat
  assumes "2 powi (int p - 1) * 2 powi e \<le> x" and "x < 2 powi (int p) * 2 powi e"
  shows "0 < x" and "exp2 x - (int p - 1) = e"
proof -
  have "0 < (2 :: rat) powi (int p - 1) * 2 powi e" by simp
  then show x: "0 < x" using assms(1) by linarith
  have "2 powi (int p - 1 + e) < (2 :: rat) powi (exp2 x + 1)" "(2 :: rat) powi exp2 x < 2 powi (int p + e)"
    using assms(1,2) exp2_bounds [OF x] by (simp_all add: power_int_add)
  then show "exp2 x - (int p - 1) = e"
    by (simp add: powi_less_iff)
qed

text \<open>The rounding of a constant, given its significand and exponent.\<close>

lemma round_to_eqI:
  assumes "2 powi (int p - 1) * 2 powi e \<le> x" and "x < 2 powi (int p) * 2 powi e"
    and "\<bar>x - of_int m * 2 powi e\<bar> < 2 powi e / 2"
  shows "round_to p x = of_int m * 2 powi e"
proof -
  note x = exp2_eqI(1) [OF assms(1,2)] and e = exp2_eqI(2) [OF assms(1,2)]
  let ?y = "x * 2 powi (- e)"
  have "?y - of_int m = (x - of_int m * 2 powi e) * 2 powi (- e)"
    using powi_cancel [of e] by (simp add: algebra_simps)
  then have "\<bar>?y - of_int m\<bar> = \<bar>x - of_int m * 2 powi e\<bar> * 2 powi (- e)"
    by (simp add: abs_mult)
  also have "\<dots> < 2 powi e / 2 * 2 powi (- e)"
    using assms(3) by (intro mult_strict_right_mono) auto
  also have "\<dots> = 1 / 2"
    using powi_cancel [of e] by (simp add: mult.commute)
  finally have "\<bar>?y - of_int m\<bar> < 1 / 2" .
  moreover have "\<bar>of_int (round_even ?y) - ?y\<bar> \<le> 1 / 2"
    by (rule round_even_near)
  ultimately have "\<bar>(of_int (round_even ?y) :: rat) - of_int m\<bar> < 1"
    by linarith
  then have "(of_int \<bar>round_even ?y - m\<bar> :: rat) < of_int 1"
    by simp
  then have "round_even ?y = m"
    by (simp only: of_int_less_iff)
  then show ?thesis
    using x by (simp add: round_to_def round_pos_def Let_def e)
qed

text \<open>The same for a tie, which goes to the even significand.\<close>

lemma round_even_half:
  assumes "odd k"
  shows "round_even (of_int k / 2) = round_div k 2"
proof -
  have "coprime k 2" using assms by simp
  then have "quotient_of (Fract k 2) = (k, 2)"
    by (simp only: quotient_of_Fract normalize_stable zero_less_numeral)
  then show ?thesis
    by (simp add: round_even_def Fract_of_int_quotient)
qed

lemma round_to_tie:
  assumes "2 powi (int p - 1) * 2 powi e \<le> of_int k / 2 * (2 :: rat) powi e"
    and "of_int k / 2 * 2 powi e < 2 powi (int p) * (2 :: rat) powi e" and "odd k"
  shows "round_to p (of_int k / 2 * 2 powi e) = of_int (round_div k 2) * 2 powi e"
proof -
  let ?x = "of_int k / 2 * (2 :: rat) powi e"
  note x = exp2_eqI(1) [OF assms(1,2)] and e = exp2_eqI(2) [OF assms(1,2)]
  have "?x * 2 powi (- e) = of_int k / 2"
    using powi_cancel [of e] by (simp add: mult.commute)
  then have "round_pos p ?x = of_int (round_div k 2) * 2 powi e"
    using round_even_half [OF assms(3)] by (simp only: round_pos_def Let_def e)
  then show ?thesis
    using x assms(3) by (auto simp: round_to_def)
qed

section \<open>Truncation\<close>

lemma trunc_of_int [simp]: "trunc (of_int k) = k"
  by (simp add: trunc_def)

lemma trunc_near: "\<bar>of_int (trunc x) - x\<bar> < 1"
proof (cases "x < 0")
  case True
  have "of_int \<lfloor>- x\<rfloor> \<le> - x" "- x < of_int \<lfloor>- x\<rfloor> + 1" by linarith+
  then show ?thesis using True unfolding trunc_def abs_less_iff by simp linarith
next
  case False
  have "of_int \<lfloor>x\<rfloor> \<le> x" "x < of_int \<lfloor>x\<rfloor> + 1" by linarith+
  then show ?thesis using False unfolding trunc_def abs_less_iff by simp linarith
qed

lemma trunc_mono: "x \<le> y \<Longrightarrow> trunc x \<le> trunc y"
  by (auto simp: trunc_def floor_mono intro: order_trans [of _ 0])

lemma clamp_range: "lo \<le> hi \<Longrightarrow> lo \<le> clamp lo hi x \<and> clamp lo hi x \<le> hi"
  by (simp add: clamp_def)

lemma clamp_id: "lo \<le> x \<Longrightarrow> x \<le> hi \<Longrightarrow> clamp lo hi x = x"
  by (simp add: clamp_def)

end
