(* ===== verification/Convert.thy ===== *)
theory Convert
  imports Wav Floats "HOL-Library.While_Combinator"
begin

unbundle bit_operations_syntax

text \<open>
  \<open>float_wav_to_pcm24\<close> of \<open>src/audio/convert.rs\<close>: the conversion of the 32-bit float
  recordings to 24-bit PCM with triangular dither, computed on the exact values of the
  floating-point operations. The chunk loop is a \<open>while\<close> loop whose end is not built in: a loop
  that does not return is the outcome \<open>Diverges\<close>, a checked overflow \<open>Panics\<close>.
\<close>

datatype 'a run = Diverges | Panics | Returns 'a

section \<open>Single-precision samples\<close>

datatype f32_value = Finite rat | Infinite bool | NotANumber

definition f32_from_bits :: "nat \<Rightarrow> f32_value" where
  "f32_from_bits b =
     (let negative = (2 ^ 31 \<le> b); ex = b div 2 ^ 23 mod 2 ^ 8; frac = b mod 2 ^ 23;
          magnitude = (if ex = 0 then of_nat frac * 2 powi (- 149)
                       else of_nat (2 ^ 23 + frac) * 2 powi (int ex - 150))
      in if ex = 255 then (if frac = 0 then Infinite negative else NotANumber)
         else Finite (if negative then - magnitude else magnitude))"

section \<open>Dither and quantisation\<close>

definition lcg :: "u64 \<Rightarrow> u64" where
  "lcg rng = rng * 6364136223846793005 + 1442695040888963407"

definition uniform :: "u64 \<Rightarrow> rat" where
  "uniform rng = f64 (f64 (of_nat (unat (drop_bit 33 rng))) / 2 ^ 31)"

definition tpdf_dither :: "rat \<Rightarrow> rat \<Rightarrow> rat" where
  "tpdf_dither r1 r2 = f64 (f64 (f64 (r1 + r2) - 1) * f64 (2 / 16777215))"

definition quantize :: "f32_value \<Rightarrow> rat \<Rightarrow> int" where
  "quantize f dither =
     (case f of
        Finite x \<Rightarrow> as_signed 32 (clamp (- 8388608) 8388607 (f64 (f64 (x + dither) * 8388607)))
      | Infinite negative \<Rightarrow> as_signed 32 (if negative then - 8388608 else 8388607)
      | NotANumber \<Rightarrow> 0)"

text \<open>The three bytes that are pushed: \<open>val as u8\<close>, \<open>(val >> 8) as u8\<close>, \<open>(val >> 16) as u8\<close>.\<close>

definition le24 :: "int \<Rightarrow> bytes" where
  "le24 val = [word_of_int val, word_of_int (val div 2 ^ 8), word_of_int (val div 2 ^ 16)]"

fun convert_samples :: "bytes \<Rightarrow> nat \<Rightarrow> u64 \<Rightarrow> bytes" where
  "convert_samples float_data 0 rng = []"
| "convert_samples float_data (Suc n) rng =
     (let f = f32_from_bits (un_le (take 4 float_data));
          rng = lcg rng; r1 = uniform rng;
          rng = lcg rng; r2 = uniform rng
      in le24 (quantize f (tpdf_dither r1 r2)) @ convert_samples (drop 4 float_data) n rng)"

section \<open>The conversion\<close>

record float_scan =
  fs_audio_format :: nat
  fs_channels :: nat
  fs_sample_rate :: nat
  fs_data_start :: nat
  fs_data_size :: nat
  fs_pos :: nat
  fs_break :: bool

definition scan_chunk :: "bytes \<Rightarrow> float_scan \<Rightarrow> float_scan" where
  "scan_chunk input s =
     (let pos = fs_pos s;
          chunk_id = slice input pos 4;
          cs = un_le (slice input (pos + 4) 4);
          cstart = pos + 8;
          s = (if chunk_id = ascii_bytes ''fmt '' \<and> cstart + 16 \<le> length input then
                 s\<lparr>fs_audio_format := un_le (slice input cstart 2),
                   fs_channels := un_le (slice input (cstart + 2) 2),
                   fs_sample_rate := un_le (slice input (cstart + 4) 4)\<rparr>
               else if chunk_id = ascii_bytes ''data'' then
                 s\<lparr>fs_data_start := cstart, fs_data_size := cs\<rparr>
               else s)
      in s\<lparr>fs_pos := pos + 8 + cs, fs_break := (cs = 0)\<rparr>)"

definition scanning :: "bytes \<Rightarrow> float_scan \<Rightarrow> bool" where
  "scanning input s = (\<not> fs_break s \<and> fs_pos s + 8 \<le> length input)"

definition scan_start :: float_scan where
  "scan_start = \<lparr>fs_audio_format = 0, fs_channels = 1, fs_sample_rate = 44100, fs_data_start = 0,
     fs_data_size = 0, fs_pos = 12, fs_break = False\<rparr>"

definition pcm24_file :: "float_scan \<Rightarrow> bytes \<Rightarrow> bytes option run" where
  "pcm24_file s pcm =
     (let nd = length pcm mod 2 ^ 32
      in case Option.bind (checked 32 (fs_sample_rate s * fs_channels s)) (\<lambda>n. checked 32 (n * 3)) of
           None \<Rightarrow> Panics
         | Some br \<Rightarrow>
             (case checked 16 (fs_channels s * 3) of
                None \<Rightarrow> Panics
              | Some ba \<Rightarrow>
                  (case checked 32 (36 + nd) of
                     None \<Rightarrow> Panics
                   | Some file_size \<Rightarrow>
                       Returns (Some (wav_header file_size 1 (fs_channels s) (fs_sample_rate s) br ba 24 nd @ pcm)))))"

definition float_wav_to_pcm24 :: "bytes \<Rightarrow> bytes option run" where
  "float_wav_to_pcm24 input =
     (if length input < 44 \<or> slice input 0 4 \<noteq> ascii_bytes ''RIFF''
         \<or> slice input 8 4 \<noteq> ascii_bytes ''WAVE'' then Returns None
      else
        case while_option (scanning input) (scan_chunk input) scan_start of
          None \<Rightarrow> Diverges
        | Some s \<Rightarrow>
            if fs_audio_format s \<noteq> 3 \<or> fs_data_start s = 0 \<or> fs_data_size s = 0
               \<or> fs_data_start s + fs_data_size s > length input then Returns None
            else
              let float_data = slice input (fs_data_start s) (fs_data_size s)
              in pcm24_file s
                   (convert_samples float_data (length float_data div 4) 0x12345678ABCDEF01))"

section \<open>The loop ends, and finds what the parser finds\<close>

text \<open>What both loops have gathered at the same position.\<close>

definition same_scan :: "float_scan \<Rightarrow> wav_info \<Rightarrow> bool" where
  "same_scan s info =
     (fs_audio_format s = audio_format info \<and> fs_channels s = channels info
      \<and> fs_sample_rate s = sample_rate info \<and> fs_data_start s = data_offset info
      \<and> fs_data_size s = data_size info)"

lemma scan_agrees:
  assumes "same_scan s info" and "\<not> fs_break s"
  shows "\<exists>s'. while_option (scanning input) (scan_chunk input) s = Some s'
    \<and> same_scan s' (parse_chunks input (fs_pos s) info)"
  using assms
proof (induction "length input - fs_pos s" arbitrary: s info rule: less_induct)
  case less
  show ?case
  proof (cases "scanning input s")
    case False
    then have "parse_chunks input (fs_pos s) info = info"
      using less.prems(2) by (subst parse_chunks.simps) (simp add: scanning_def)
    then show ?thesis
      using False less.prems(1) by (subst while_option_unfold) simp
  next
    case True
    let ?s = "scan_chunk input s"
    define info' where "info' =
       (if slice input (fs_pos s) 4 = ascii_bytes ''fmt '' \<and> fs_pos s + 8 + 16 \<le> length input then
          info\<lparr>audio_format := un_le (slice input (fs_pos s + 8) 2),
            channels := un_le (slice input (fs_pos s + 8 + 2) 2),
            sample_rate := un_le (slice input (fs_pos s + 8 + 4) 4),
            bits_per_sample := un_le (slice input (fs_pos s + 8 + 14) 2)\<rparr>
        else if slice input (fs_pos s) 4 = ascii_bytes ''data'' then
          info\<lparr>data_offset := fs_pos s + 8, data_size := un_le (slice input (fs_pos s + 4) 4)\<rparr>
        else info)"
    have parse: "parse_chunks input (fs_pos s) info =
        (if fs_break ?s then info' else parse_chunks input (fs_pos ?s) info')"
      using True by (subst parse_chunks.simps) (simp add: scanning_def scan_chunk_def Let_def info'_def)
    have same: "same_scan ?s info'"
      using less.prems(1) by (simp add: same_scan_def scan_chunk_def Let_def info'_def)
    have loop: "while_option (scanning input) (scan_chunk input) s =
        while_option (scanning input) (scan_chunk input) ?s"
      using True by (subst while_option_unfold) simp
    show ?thesis
    proof (cases "fs_break ?s")
      case True
      then show ?thesis
        using same parse by (subst loop, subst while_option_unfold) (simp add: scanning_def)
    next
      case False
      have "fs_pos s + 8 \<le> length input" "fs_pos s + 8 \<le> fs_pos ?s"
        using True by (simp_all add: scanning_def scan_chunk_def Let_def)
      then have "length input - fs_pos ?s < length input - fs_pos s"
        by linarith
      from less.hyps [OF this same False] show ?thesis
        using False by (simp add: loop parse)
    qed
  qed
qed

lemma scan_result:
  obtains s where "while_option (scanning input) (scan_chunk input) scan_start = Some s"
    and "same_scan s (parse_chunks input 12
        \<lparr>audio_format = 0, channels = 1, sample_rate = 44100, bits_per_sample = 16,
         data_offset = 0, data_size = 0\<rparr>)"
  using scan_agrees [of scan_start "\<lparr>audio_format = 0, channels = 1, sample_rate = 44100,
      bits_per_sample = 16, data_offset = 0, data_size = 0\<rparr>" input]
  by (auto simp: same_scan_def scan_start_def)

lemma length_le24 [simp]: "length (le24 val) = 3"
  by (simp add: le24_def)

lemma length_convert_samples [simp]: "length (convert_samples d n rng) = 3 * n"
  by (induction d n rng rule: convert_samples.induct) (simp_all add: Let_def)

text \<open>The sizes of a recording fit into the fields of the converted file.\<close>

definition convertible :: "wav_info \<Rightarrow> bool" where
  "convertible info =
     (sample_rate info * channels info * 3 < 2 ^ 32 \<and> channels info * 3 < 2 ^ 16
      \<and> 36 + 3 * (data_size info div 4) < 2 ^ 32)"

definition pcm24_of :: "bytes \<Rightarrow> wav_info \<Rightarrow> bytes" where
  "pcm24_of input info = convert_samples (slice input (data_offset info) (data_size info))
     (data_size info div 4) 0x12345678ABCDEF01"

lemma parse_chunks_size:
  "data_size info < 2 ^ 32 \<Longrightarrow> data_size (parse_chunks data pos info) < 2 ^ 32"
proof (induction data pos info rule: parse_chunks.induct)
  case (1 data pos info)
  have "un_le (slice data a 4) < 2 ^ 32" for a
    using un_le_less [of "slice data a 4"] power_increasing [of "length (slice data a 4)" 4 "256 :: nat"]
    by (auto simp: slice_def intro: less_le_trans)
  then show ?case
    using 1 by (subst parse_chunks.simps) (auto simp: Let_def)
qed

lemma conversion:
  "float_wav_to_pcm24 input =
     (case parse_wav_info input of
        None \<Rightarrow> Returns None
      | Some info \<Rightarrow>
          if audio_format info \<noteq> 3 then Returns None
          else if convertible info then
            Returns (Some (wav_header (36 + 3 * (data_size info div 4)) 1 (channels info) (sample_rate info)
              (sample_rate info * channels info * 3) (channels info * 3) 24 (3 * (data_size info div 4))
              @ pcm24_of input info))
          else Panics)"
proof (cases "length input < 44 \<or> slice input 0 4 \<noteq> ascii_bytes ''RIFF'' \<or> slice input 8 4 \<noteq> ascii_bytes ''WAVE''")
  case True
  then show ?thesis by (auto simp: float_wav_to_pcm24_def parse_wav_info_def)
next
  case False
  let ?i0 = "\<lparr>audio_format = 0, channels = 1, sample_rate = 44100, bits_per_sample = 16,
         data_offset = 0, data_size = 0\<rparr>"
  let ?i = "parse_chunks input 12 ?i0"
  obtain s where s: "while_option (scanning input) (scan_chunk input) scan_start = Some s" "same_scan s ?i"
    by (rule scan_result)
  show ?thesis
  proof (cases "data_offset ?i = 0 \<or> data_size ?i = 0 \<or> length input < data_offset ?i + data_size ?i")
    case True
    then have "parse_wav_info input = None" by (simp add: parse_wav_info_def Let_def)
    then show ?thesis
      using False s True by (auto simp: float_wav_to_pcm24_def same_scan_def)
  next
    case inside: False
    then have parse: "parse_wav_info input = Some ?i"
      using False by (simp add: parse_wav_info_def Let_def)
    have len: "length (slice input (data_offset ?i) (data_size ?i)) = data_size ?i"
      using inside by (auto simp: slice_def min_def)
    have "data_size ?i < 2 ^ 32"
      by (rule parse_chunks_size) simp
    then have nd: "3 * (data_size ?i div 4) mod 2 ^ 32 = 3 * (data_size ?i div 4)"
      by simp
    have "float_wav_to_pcm24 input =
        (if audio_format ?i \<noteq> 3 then Returns None else pcm24_file s (pcm24_of input ?i))"
      using False s inside len by (auto simp: float_wav_to_pcm24_def same_scan_def pcm24_of_def Let_def)
    moreover have "pcm24_file s (pcm24_of input ?i) =
        (if convertible ?i then
           Returns (Some (wav_header (36 + 3 * (data_size ?i div 4)) 1 (channels ?i) (sample_rate ?i)
             (sample_rate ?i * channels ?i * 3) (channels ?i * 3) 24 (3 * (data_size ?i div 4)) @ pcm24_of input ?i))
         else Panics)"
      using s(2) unfolding pcm24_file_def same_scan_def Let_def pcm24_of_def length_convert_samples nd
      by (auto simp: checked_def convertible_def)
    ultimately show ?thesis
      by (simp add: parse)
  qed
qed

text \<open>
  C29: the conversion of a recording always ends: the chunk loop returns for every buffer, whatever
  sizes its chunks claim, and reads the same format and data as the parser of the playback
  code. It declines exactly the buffers that are not float recordings, and panics exactly if
  the header of the converted file cannot hold the format or the size.
\<close>

theorem conversion_returns:
  "float_wav_to_pcm24 input \<noteq> Diverges
   \<and> (float_wav_to_pcm24 input = Returns None \<longleftrightarrow>
       (case parse_wav_info input of None \<Rightarrow> True | Some info \<Rightarrow> audio_format info \<noteq> 3))
   \<and> (float_wav_to_pcm24 input = Panics \<longleftrightarrow>
       (case parse_wav_info input of None \<Rightarrow> False
        | Some info \<Rightarrow> audio_format info = 3 \<and> \<not> convertible info))"
  by (simp add: conversion split: option.splits)

section \<open>The samples survive\<close>

lemma uniform_range: "0 \<le> uniform rng" "uniform rng \<le> 1"
proof -
  define n where "n = unat (drop_bit 33 rng)"
  have "unat rng < 2 ^ 31 * 2 ^ 33"
    using unsigned_less [of rng, where 'a = nat] by simp
  then have "unat rng div 2 ^ 33 < 2 ^ 31"
    by (rule less_mult_imp_div_less)
  then have n: "n < 2 ^ 31" unfolding n_def
    using unsigned_less [of rng, where 'a = nat]
    by (simp only: unsigned_drop_bit_eq) (simp add: drop_bit_eq_div take_bit_eq_mod)
  have "f64 (of_nat n) = of_nat n"
    using round_to_int [of "int n" 53] n by simp
  moreover have "(of_nat n :: rat) \<le> of_nat (2 ^ 31)"
    using n by (simp only: of_nat_le_iff)
  ultimately show "0 \<le> uniform rng" "uniform rng \<le> 1"
    using f64_ge_int [of 0 "of_nat n / 2 ^ 31"] f64_le_int [of "of_nat n / 2 ^ 31" 1]
    by (simp_all add: uniform_def flip: n_def)
qed

lemma f64_error: "\<bar>f64 x - x\<bar> \<le> \<bar>x\<bar> / 2 ^ 53"
  by (rule round_to_error) simp

lemma f64_bound:
  assumes "\<bar>x\<bar> \<le> b"
  shows "\<bar>f64 x\<bar> \<le> b + b / 2 ^ 53"
proof -
  have "\<bar>x\<bar> / 2 ^ 53 \<le> b / 2 ^ 53"
    using assms by (rule divide_right_mono) simp
  then show ?thesis
    using f64_error [of x] assms by linarith
qed

lemma dither_range:
  assumes "0 \<le> r1" "r1 \<le> 1" "0 \<le> r2" "r2 \<le> 1"
  shows "\<bar>tpdf_dither r1 r2\<bar> \<le> 1 / 8388607"
proof -
  have "0 \<le> f64 (r1 + r2)" "f64 (r1 + r2) \<le> 2"
    using assms f64_ge_int [of 0 "r1 + r2"] f64_le_int [of "r1 + r2" 2] by simp_all
  then have "\<bar>f64 (f64 (r1 + r2) - 1)\<bar> \<le> 1"
    using f64_abs_le_int [of "f64 (r1 + r2) - 1" 1] by (simp add: abs_le_iff)
  moreover have k: "\<bar>f64 (2 / 16777215)\<bar> \<le> 2 / 16777215 + 2 / 16777215 / 2 ^ 53"
    by (rule f64_bound) simp
  ultimately have "\<bar>f64 (f64 (r1 + r2) - 1) * f64 (2 / 16777215)\<bar> \<le> 1 * (2 / 16777215 + 2 / 16777215 / 2 ^ 53)"
    unfolding abs_mult by (intro mult_mono) auto
  from f64_bound [OF this] show ?thesis
    by (simp add: tpdf_dither_def)
qed

lemma quantize_accurate:
  assumes "\<bar>x\<bar> \<le> 1" and "\<bar>dither\<bar> \<le> 1 / 8388607"
  shows "\<bar>of_int (quantize (Finite x) dither) - x * 8388607\<bar> < 2 + 1 / 2 ^ 28"
proof -
  let ?a = "f64 (x + dither)" and ?b = "f64 (f64 (x + dither) * 8388607)"
  let ?c = "clamp (- 8388608) 8388607 ?b"
  have xd: "\<bar>x + dither\<bar> \<le> 1 + 1 / 8388607"
    using assms by linarith
  have a: "\<bar>?a - (x + dither)\<bar> \<le> 1 / 4503599627370496" "\<bar>?a\<bar> \<le> 2"
    using f64_error [of "x + dither"] f64_bound [OF xd] xd by simp_all
  have "\<bar>?a * 8388607\<bar> \<le> 2 * 8388607"
    using a(2) by (simp add: abs_mult)
  then have "\<bar>?b - ?a * 8388607\<bar> \<le> 1 / 536870912"
    using f64_error [of "?a * 8388607"] by simp
  moreover have "?a * 8388607 - x * 8388607 = (?a - (x + dither)) * 8388607 + dither * 8388607"
    by (simp add: algebra_simps)
  moreover have "\<bar>(?a - (x + dither)) * 8388607\<bar> \<le> 1 / 536870912" "\<bar>dither * 8388607\<bar> \<le> 1"
    using a(1) assms(2) by (simp_all only: abs_mult abs_numeral) (simp_all add: field_simps)
  ultimately have b: "\<bar>?b - x * 8388607\<bar> \<le> 1 + 1 / 268435456"
    by linarith
  have "\<bar>?c - x * 8388607\<bar> \<le> 1 + 1 / 268435456"
    using b assms(1) by (auto simp: clamp_def abs_le_iff)
  moreover have "as_signed 32 ?c = trunc ?c"
    using trunc_mono [of "of_int (- 8388608)" ?c] trunc_mono [of ?c "of_int 8388607"]
      clamp_range [of "- 8388608" 8388607 ?b]
    by (simp only: trunc_of_int) (simp add: as_signed_def)
  then have "quantize (Finite x) dither = trunc ?c"
    by (simp add: quantize_def)
  moreover have "\<bar>of_int (trunc ?c) - ?c\<bar> < 1"
    by (rule trunc_near)
  ultimately have "\<bar>of_int (quantize (Finite x) dither) - ?c\<bar> + \<bar>?c - x * 8388607\<bar> < 1 + (1 + 1 / 268435456)"
    by (intro add_less_le_mono) simp_all
  then show ?thesis
    using abs_triangle_ineq [of "of_int (quantize (Finite x) dither) - ?c" "?c - x * 8388607"] by simp
qed

text \<open>Reading a 24-bit sample back.\<close>

definition signed24 :: "bytes \<Rightarrow> int" where
  "signed24 bs = (let u = int (un_le bs) in if u < 2 ^ 23 then u else u - 2 ^ 24)"

lemma signed24_le24:
  assumes "- (2 ^ 23) \<le> v" and "v < 2 ^ 23"
  shows "signed24 (le24 v) = v"
proof -
  have byte: "uint (word_of_int k :: u8) = k mod 256" for k
    by (simp add: uint_word_of_int)
  have "v mod 2 ^ 24 = v mod 256 + 256 * (v div 256 mod 2 ^ 16)"
    using zmod_zmult2_eq [of "2 ^ 16" v 256] by simp
  moreover have "v div 256 mod 2 ^ 16 = v div 256 mod 256 + 256 * (v div 65536 mod 256)"
    using zmod_zmult2_eq [of 256 "v div 256" 256] zdiv_zmult2_eq [of 256 v 256] by simp
  ultimately have "int (un_le (le24 v)) = v mod 2 ^ 24"
    by (simp add: le24_def byte)
  moreover have "v mod 2 ^ 24 = (v + 2 ^ 24) mod 2 ^ 24"
    by simp
  then have "v mod 2 ^ 24 = (if 0 \<le> v then v else v + 2 ^ 24)"
    using assms mod_pos_pos_trivial [of v "2 ^ 24"] mod_pos_pos_trivial [of "v + 2 ^ 24" "2 ^ 24"] by simp
  ultimately have wrap: "int (un_le (le24 v)) = (if 0 \<le> v then v else v + 2 ^ 24)"
    by simp
  show ?thesis
    using assms by (simp add: signed24_def Let_def wrap)
qed

lemma quantize_range: "- (2 ^ 23) \<le> quantize f dither \<and> quantize f dither < 2 ^ 23"
proof -
  have "- 8388608 \<le> as_signed 32 (clamp (- 8388608) 8388607 y)" "as_signed 32 (clamp (- 8388608) 8388607 y) < 8388608" for y
    using trunc_mono [of "of_int (- 8388608)" "clamp (- 8388608) 8388607 y"]
      trunc_mono [of "clamp (- 8388608) 8388607 y" "of_int 8388607"] clamp_range [of "- 8388608" 8388607 y]
    by (simp_all only: trunc_of_int) (simp_all add: as_signed_def)
  moreover have "as_signed 32 (- 8388608) = - 8388608" "as_signed 32 8388607 = 8388607"
    by (simp_all add: as_signed_def trunc_def)
  ultimately show ?thesis
    by (cases f) (simp_all add: quantize_def)
qed

lemma nth_sample:
  "i < n \<Longrightarrow> \<exists>r1 r2. slice (convert_samples d n rng) (3 * i) 3 =
     le24 (quantize (f32_from_bits (un_le (slice d (4 * i) 4))) (tpdf_dither (uniform r1) (uniform r2)))"
proof (induction d n rng arbitrary: i rule: convert_samples.induct)
  case (2 d n rng)
  show ?case
  proof (cases i)
    case 0
    then show ?thesis by (auto simp: slice_def Let_def)
  next
    case (Suc j)
    then have "slice (convert_samples d (Suc n) rng) (3 * i) 3
        = slice (convert_samples (drop 4 d) n (lcg (lcg rng))) (3 * j) 3"
      by (simp add: slice_def Let_def)
    moreover have "slice d (4 * i) 4 = slice (drop 4 d) (4 * j) 4"
      using Suc by (simp add: slice_def add.commute)
    ultimately show ?thesis
      using 2 Suc by (simp add: Let_def)
  qed
qed simp

text \<open>How a 24-bit sample renders a float sample.\<close>

definition renders :: "f32_value \<Rightarrow> int \<Rightarrow> bool" where
  "renders f v =
     (case f of
        Finite x \<Rightarrow> \<bar>x\<bar> > 1 \<or> \<bar>of_int v - x * 8388607\<bar> < 2 + 1 / 2 ^ 28
      | Infinite negative \<Rightarrow> v = (if negative then - 8388608 else 8388607)
      | NotANumber \<Rightarrow> v = 0)"

lemma quantize_renders:
  assumes "\<bar>dither\<bar> \<le> 1 / 8388607"
  shows "renders f (quantize f dither)"
proof (cases f)
  case (Finite x)
  then show ?thesis
    using quantize_accurate [OF _ assms, of x] by (cases "\<bar>x\<bar> \<le> 1") (simp_all add: renders_def)
next
  case (Infinite negative)
  have "trunc (- 8388608) = - 8388608" "trunc 8388607 = 8388607"
    by (simp_all add: trunc_def)
  then show ?thesis
    using Infinite by (simp add: renders_def quantize_def as_signed_def)
qed (simp add: renders_def quantize_def)

text \<open>
  C28: a float recording survives the conversion: the result parses as 24-bit PCM with the same
  channels and rate and a third of a byte less per byte, and every sample within [-1, 1] comes
  back within two steps of the 24-bit scale (one of the dither, one of the truncation) and the
  rounding errors; infinities come back as full scale, NaN as silence.
\<close>

theorem recording_survives:
  assumes "parse_wav_info input = Some info" and "audio_format info = 3" and "convertible info"
    and "4 \<le> data_size info"
  shows "\<exists>out. float_wav_to_pcm24 input = Returns (Some out)
    \<and> parse_wav_info out = Some \<lparr>audio_format = 1, channels = channels info, sample_rate = sample_rate info,
        bits_per_sample = 24, data_offset = 44, data_size = 3 * (data_size info div 4)\<rparr>
    \<and> (\<forall>i < data_size info div 4.
         renders (f32_from_bits (un_le (slice (wav_data input) (4 * i) 4))) (signed24 (slice (wav_data out) (3 * i) 3)))"
proof -
  let ?n = "data_size info div 4" and ?pcm = "pcm24_of input info"
  let ?out = "wav_header (36 + 3 * ?n) 1 (channels info) (sample_rate info)
      (sample_rate info * channels info * 3) (channels info * 3) 24 (3 * ?n) @ ?pcm"
  have len: "length ?pcm = 3 * ?n" by (simp add: pcm24_of_def)
  have parse: "parse_wav_info ?out = Some \<lparr>audio_format = 1, channels = channels info, sample_rate = sample_rate info,
        bits_per_sample = 24, data_offset = 44, data_size = 3 * ?n\<rparr>"
    using parse_wav_header [of 1 "channels info" "sample_rate info" 24 ?pcm] len assms(3,4)
      parse_wav_info_props [OF assms(1)]
    by (simp add: convertible_def)
  then have out: "wav_data ?out = ?pcm"
    using len by (simp add: wav_data_def slice_def)
  have "renders (f32_from_bits (un_le (slice (wav_data input) (4 * i) 4))) (signed24 (slice ?pcm (3 * i) 3))"
    if less: "i < ?n" for i
  proof -
    have "?pcm = convert_samples (wav_data input) ?n 0x12345678ABCDEF01"
      using assms(1) by (simp add: pcm24_of_def wav_data_def)
    then obtain r1 r2 where "slice ?pcm (3 * i) 3 =
        le24 (quantize (f32_from_bits (un_le (slice (wav_data input) (4 * i) 4))) (tpdf_dither (uniform r1) (uniform r2)))"
      using nth_sample [OF less, of "wav_data input" "0x12345678ABCDEF01"] by auto
    then show ?thesis
      using quantize_renders [OF dither_range [OF uniform_range uniform_range]] quantize_range
      by (simp add: signed24_le24)
  qed
  then show ?thesis
    using assms(1-3) parse out by (simp add: conversion)
qed

text \<open>One sample, 0.5 (the bits \<open>0x3F000000\<close>), in a float recording.\<close>

definition demo_recording :: bytes where
  "demo_recording = wav_header 40 3 1 44100 176400 4 32 4 @ [0, 0, 0, 0x3F]"

lemma demo_recording_info:
  "parse_wav_info demo_recording = Some \<lparr>audio_format = 3, channels = 1, sample_rate = 44100,
      bits_per_sample = 32, data_offset = 44, data_size = 4\<rparr>"
proof -
  have len: "length [0, 0, 0, 0x3F :: u8] = 4" by simp
  show ?thesis
    using parse_wav_header [of 3 1 44100 32 "[0, 0, 0, 0x3F]" 40 176400 4, unfolded len]
    by (simp add: demo_recording_def)
qed

theorem recording_survives_witness:
  "case float_wav_to_pcm24 demo_recording of
     Returns (Some out) \<Rightarrow> \<bar>of_int (signed24 (slice (wav_data out) 0 3)) - (8388607 / 2 :: rat)\<bar> < 2 + 1 / 2 ^ 28
   | _ \<Rightarrow> False"
proof -
  have data: "slice (wav_data demo_recording) 0 4 = [0, 0, 0, 0x3F]"
    by (simp add: wav_data_def demo_recording_info) (simp add: slice_def demo_recording_def)
  have half: "f32_from_bits (un_le [0, 0, 0, 0x3F]) = Finite (1 / 2)"
    by (simp add: f32_from_bits_def Let_def)
  show ?thesis
    using recording_survives [OF demo_recording_info] data half
    by (auto simp: convertible_def renders_def)
qed

end
