(* ===== verification/Tones.thy ===== *)
theory Tones
  imports Audio Convert
begin

unbundle bit_operations_syntax

text \<open>
  Where the sounds of the player come from: the synthesis of the music tones
  (\<open>src/audio/music.rs\<close>), the embedded recordings (\<open>src/audio/registry.rs\<close>) and the
  construction and volume of \<open>VocalAudio\<close> (\<open>src/audio/mod.rs\<close>). Every floating-point operation
  is rounded as the code rounds it; the functions whose precision Rust leaves open (sine,
  cosine, logarithm, power) are the parameter \<open>libm\<close>. The recordings are files and the sound
  engine is an external crate: both are parameters.
\<close>

section \<open>Notes\<close>

record libm =
  lm_sin :: "rat \<Rightarrow> rat"
  lm_cos :: "rat \<Rightarrow> rat"
  lm_ln :: "rat \<Rightarrow> rat"
  lm_powf :: "rat \<Rightarrow> rat \<Rightarrow> rat"
  lm_log10 :: "rat \<Rightarrow> rat"

text \<open>\<open>std::f64::consts::PI\<close>.\<close>

definition PI :: rat where "PI = 884279719003555 / 2 ^ 48"

definition note_freqs :: "rat list" where
  "note_freqs = map f64
     [13081 / 100, 14683 / 100, 16481 / 100, 17461 / 100, 19600 / 100, 22000 / 100, 24694 / 100,
      26163 / 100, 29366 / 100, 32963 / 100, 34923 / 100, 39200 / 100, 44000 / 100, 49388 / 100,
      52325 / 100, 58733 / 100, 65926 / 100]"

definition FREQ_C3 :: rat where "FREQ_C3 = note_freqs ! 0"
definition FREQ_D3 :: rat where "FREQ_D3 = note_freqs ! 1"
definition FREQ_E3 :: rat where "FREQ_E3 = note_freqs ! 2"
definition FREQ_C4 :: rat where "FREQ_C4 = note_freqs ! 7"
definition FREQ_D4 :: rat where "FREQ_D4 = note_freqs ! 8"
definition FREQ_E4 :: rat where "FREQ_E4 = note_freqs ! 9"
definition FREQ_G4 :: rat where "FREQ_G4 = note_freqs ! 11"
definition FREQ_C5 :: rat where "FREQ_C5 = note_freqs ! 14"

definition SAMPLE_RATE :: nat where "SAMPLE_RATE = 44100"
definition TONE_DURATION :: rat where "TONE_DURATION = f64 (20 / 100)"
definition CHORD_DURATION :: rat where "CHORD_DURATION = f64 (30 / 100)"

section \<open>Synthesis\<close>

text \<open>The contribution of one odd harmonic to one sample.\<close>

definition add_harmonic :: "libm \<Rightarrow> rat \<Rightarrow> rat \<Rightarrow> rat \<Rightarrow> nat \<Rightarrow> nat \<Rightarrow> rat \<Rightarrow> rat" where
  "add_harmonic L harm_freq env_freq attenuation sample_rate_hz i sample =
     (let t = f64 (of_nat i / of_nat sample_rate_hz);
          signal = lm_sin L (f64 (f64 (f64 (2 * PI) * harm_freq) * t));
          envelope = lm_cos L (f64 (f64 (f64 (2 * PI) * env_freq) * t))
      in f64 (sample + f64 (f64 (signal * envelope) * attenuation)))"

function harmonics :: "libm \<Rightarrow> rat \<Rightarrow> rat \<Rightarrow> nat \<Rightarrow> rat \<Rightarrow> nat \<Rightarrow> nat \<Rightarrow> rat list \<Rightarrow> rat list" where
  "harmonics L frequency duration sample_rate_hz nyquist max_mult mult samples =
     (if max_mult < mult then samples
      else
        let harm_freq = f64 (frequency * of_nat mult)
        in if nyquist \<le> harm_freq then samples
           else
             let attenuation = f64 (1 / lm_powf L 10 (f64 (lm_ln L (f64 (of_nat mult + 1)) / 2)));
                 env_freq = f64 (f64 (of_nat mult / duration) / 2)
             in harmonics L frequency duration sample_rate_hz nyquist max_mult (mult + 2)
                  (map (\<lambda>(i, sample). add_harmonic L harm_freq env_freq attenuation sample_rate_hz i sample)
                     (enumerate 0 samples)))"
  by pat_completeness auto
termination
  by (relation "measure (\<lambda>(L, frequency, duration, sample_rate_hz, nyquist, max_mult, mult, samples).
        Suc max_mult - mult)") auto

declare harmonics.simps [simp del]

definition peak :: "rat list \<Rightarrow> rat" where
  "peak samples = fold (\<lambda>s max_val. max max_val \<bar>s\<bar>) samples 0"

definition normalize_peak :: "rat list \<Rightarrow> rat list" where
  "normalize_peak samples =
     (let max_val = peak samples in if 0 < max_val then map (\<lambda>s. f64 (s / max_val)) samples else samples)"

definition generate_ar7778_tone :: "libm \<Rightarrow> rat \<Rightarrow> rat \<Rightarrow> nat \<Rightarrow> rat list" where
  "generate_ar7778_tone L frequency duration sample_rate_hz =
     (let num_samples = as_unsigned 64 (f64 (of_nat sample_rate_hz * duration));
          samples = replicate num_samples 0;
          nyquist = f64 (of_nat sample_rate_hz / 2);
          max_mult = as_unsigned 32 (f64 (nyquist / frequency))
      in normalize_peak (harmonics L frequency duration sample_rate_hz nyquist max_mult 1 samples))"

definition pcm16 :: "rat \<Rightarrow> int" where
  "pcm16 s = as_signed 16 (clamp (- 32768) 32767 (f64 (s * 32767)))"

definition le16_signed :: "int \<Rightarrow> bytes" where
  "le16_signed v = [word_of_int v, word_of_int (v div 2 ^ 8)]"

text \<open>\<open>None\<close> is a panic of the checked arithmetic.\<close>

definition samples_to_wav :: "rat list \<Rightarrow> nat \<Rightarrow> bytes option" where
  "samples_to_wav samples sample_rate_hz =
     (case checked 32 (length samples mod 2 ^ 32 * 2) of
        None \<Rightarrow> None
      | Some dsize \<Rightarrow>
          (case checked 32 (36 + dsize) of
             None \<Rightarrow> None
           | Some file_size \<Rightarrow>
               map_option (\<lambda>wav. wav @ concat (map (\<lambda>s. le16_signed (pcm16 s)) samples))
                 (write_wav_header [] file_size sample_rate_hz dsize)))"

definition generate_tone_wav :: "libm \<Rightarrow> rat \<Rightarrow> rat \<Rightarrow> nat \<Rightarrow> bytes option" where
  "generate_tone_wav L frequency duration sample_rate_hz =
     samples_to_wav (generate_ar7778_tone L frequency duration sample_rate_hz) sample_rate_hz"

definition mix :: "rat \<Rightarrow> rat list \<Rightarrow> rat list \<Rightarrow> rat list" where
  "mix amp_per tone mixed =
     map (\<lambda>(i, m). if i < length tone then f64 (m + f64 (tone ! i * amp_per)) else m) (enumerate 0 mixed)"

definition generate_chord_wav :: "libm \<Rightarrow> rat list \<Rightarrow> rat \<Rightarrow> nat \<Rightarrow> bytes option" where
  "generate_chord_wav L freqs duration sample_rate_hz =
     (let num_samples = as_unsigned 64 (f64 (of_nat sample_rate_hz * duration));
          amp_per = f64 (1 / of_nat (length freqs));
          mixed = fold (\<lambda>freq. mix amp_per (generate_ar7778_tone L freq duration sample_rate_hz)) freqs
                    (replicate num_samples 0)
      in samples_to_wav (normalize_peak mixed) sample_rate_hz)"

text \<open>\<open>samples[offset + i] = tone[i]\<close> for the indices that exist.\<close>

definition overwrite :: "nat \<Rightarrow> rat list \<Rightarrow> rat list \<Rightarrow> rat list" where
  "overwrite offset tone samples =
     take offset samples @ take (length samples - offset) tone @ drop (offset + length tone) samples"

definition generate_sweep_wav :: "libm \<Rightarrow> rat list \<Rightarrow> rat \<Rightarrow> nat \<Rightarrow> bytes option" where
  "generate_sweep_wav L freqs note_duration sample_rate_hz =
     (let total_duration = f64 (note_duration * of_nat (length freqs));
          num_samples = as_unsigned 64 (f64 (of_nat sample_rate_hz * total_duration));
          note_samples = as_unsigned 64 (f64 (of_nat sample_rate_hz * note_duration));
          samples = fold (\<lambda>(idx, freq). overwrite (idx * note_samples)
                        (generate_ar7778_tone L freq note_duration sample_rate_hz))
                      (enumerate 0 freqs) (replicate num_samples 0)
      in samples_to_wav samples sample_rate_hz)"

section \<open>The pool of tones\<close>

definition tone_wavs :: "libm \<Rightarrow> bytes list option" where
  "tone_wavs L = those
     (map (\<lambda>freq. generate_tone_wav L freq TONE_DURATION SAMPLE_RATE) note_freqs
      @ [generate_chord_wav L [FREQ_C4, FREQ_E4, FREQ_G4] CHORD_DURATION SAMPLE_RATE,
         generate_chord_wav L [FREQ_C4, FREQ_D4, FREQ_E4] CHORD_DURATION SAMPLE_RATE,
         generate_sweep_wav L [FREQ_C4, FREQ_E4, FREQ_G4] (f64 (8 / 100)) SAMPLE_RATE,
         generate_sweep_wav L [FREQ_G4, FREQ_E4, FREQ_C4] (f64 (8 / 100)) SAMPLE_RATE,
         generate_tone_wav L FREQ_C5 (f64 (5 / 100)) SAMPLE_RATE,
         generate_chord_wav L [FREQ_C3, FREQ_D3, FREQ_E3] (f64 (4 / 10)) SAMPLE_RATE])"

text \<open>The sounds and the WAV buffers; \<open>None\<close> is the panic of \<open>wav_to_sound_data\<close> or of the arithmetic.\<close>

definition music_tones_new :: "('snd, 'h) kira \<Rightarrow> libm \<Rightarrow> ('snd list \<times> bytes list) option" where
  "music_tones_new K L =
     (case tone_wavs L of
        None \<Rightarrow> None
      | Some wavs \<Rightarrow> map_option (\<lambda>sounds. (sounds, wavs)) (those (map (k_decode K) wavs)))"

section \<open>The recordings\<close>

definition load_sound :: "('snd, 'h) kira \<Rightarrow> bytes \<Rightarrow> ('snd \<times> bytes) option run" where
  "load_sound K bs =
     (case float_wav_to_pcm24 bs of
        Diverges \<Rightarrow> Diverges
      | Panics \<Rightarrow> Panics
      | Returns converted \<Rightarrow>
          let wav = (case converted of Some v \<Rightarrow> v | None \<Rightarrow> bs)
          in Returns (map_option (\<lambda>sound. (sound, wav)) (k_decode K wav)))"

fun load_sounds :: "('snd, 'h) kira \<Rightarrow> bytes list \<Rightarrow> ('snd \<times> bytes) list run" where
  "load_sounds K [] = Returns []"
| "load_sounds K (bs # rest) =
     (case load_sound K bs of
        Diverges \<Rightarrow> Diverges
      | Panics \<Rightarrow> Panics
      | Returns entry \<Rightarrow>
          (case load_sounds K rest of
             Diverges \<Rightarrow> Diverges
           | Panics \<Rightarrow> Panics
           | Returns entries \<Rightarrow>
               Returns (case entry of Some e \<Rightarrow> e # entries | None \<Rightarrow> entries)))"

definition load_all_sounds :: "('snd, 'h) kira \<Rightarrow> bytes list \<Rightarrow> bytes list \<Rightarrow> ('snd \<times> bytes) list run" where
  "load_all_sounds K normal_bytes broken_bytes = load_sounds K (normal_bytes @ broken_bytes)"

section \<open>The player\<close>

definition slider_to_decibels :: "libm \<Rightarrow> rat \<Rightarrow> decibels" where
  "slider_to_decibels L slider =
     (let slider = clamp 0 1 slider
      in if slider \<le> 0 then SILENCE else Decibels (f32 (20 * lm_log10 L (f32 slider))))"

definition set_volume :: "libm \<Rightarrow> rat \<Rightarrow> ('snd, 'h) vocal_audio \<Rightarrow> ('snd, 'h) vocal_audio" where
  "set_volume L slider a = a\<lparr>va_volume := slider_to_decibels L slider\<rparr>"

text \<open>
  \<open>engine\<close>, \<open>track\<close>: whether the sound engine and its track could be created; \<open>seed\<close>: the clock.
  The result is \<open>None\<close> without an engine.
\<close>

definition vocal_audio_new ::
    "('snd, 'h) kira \<Rightarrow> libm \<Rightarrow> bool \<Rightarrow> bool \<Rightarrow> bytes list \<Rightarrow> bytes list \<Rightarrow> u64 \<Rightarrow>
     ('snd, 'h) vocal_audio option run" where
  "vocal_audio_new K L engine track normal_bytes broken_bytes seed =
     (if \<not> engine then Returns None
      else if \<not> track then Returns None
      else
        case load_all_sounds K normal_bytes broken_bytes of
          Diverges \<Rightarrow> Diverges
        | Panics \<Rightarrow> Panics
        | Returns entries \<Rightarrow>
            (case music_tones_new K L of
               None \<Rightarrow> Panics
             | Some (tones, tone_bytes) \<Rightarrow>
                 Returns (Some
                   \<lparr>va_sounds = map fst entries, va_wav_bytes = map snd entries, va_tones = tones,
                    va_tone_bytes = tone_bytes, va_mode = Normal, va_current = None, va_rng = seed OR 1,
                    va_started = [], va_stopped = [], va_volume = slider_to_decibels L (f64 (5 / 10))\<rparr>)))"

definition sound_count :: "('snd, 'h) vocal_audio \<Rightarrow> nat" where
  "sound_count a = length (va_sounds a)"

section \<open>The tones are well-formed files\<close>

lemma length_harmonics [simp]:
  "length (harmonics L frequency duration sr nyquist max_mult mult samples) = length samples"
proof (induction L frequency duration sr nyquist max_mult mult samples rule: harmonics.induct)
  case (1 L frequency duration sr nyquist max_mult mult samples)
  show ?case
    by (subst harmonics.simps) (use 1 in \<open>simp add: Let_def\<close>)
qed

lemma length_normalize_peak [simp]: "length (normalize_peak samples) = length samples"
  by (simp add: normalize_peak_def Let_def)

lemma length_generate [simp]:
  "length (generate_ar7778_tone L frequency duration sr) = as_unsigned 64 (f64 (of_nat sr * duration))"
  by (simp add: generate_ar7778_tone_def Let_def)

lemma length_mix [simp]: "length (mix amp tone mixed) = length mixed"
  by (simp add: mix_def)

lemma length_overwrite [simp]: "length (overwrite offset tone samples) = length samples"
  by (simp add: overwrite_def min_def)

lemma length_fold: "(\<And>x ys. length (f x ys) = length ys) \<Longrightarrow> length (fold f xs ys) = length ys"
  by (induction xs arbitrary: ys) simp_all

text \<open>The format of a generated or converted buffer.\<close>

definition pcm_info :: "nat \<Rightarrow> nat \<Rightarrow> wav_info" where
  "pcm_info bits n = \<lparr>audio_format = 1, channels = 1, sample_rate = 44100, bits_per_sample = bits,
     data_offset = 44, data_size = n\<rparr>"

text \<open>A mono file at 44100 Hz with a header of 44 bytes, as the program writes them.\<close>

definition pcm_file :: "nat \<Rightarrow> bytes \<Rightarrow> bytes" where
  "pcm_file bits body =
     wav_header (36 + length body) 1 1 44100 (44100 * (bits div 8)) (bits div 8) bits (length body) @ body"

lemma pcm_file_parse:
  assumes "bits = 16 \<or> bits = 24" and "0 < length body" and "36 + length body < 2 ^ 32"
  shows "parse_wav_info (pcm_file bits body) = Some (pcm_info bits (length body))"
    and "wav_data (pcm_file bits body) = body"
proof -
  show parse: "parse_wav_info (pcm_file bits body) = Some (pcm_info bits (length body))"
    using parse_wav_header [of 1 1 44100 bits body] assms by (auto simp: pcm_file_def pcm_info_def)
  show "wav_data (pcm_file bits body) = body"
    unfolding wav_data_def parse by (simp add: pcm_file_def pcm_info_def slice_def)
qed

lemma length_pcm [simp]: "length (concat (map (\<lambda>s. le16_signed (pcm16 s)) samples)) = 2 * length samples"
  by (induction samples) (simp_all add: le16_signed_def)

lemma samples_to_wav_ok:
  assumes "0 < length samples" and "length samples < 2 ^ 30"
  shows "samples_to_wav samples SAMPLE_RATE = Some (pcm_file 16 (concat (map (\<lambda>s. le16_signed (pcm16 s)) samples)))"
  using assms
  by (simp add: samples_to_wav_def checked_def write_wav_header_def SAMPLE_RATE_def pcm_file_def mult.commute)

text \<open>The lengths in samples that the durations give at 44100 Hz.\<close>

lemmas eqI = round_to_eqI [where p = 53]

lemma durations:
  "as_unsigned 64 (f64 (of_nat SAMPLE_RATE * TONE_DURATION)) = 8820"
  "as_unsigned 64 (f64 (of_nat SAMPLE_RATE * CHORD_DURATION)) = 13230"
  "as_unsigned 64 (f64 (of_nat SAMPLE_RATE * f64 (f64 (8 / 100) * 3))) = 10584"
  "as_unsigned 64 (f64 (of_nat SAMPLE_RATE * f64 (8 / 100))) = 3528"
  "as_unsigned 64 (f64 (of_nat SAMPLE_RATE * f64 (5 / 100))) = 2205"
  "as_unsigned 64 (f64 (of_nat SAMPLE_RATE * f64 (4 / 10))) = 17640"
proof -
  have exact: "as_unsigned 64 (of_int (int n)) = n" if "n < 2 ^ 63" for n
    using that by (simp add: as_unsigned_def trunc_def)
  have c: "f64 (20 / 100) = of_int 7205759403792794 * 2 powi (- 55)"
      "f64 (30 / 100) = of_int 5404319552844595 * 2 powi (- 54)"
      "f64 (8 / 100) = of_int 5764607523034235 * 2 powi (- 56)"
      "f64 (5 / 100) = of_int 7205759403792794 * 2 powi (- 57)"
      "f64 (4 / 10) = of_int 7205759403792794 * 2 powi (- 54)"
    by (rule eqI; simp)+
  have d: "f64 (of_int 5764607523034235 * 2 powi (- 56) * 3) = of_int 8646911284551352 * 2 powi (- 55)"
  proof -
    have "of_int 5764607523034235 * 2 powi (- 56) * 3 = of_int 17293822569102705 / 2 * (2 :: rat) powi (- 55)"
      by simp
    moreover have "f64 (of_int 17293822569102705 / 2 * 2 powi (- 55)) = of_int (round_div 17293822569102705 2) * 2 powi (- 55)"
      by (rule round_to_tie; simp)
    ultimately show ?thesis by (simp only:) (simp add: round_div_def)
  qed
  have "f64 (44100 * (of_int 7205759403792794 * 2 powi (- 55))) = of_int (8820 * 2 ^ 39) * 2 powi (- 39)"
      "f64 (44100 * (of_int 5404319552844595 * 2 powi (- 54))) = of_int (13230 * 2 ^ 39) * 2 powi (- 39)"
      "f64 (44100 * (of_int 8646911284551352 * 2 powi (- 55))) = of_int (10584 * 2 ^ 39) * 2 powi (- 39)"
      "f64 (44100 * (of_int 5764607523034235 * 2 powi (- 56))) = of_int (3528 * 2 ^ 41) * 2 powi (- 41)"
      "f64 (44100 * (of_int 7205759403792794 * 2 powi (- 57))) = of_int (2205 * 2 ^ 41) * 2 powi (- 41)"
      "f64 (44100 * (of_int 7205759403792794 * 2 powi (- 54))) = of_int (17640 * 2 ^ 38) * 2 powi (- 38)"
    by (rule eqI; simp)+
  then show "as_unsigned 64 (f64 (of_nat SAMPLE_RATE * TONE_DURATION)) = 8820"
      "as_unsigned 64 (f64 (of_nat SAMPLE_RATE * CHORD_DURATION)) = 13230"
      "as_unsigned 64 (f64 (of_nat SAMPLE_RATE * f64 (f64 (8 / 100) * 3))) = 10584"
      "as_unsigned 64 (f64 (of_nat SAMPLE_RATE * f64 (8 / 100))) = 3528"
      "as_unsigned 64 (f64 (of_nat SAMPLE_RATE * f64 (5 / 100))) = 2205"
      "as_unsigned 64 (f64 (of_nat SAMPLE_RATE * f64 (4 / 10))) = 17640"
    unfolding TONE_DURATION_def CHORD_DURATION_def SAMPLE_RATE_def c d
    using exact [of 8820] exact [of 13230] exact [of 10584] exact [of 3528] exact [of 2205] exact [of 17640]
    by simp_all
qed

text \<open>The number of samples of each of the 23 tones.\<close>

definition TONE_SAMPLES :: "nat list" where
  "TONE_SAMPLES = replicate 17 8820 @ [13230, 13230, 10584, 10584, 2205, 17640]"

definition tone_file :: "bytes \<Rightarrow> nat \<Rightarrow> bool" where
  "tone_file wav n = (\<exists>body. wav = pcm_file 16 body \<and> length body = 2 * n \<and> 0 < n \<and> n < 2 ^ 30)"

lemma tone_file_parse:
  assumes "tone_file wav n"
  shows "parse_wav_info wav = Some (pcm_info 16 (2 * n))"
proof -
  obtain body where body: "wav = pcm_file 16 body" "length body = 2 * n" "0 < n" "n < 2 ^ 30"
    using assms by (auto simp: tone_file_def)
  then have "0 < length body" "36 + length body < 2 ^ 32" by simp_all
  then show ?thesis
    using pcm_file_parse(1) [of 16 body] body(1,2) by simp
qed

definition tone_of_length :: "bytes option \<Rightarrow> nat \<Rightarrow> bool" where
  "tone_of_length wav n = (\<exists>w. wav = Some w \<and> tone_file w n)"

lemma samples_tone: "length samples = n \<Longrightarrow> 0 < n \<Longrightarrow> n < 2 ^ 30 \<Longrightarrow> tone_of_length (samples_to_wav samples SAMPLE_RATE) n"
  using samples_to_wav_ok [of samples] by (auto simp: tone_of_length_def tone_file_def)

lemma note_tone: "tone_of_length (generate_tone_wav L freq TONE_DURATION SAMPLE_RATE) 8820"
  by (simp add: generate_tone_wav_def samples_tone durations)

lemma click_tone: "tone_of_length (generate_tone_wav L freq (f64 (5 / 100)) SAMPLE_RATE) 2205"
  unfolding generate_tone_wav_def by (rule samples_tone) (simp_all only: length_generate durations, simp_all)

lemma chord_tone:
  "tone_of_length (generate_chord_wav L freqs duration SAMPLE_RATE) n"
  if "as_unsigned 64 (f64 (of_nat SAMPLE_RATE * duration)) = n" "0 < n" "n < 2 ^ 30"
  using that by (simp add: generate_chord_wav_def Let_def samples_tone length_fold)

lemma sweep_tone:
  "length freqs = 3 \<Longrightarrow> tone_of_length (generate_sweep_wav L freqs (f64 (8 / 100)) SAMPLE_RATE) 10584"
  using durations(3) by (simp add: generate_sweep_wav_def Let_def samples_tone length_fold split_def)

lemma those_map_Some: "list_all2 (\<lambda>x n. \<exists>w. x = Some w \<and> P w n) xs ns \<Longrightarrow> \<exists>ws. those xs = Some ws \<and> list_all2 P ws ns"
  by (induction xs ns rule: list_all2_induct) auto

lemma list_all2_map_const: "(\<And>L x. P (f L x) c) \<Longrightarrow> list_all2 P (map (f L) xs) (replicate (length xs) c)"
  by (induction xs) simp_all

lemma tone_pool: "\<exists>wavs. tone_wavs L = Some wavs \<and> list_all2 tone_file wavs TONE_SAMPLES"
proof -
  have pool: "list_all2 tone_of_length
      (map (\<lambda>freq. generate_tone_wav L freq TONE_DURATION SAMPLE_RATE) note_freqs) (replicate 17 8820)"
  proof -
    have "length note_freqs = 17" by (simp add: note_freqs_def)
    then show ?thesis
      using list_all2_map_const [where P = tone_of_length and f = "\<lambda>L freq. generate_tone_wav L freq TONE_DURATION SAMPLE_RATE" and L = L and xs = note_freqs, OF note_tone] by simp
  qed
  have others: "list_all2 tone_of_length
      [generate_chord_wav L [FREQ_C4, FREQ_E4, FREQ_G4] CHORD_DURATION SAMPLE_RATE,
       generate_chord_wav L [FREQ_C4, FREQ_D4, FREQ_E4] CHORD_DURATION SAMPLE_RATE,
       generate_sweep_wav L [FREQ_C4, FREQ_E4, FREQ_G4] (f64 (8 / 100)) SAMPLE_RATE,
       generate_sweep_wav L [FREQ_G4, FREQ_E4, FREQ_C4] (f64 (8 / 100)) SAMPLE_RATE,
       generate_tone_wav L FREQ_C5 (f64 (5 / 100)) SAMPLE_RATE,
       generate_chord_wav L [FREQ_C3, FREQ_D3, FREQ_E3] (f64 (4 / 10)) SAMPLE_RATE]
      [13230, 13230, 10584, 10584, 2205, 17640]"
    using durations(2,6) click_tone [simplified] sweep_tone [simplified] by (simp add: chord_tone)
  show ?thesis
    unfolding tone_wavs_def TONE_SAMPLES_def
    by (rule those_map_Some) (use list_all2_appendI [OF pool others] in \<open>simp add: tone_of_length_def [abs_def]\<close>)
qed

text \<open>
  C30: the tones are well-formed sounds: whatever the mathematical functions return, the synthesis
  gives 23 mono 16-bit PCM files at 44100 Hz, of the lengths their durations say, without an
  arithmetic overflow, and every tone index the music mode uses has one of them.
\<close>

theorem tones_well_formed:
  "\<exists>wavs. tone_wavs L = Some wavs
     \<and> list_all2 (\<lambda>wav n. parse_wav_info wav = Some (pcm_info 16 (2 * n))) wavs TONE_SAMPLES
     \<and> list_all (\<lambda>i. vec_get wavs i \<noteq> None) (events_to_tone_indices D evs)"
proof -
  obtain wavs where pool: "tone_wavs L = Some wavs" "list_all2 tone_file wavs TONE_SAMPLES"
    using tone_pool by blast
  then have wavs: "tone_wavs L = Some wavs"
      "list_all2 (\<lambda>wav n. parse_wav_info wav = Some (pcm_info 16 (2 * n))) wavs TONE_SAMPLES"
    by (auto elim: list_all2_mono intro: tone_file_parse)
  then have "length wavs = 23"
    by (simp add: list_all2_lengthD TONE_SAMPLES_def)
  then have "list_all (\<lambda>i. vec_get wavs i \<noteq> None) (events_to_tone_indices D evs)"
    using event_tones_bounded by (fastforce simp: events_to_tone_indices_def list_all_iff vec_get_def)
  then show ?thesis using wavs by blast
qed

section \<open>Every sample is in range\<close>

lemma peak_fold: "m \<le> fold (\<lambda>s max_val. max max_val \<bar>s\<bar>) samples m
    \<and> (\<forall>s \<in> set samples. \<bar>s\<bar> \<le> fold (\<lambda>s max_val. max max_val \<bar>s\<bar>) samples m)
    \<and> (fold (\<lambda>s max_val. max max_val \<bar>s\<bar>) samples m = m
       \<or> (\<exists>s \<in> set samples. fold (\<lambda>s max_val. max max_val \<bar>s\<bar>) samples m = \<bar>s\<bar>))" for m :: rat
proof (induction samples arbitrary: m)
  case (Cons s samples)
  show ?case
    using Cons.IH [of "max m \<bar>s\<bar>"] by (auto simp: max_def split: if_splits)
qed simp

lemma peak_le: "s \<in> set samples \<Longrightarrow> \<bar>s\<bar> \<le> peak samples"
  using peak_fold [of 0 samples] by (simp add: peak_def)

lemma peak_reached: "0 < peak samples \<Longrightarrow> \<exists>s \<in> set samples. \<bar>s\<bar> = peak samples"
  using peak_fold [of 0 samples] by (auto simp: peak_def)

lemma peak_zero: "\<not> 0 < peak samples \<Longrightarrow> s \<in> set samples \<Longrightarrow> s = 0"
  using peak_le [of s samples] by simp

lemma normalized_range:
  assumes "s \<in> set (normalize_peak samples)"
  shows "\<bar>s\<bar> \<le> 1"
proof (cases "0 < peak samples")
  case True
  then obtain r where r: "r \<in> set samples" "s = f64 (r / peak samples)"
    using assms by (auto simp: normalize_peak_def Let_def)
  have "\<bar>r / peak samples\<bar> \<le> of_int 1"
    using peak_le [OF r(1)] True by simp
  then show ?thesis
    using f64_abs_le_int [of "r / peak samples" 1] r(2) by simp
next
  case False
  then show ?thesis
    using assms peak_zero [OF False, of s] by (simp add: normalize_peak_def Let_def)
qed

lemma normalized_peak:
  assumes "r \<in> set samples" and "r \<noteq> 0"
  shows "\<exists>s \<in> set (normalize_peak samples). \<bar>s\<bar> = 1"
proof -
  have pos: "0 < peak samples"
    using peak_zero [of samples r] assms by blast
  obtain s where s: "s \<in> set samples" "\<bar>s\<bar> = peak samples"
    using peak_reached [OF pos] by blast
  then have "s / peak samples = 1 \<or> s / peak samples = - 1"
    using pos by (auto simp: abs_if field_simps split: if_splits)
  then have "\<bar>f64 (s / peak samples)\<bar> = 1"
    using round_to_int [of 1 53] round_to_int [of "- 1" 53] by auto
  then show ?thesis
    using s(1) pos by (auto simp: normalize_peak_def Let_def)
qed

lemma pcm16_eq:
  assumes "\<bar>s\<bar> \<le> 1"
  shows "pcm16 s = trunc (f64 (s * 32767))" and "\<bar>pcm16 s\<bar> \<le> 32767"
proof -
  have "\<bar>s * 32767\<bar> \<le> of_int 32767"
    using assms by (simp add: abs_mult)
  then have b: "\<bar>f64 (s * 32767)\<bar> \<le> 32767"
    using f64_abs_le_int [of "s * 32767" 32767] by simp
  then have t: "\<bar>trunc (f64 (s * 32767))\<bar> \<le> 32767"
    using trunc_mono [of "of_int (- 32767)" "f64 (s * 32767)"] trunc_mono [of "f64 (s * 32767)" "of_int 32767"]
    by (simp only: trunc_of_int) (simp add: abs_le_iff)
  show "pcm16 s = trunc (f64 (s * 32767))"
    using b t by (simp add: pcm16_def clamp_id as_signed_def abs_le_iff)
  then show "\<bar>pcm16 s\<bar> \<le> 32767"
    using t by simp
qed

lemma pcm16_full: "\<bar>s\<bar> = 1 \<Longrightarrow> \<bar>pcm16 s\<bar> = 32767"
  using round_to_int [of 32767 53] round_to_int [of "- 32767" 53] pcm16_eq(1) [of s]
  by (auto simp: abs_if trunc_def split: if_splits)

lemma pcm16_zero: "pcm16 0 = 0"
  by (simp add: pcm16_def as_signed_def clamp_def trunc_def)

text \<open>Reading a 16-bit sample back.\<close>

definition signed16 :: "bytes \<Rightarrow> int" where
  "signed16 bs = (let u = int (un_le bs) in if u < 2 ^ 15 then u else u - 2 ^ 16)"

lemma signed16_le16:
  assumes "- (2 ^ 15) \<le> v" and "v < 2 ^ 15"
  shows "signed16 (le16_signed v) = v"
proof -
  have "uint (word_of_int k :: u8) = k mod 256" for k
    by (simp add: uint_word_of_int)
  moreover have "v mod 2 ^ 16 = v mod 256 + 256 * (v div 256 mod 256)"
    using zmod_zmult2_eq [of 256 v 256] by simp
  ultimately have "int (un_le (le16_signed v)) = v mod 2 ^ 16"
    by (simp add: le16_signed_def)
  moreover have "v mod 2 ^ 16 = (v + 2 ^ 16) mod 2 ^ 16"
    by simp
  then have "v mod 2 ^ 16 = (if 0 \<le> v then v else v + 2 ^ 16)"
    using assms mod_pos_pos_trivial [of v "2 ^ 16"] mod_pos_pos_trivial [of "v + 2 ^ 16" "2 ^ 16"] by simp
  ultimately have wrap: "int (un_le (le16_signed v)) = (if 0 \<le> v then v else v + 2 ^ 16)"
    by simp
  show ?thesis
    using assms by (simp add: signed16_def Let_def wrap)
qed

text \<open>The samples a 16-bit buffer plays.\<close>

definition played16 :: "bytes \<Rightarrow> int list" where
  "played16 wav = map (\<lambda>i. signed16 (slice (wav_data wav) (2 * i) 2)) [0..<length (wav_data wav) div 2]"

lemma played_samples:
  assumes "\<forall>v \<in> set vs. \<bar>v\<bar> \<le> 32767"
  shows "map (\<lambda>i. signed16 (slice (concat (map le16_signed vs)) (2 * i) 2)) [0..<length vs] = vs"
  using assms
proof (induction vs)
  case (Cons v vs)
  have "slice (concat (map le16_signed (v # vs))) (2 * Suc i) 2 = slice (concat (map le16_signed vs)) (2 * i) 2" for i
    by (simp add: slice_def le16_signed_def)
  moreover have "signed16 (slice (concat (map le16_signed (v # vs))) 0 2) = v"
    using signed16_le16 [of v] Cons.prems by (simp add: slice_def le16_signed_def abs_le_iff)
  ultimately show ?case
    using Cons by (simp only: length_Cons map_upt_Suc mult_0_right) simp
qed simp

lemma played_normalized:
  assumes "raw \<noteq> []" and "length raw < 2 ^ 30"
  obtains wav where "samples_to_wav (normalize_peak raw) SAMPLE_RATE = Some wav"
    and "played16 wav = map pcm16 (normalize_peak raw)"
proof -
  let ?s = "normalize_peak raw"
  let ?body = "concat (map (\<lambda>s. le16_signed (pcm16 s)) ?s)"
  have body: "0 < length ?body" "36 + length ?body < 2 ^ 32"
    using assms by simp_all
  obtain wav where wav: "samples_to_wav ?s SAMPLE_RATE = Some wav" "wav_data wav = ?body"
    using samples_to_wav_ok [of ?s] pcm_file_parse(2) [OF _ body, of 16] assms by simp
  then have data: "wav_data wav = concat (map le16_signed (map pcm16 ?s))"
    by (simp add: comp_def)
  have len: "length (wav_data wav) div 2 = length (map pcm16 ?s)"
    unfolding wav(2) by simp
  have "\<forall>v \<in> set (map pcm16 ?s). \<bar>v\<bar> \<le> 32767"
    using normalized_range pcm16_eq(2) by simp
  from played_samples [OF this] have "played16 wav = map pcm16 ?s"
    unfolding played16_def len unfolding data .
  then show thesis using that wav(1) by blast
qed

text \<open>No sample is beyond the scale, and the loudest reaches it, if there is any sound.\<close>

definition full_scale :: "int list \<Rightarrow> bool" where
  "full_scale vs =
     (list_all (\<lambda>v. \<bar>v\<bar> \<le> 32767) vs \<and> (list_all (\<lambda>v. v = 0) vs \<or> list_ex (\<lambda>v. \<bar>v\<bar> = 32767) vs))"

lemma full_scale_normalized: "full_scale (map pcm16 (normalize_peak raw))"
proof -
  have "list_all (\<lambda>v. \<bar>v\<bar> \<le> 32767) (map pcm16 (normalize_peak raw))"
    using normalized_range pcm16_eq(2) by (simp add: list_all_iff)
  moreover have "list_ex (\<lambda>v. \<bar>v\<bar> = 32767) (map pcm16 (normalize_peak raw))" if "r \<in> set raw" "r \<noteq> 0" for r
    using normalized_peak [OF that] pcm16_full by (auto simp: list_ex_iff)
  moreover have "list_all (\<lambda>v. v = 0) (map pcm16 (normalize_peak raw))" if "\<forall>r \<in> set raw. r = 0"
  proof -
    have "peak raw = 0"
      using that peak_reached [of raw] peak_fold [of 0 raw] by (force simp: peak_def)
    then show ?thesis
      using that pcm16_zero by (auto simp: normalize_peak_def list_all_iff)
  qed
  ultimately show ?thesis
    unfolding full_scale_def by blast
qed

text \<open>
  Tones and chords use the full scale and never clip: whatever the frequencies and whatever
  the mathematical functions return, every 16-bit sample is within -32767 and 32767, and the
  loudest reaches 32767, unless all of them are silence.
\<close>

theorem tones_full_scale:
  assumes "as_unsigned 64 (f64 (of_nat SAMPLE_RATE * duration)) = n" and "0 < n" and "n < 2 ^ 30"
  shows "\<exists>tone chord. generate_tone_wav L frequency duration SAMPLE_RATE = Some tone
    \<and> generate_chord_wav L freqs duration SAMPLE_RATE = Some chord
    \<and> length (played16 tone) = n \<and> full_scale (played16 tone)
    \<and> length (played16 chord) = n \<and> full_scale (played16 chord)"
proof -
  have normalized: "\<exists>wav. samples_to_wav (normalize_peak raw) SAMPLE_RATE = Some wav
      \<and> length (played16 wav) = n \<and> full_scale (played16 wav)" if "length raw = n" for raw
  proof -
    have "raw \<noteq> []" "length raw < 2 ^ 30" using that assms by auto
    then obtain wav where "samples_to_wav (normalize_peak raw) SAMPLE_RATE = Some wav"
        "played16 wav = map pcm16 (normalize_peak raw)"
      by (rule played_normalized)
    then show ?thesis
      using that full_scale_normalized [of raw] by simp
  qed
  show ?thesis
    using normalized [of "harmonics L frequency duration SAMPLE_RATE (f64 (of_nat SAMPLE_RATE / 2))
          (as_unsigned 32 (f64 (f64 (of_nat SAMPLE_RATE / 2) / frequency))) 1 (replicate n 0)"]
      normalized [of "fold (\<lambda>freq. mix (f64 (1 / of_nat (length freqs))) (generate_ar7778_tone L freq duration SAMPLE_RATE))
          freqs (replicate n 0)"]
    by (auto simp: generate_tone_wav_def generate_ar7778_tone_def generate_chord_wav_def Let_def assms(1) length_fold)
qed

definition demo_libm :: libm where
  "demo_libm = \<lparr>lm_sin = (\<lambda>x. x), lm_cos = (\<lambda>_. 1), lm_ln = (\<lambda>x. x - 1), lm_powf = (\<lambda>x y. x), lm_log10 = (\<lambda>x. x - 1)\<rparr>"

theorem tones_full_scale_witness:
  "\<exists>tone chord. generate_tone_wav demo_libm FREQ_C5 TONE_DURATION SAMPLE_RATE = Some tone
    \<and> generate_chord_wav demo_libm [FREQ_C4, FREQ_E4, FREQ_G4] TONE_DURATION SAMPLE_RATE = Some chord
    \<and> length (played16 tone) = 8820 \<and> full_scale (played16 chord)"
  using tones_full_scale [OF durations(1), of demo_libm FREQ_C5 "[FREQ_C4, FREQ_E4, FREQ_G4]"] by auto

section \<open>Everything that is said is heard\<close>

text \<open>
  What is asked of the engine: it decodes the files the program writes, mono PCM of whole 16-bit
  or 24-bit samples at 44100 Hz. Its track may refuse a sound.
\<close>

definition decodes_pcm :: "('snd, 'h) kira \<Rightarrow> bool" where
  "decodes_pcm K =
     (\<forall>bits body. (bits = 16 \<or> bits = 24) \<and> 0 < length body \<and> 36 + length body < 2 ^ 32
        \<and> bits div 8 dvd length body \<longrightarrow> k_decode K (pcm_file bits body) \<noteq> None)"

text \<open>A recording as the repository embeds them: mono float at 44100 Hz, below a megabyte.\<close>

definition voice_recording :: "bytes \<Rightarrow> bool" where
  "voice_recording buf =
     (case parse_wav_info buf of
        None \<Rightarrow> False
      | Some info \<Rightarrow> audio_format info = 3 \<and> channels info = 1 \<and> sample_rate info = 44100
          \<and> 4 \<le> data_size info \<and> data_size info \<le> 2 ^ 20)"

text \<open>A buffer the sequences can be joined from.\<close>

definition joinable :: "nat \<Rightarrow> bytes \<Rightarrow> bool" where
  "joinable bits buf =
     (\<exists>body. buf = pcm_file bits body \<and> 0 < length body \<and> length body \<le> 2 ^ 20 \<and> bits div 8 dvd length body)"

lemma those_map: "list_all (\<lambda>x. f x = Some (g x)) xs \<Longrightarrow> those (map f xs) = Some (map g xs)"
  by (induction xs) simp_all

lemma joinable_data:
  assumes "joinable bits buf" and "bits = 16 \<or> bits = 24"
  shows "buf = pcm_file bits (wav_data buf)" and "0 < length (wav_data buf)" and "length (wav_data buf) \<le> 2 ^ 20"
    and "bits div 8 dvd length (wav_data buf)" and "parse_wav_info buf = Some (pcm_info bits (length (wav_data buf)))"
proof -
  obtain body where body: "buf = pcm_file bits body" "0 < length body" "length body \<le> 2 ^ 20" "bits div 8 dvd length body"
    using assms(1) by (auto simp: joinable_def)
  then have "36 + length body < 2 ^ 32" by simp
  note parse = pcm_file_parse [OF assms(2) body(2) this]
  show "buf = pcm_file bits (wav_data buf)" "0 < length (wav_data buf)" "length (wav_data buf) \<le> 2 ^ 20"
    "bits div 8 dvd length (wav_data buf)" "parse_wav_info buf = Some (pcm_info bits (length (wav_data buf)))"
    using body parse by simp_all
qed

lemma length_concat_bound:
  "list_all (\<lambda>buf. length (wav_data buf) \<le> b) bufs \<Longrightarrow> length (concat (map wav_data bufs)) \<le> length bufs * b"
  by (induction bufs) auto

lemma joined:
  assumes "bufs \<noteq> []" and "list_all (joinable bits) bufs" and "bits = 16 \<or> bits = 24" and "length bufs \<le> 4000"
  shows "concat_wav_buffers bufs = Some (Some (pcm_file bits (concat (map wav_data bufs))))"
    and "0 < length (concat (map wav_data bufs))" and "36 + length (concat (map wav_data bufs)) < 2 ^ 32"
    and "bits div 8 dvd length (concat (map wav_data bufs))"
proof -
  let ?info = "\<lambda>buf. pcm_info bits (length (wav_data buf))" and ?body = "concat (map wav_data bufs)"
  have each: "list_all (\<lambda>buf. 0 < length (wav_data buf) \<and> length (wav_data buf) \<le> 2 ^ 20
      \<and> bits div 8 dvd length (wav_data buf) \<and> parse_wav_info buf = Some (?info buf)) bufs"
    using assms(2) joinable_data [OF _ assms(3)] by (simp add: list_all_iff)
  then have info: "list_all (\<lambda>buf. parse_wav_info buf = Some (?info buf)) bufs"
    and small: "list_all (\<lambda>buf. length (wav_data buf) \<le> 2 ^ 20) bufs"
    by (auto simp: list_all_iff)
  have those: "those (map parse_wav_info bufs) = Some (map ?info bufs)"
    using info by (rule those_map)
  obtain b bs where bufs: "bufs = b # bs" using assms(1) by (cases bufs) auto
  show "0 < length ?body" using each bufs by simp
  have "length ?body \<le> 4000 * 2 ^ 20"
    using length_concat_bound [OF small] assms(4) mult_le_mono1 [of "length bufs" 4000 "2 ^ 20"] by linarith
  then show len: "36 + length ?body < 2 ^ 32" by simp
  show "bits div 8 dvd length ?body"
    using each by (induction bufs) auto
  have sum: "sum_list (map data_size (map ?info bufs)) = length ?body"
    using concat_body(2) [OF those] .
  have "concat_infos bufs (map ?info bufs) = Some (pcm_file bits ?body)"
    unfolding concat_infos_def Let_def concat_body(1) [OF those] sum
    using assms(3) len by (auto simp: bufs pcm_info_def checked_def pcm_file_def)
  moreover have "list_all (same_format (hd (map ?info bufs))) (tl (map ?info bufs))"
    by (auto simp: list_all_iff same_format_def pcm_info_def bufs)
  ultimately show "concat_wav_buffers bufs = Some (Some (pcm_file bits ?body))"
    using assms(1) those by (simp add: concat_wav_buffers_def)
qed

lemma joinable_decoded:
  assumes "joinable bits buf" and "bits = 16 \<or> bits = 24" and "decodes_pcm K"
  shows "k_decode K buf \<noteq> None"
proof -
  have "36 + length (wav_data buf) < 2 ^ 32"
    using joinable_data(3) [OF assms(1,2)] by simp
  then have "k_decode K (pcm_file bits (wav_data buf)) \<noteq> None"
    using assms(2,3) joinable_data(2,4) [OF assms(1,2)] unfolding decodes_pcm_def by blast
  then show ?thesis
    using joinable_data(1) [OF assms(1,2)] by simp
qed

text \<open>A loaded recording: converted, decoded, and kept beside its sound.\<close>

lemma recording_loaded:
  assumes "voice_recording buf" and "decodes_pcm K"
  obtains snd wav where "load_sound K buf = Returns (Some (snd, wav))" and "joinable 24 wav"
    and "float_wav_to_pcm24 buf = Returns (Some wav)" and "k_decode K wav = Some snd"
proof -
  obtain info where info: "parse_wav_info buf = Some info" "audio_format info = 3" "channels info = 1"
      "sample_rate info = 44100" "4 \<le> data_size info" "data_size info \<le> 2 ^ 20"
    using assms(1) by (auto simp: voice_recording_def split: option.splits)
  let ?n = "data_size info div 4" and ?pcm = "pcm24_of buf info"
  have n: "3 * ?n \<le> 2 ^ 20" "0 < ?n" using info(5,6) by simp_all
  have len: "length ?pcm = 3 * ?n" by (simp add: pcm24_of_def)
  have conv: "float_wav_to_pcm24 buf = Returns (Some (pcm_file 24 ?pcm))"
    using info n len by (simp add: conversion convertible_def pcm_file_def)
  have join: "joinable 24 (pcm_file 24 ?pcm)"
    unfolding joinable_def using n len by (intro exI [of _ ?pcm]) simp
  then obtain snd where "k_decode K (pcm_file 24 ?pcm) = Some snd"
    using joinable_decoded [OF join _ assms(2)] by auto
  then show thesis
    using that conv join by (auto simp: load_sound_def)
qed

lemma recordings_loaded:
  assumes "list_all voice_recording bufs" and "decodes_pcm K"
  shows "\<exists>entries. load_sounds K bufs = Returns entries
    \<and> list_all2 (\<lambda>buf wav. float_wav_to_pcm24 buf = Returns (Some wav)) bufs (map snd entries)
    \<and> list_all2 (\<lambda>sound wav. k_decode K wav = Some sound) (map fst entries) (map snd entries)
    \<and> list_all (joinable 24) (map snd entries)"
  using assms(1)
proof (induction bufs)
  case (Cons buf bufs)
  have "voice_recording buf" using Cons.prems by simp
  then obtain s wav where "load_sound K buf = Returns (Some (s, wav))" "joinable 24 wav"
      "float_wav_to_pcm24 buf = Returns (Some wav)" "k_decode K wav = Some s"
    using recording_loaded [OF _ assms(2)] by blast
  then show ?case using Cons by auto
qed simp

lemma tones_loaded:
  assumes "decodes_pcm K"
  shows "\<exists>tones wavs. music_tones_new K L = Some (tones, wavs) \<and> tone_wavs L = Some wavs \<and> length wavs = 23
    \<and> list_all2 (\<lambda>sound wav. k_decode K wav = Some sound) tones wavs \<and> list_all (joinable 16) wavs"
proof -
  obtain wavs where wavs: "tone_wavs L = Some wavs" "list_all2 tone_file wavs TONE_SAMPLES"
    using tone_pool by blast
  have "length wavs = 23"
    using list_all2_lengthD [OF wavs(2)] by (simp add: TONE_SAMPLES_def)
  moreover have "list_all (\<lambda>n. 2 * n \<le> 2 ^ 20) TONE_SAMPLES"
    by (simp add: TONE_SAMPLES_def list_all_iff)
  then have "list_all (joinable 16) wavs"
    using wavs(2) by (fastforce simp: list_all2_conv_all_nth list_all_length joinable_def tone_file_def)
  moreover have "\<exists>tones. those (map (k_decode K) wavs) = Some tones
      \<and> list_all2 (\<lambda>sound wav. k_decode K wav = Some sound) tones wavs"
    using \<open>list_all (joinable 16) wavs\<close>
  proof (induction wavs)
    case (Cons w ws)
    then have "k_decode K w \<noteq> None"
      using joinable_decoded [OF _ _ assms, of 16 w] by simp
    then show ?case using Cons by auto
  qed simp
  ultimately show ?thesis
    using wavs(1) by (auto simp: music_tones_new_def)
qed

text \<open>
  A recording that the engine does not decode is left out, and those after it move up: the
  indices of the voice are right only if all recordings load.
\<close>

lemma failed_recording_shifts:
  "load_sound K bs = Returns None \<Longrightarrow> load_sounds K (bs # rest) = load_sounds K rest"
  by (simp split: run.splits)

text \<open>What a player that came up holds.\<close>

definition well_stocked :: "('snd, 'h) kira \<Rightarrow> ('snd, 'h) vocal_audio \<Rightarrow> bool" where
  "well_stocked K a =
     (length (va_wav_bytes a) = 69 \<and> list_all (joinable 24) (va_wav_bytes a)
      \<and> list_all2 (\<lambda>sound wav. k_decode K wav = Some sound) (va_sounds a) (va_wav_bytes a)
      \<and> length (va_tone_bytes a) = 23 \<and> list_all (joinable 16) (va_tone_bytes a)
      \<and> list_all2 (\<lambda>sound wav. k_decode K wav = Some sound) (va_tones a) (va_tone_bytes a))"

lemma player_starts:
  fixes K :: "('snd, 'h) kira"
  assumes "decodes_pcm K" and "list_all voice_recording (normal_bytes @ broken_bytes)"
    and "length normal_bytes = 35" and "length broken_bytes = 34"
  obtains a where "vocal_audio_new K L True True normal_bytes broken_bytes seed = Returns (Some a)"
    and "well_stocked K a" and "va_mode a = Normal" and "va_current a = None" and "va_rng a = seed OR 1"
    and "va_started a = []" and "tone_wavs L = Some (va_tone_bytes a)"
    and "list_all2 (\<lambda>buf wav. float_wav_to_pcm24 buf = Returns (Some wav)) (normal_bytes @ broken_bytes) (va_wav_bytes a)"
proof -
  obtain entries where e: "load_sounds K (normal_bytes @ broken_bytes) = Returns entries"
      "list_all2 (\<lambda>buf wav. float_wav_to_pcm24 buf = Returns (Some wav)) (normal_bytes @ broken_bytes) (map snd entries)"
      "list_all2 (\<lambda>sound wav. k_decode K wav = Some sound) (map fst entries) (map snd entries)"
      "list_all (joinable 24) (map snd entries)"
    using recordings_loaded [OF assms(2,1)] by blast
  have "length entries = 69"
    using list_all2_lengthD [OF e(2)] assms(3,4) by simp
  moreover obtain tones wavs where t: "music_tones_new K L = Some (tones, wavs)" "tone_wavs L = Some wavs" "length wavs = 23"
      "list_all2 (\<lambda>sound wav. k_decode K wav = Some sound) tones wavs" "list_all (joinable 16) wavs"
    using tones_loaded [OF assms(1)] by blast
  moreover define a :: "('snd, 'h) vocal_audio" where "a = \<lparr>va_sounds = map fst entries, va_wav_bytes = map snd entries, va_tones = tones,
      va_tone_bytes = wavs, va_mode = Normal, va_current = None, va_rng = seed OR 1,
      va_started = [], va_stopped = [], va_volume = slider_to_decibels L (f64 (5 / 10))\<rparr>"
  ultimately show thesis
    using e by (intro that [of a]) (simp_all add: vocal_audio_new_def load_all_sounds_def well_stocked_def)
qed

lemma picked:
  assumes "list_all P xs" and "list_all (\<lambda>i. i < length xs) is"
  shows "List.map_filter (vec_get xs) is = map ((!) xs) is" and "list_all P (map ((!) xs) is)"
proof -
  have nth: "P (xs ! i)" if "i < length xs" for i
    using assms(1) that by (simp add: list_all_length)
  show "List.map_filter (vec_get xs) is = map ((!) xs) is" "list_all P (map ((!) xs) is)"
    using assms(2) by (induction "is") (simp_all add: vec_get_def nth)
qed

lemma play_events_idle:
  "va_current a = None \<Longrightarrow> play_events D K evs a =
     (case va_mode a of
        Normal \<Rightarrow> Option.bind (normal_indices D evs) (\<lambda>is. play_voice_sequence K is a)
      | Broken \<Rightarrow> Option.bind (broken_indices D evs (va_rng a)) (\<lambda>(is, rng). play_voice_sequence K is (a\<lparr>va_rng := rng\<rparr>))
      | Music \<Rightarrow> play_tone_sequence K (events_to_tone_indices D evs) a
      | Silent \<Rightarrow> Some a)"
  by (cases a) (auto simp: play_events_def Let_def split: audio_mode.splits option.splits)

text \<open>
  \<open>heard\<close>: the one sound a player hands to the engine is the decoding of a file with these
  samples, and it plays if the engine takes it.
\<close>

definition heard :: "('snd, 'h) kira \<Rightarrow> nat \<Rightarrow> bytes \<Rightarrow> ('snd, 'h) vocal_audio \<Rightarrow> ('snd, 'h) vocal_audio \<Rightarrow> bool" where
  "heard K bits body a a' =
     (case k_decode K (pcm_file bits body) of
        None \<Rightarrow> False
      | Some sound \<Rightarrow>
          (case k_play K (va_started a) sound of
             None \<Rightarrow> va_current a' = va_current a \<and> va_started a' = va_started a
           | Some handle \<Rightarrow> va_current a' = Some handle \<and> va_started a' = va_started a @ [handle]))"

lemma heard_rng: "heard K bits body (a\<lparr>va_rng := rng\<rparr>) a' = heard K bits body a a'"
  by (simp add: heard_def cong: option.case_cong)

lemma track_play_heard:
  "k_decode K (pcm_file bits body) = Some sound \<Longrightarrow> heard K bits body a (track_play K sound a)"
  by (auto simp: heard_def track_play_def split: option.split)

definition spoken :: "bytes list \<Rightarrow> nat list \<Rightarrow> bytes" where
  "spoken files is = concat (map (\<lambda>i. wav_data (files ! i)) is)"

lemma single_heard:
  assumes "list_all2 (\<lambda>sound wav. k_decode K wav = Some sound) sounds files" and "list_all (joinable bits) files"
    and "bits = 16 \<or> bits = 24" and "i < length files"
  shows "heard K bits (spoken files [i]) a (track_play K (sounds ! i) a)"
proof (rule track_play_heard)
  have "k_decode K (files ! i) = Some (sounds ! i)" "joinable bits (files ! i)"
    using assms(1,2,4) by (simp_all add: list_all2_conv_all_nth list_all_length)
  then show "k_decode K (pcm_file bits (spoken files [i])) = Some (sounds ! i)"
    using joinable_data(1) [OF _ assms(3)] by (simp add: spoken_def)
qed

lemma joins:
  assumes "list_all (joinable bits) files" and "list_all (\<lambda>i. i < length files) is" and "bits = 16 \<or> bits = 24"
    and "is \<noteq> []" and "length is \<le> 4000" and "decodes_pcm K"
  obtains sound where "concat_wav_buffers (List.map_filter (vec_get files) is) = Some (Some (pcm_file bits (spoken files is)))"
    and "k_decode K (pcm_file bits (spoken files is)) = Some sound"
proof -
  have body: "concat (map wav_data (map ((!) files) is)) = spoken files is"
    by (simp add: spoken_def comp_def)
  note j = joined [of "map ((!) files) is" bits, unfolded body, OF _ picked(2) [OF assms(1,2)] assms(3)]
  have "k_decode K (pcm_file bits (spoken files is)) \<noteq> None"
    using j(2-4) assms(3-6) unfolding decodes_pcm_def by simp
  then show thesis
    using that j(1) picked(1) [OF assms(1,2)] assms(4,5) by auto
qed

lemma sequence_heard:
  assumes "decodes_pcm K" and "well_stocked K a" and "is \<noteq> []" and "length is \<le> 4000"
  shows "list_all (\<lambda>i. i < 69) is \<Longrightarrow>
      \<exists>a'. play_voice_sequence K is a = Some a' \<and> heard K 24 (spoken (va_wav_bytes a) is) a a'"
    and "list_all (\<lambda>i. i < 23) is \<Longrightarrow>
      \<exists>a'. play_tone_sequence K is a = Some a' \<and> heard K 16 (spoken (va_tone_bytes a) is) a a'"
proof -
  have stock: "list_all (joinable 24) (va_wav_bytes a)" "list_all (joinable 16) (va_tone_bytes a)"
    "list_all2 (\<lambda>sound wav. k_decode K wav = Some sound) (va_sounds a) (va_wav_bytes a)"
    "list_all2 (\<lambda>sound wav. k_decode K wav = Some sound) (va_tones a) (va_tone_bytes a)"
    "length (va_wav_bytes a) = 69" "length (va_tone_bytes a) = 23" "length (va_sounds a) = 69" "length (va_tones a) = 23"
    using assms(2) by (auto simp: well_stocked_def dest: list_all2_lengthD)
  show "\<exists>a'. play_voice_sequence K is a = Some a' \<and> heard K 24 (spoken (va_wav_bytes a) is) a a'"
    if range: "list_all (\<lambda>i. i < 69) is"
  proof (cases "length is = 1")
    case True
    then obtain i where "is = [i]" by (auto simp: length_Suc_conv)
    then show ?thesis
      using range stock(5,7) single_heard [OF stock(3,1), of i] by (simp add: play_voice_sequence_def play_sound_def)
  next
    case False
    obtain sound where "concat_wav_buffers (List.map_filter (vec_get (va_wav_bytes a)) is)
          = Some (Some (pcm_file 24 (spoken (va_wav_bytes a) is)))"
        "k_decode K (pcm_file 24 (spoken (va_wav_bytes a) is)) = Some sound"
      using joins [OF stock(1) _ _ assms(3,4,1), unfolded stock(5), OF range] by blast
    then show ?thesis
      using False assms(3) track_play_heard by (simp add: play_voice_sequence_def)
  qed
  show "\<exists>a'. play_tone_sequence K is a = Some a' \<and> heard K 16 (spoken (va_tone_bytes a) is) a a'"
    if range: "list_all (\<lambda>i. i < 23) is"
  proof (cases "length is = 1")
    case True
    then obtain i where "is = [i]" by (auto simp: length_Suc_conv)
    then show ?thesis
      using range stock(6,8) single_heard [OF stock(4,2), of i] by (simp add: play_tone_sequence_def vec_get_def)
  next
    case False
    obtain sound where "concat_wav_buffers (List.map_filter (vec_get (va_tone_bytes a)) is)
          = Some (Some (pcm_file 16 (spoken (va_tone_bytes a) is)))"
        "k_decode K (pcm_file 16 (spoken (va_tone_bytes a) is)) = Some sound"
      using joins [OF stock(2) _ _ assms(3,4,1), unfolded stock(6), OF range] by blast
    then show ?thesis
      using False assms(3) track_play_heard by (simp add: play_tone_sequence_def)
  qed
qed

text \<open>The sequence of sounds the events are in a mode.\<close>

definition sounds_of :: "'d decimal_ops \<Rightarrow> audio_mode \<Rightarrow> u64 \<Rightarrow> 'd vocal_event list \<Rightarrow> nat list" where
  "sounds_of D mode rng evs =
     (case mode of
        Normal \<Rightarrow> the (normal_indices D evs)
      | Broken \<Rightarrow> fst (the (broken_indices D evs rng))
      | Music \<Rightarrow> events_to_tone_indices D evs
      | Silent \<Rightarrow> [])"

text \<open>
  C27: everything that is said is heard, and as one sound. A player whose engine comes up and
  decodes the program's own PCM files holds the conversions of all 69 recordings, which are of
  the embedded kind, and the 23 tones. Given any valid events it does not panic, and in every
  mode hands the engine the decoding of one file: exactly the samples of the recordings (or
  tones) of the events, all of them and in their order, so that no sequence fails to be joined or
  falls back to its first word. That sound plays if the engine takes it. Only the silent mode and
  events without a sound start nothing.
\<close>

theorem everything_heard:
  assumes "decodes_pcm K" and "list_all voice_recording (normal_bytes @ broken_bytes)"
    and "length normal_bytes = 35" and "length broken_bytes = 34"
    and "prints_plain D" and "list_all valid_event evs"
    and "length (sounds_of D mode (seed OR 1) evs) \<le> 4000"
  shows "\<exists>a a'. vocal_audio_new K L True True normal_bytes broken_bytes seed = Returns (Some a)
    \<and> list_all2 (\<lambda>buf wav. float_wav_to_pcm24 buf = Returns (Some wav)) (normal_bytes @ broken_bytes) (va_wav_bytes a)
    \<and> tone_wavs L = Some (va_tone_bytes a)
    \<and> play_events D K evs (set_mode mode a) = Some a'
    \<and> (if sounds_of D mode (seed OR 1) evs = [] then va_current a' = None \<and> va_started a' = []
       else case k_decode K (if mode = Music
              then pcm_file 16 (spoken (va_tone_bytes a) (sounds_of D mode (seed OR 1) evs))
              else pcm_file 24 (spoken (va_wav_bytes a) (sounds_of D mode (seed OR 1) evs))) of
            None \<Rightarrow> False
          | Some sound \<Rightarrow>
              va_current a' = k_play K [] sound
              \<and> va_started a' = (case k_play K [] sound of None \<Rightarrow> [] | Some handle \<Rightarrow> [handle]))"
proof -
  obtain a where a: "vocal_audio_new K L True True normal_bytes broken_bytes seed = Returns (Some a)"
      "well_stocked K a" "va_mode a = Normal" "va_current a = None" "va_rng a = seed OR 1" "va_started a = []"
      "tone_wavs L = Some (va_tone_bytes a)"
      "list_all2 (\<lambda>buf wav. float_wav_to_pcm24 buf = Returns (Some wav)) (normal_bytes @ broken_bytes) (va_wav_bytes a)"
    by (rule player_starts [OF assms(1-4)])
  let ?is = "sounds_of D mode (seed OR 1) evs" and ?a = "set_mode mode a"
  have stock: "well_stocked K ?a" "well_stocked K (?a\<lparr>va_rng := rng\<rparr>)" for rng
    using a(2) by (simp_all add: well_stocked_def set_mode_def)
  obtain ws where ws: "normal_indices D evs = Some ws" "list_all (\<lambda>w. w < 32) ws"
    using normal_indices_bounded [OF assms(5,6)] by blast
  obtain bs rng where bs: "broken_indices D evs (seed OR 1) = Some (bs, rng)" "list_all (\<lambda>w. w < 69) bs"
    using broken_indices_bounded [OF assms(5,6)] by blast
  have range: "list_all (\<lambda>i. i < 69) ws" "list_all (\<lambda>i. i < 23) (events_to_tone_indices D evs)"
    using ws(2) event_tones_bounded by (fastforce simp: events_to_tone_indices_def list_all_iff)+
  have empty: "play_voice_sequence K [] b = Some b" "play_tone_sequence K [] b = Some b" for b
    by (simp_all add: play_voice_sequence_def play_tone_sequence_def)
  have cur: "va_current ?a = None" "va_rng ?a = seed OR 1" "va_mode ?a = mode" "va_started ?a = []"
      "va_wav_bytes ?a = va_wav_bytes a" "va_tone_bytes ?a = va_tone_bytes a"
    using a by (simp_all add: set_mode_def)
  have "\<exists>a'. play_events D K evs ?a = Some a'
      \<and> (if ?is = [] then va_current a' = None \<and> va_started a' = []
         else if mode = Music then heard K 16 (spoken (va_tone_bytes a) ?is) ?a a'
         else heard K 24 (spoken (va_wav_bytes a) ?is) ?a a')"
  proof (cases mode)
    case Normal
    then show ?thesis
      using sequence_heard(1) [OF assms(1) stock(1), of ws] empty(1) cur range(1) ws(1) assms(7)
      by (cases "ws = []") (simp_all add: play_events_idle sounds_of_def)
  next
    case Broken
    then show ?thesis
      using sequence_heard(1) [OF assms(1) stock(2), of bs] empty(1) cur bs assms(7)
      by (cases "bs = []") (simp_all add: play_events_idle sounds_of_def heard_rng)
  next
    case Music
    then show ?thesis
      using sequence_heard(2) [OF assms(1) stock(1), of "events_to_tone_indices D evs"] empty(2) cur range(2) assms(7)
      by (cases "events_to_tone_indices D evs = []") (simp_all add: play_events_idle sounds_of_def)
  next
    case Silent
    then show ?thesis using cur by (simp add: play_events_idle sounds_of_def)
  qed
  then obtain a' where "play_events D K evs ?a = Some a'"
      "if ?is = [] then va_current a' = None \<and> va_started a' = []
       else if mode = Music then heard K 16 (spoken (va_tone_bytes a) ?is) ?a a'
       else heard K 24 (spoken (va_wav_bytes a) ?is) ?a a'"
    by blast
  then show ?thesis
    using a(1,7,8) cur(1,4)
    by (intro exI [of _ a] exI [of _ a']) (auto simp: heard_def split: if_splits option.splits)
qed

text \<open>An engine whose sounds and handles are the files themselves.\<close>

definition echo_engine :: "(bytes, bytes) kira" where
  "echo_engine = \<lparr>k_decode = Some, k_play = (\<lambda>_. Some)\<rparr>"

theorem everything_heard_witness:
  "\<exists>a a'. vocal_audio_new echo_engine demo_libm True True (replicate 35 demo_recording)
       (replicate 34 demo_recording) 6 = Returns (Some a)
     \<and> play_events fx_ops echo_engine [V_Digit 7, V_Operator Add, V_Digit 2] (set_mode Music a) = Some a'
     \<and> va_current a' = Some (pcm_file 16 (concat (map (\<lambda>i. wav_data (va_tone_bytes a ! i)) [13, 16, 8])))"
proof -
  have "voice_recording demo_recording"
    by (simp add: voice_recording_def demo_recording_info)
  then have voice: "list_all voice_recording (replicate 35 demo_recording @ replicate 34 demo_recording)"
    by (simp add: list_all_iff)
  have valid: "list_all valid_event [V_Digit 7, V_Operator Add, V_Digit (2 :: u8) :: int vocal_event]"
    by (simp add: valid_event_def)
  have engine: "decodes_pcm echo_engine"
    by (simp add: decodes_pcm_def echo_engine_def)
  have sounds: "sounds_of fx_ops Music (6 OR 1) [V_Digit 7, V_Operator Add, V_Digit 2] = [13, 16, 8]"
    by (simp add: sounds_of_def events_to_tone_indices_def digit_tone_def)
  have play: "k_decode echo_engine buf = Some buf" "k_play echo_engine hs buf = Some buf" for buf hs
    by (simp_all add: echo_engine_def)
  show ?thesis
    using everything_heard [OF engine voice _ _ fx_prints_plain valid, of Music 6 demo_libm, unfolded sounds play]
    by (auto simp: spoken_def)
qed

end
