(* ===== verification/View_Texts.thy ===== *)
theory View_Texts
  imports Token
begin

text \<open>
  The texts of the user interface in \<open>src/components\<close>, as the UTF-8 bytes of the string
  literals. The names say in English what a text means.
\<close>

definition L_EXECUTING :: string where
  "L_EXECUTING =
     utf8 [0xE8, 0xBF, 0x9C, 0xE7, 0xA8, 0x8B, 0xE6, 0x89, 0xA7, 0xE8, 0xA1, 0x8C]"
definition L_REMOTE :: string where
  "L_REMOTE =
     utf8 [0xE8, 0xBF, 0x9C, 0xE6, 0x8E, 0xA7]"
definition L_NETWORK :: string where
  "L_NETWORK =
     utf8 [0xE7, 0xBD, 0x91, 0xE7, 0xBB, 0x9C]"
definition L_TO_LIGHT_T :: string where
  "L_TO_LIGHT_T =
     utf8 [0xE5, 0x88, 0x87, 0xE6, 0x8D, 0xA2, 0xE6, 0xB5, 0x85, 0xE8, 0x89, 0xB2, 0xE4, 0xB8,
      0xBB, 0xE9, 0xA2, 0x98, 0x20, 0x28, 0x54, 0x29]"
definition L_TO_DARK_T :: string where
  "L_TO_DARK_T =
     utf8 [0xE5, 0x88, 0x87, 0xE6, 0x8D, 0xA2, 0xE6, 0xB7, 0xB1, 0xE8, 0x89, 0xB2, 0xE4, 0xB8,
      0xBB, 0xE9, 0xA2, 0x98, 0x20, 0x28, 0x54, 0x29]"
definition L_QUICK_ACTIONS :: string where
  "L_QUICK_ACTIONS =
     utf8 [0xE5, 0xBF, 0xAB, 0xE6, 0x8D, 0xB7, 0xE6, 0x93, 0x8D, 0xE4, 0xBD, 0x9C]"
definition L_SWITCH_AUDIO_O :: string where
  "L_SWITCH_AUDIO_O =
     utf8 [0xE5, 0x88, 0x87, 0xE6, 0x8D, 0xA2, 0xE9, 0x9F, 0xB3, 0xE9, 0xA2, 0x91, 0xE6, 0xA8,
      0xA1, 0xE5, 0xBC, 0x8F, 0x20, 0x28, 0x4F, 0x29]"
definition L_ABOUT_F1 :: string where
  "L_ABOUT_F1 =
     utf8 [0xE5, 0x85, 0xB3, 0xE4, 0xBA, 0x8E, 0x20, 0x28, 0x46, 0x31, 0x29]"
definition L_NETWORK_F3 :: string where
  "L_NETWORK_F3 =
     utf8 [0xE7, 0xBD, 0x91, 0xE7, 0xBB, 0x9C, 0xE8, 0xAE, 0xBE, 0xE7, 0xBD, 0xAE, 0x20, 0x28,
      0x46, 0x33, 0x29]"
definition L_SETTINGS_F2 :: string where
  "L_SETTINGS_F2 =
     utf8 [0xE8, 0xAE, 0xBE, 0xE7, 0xBD, 0xAE, 0x20, 0x28, 0x46, 0x32, 0x29]"
definition L_UNMUTE_V :: string where
  "L_UNMUTE_V =
     utf8 [0xE5, 0x8F, 0x96, 0xE6, 0xB6, 0x88, 0xE9, 0x9D, 0x99, 0xE9, 0x9F, 0xB3, 0x20, 0x28,
      0x56, 0x29]"
definition L_MUTE_V :: string where
  "L_MUTE_V =
     utf8 [0xE9, 0x9D, 0x99, 0xE9, 0x9F, 0xB3, 0x20, 0x28, 0x56, 0x29]"
definition L_CLOSE :: string where
  "L_CLOSE =
     utf8 [0xE5, 0x85, 0xB3, 0xE9, 0x97, 0xAD]"
definition L_UNMUTE :: string where
  "L_UNMUTE =
     utf8 [0xE5, 0x8F, 0x96, 0xE6, 0xB6, 0x88, 0xE9, 0x9D, 0x99, 0xE9, 0x9F, 0xB3]"
definition L_MUTE :: string where
  "L_MUTE =
     utf8 [0xE9, 0x9D, 0x99, 0xE9, 0x9F, 0xB3]"
definition L_MUTED :: string where
  "L_MUTED =
     utf8 [0xE5, 0xB7, 0xB2, 0xE9, 0x9D, 0x99, 0xE9, 0x9F, 0xB3]"
definition L_PLAYING :: string where
  "L_PLAYING =
     utf8 [0xE6, 0x92, 0xAD, 0xE6, 0x94, 0xBE, 0xE4, 0xB8, 0xAD]"
definition L_AUDIO :: string where
  "L_AUDIO =
     utf8 [0xE9, 0x9F, 0xB3, 0xE9, 0xA2, 0x91]"
definition L_MODE :: string where
  "L_MODE =
     utf8 [0xE6, 0xA8, 0xA1, 0xE5, 0xBC, 0x8F]"
definition L_SWITCH :: string where
  "L_SWITCH =
     utf8 [0xE5, 0x88, 0x87, 0xE6, 0x8D, 0xA2]"
definition L_VOLUME :: string where
  "L_VOLUME =
     utf8 [0xE9, 0x9F, 0xB3, 0xE9, 0x87, 0x8F]"
definition L_NETWORK_SETTINGS :: string where
  "L_NETWORK_SETTINGS =
     utf8 [0xE7, 0xBD, 0x91, 0xE7, 0xBB, 0x9C, 0xE8, 0xAE, 0xBE, 0xE7, 0xBD, 0xAE]"
definition L_NOT_CONNECTED :: string where
  "L_NOT_CONNECTED =
     utf8 [0xE6, 0x9C, 0xAA, 0xE8, 0xBF, 0x9E, 0xE6, 0x8E, 0xA5]"
definition L_ALLOW_CONTROL :: string where
  "L_ALLOW_CONTROL =
     utf8 [0xE5, 0x85, 0x81, 0xE8, 0xAE, 0xB8, 0xE5, 0x85, 0xB6, 0xE4, 0xBB, 0x96, 0xE8, 0xAE,
      0xBE, 0xE5, 0xA4, 0x87, 0xE6, 0x8E, 0xA7, 0xE5, 0x88, 0xB6, 0xE6, 0x9C, 0xAC, 0xE6,
      0x9C, 0xBA]"
definition L_MUTE_MODE :: string where
  "L_MUTE_MODE =
     utf8 [0xE9, 0x9D, 0x99, 0xE9, 0x9F, 0xB3, 0xE6, 0xA8, 0xA1, 0xE5, 0xBC, 0x8F]"
definition L_DEVICES :: string where
  "L_DEVICES =
     utf8 [0xE5, 0x8F, 0xAF, 0xE7, 0x94, 0xA8, 0xE7, 0x9A, 0x84, 0xE8, 0xAE, 0xA1, 0xE7, 0xAE,
      0x97, 0xE8, 0xAE, 0xBE, 0xE5, 0xA4, 0x87]"
definition L_SCAN_F5 :: string where
  "L_SCAN_F5 =
     utf8 [0xE6, 0x89, 0xAB, 0xE6, 0x8F, 0x8F, 0xE7, 0xBD, 0x91, 0xE7, 0xBB, 0x9C, 0x20, 0x28,
      0x46, 0x35, 0x29]"
definition L_SCANNING :: string where
  "L_SCANNING =
     utf8 [0xE6, 0x89, 0xAB, 0xE6, 0x8F, 0x8F, 0xE4, 0xB8, 0xAD, 0x2E, 0x2E, 0x2E]"
definition L_SCAN :: string where
  "L_SCAN =
     utf8 [0xE6, 0x89, 0xAB, 0xE6, 0x8F, 0x8F]"
definition L_NO_DEVICES :: string where
  "L_NO_DEVICES =
     utf8 [0xE6, 0x9A, 0x82, 0xE6, 0x97, 0xA0, 0xE5, 0x8F, 0xAF, 0xE7, 0x94, 0xA8, 0xE8, 0xAE,
      0xBE, 0xE5, 0xA4, 0x87]"
definition L_EXECUTING_NOW :: string where
  "L_EXECUTING_NOW =
     utf8 [0xE8, 0xBF, 0x9C, 0xE7, 0xA8, 0x8B, 0xE6, 0x89, 0xA7, 0xE8, 0xA1, 0x8C, 0xE4, 0xB8,
      0xAD]"
definition L_CONNECTED :: string where
  "L_CONNECTED =
     utf8 [0xE5, 0xB7, 0xB2, 0xE8, 0xBF, 0x9E, 0xE6, 0x8E, 0xA5]"
definition L_DOT :: string where
  "L_DOT =
     utf8 [0x20, 0xC2, 0xB7, 0x20]"
definition L_STOP :: string where
  "L_STOP =
     utf8 [0xE5, 0x81, 0x9C, 0xE6, 0xAD, 0xA2, 0xE8, 0xBF, 0x9C, 0xE7, 0xA8, 0x8B, 0xE6, 0x89,
      0xA7, 0xE8, 0xA1, 0x8C]"
definition L_EXECUTE_HERE :: string where
  "L_EXECUTE_HERE =
     utf8 [0xE5, 0x9C, 0xA8, 0xE6, 0xAD, 0xA4, 0xE8, 0xAE, 0xBE, 0xE5, 0xA4, 0x87, 0xE6, 0x89,
      0xA7, 0xE8, 0xA1, 0x8C]"
definition L_CONNECT_EXECUTE :: string where
  "L_CONNECT_EXECUTE =
     utf8 [0xE8, 0xBF, 0x9E, 0xE6, 0x8E, 0xA5, 0xE5, 0xB9, 0xB6, 0xE6, 0x89, 0xA7, 0xE8, 0xA1,
      0x8C]"
definition L_SAVED :: string where
  "L_SAVED =
     utf8 [0xE5, 0xB7, 0xB2, 0xE4, 0xBF, 0x9D, 0xE5, 0xAD, 0x98]"
definition L_LIGHT_THEME :: string where
  "L_LIGHT_THEME =
     utf8 [0xE6, 0xB5, 0x85, 0xE8, 0x89, 0xB2, 0xE4, 0xB8, 0xBB, 0xE9, 0xA2, 0x98]"
definition L_DARK_THEME :: string where
  "L_DARK_THEME =
     utf8 [0xE6, 0xB7, 0xB1, 0xE8, 0x89, 0xB2, 0xE4, 0xB8, 0xBB, 0xE9, 0xA2, 0x98]"
definition L_DARK :: string where
  "L_DARK =
     utf8 [0xE6, 0xB7, 0xB1, 0xE8, 0x89, 0xB2]"
definition L_LIGHT :: string where
  "L_LIGHT =
     utf8 [0xE6, 0xB5, 0x85, 0xE8, 0x89, 0xB2]"
definition L_DEVICE :: string where
  "L_DEVICE =
     utf8 [0xE8, 0xAE, 0xBE, 0xE5, 0xA4, 0x87]"
definition L_DEVICE_NAME :: string where
  "L_DEVICE_NAME =
     utf8 [0xE8, 0xAE, 0xBE, 0xE5, 0xA4, 0x87, 0xE5, 0x90, 0x8D, 0xE7, 0xA7, 0xB0]"
definition L_ENTER_NAME :: string where
  "L_ENTER_NAME =
     utf8 [0xE8, 0xBE, 0x93, 0xE5, 0x85, 0xA5, 0xE8, 0xAE, 0xBE, 0xE5, 0xA4, 0x87, 0xE5, 0x90,
      0x8D, 0xE7, 0xA7, 0xB0, 0x2E, 0x2E, 0x2E]"
definition L_SAVE :: string where
  "L_SAVE =
     utf8 [0xE4, 0xBF, 0x9D, 0xE5, 0xAD, 0x98]"
definition L_APPEARANCE :: string where
  "L_APPEARANCE =
     utf8 [0xE5, 0xA4, 0x96, 0xE8, 0xA7, 0x82]"
definition L_THEME :: string where
  "L_THEME =
     utf8 [0xE4, 0xB8, 0xBB, 0xE9, 0xA2, 0x98]"
definition L_ABOUT :: string where
  "L_ABOUT =
     utf8 [0xE5, 0x85, 0xB3, 0xE4, 0xBA, 0x8E]"
definition L_VERSION :: string where
  "L_VERSION =
     utf8 [0xE7, 0x89, 0x88, 0xE6, 0x9C, 0xAC]"
definition L_DETAILS :: string where
  "L_DETAILS =
     utf8 [0xE8, 0xAF, 0xA6, 0xE6, 0x83, 0x85]"
definition L_SETTINGS :: string where
  "L_SETTINGS =
     utf8 [0xE8, 0xAE, 0xBE, 0xE7, 0xBD, 0xAE]"
definition L_PRODUCT :: string where
  "L_PRODUCT =
     utf8 [0xE8, 0xAF, 0xAD, 0xE9, 0x9F, 0xB3, 0xE8, 0xAE, 0xA1, 0xE7, 0xAE, 0x97, 0xE5, 0x99,
      0xA8]"
definition L_WIDTHS :: string where
  "L_WIDTHS =
     utf8 [0xE8, 0xB0, 0x83, 0xE6, 0x95, 0xB4, 0xE8, 0xAE, 0xA1, 0xE7, 0xAE, 0x97, 0xE5, 0x99,
      0xA8, 0xE5, 0x92, 0x8C, 0xE9, 0x9D, 0xA2, 0xE6, 0x9D, 0xBF, 0xE5, 0xAE, 0xBD, 0xE5,
      0xBA, 0xA6]"
definition L_CHROME :: string where
  "L_CHROME =
     utf8 [0xE7, 0xAA, 0x97, 0xE5, 0x8F, 0xA3, 0xE6, 0x8E, 0xA7, 0xE5, 0x88, 0xB6, 0xE6, 0xA0,
      0x8F]"
definition L_DRAG :: string where
  "L_DRAG =
     utf8 [0xE6, 0x8B, 0x96, 0xE5, 0x8A, 0xA8, 0xE7, 0xAA, 0x97, 0xE5, 0x8F, 0xA3]"
definition L_CLOSE_WINDOW :: string where
  "L_CLOSE_WINDOW =
     utf8 [0xE5, 0x85, 0xB3, 0xE9, 0x97, 0xAD, 0xE7, 0xAA, 0x97, 0xE5, 0x8F, 0xA3]"
definition L_EXECUTING_REMOTELY :: string where
  "L_EXECUTING_REMOTELY =
     utf8 [0xE6, 0xAD, 0xA3, 0xE5, 0x9C, 0xA8, 0xE8, 0xBF, 0x9C, 0xE7, 0xA8, 0x8B, 0xE6, 0x89,
      0xA7, 0xE8, 0xA1, 0x8C]"
definition L_CONTROLLED :: string where
  "L_CONTROLLED =
     utf8 [0xE5, 0x8F, 0x97, 0xE8, 0xBF, 0x9C, 0xE7, 0xA8, 0x8B, 0xE6, 0x8E, 0xA7, 0xE5, 0x88,
      0xB6]"
definition L_ALLOWED :: string where
  "L_ALLOWED =
     utf8 [0xE5, 0x85, 0x81, 0xE8, 0xAE, 0xB8, 0xE8, 0xAF, 0xB7, 0xE6, 0xB1, 0x82]"
definition L_FORBIDDEN :: string where
  "L_FORBIDDEN =
     utf8 [0xE7, 0xA6, 0x81, 0xE6, 0xAD, 0xA2]"
definition L_WORKBENCH :: string where
  "L_WORKBENCH =
     utf8 [0xE7, 0x8A, 0xB6, 0xE6, 0x80, 0x81, 0xE5, 0xB7, 0xA5, 0xE4, 0xBD, 0x9C, 0xE5, 0x8C,
      0xBA]"
definition L_TABS :: string where
  "L_TABS =
     utf8 [0xE5, 0xB7, 0xA5, 0xE4, 0xBD, 0x9C, 0xE5, 0x8C, 0xBA, 0xE6, 0xA0, 0x87, 0xE7, 0xAD,
      0xBE]"
definition L_OVERVIEW :: string where
  "L_OVERVIEW =
     utf8 [0xE6, 0xA6, 0x82, 0xE8, 0xA7, 0x88]"
definition L_QUICK_CONTROL :: string where
  "L_QUICK_CONTROL =
     utf8 [0xE5, 0xBF, 0xAB, 0xE9, 0x80, 0x9F, 0xE6, 0x8E, 0xA7, 0xE5, 0x88, 0xB6]"
definition L_SWITCH_AUDIO :: string where
  "L_SWITCH_AUDIO =
     utf8 [0xE5, 0x88, 0x87, 0xE6, 0x8D, 0xA2, 0xE9, 0x9F, 0xB3, 0xE9, 0xA2, 0x91]"
definition L_SCAN_NETWORK :: string where
  "L_SCAN_NETWORK =
     utf8 [0xE6, 0x89, 0xAB, 0xE6, 0x8F, 0x8F, 0xE7, 0xBD, 0x91, 0xE7, 0xBB, 0x9C]"
definition L_STATE :: string where
  "L_STATE =
     utf8 [0xE5, 0xBD, 0x93, 0xE5, 0x89, 0x8D, 0xE7, 0x8A, 0xB6, 0xE6, 0x80, 0x81]"
definition L_DEVICES_AVAILABLE :: string where
  "L_DEVICES_AVAILABLE =
     utf8 [0xE5, 0x8F, 0xAF, 0xE7, 0x94, 0xA8, 0xE8, 0xAE, 0xBE, 0xE5, 0xA4, 0x87]"
definition L_SHORTCUT :: string where
  "L_SHORTCUT =
     utf8 [0xE5, 0xBF, 0xAB, 0xE6, 0x8D, 0xB7, 0xE9, 0x94, 0xAE, 0x3A, 0x20]"

end
