(* ===== verification/View.thy ===== *)
theory View
  imports View_Texts Floats
begin

text \<open>
  The small components of \<open>src/components\<close> as functions from their props to the elements they
  render: \<open>icon.rs\<close>, \<open>button.rs\<close>, \<open>display.rs\<close>, \<open>history_text.rs\<close>, \<open>brand_label.rs\<close>, \<open>overlay.rs\<close>,
  \<open>panel_controls.rs\<close>, \<open>volume_row.rs\<close>, \<open>about_dialog.rs\<close>, \<open>status_bar.rs\<close>. An element is what the
  \<open>rsx!\<close> macro writes down: a tag, attributes, event handlers and children. A callback prop
  \<open>EventHandler<T>\<close> is the list of calls \<open>'e\<close> it makes, as a function of its argument.
\<close>

section \<open>Elements\<close>

text \<open>
  A handler makes calls that may depend on the value of the event (the text of a field, the name
  of a key) or on the horizontal position of the pointer, or acts on the event itself.
\<close>

datatype 'e handler =
    Calls "string \<Rightarrow> 'e list"
  | PointerCalls "rat \<Rightarrow> 'e list"
  | StopPropagation
  | PreventDefault

datatype 'e element =
    Text string
  | Element string "(string \<times> string) list" "(string \<times> 'e handler) list" "'e element list"

abbreviation on_click :: "'e list \<Rightarrow> (string \<times> 'e handler) list" where
  "on_click calls \<equiv> [(''onclick'', Calls (\<lambda>_. calls))]"

abbreviation class_attr :: "string \<Rightarrow> (string \<times> string) list" where
  "class_attr c \<equiv> [(''class'', c)]"

text \<open>What can be clicked in an element, in document order, and what it says.\<close>

fun handlers :: "string \<Rightarrow> 'e element \<Rightarrow> 'e handler list" where
  "handlers ev (Text s) = []"
| "handlers ev (Element tag attrs hs children) =
     map snd (filter (\<lambda>(name, _). name = ev) hs) @ concat (map (handlers ev) children)"

abbreviation clicks :: "'e element \<Rightarrow> 'e handler list" where
  "clicks \<equiv> handlers ''onclick''"

fun texts :: "'e element \<Rightarrow> string list" where
  "texts (Text s) = [s]"
| "texts (Element tag attrs hs children) = concat (map texts children)"

text \<open>The value an attribute has, element by element.\<close>

fun attr_values :: "string \<Rightarrow> string \<Rightarrow> 'e element \<Rightarrow> string list" where
  "attr_values tg name (Text s) = []"
| "attr_values tg name (Element tag attrs hs children) =
     (if tag = tg then (case map_of attrs name of Some v \<Rightarrow> [v] | None \<Rightarrow> []) else [])
     @ concat (map (attr_values tg name) children)"

section \<open>Icons\<close>

datatype icon_name =
    IconBolt
  | IconCheck
  | IconInfo
  | IconLock
  | IconMoon
  | IconMusic
  | IconNetwork
  | IconSearch
  | IconSettings
  | IconSun
  | IconUser
  | IconUsers
  | IconVolumeLow
  | IconVolumeHigh
  | IconVolumeMuted
  | IconX

fun icon_shapes :: "icon_name \<Rightarrow> (string \<times> (string \<times> string) list) list" where
  "icon_shapes IconBolt =
     [(''path'', [(''d'', ''M13 2 3 14h8l-1 8 10-12h-8l1-8Z'')])]"
| "icon_shapes IconCheck =
     [(''path'', [(''d'', ''m20 6-11 11-5-5'')])]"
| "icon_shapes IconInfo =
     [(''circle'', [(''cx'', ''12''), (''cy'', ''12''), (''r'', ''10'')]),
      (''path'', [(''d'', ''M12 16v-4'')]),
      (''path'', [(''d'', ''M12 8h.01'')])]"
| "icon_shapes IconLock =
     [(''rect'', [(''x'', ''4''), (''y'', ''11''), (''width'', ''16''), (''height'', ''9''), (''rx'', ''2'')]),
      (''path'', [(''d'', ''M8 11V7a4 4 0 0 1 8 0v4'')])]"
| "icon_shapes IconMoon =
     [(''path'', [(''d'', ''M12 3a6 6 0 0 0 9 7 9 9 0 1 1-9-7Z'')])]"
| "icon_shapes IconMusic =
     [(''path'', [(''d'', ''M9 18V5l12-2v13'')]),
      (''circle'', [(''cx'', ''6''), (''cy'', ''18''), (''r'', ''3'')]),
      (''circle'', [(''cx'', ''18''), (''cy'', ''16''), (''r'', ''3'')])]"
| "icon_shapes IconNetwork =
     [(''rect'', [(''x'', ''16''), (''y'', ''16''), (''width'', ''6''), (''height'', ''6''), (''rx'', ''1'')]),
      (''rect'', [(''x'', ''2''), (''y'', ''16''), (''width'', ''6''), (''height'', ''6''), (''rx'', ''1'')]),
      (''rect'', [(''x'', ''9''), (''y'', ''2''), (''width'', ''6''), (''height'', ''6''), (''rx'', ''1'')]),
      (''path'', [(''d'', ''M5 16v-3a2 2 0 0 1 2-2h10a2 2 0 0 1 2 2v3'')]),
      (''path'', [(''d'', ''M12 8v8'')])]"
| "icon_shapes IconSearch =
     [(''circle'', [(''cx'', ''11''), (''cy'', ''11''), (''r'', ''7'')]),
      (''path'', [(''d'', ''m21 21-4.3-4.3'')])]"
| "icon_shapes IconSettings =
     [(''path'', [(''d'', ''M12 15.5a3.5 3.5 0 1 0 0-7 3.5 3.5 0 0 0 0 7Z'')]),
      (''path'', [(''d'', ''M19.4 15a1.7 1.7 0 0 0 .34 1.87l.06.06a2 2 0 1 1-2.83 2.83l-.06-.06A1.7 1.7 0 0 0 15 19.4a1.7 1.7 0 0 0-1 .6 1.7 1.7 0 0 0-.4 1.1V21a2 2 0 1 1-4 0v-.08A1.7 1.7 0 0 0 8.6 19.4a1.7 1.7 0 0 0-1.87.34l-.06.06a2 2 0 1 1-2.83-2.83l.06-.06A1.7 1.7 0 0 0 4.6 15a1.7 1.7 0 0 0-.6-1 1.7 1.7 0 0 0-1.1-.4H3a2 2 0 1 1 0-4h.08A1.7 1.7 0 0 0 4.6 8.6a1.7 1.7 0 0 0-.34-1.87l-.06-.06A2 2 0 1 1 7.03 3.84l.06.06A1.7 1.7 0 0 0 9 4.6c.37-.14.7-.35 1-.6.25-.3.4-.7.4-1.1V3a2 2 0 1 1 4 0v.08A1.7 1.7 0 0 0 15.4 4.6a1.7 1.7 0 0 0 1.87-.34l.06-.06a2 2 0 1 1 2.83 2.83l-.06.06A1.7 1.7 0 0 0 19.4 9c.14.37.35.7.6 1 .3.25.7.4 1.1.4H21a2 2 0 1 1 0 4h-.08a1.7 1.7 0 0 0-1.52.6Z'')])]"
| "icon_shapes IconSun =
     [(''circle'', [(''cx'', ''12''), (''cy'', ''12''), (''r'', ''4'')]),
      (''path'', [(''d'', ''M12 2v2'')]),
      (''path'', [(''d'', ''M12 20v2'')]),
      (''path'', [(''d'', ''m4.93 4.93 1.41 1.41'')]),
      (''path'', [(''d'', ''m17.66 17.66 1.41 1.41'')]),
      (''path'', [(''d'', ''M2 12h2'')]),
      (''path'', [(''d'', ''M20 12h2'')]),
      (''path'', [(''d'', ''m6.34 17.66-1.41 1.41'')]),
      (''path'', [(''d'', ''m19.07 4.93-1.41 1.41'')])]"
| "icon_shapes IconUser =
     [(''circle'', [(''cx'', ''12''), (''cy'', ''8''), (''r'', ''4'')]),
      (''path'', [(''d'', ''M4 21a8 8 0 0 1 16 0'')])]"
| "icon_shapes IconUsers =
     [(''path'', [(''d'', ''M16 21v-2a4 4 0 0 0-4-4H6a4 4 0 0 0-4 4v2'')]),
      (''circle'', [(''cx'', ''9''), (''cy'', ''7''), (''r'', ''4'')]),
      (''path'', [(''d'', ''M22 21v-2a4 4 0 0 0-3-3.87'')]),
      (''path'', [(''d'', ''M16 3.13a4 4 0 0 1 0 7.75'')])]"
| "icon_shapes IconVolumeLow =
     [(''path'', [(''d'', ''M11 5 6 9H3v6h3l5 4V5Z'')]),
      (''path'', [(''d'', ''M15.5 8.5a5 5 0 0 1 0 7'')])]"
| "icon_shapes IconVolumeHigh =
     [(''path'', [(''d'', ''M11 5 6 9H3v6h3l5 4V5Z'')]),
      (''path'', [(''d'', ''M15.5 8.5a5 5 0 0 1 0 7'')]),
      (''path'', [(''d'', ''M18.5 5.5a9 9 0 0 1 0 13'')])]"
| "icon_shapes IconVolumeMuted =
     [(''path'', [(''d'', ''M11 5 6 9H3v6h3l5 4V5Z'')]),
      (''path'', [(''d'', ''m16 9 5 5'')]),
      (''path'', [(''d'', ''m21 9-5 5'')])]"
| "icon_shapes IconX =
     [(''path'', [(''d'', ''M18 6 6 18'')]),
      (''path'', [(''d'', ''m6 6 12 12'')])]"

definition Icon :: "icon_name \<Rightarrow> string option \<Rightarrow> 'e element" where
  "Icon name cls =
     (let class = (case cls of Some c \<Rightarrow> ''vc-icon '' @ c | None \<Rightarrow> ''vc-icon'')
      in Element ''svg''
           [(''class'', class), (''view_box'', ''0 0 24 24''), (''fill'', ''none''), (''stroke'', ''currentColor''),
            (''stroke_width'', ''2''), (''stroke_linecap'', ''round''), (''stroke_linejoin'', ''round'')]
           [] (map (\<lambda>(tag, attrs). Element tag attrs [] []) (icon_shapes name)))"

lemma icons_distinct:
  "distinct (map icon_shapes [IconBolt, IconCheck, IconInfo, IconLock, IconMoon, IconMusic, IconNetwork,
     IconSearch, IconSettings, IconSun, IconUser, IconUsers, IconVolumeLow, IconVolumeHigh, IconVolumeMuted, IconX])"
  by simp

section \<open>Buttons and texts\<close>

definition SkeuBtn ::
    "string option \<Rightarrow> string option \<Rightarrow> string \<Rightarrow> bool option \<Rightarrow> bool option \<Rightarrow> string option \<Rightarrow> 'e list \<Rightarrow> 'e element" where
  "SkeuBtn label icon btn_type colspan keyboard_active title onclick =
     (let class = ''skeu-btn skeu-btn--'' @ btn_type;
          class = class @ (if colspan = Some True then '' skeu-btn--span-2'' else []);
          class = class @ (if keyboard_active = Some True then '' skeu-btn--keyboard-active'' else [])
      in Element ''button''
           [(''class'', class), (''title'', case title of Some t \<Rightarrow> t | None \<Rightarrow> []), (''tabindex'', ''-1'')]
           [(''onmousedown'', PreventDefault), (''onclick'', Calls (\<lambda>_. onclick))]
           (case icon of
              Some icon_text \<Rightarrow> [Element ''span'' (class_attr ''skeu-btn__icon'') [] [Text icon_text]]
            | None \<Rightarrow>
                (case label of
                   Some label_text \<Rightarrow> [Element ''span'' (class_attr ''skeu-btn__label'') [] [Text label_text]]
                 | None \<Rightarrow> [])))"

definition LcdDisplay :: "string \<Rightarrow> bool \<Rightarrow> bool \<Rightarrow> 'e element" where
  "LcdDisplay display_text error_state dark_mode =
     (let class = ''lcd-display'' @ (if error_state then '' error'' else []) @ (if dark_mode then '' dark'' else []);
          clip_class = (if length (utf8_chars display_text) > 16
            then ''lcd-display__clip lcd-display__clip--truncated'' else ''lcd-display__clip'')
      in Element ''div'' (class_attr class) []
           [Element ''div'' (class_attr ''lcd-display__inner'') []
              [Element ''span'' [(''class'', clip_class), (''title'', display_text)] []
                 [Element ''span'' (class_attr ''lcd-display__text'') [] [Text display_text]]]])"

definition HistoryText :: "string \<Rightarrow> bool \<Rightarrow> 'e element" where
  "HistoryText history_text dark_mode =
     Element ''div'' (class_attr (if dark_mode then ''history-text dark'' else ''history-text'')) [] [Text history_text]"

definition BrandLabel :: "bool \<Rightarrow> string \<Rightarrow> 'e element" where
  "BrandLabel dark_mode mode_indicator =
     Element ''div'' (class_attr (if dark_mode then ''brand-label dark'' else ''brand-label'')) []
       [Element ''span'' (class_attr ''brand-label__name'') [] [Text ''VocalCalculator''],
        Element ''span'' (class_attr ''brand-label__mode'') [] [Text mode_indicator]]"

section \<open>Overlays and switches\<close>

datatype overlay_variant = Compact | Large

definition Overlay ::
    "bool \<Rightarrow> string \<Rightarrow> icon_name option \<Rightarrow> overlay_variant \<Rightarrow> 'e list \<Rightarrow> 'e element list \<Rightarrow> 'e element list" where
  "Overlay visible title icon variant onclose children =
     (let backdrop_class = (if visible then ''overlay-backdrop visible'' else ''overlay-backdrop'');
          card_class = (case variant of
              Compact \<Rightarrow> ''overlay-card overlay-card--compact''
            | Large \<Rightarrow> ''overlay-card overlay-card--large'')
      in if visible then
           [Element ''div'' (class_attr backdrop_class) (on_click onclose)
              [Element ''div'' (class_attr card_class) [(''onclick'', StopPropagation)]
                 [Element ''div'' (class_attr ''overlay-card__inner'') []
                    (Element ''div'' (class_attr ''overlay-title'') []
                       ((case icon of Some icon \<Rightarrow> [Icon icon (Some ''overlay-title__icon'')] | None \<Rightarrow> [])
                        @ [Element ''span'' (class_attr ''overlay-title__text'') [] [Text title],
                           Element ''button''
                             [(''class'', ''overlay-title__close''), (''type'', ''button''), (''title'', L_CLOSE),
                              (''aria_label'', L_CLOSE)]
                             (on_click onclose) [Icon IconX None]])
                     # children)]]]
         else [])"

definition ToggleSwitch :: "bool \<Rightarrow> string \<Rightarrow> icon_name option \<Rightarrow> 'e list \<Rightarrow> 'e element" where
  "ToggleSwitch on label icon on_toggle =
     (let switch_class = (if on then ''toggle-switch toggle-switch--on'' else ''toggle-switch'')
      in Element ''div'' (class_attr ''toggle-row'') []
           [Element ''span'' (class_attr ''toggle-row__label'') []
              ((case icon of Some icon \<Rightarrow> [Icon icon (Some ''toggle-row__icon'')] | None \<Rightarrow> []) @ [Text label]),
            Element ''button''
              [(''class'', switch_class), (''type'', ''button''), (''role'', ''switch''),
               (''aria_checked'', if on then ''true'' else ''false''), (''aria_label'', label)]
              (on_click on_toggle) [Element ''div'' (class_attr ''toggle-switch__knob'') [] []]])"

definition AboutDialog :: "string \<Rightarrow> 'e list \<Rightarrow> 'e element list" where
  "AboutDialog app_version onclose =
     Overlay True L_PRODUCT (Some IconInfo) Compact onclose
       [Element ''div'' (class_attr ''about-content'') []
          [Element ''span'' (class_attr ''about-content__version'') [] [Text app_version],
           Element ''span'' (class_attr ''about-content__author'') [] [Text ''by Starberry'']]]"

section \<open>The volume slider\<close>

text \<open>
  A volume is an \<open>f64\<close>: a finite number (the rational it denotes), an infinity with its sign
  (\<open>True\<close> is negative), or NaN. \<open>parse_f64\<close> is \<open>str::parse::<f64>\<close>.
\<close>

datatype f64_number = Finite rat | Infinite bool | NaN

definition f_scale :: "rat \<Rightarrow> f64_number \<Rightarrow> f64_number" where
  "f_scale k x = (case x of Finite x \<Rightarrow> Finite (f64 (x * k)) | y \<Rightarrow> y)"

definition f_clamp :: "rat \<Rightarrow> rat \<Rightarrow> f64_number \<Rightarrow> f64_number" where
  "f_clamp lo hi x =
     (case x of Finite x \<Rightarrow> Finite (clamp lo hi x) | Infinite neg \<Rightarrow> Finite (if neg then lo else hi) | NaN \<Rightarrow> NaN)"

text \<open>\<open>round\<close> goes to the nearest integer, halves away from zero; \<open>as i32\<close> saturates.\<close>

definition round_away :: "rat \<Rightarrow> int" where
  "round_away x = (if x < 0 then - \<lfloor>- x + 1 / 2\<rfloor> else \<lfloor>x + 1 / 2\<rfloor>)"

definition f_round_i32 :: "f64_number \<Rightarrow> int" where
  "f_round_i32 x =
     (case x of
        Finite x \<Rightarrow> as_signed 32 (of_int (round_away x))
      | Infinite neg \<Rightarrow> if neg then - (2 ^ 31) else 2 ^ 31 - 1
      | NaN \<Rightarrow> 0)"

definition parse_exponent :: "string \<Rightarrow> int option" where
  "parse_exponent s =
     (let (neg, ds) = (case s of
            c # r \<Rightarrow> if c = CHR ''-'' then (True, r) else if c = CHR ''+'' then (False, r) else (False, s)
          | [] \<Rightarrow> (False, s))
      in if ds = [] \<or> \<not> list_all is_digit ds then None
         else Some (if neg then - string_val ds else string_val ds))"

definition parse_f64 :: "string \<Rightarrow> f64_number option" where
  "parse_f64 s =
     (let (neg, r) = (case s of
            c # r \<Rightarrow> if c = CHR ''-'' then (True, r) else if c = CHR ''+'' then (False, r) else (False, s)
          | [] \<Rightarrow> (False, s));
          word = to_ascii_lowercase r
      in if word = ''inf'' \<or> word = ''infinity'' then Some (Infinite neg)
         else if word = ''nan'' then Some NaN
         else
           let whole = takeWhile is_digit r;
               r1 = dropWhile is_digit r;
               (fraction, r2) = (case r1 of
                   c # t \<Rightarrow> if c = CHR ''.'' then (takeWhile is_digit t, dropWhile is_digit t) else ([], r1)
                 | [] \<Rightarrow> ([], r1));
               ex = (case r2 of
                   [] \<Rightarrow> Some 0
                 | c # t \<Rightarrow> if c = CHR ''e'' \<or> c = CHR ''E'' then parse_exponent t else None)
           in if whole @ fraction = [] then None
              else map_option
                (\<lambda>e. let x = f64 (of_int (string_val (whole @ fraction)) * 10 powi (e - int (length fraction)))
                      in Finite (if neg then - x else x)) ex)"

definition volume_percent :: "f64_number \<Rightarrow> int" where
  "volume_percent v = f_round_i32 (f_scale 100 (f_clamp 0 1 v))"

text \<open>The text of an \<open>i32\<close>.\<close>

definition show_int :: "int \<Rightarrow> string" where
  "show_int n = (if n < 0 then ''-'' @ num_to_string (- n) else num_to_string n)"

definition slider_input :: "(f64_number \<Rightarrow> 'e list) \<Rightarrow> string \<Rightarrow> 'e list" where
  "slider_input on_volume_changed s =
     (case parse_f64 s of
        Some v \<Rightarrow> on_volume_changed (f_clamp 0 1 (f_scale (1 / 100) v))
      | None \<Rightarrow> [])"

definition VolumeRow :: "bool \<Rightarrow> f64_number \<Rightarrow> 'e list \<Rightarrow> (f64_number \<Rightarrow> 'e list) \<Rightarrow> 'e element" where
  "VolumeRow audio_muted volume on_toggle_mute on_volume_changed =
     (let mute_class = (if audio_muted then ''volume-row__mute-btn muted'' else ''volume-row__mute-btn'');
          mute_icon = (if audio_muted then IconVolumeMuted else IconVolumeLow);
          mute_title = (if audio_muted then L_UNMUTE_V else L_MUTE_V);
          slider_value = show_int (volume_percent volume)
      in Element ''div'' (class_attr ''volume-row'') []
           [Element ''span'' (class_attr ''volume-row__icon'') [] [Icon IconVolumeLow None],
            Element ''button'' [(''class'', mute_class), (''title'', mute_title)] (on_click on_toggle_mute)
              [Icon mute_icon None],
            Element ''input''
              [(''class'', ''volume-row__slider''), (''type'', ''range''), (''min'', ''0''), (''max'', ''100''),
               (''value'', slider_value)]
              [(''oninput'', Calls (slider_input on_volume_changed))] [],
            Element ''span'' (class_attr ''volume-row__icon'') [] [Icon IconVolumeHigh None]])"

section \<open>Panel controls\<close>

definition IconButton ::
    "icon_name \<Rightarrow> string \<Rightarrow> bool option \<Rightarrow> string option \<Rightarrow> string option \<Rightarrow> 'e list \<Rightarrow> 'e element" where
  "IconButton icon title active variant class onclick =
     (let classes = [''icon-button''];
          classes = classes @ (case variant of
              Some v \<Rightarrow>
                if v = ''remote-controlled'' then [''icon-button--remote-controlled'']
                else if v = ''executing-remotely'' then [''icon-button--executing-remotely'']
                else if v = ''network'' then [''icon-button--network'']
                else if v = ''quiet'' then [''icon-button--quiet''] else []
            | None \<Rightarrow> []);
          classes = classes @ (if active = Some False then [''icon-button--inactive''] else []);
          classes = classes @ (case class of Some c \<Rightarrow> [c] | None \<Rightarrow> []);
          class_str = tl (concat (map (\<lambda>c. CHR '' '' # c) classes))
      in Element ''button''
           [(''class'', class_str), (''type'', ''button''), (''title'', title), (''aria_label'', title)]
           (on_click onclick) [Icon icon (Some ''icon-button__icon'')])"

definition PanelSection :: "string \<Rightarrow> icon_name option \<Rightarrow> string option \<Rightarrow> 'e element list \<Rightarrow> 'e element" where
  "PanelSection title icon class children =
     (let class_str = (case class of Some c \<Rightarrow> ''panel-section '' @ c | None \<Rightarrow> ''panel-section'')
      in Element ''section'' (class_attr class_str) []
           [Element ''div'' (class_attr ''panel-section__header'') []
              ((case icon of Some icon \<Rightarrow> [Icon icon (Some ''panel-section__icon'')] | None \<Rightarrow> [])
               @ [Element ''span'' (class_attr ''panel-section__title'') [] [Text title]]),
            Element ''div'' (class_attr ''panel-section__body'') [] children])"

definition ControlRow ::
    "string \<Rightarrow> icon_name option \<Rightarrow> string option \<Rightarrow> string option \<Rightarrow> 'e element list \<Rightarrow> 'e element" where
  "ControlRow label icon val class children =
     (let class_str = (case class of Some c \<Rightarrow> ''control-row '' @ c | None \<Rightarrow> ''control-row'')
      in Element ''div'' (class_attr class_str) []
           [Element ''div'' (class_attr ''control-row__label'') []
              ((case icon of Some icon \<Rightarrow> [Icon icon (Some ''control-row__icon'')] | None \<Rightarrow> [])
               @ [Element ''span'' [] [] [Text label]]),
            Element ''div'' (class_attr ''control-row__content'') []
              ((case val of Some v \<Rightarrow> [Element ''span'' (class_attr ''control-row__value'') [] [Text v]] | None \<Rightarrow> [])
               @ children)])"

record 'e audio_props =
  ag_audio_status :: string
  ag_audio_muted :: bool
  ag_audio_volume :: f64_number
  ag_mode_indicator :: string
  ag_on_switch_audio_mode :: "'e list"
  ag_on_toggle_mute :: "'e list"
  ag_on_volume_changed :: "f64_number \<Rightarrow> 'e list"

abbreviation panel_action :: "'e list \<Rightarrow> icon_name \<Rightarrow> string \<Rightarrow> 'e element" where
  "panel_action calls icon label \<equiv>
     Element ''button''
       [(''class'', ''panel-action panel-action--secondary panel-action--with-icon''), (''type'', ''button'')]
       (on_click calls)
       [Icon icon (Some ''panel-action__icon''), Element ''span'' [] [] [Text label]]"

definition AudioControlGroup :: "'e audio_props \<Rightarrow> 'e element" where
  "AudioControlGroup p =
     (let mute_text = (if ag_audio_muted p then L_UNMUTE else L_MUTE);
          mute_state_text = (if ag_audio_muted p then L_MUTED else L_PLAYING);
          mute_icon = (if ag_audio_muted p then IconVolumeMuted else IconVolumeHigh);
          percent = show_int (volume_percent (ag_audio_volume p))
      in PanelSection L_AUDIO (Some IconVolumeLow) (Some ''audio-control-group'')
           [ControlRow L_MODE (Some IconMusic) (Some (ag_mode_indicator p)) None
              [panel_action (ag_on_switch_audio_mode p) IconMusic L_SWITCH],
            ControlRow L_MUTE (Some mute_icon) (Some mute_state_text) None
              [panel_action (ag_on_toggle_mute p) mute_icon mute_text],
            ControlRow L_VOLUME (Some IconVolumeHigh) (Some (percent @ ''%'')) None
              [Element ''input''
                 [(''class'', ''panel-volume''), (''type'', ''range''), (''min'', ''0''), (''max'', ''100''),
                  (''value'', percent)]
                 [(''oninput'', Calls (slider_input (ag_on_volume_changed p)))] []],
            Element ''div'' (class_attr ''audio-control-group__status'') [] [Text (ag_audio_status p)]])"

section \<open>The status bar\<close>

record status_bar_props =
  sb_memory_indicator :: string
  sb_audio_status :: string
  sb_mode_indicator :: string
  sb_network_status :: string
  sb_error_state :: bool
  sb_remote_controlled :: bool
  sb_executing_remotely :: bool

definition StatusBar :: "status_bar_props \<Rightarrow> 'e element" where
  "StatusBar p =
     (let network_ready = (sb_network_status p \<noteq> []);
          chip = (\<lambda>c t. [Element ''span'' (class_attr (''status-chip status-chip--'' @ c)) [] [Text t]])
      in Element ''div'' (class_attr ''status-bar'') []
           ((if sb_memory_indicator p \<noteq> [] then chip ''memory'' (sb_memory_indicator p) else [])
            @ (if sb_error_state p then chip ''error'' ''ERR'' else [])
            @ (if sb_executing_remotely p then chip ''executing'' L_EXECUTING
               else if sb_remote_controlled p then chip ''remote'' L_REMOTE
               else if network_ready then chip ''network'' L_NETWORK else [])
            @ [Element ''div'' (class_attr ''status-bar__spacer'') [] [],
               Element ''span'' (class_attr ''status-bar__info status-bar__info--audio'') [] [Text (sb_audio_status p)],
               Element ''span'' (class_attr ''status-bar__info status-bar__info--mode'') []
                 [Text (sb_mode_indicator p)]]))"

record 'e quick_props =
  qa_dark_mode :: bool
  qa_network_status :: string
  qa_remote_controlled :: bool
  qa_executing_remotely :: bool
  qa_on_toggle_theme :: "'e list"
  qa_on_switch_audio_mode :: "'e list"
  qa_on_show_about :: "'e list"
  qa_on_show_network_settings :: "'e list"
  qa_on_show_settings :: "'e list"

definition MobileQuickActions :: "'e quick_props \<Rightarrow> 'e element" where
  "MobileQuickActions p =
     (let theme_icon = (if qa_dark_mode p then IconSun else IconMoon);
          theme_title = (if qa_dark_mode p then L_TO_LIGHT_T else L_TO_DARK_T);
          (network_icon, network_variant) =
            (if qa_executing_remotely p then (IconBolt, ''executing-remotely'')
             else if qa_remote_controlled p then (IconNetwork, ''remote-controlled'')
             else (IconNetwork, ''network''))
      in Element ''div'' [(''class'', ''mobile-quick-actions''), (''aria_label'', L_QUICK_ACTIONS)] []
           [IconButton theme_icon theme_title None None None (qa_on_toggle_theme p),
            IconButton IconMusic L_SWITCH_AUDIO_O None None None (qa_on_switch_audio_mode p),
            IconButton IconInfo L_ABOUT_F1 None None None (qa_on_show_about p),
            IconButton network_icon L_NETWORK_F3 (Some (qa_network_status p \<noteq> [])) (Some network_variant) None
              (qa_on_show_network_settings p),
            IconButton IconSettings L_SETTINGS_F2 None None None (qa_on_show_settings p)])"

end
