(* ===== verification/Listener.thy ===== *)
theory Listener
  imports Keyboard
begin

text \<open>
  Which keys reach the application: the listener script that \<open>src/components/keyboard.rs\<close> runs
  in the web view (\<open>KEYBOARD_LISTENER_SCRIPT\<close>), and the shortcuts that the tooltips of
  \<open>src/components/button_grid.rs\<close> promise. A DOM event is its fields and what the script asks
  about its target; a message to the application is what \<open>dioxus.send\<close> passes on.
\<close>

section \<open>The script\<close>

definition handledKeys :: "string list" where
  "handledKeys =
     [''0'', ''1'', ''2'', ''3'', ''4'', ''5'', ''6'', ''7'', ''8'', ''9'',
      ''+'', ''-'', ''*'', ''/'', ''='', ''Enter'', ''.'', '','', ''Backspace'',
      ''Escape'', ''Delete'', ''%'', ''r'', ''R'', ''s'', ''S'', ''p'', ''P'',
      ''u'', ''U'', ''n'', ''N'', ''m'', ''M'', ''a'', ''A'', ''b'', ''B'',
      ''x'', ''X'', ''c'', ''C'', ''t'', ''T'', ''v'', ''V'', ''o'', ''O'',
      ''F1'', ''F2'', ''F3'', ''F5'']"

definition handledCodes :: "string list" where
  "handledCodes =
     [''Numpad0'', ''Numpad1'', ''Numpad2'', ''Numpad3'', ''Numpad4'',
      ''Numpad5'', ''Numpad6'', ''Numpad7'', ''Numpad8'', ''Numpad9'',
      ''NumpadAdd'', ''NumpadSubtract'', ''NumpadMultiply'', ''NumpadDivide'',
      ''NumpadDecimal'', ''NumpadComma'', ''NumpadEnter'', ''F1'', ''F2'',
      ''F3'', ''F5'', ''F9'']"

text \<open>
  The target of an event: not an element, or an element with the closest editable field around
  it (whether disabled, whether read-only) and the closest button or link (whether disabled).
\<close>

datatype dom_target =
    NoElement
  | DomElement "(bool \<times> bool) option" "bool option"

record dom_event =
  de_key :: string
  de_code :: string
  de_ctrl :: bool
  de_alt :: bool
  de_meta :: bool
  de_repeat :: bool
  de_target :: dom_target

fun editableTarget :: "dom_target \<Rightarrow> bool" where
  "editableTarget (DomElement (Some (disabled, readOnly)) _) = (\<not> disabled \<and> \<not> readOnly)"
| "editableTarget _ = False"

fun activationTarget :: "dom_target \<Rightarrow> bool" where
  "activationTarget (DomElement _ (Some disabled)) = (\<not> disabled)"
| "activationTarget _ = False"

definition handled :: "dom_event \<Rightarrow> bool" where
  "handled e =
     (if de_ctrl e \<or> de_alt e \<or> de_meta e then False
      else de_key e \<in> set handledKeys \<or> de_code e \<in> set handledCodes)"

text \<open>\<open>send\<close>; the blur handler sends without an event.\<close>

definition send :: "string \<Rightarrow> dom_event option \<Rightarrow> bool \<Rightarrow> keyboard_message" where
  "send eventType event fromEditable =
     (case event of
        Some e \<Rightarrow> \<lparr>km_event_type = eventType, km_key = de_key e, km_code = de_code e,
          km_ctrl_key = de_ctrl e, km_alt_key = de_alt e, km_meta_key = de_meta e,
          km_repeat = de_repeat e, km_from_editable = fromEditable\<rparr>
      | None \<Rightarrow> \<lparr>km_event_type = eventType, km_key = [], km_code = [],
          km_ctrl_key = False, km_alt_key = False, km_meta_key = False,
          km_repeat = False, km_from_editable = fromEditable\<rparr>)"

text \<open>
  The handlers of the window. \<open>None\<close>: the event goes on to the page; \<open>Some m\<close>: it is taken
  away from the page (\<open>preventDefault\<close>, \<open>stopPropagation\<close>) and \<open>m\<close> is sent.
\<close>

definition onKeyDown :: "dom_event \<Rightarrow> keyboard_message option" where
  "onKeyDown e =
     (let fromEditable = editableTarget (de_target e)
      in if fromEditable \<and> de_key e \<noteq> ''Escape'' then None
         else if activationTarget (de_target e) \<and> de_key e = ''Enter'' then None
         else if \<not> handled e then None
         else Some (send ''keydown'' (Some e) fromEditable))"

definition onKeyUp :: "dom_event \<Rightarrow> keyboard_message option" where
  "onKeyUp e =
     (let fromEditable = editableTarget (de_target e)
      in if fromEditable \<and> de_key e \<noteq> ''Escape'' then None
         else if activationTarget (de_target e) \<and> de_key e = ''Enter'' then None
         else if \<not> handled e then None
         else Some (send ''keyup'' (Some e) fromEditable))"

definition onBlur :: keyboard_message where
  "onBlur = send ''keyup'' None False"

text \<open>What the window passes on, and what the application does with it.\<close>

datatype window_event = KeyDown dom_event | KeyUp dom_event | Blur

definition listener :: "window_event \<Rightarrow> keyboard_message option" where
  "listener ev = (case ev of KeyDown e \<Rightarrow> onKeyDown e | KeyUp e \<Rightarrow> onKeyUp e | Blur \<Rightarrow> Some onBlur)"

definition window_calls :: "overlays \<Rightarrow> window_event \<Rightarrow> key_call list" where
  "window_calls ov ev =
     (case listener ev of Some m \<Rightarrow> dispatch_keyboard_message ov m | None \<Rightarrow> [])"

section \<open>The tooltips\<close>

definition NUMPAD :: string where
  "NUMPAD = utf8 [0xE5, 0xB0, 0x8F, 0xE9, 0x94, 0xAE, 0xE7, 0x9B, 0x98, 0x20]"

definition keyboard_hint_for_action :: "string \<Rightarrow> string option" where
  "keyboard_hint_for_action action =
     (if action = ''digit:0'' then Some (''0 / '' @ NUMPAD @ ''0'')
      else if action = ''digit:1'' then Some (''1 / '' @ NUMPAD @ ''1'')
      else if action = ''digit:2'' then Some (''2 / '' @ NUMPAD @ ''2'')
      else if action = ''digit:3'' then Some (''3 / '' @ NUMPAD @ ''3'')
      else if action = ''digit:4'' then Some (''4 / '' @ NUMPAD @ ''4'')
      else if action = ''digit:5'' then Some (''5 / '' @ NUMPAD @ ''5'')
      else if action = ''digit:6'' then Some (''6 / '' @ NUMPAD @ ''6'')
      else if action = ''digit:7'' then Some (''7 / '' @ NUMPAD @ ''7'')
      else if action = ''digit:8'' then Some (''8 / '' @ NUMPAD @ ''8'')
      else if action = ''digit:9'' then Some (''9 / '' @ NUMPAD @ ''9'')
      else if action = ''decimal-point'' then Some ''. / ,''
      else if action = ''add'' then Some ''+''
      else if action = ''subtract'' then Some ''-''
      else if action = ''multiply'' then Some ''*''
      else if action = ''divide'' then Some ''/''
      else if action = ''equals'' then Some ''Enter / =''
      else if action = ''percent'' then Some ''% / P''
      else if action = ''mu'' then Some ''U''
      else if action = ''sqrt'' then Some ''R / S''
      else if action = ''backspace'' then Some ''Backspace''
      else if action = ''clear'' then Some ''Delete / C''
      else if action = ''all-clear'' then Some ''Esc''
      else if action = ''plus-minus'' then Some ''N / F9''
      else if action = ''memory-recall'' then Some ''M''
      else if action = ''memory-add'' then Some ''A''
      else if action = ''memory-subtract'' then Some ''B''
      else if action = ''memory-clear'' then Some ''X''
      else None)"

section \<open>The two tables agree\<close>

text \<open>The keys of the tables of \<open>Keyboard\<close>, as lists.\<close>

lemma digit_key_iff: "digit_action_from_key k \<noteq> None \<longleftrightarrow> k \<in> set (map (\<lambda>c. [c]) ''0123456789'')"
  by (auto simp: digit_action_from_key_def)

lemma digit_code_iff:
  "digit_action_from_code k \<noteq> None \<longleftrightarrow> k \<in> set (map (\<lambda>c. ''Numpad'' @ [c]) ''0123456789'')"
  by (auto simp: digit_action_from_code_def)

lemma code_iff:
  "shortcut_from_code k \<noteq> None \<longleftrightarrow>
     k \<in> {''NumpadAdd'', ''NumpadSubtract'', ''NumpadMultiply'', ''NumpadDivide'', ''NumpadDecimal'',
       ''NumpadComma'', ''NumpadEnter'', ''F1'', ''F2'', ''F3'', ''F5'', ''F9''}"
  by (auto simp: shortcut_from_code_def)

definition LETTERS :: string where "LETTERS = ''abcmnoprstuvx''"

lemma to_ascii_lowercase_single:
  "to_ascii_lowercase k = [c] \<longleftrightarrow> (\<exists>b. k = [b] \<and> to_ascii_lowercase [b] = [c])"
  unfolding to_ascii_lowercase_def by (simp only: map_eq_Cons_conv list.map) blast

lemma lower_single:
  assumes "97 \<le> code c" and "code c \<le> 122"
  shows "to_ascii_lowercase [b] = [c] \<longleftrightarrow> b = c \<or> b = byte (code c - 32)"
proof
  assume "to_ascii_lowercase [b] = [c]"
  then show "b = c \<or> b = byte (code c - 32)"
    using assms by (auto simp: to_ascii_lowercase_def split: if_splits)
next
  assume "b = c \<or> b = byte (code c - 32)"
  then show "to_ascii_lowercase [b] = [c]"
    using assms by (auto simp: to_ascii_lowercase_def)
qed

lemma lower_letters:
  "(\<exists>c \<in> set LETTERS. to_ascii_lowercase k = [c]) \<longleftrightarrow> k \<in> set (map (\<lambda>c. [c]) ''aAbBcCmMnNoOpPrRsStTuUvVxX'')"
proof -
  have "list_all (\<lambda>c. 97 \<le> code c \<and> code c \<le> 122) LETTERS"
    by (simp add: LETTERS_def)
  then have "(\<exists>c \<in> set LETTERS. to_ascii_lowercase k = [c])
      \<longleftrightarrow> (\<exists>c \<in> set LETTERS. \<exists>b. k = [b] \<and> (b = c \<or> b = byte (code c - 32)))"
    by (subst to_ascii_lowercase_single) (auto simp: lower_single list_all_iff)
  also have "\<dots> \<longleftrightarrow> k \<in> set (concat (map (\<lambda>c. [[c], [byte (code c - 32)]]) LETTERS))"
    by auto
  also have "concat (map (\<lambda>c. [[c], [byte (code c - 32)]]) LETTERS) = map (\<lambda>c. [c]) ''aAbBcCmMnNoOpPrRsStTuUvVxX''"
    by (simp add: LETTERS_def char_of_def bit_0)
  finally show ?thesis .
qed

lemma letter_iff:
  "shortcut_from_letter k \<noteq> None \<longleftrightarrow> k \<in> set (map (\<lambda>c. [c]) ''aAbBcCmMnNoOpPrRsStTuUvVxX'')"
  unfolding lower_letters [symmetric] LETTERS_def shortcut_from_letter_def Let_def by simp

lemma key_iff:
  "shortcut_from_key k \<noteq> None \<longleftrightarrow>
     k \<in> set (map (\<lambda>c. [c]) ''+-*/=.,%aAbBcCmMnNoOpPrRsStTuUvVxX'') \<union> {''Enter'', ''Backspace'', ''Delete'', ''Escape''}"
  using letter_iff [of k] by (auto simp: shortcut_from_key_def)

text \<open>The browser gives function keys the same name as key and as code.\<close>

definition names_agree :: "dom_event \<Rightarrow> bool" where
  "names_agree e = (de_key e \<in> {''F1'', ''F2'', ''F3'', ''F5''} \<longrightarrow> de_code e = de_key e)"

definition FUNCTION_KEYS :: "string list" where
  "FUNCTION_KEYS = [''F1'', ''F2'', ''F3'', ''F5'']"

lemma handled_keys:
  "set handledKeys = set (map (\<lambda>c. [c]) ''0123456789'')
     \<union> (set (map (\<lambda>c. [c]) ''+-*/=.,%aAbBcCmMnNoOpPrRsStTuUvVxX'') \<union> {''Enter'', ''Backspace'', ''Delete'', ''Escape''})
     \<union> set FUNCTION_KEYS"
  by code_simp

lemma handled_codes:
  "set handledCodes = set (map (\<lambda>c. ''Numpad'' @ [c]) ''0123456789'')
     \<union> {''NumpadAdd'', ''NumpadSubtract'', ''NumpadMultiply'', ''NumpadDivide'', ''NumpadDecimal'',
        ''NumpadComma'', ''NumpadEnter'', ''F1'', ''F2'', ''F3'', ''F5'', ''F9''}"
  by code_simp

lemma function_codes: "f \<in> set FUNCTION_KEYS \<Longrightarrow> shortcut_from_code f \<noteq> None"
  by (auto simp: FUNCTION_KEYS_def shortcut_from_code_def)

lemma handled_iff:
  assumes "names_agree e"
  shows "handled e \<longleftrightarrow> shortcut_from_message (send ty (Some e) b) \<noteq> None"
proof -
  have "shortcut_from_message (send ty (Some e) b) \<noteq> None \<longleftrightarrow> \<not> (de_ctrl e \<or> de_alt e \<or> de_meta e)
      \<and> (digit_action_from_key (de_key e) \<noteq> None \<or> digit_action_from_code (de_code e) \<noteq> None
         \<or> shortcut_from_code (de_code e) \<noteq> None \<or> shortcut_from_key (de_key e) \<noteq> None)"
    by (simp add: shortcut_from_message_def send_def has_blocked_modifier_def split: option.split)
  also have "\<dots> \<longleftrightarrow> \<not> (de_ctrl e \<or> de_alt e \<or> de_meta e)
      \<and> (de_key e \<in> set handledKeys \<or> de_code e \<in> set handledCodes)"
  proof -
    have "de_key e \<in> set FUNCTION_KEYS \<Longrightarrow> shortcut_from_code (de_code e) \<noteq> None"
      using assms function_codes by (auto simp: names_agree_def list_all_iff FUNCTION_KEYS_def)
    then show ?thesis
      unfolding handled_keys handled_codes Un_iff digit_key_iff [symmetric] digit_code_iff [symmetric]
        code_iff [symmetric] key_iff [unfolded Un_iff, symmetric] by blast
  qed
  finally show ?thesis
    by (auto simp: handled_def)
qed

lemma unhandled_ignored:
  assumes "names_agree e" and "\<not> handled e"
  shows "dispatch_keyboard_message ov (send ''keydown'' (Some e) b) = []"
proof -
  have "shortcut_from_message (send ''keydown'' (Some e) b) = None"
    using handled_iff [OF assms(1), of "''keydown''" b] assms(2) by blast
  then show ?thesis
    by (simp add: dispatch_keyboard_message_def is_key_up_def is_key_down_def send_def)
qed

text \<open>
  C37: the page captures the shortcuts, with two exceptions. In a browser that gives the function
  keys F1, F2, F3 and F5 the same name as key and as code (\<open>names_agree\<close>; the listener checks both
  names, the shortcut table only the code), a key press is taken away from the page when and only
  when it is a shortcut of the application, is not typed into a field (Escape excepted), and is
  not Enter on a focused button or link. Away from fields, buttons and links the application
  reacts as if it saw every key; and what is typed into a field stays there, except Escape.
\<close>

theorem shortcuts_captured:
  assumes "names_agree e"
  shows "(listener (KeyDown e) \<noteq> None) =
      (shortcut_from_message (send ''keydown'' (Some e) False) \<noteq> None
       \<and> \<not> (editableTarget (de_target e) \<and> de_key e \<noteq> ''Escape'')
       \<and> \<not> (activationTarget (de_target e) \<and> de_key e = ''Enter''))
    \<and> (\<not> editableTarget (de_target e) \<and> \<not> activationTarget (de_target e) \<longrightarrow>
       window_calls ov (KeyDown e) = dispatch_keyboard_message ov (send ''keydown'' (Some e) False))
    \<and> (editableTarget (de_target e) \<and> de_key e \<noteq> ''Escape'' \<longrightarrow>
       listener (KeyDown e) = None \<and> listener (KeyUp e) = None)"
  using handled_iff [OF assms, of "''keydown''" False] unhandled_ignored [OF assms]
  by (auto simp: listener_def onKeyDown_def onKeyUp_def window_calls_def Let_def)

definition plain_key :: "string \<Rightarrow> string \<Rightarrow> dom_event" where
  "plain_key key cd = \<lparr>de_key = key, de_code = cd, de_ctrl = False, de_alt = False, de_meta = False,
     de_repeat = False, de_target = NoElement\<rparr>"

theorem shortcuts_captured_witness:
  "window_calls no_overlays (KeyDown (plain_key ''F9'' ''F9'')) = emit_calculator_action ''plus-minus''
   \<and> listener (KeyDown (plain_key ''q'' ''KeyQ'')) = None"
proof -
  have agree: "names_agree (plain_key ''F9'' ''F9'')" "names_agree (plain_key ''q'' ''KeyQ'')"
    by (simp_all add: names_agree_def plain_key_def)
  have "dispatch_keyboard_message no_overlays (send ''keydown'' (Some (plain_key ''F9'' ''F9'')) False)
      = emit_calculator_action ''plus-minus''"
    "shortcut_from_message (send ''keydown'' (Some (plain_key ''q'' ''KeyQ'')) False) = None"
    by code_simp+
  then show ?thesis
    using shortcuts_captured [OF agree(1), of no_overlays] shortcuts_captured [OF agree(2), of no_overlays]
    by (simp add: plain_key_def)
qed

text \<open>
  How a user reads a tooltip: alternatives between slashes; a letter in either case; a digit of
  the numeric keypad with the number lock on or off; the name of a key otherwise.
\<close>

function alternatives :: "string \<Rightarrow> string \<Rightarrow> string list" where
  "alternatives acc [] = [rev acc]"
| "alternatives acc (c # r) =
     (if take 3 (c # r) = '' / '' then rev acc # alternatives [] (drop 2 r) else alternatives (c # acc) r)"
  by pat_completeness auto
termination
  by (relation "measure (length \<circ> snd)") auto

definition read_key :: "string \<Rightarrow> dom_event list" where
  "read_key name =
     (case strip_prefix NUMPAD name of
        Some d \<Rightarrow> [plain_key d (''Numpad'' @ d), plain_key ''End'' (''Numpad'' @ d)]
      | None \<Rightarrow>
          if name = ''Esc'' then [plain_key ''Escape'' ''Escape'']
          else if name = ''F9'' then [plain_key ''F9'' ''F9'']
          else if length name = 1 then [plain_key name [], plain_key (to_ascii_lowercase name) []]
          else [plain_key name name])"

definition hint_presses :: "string \<Rightarrow> dom_event list" where
  "hint_presses action =
     (case keyboard_hint_for_action action of
        Some hint \<Rightarrow> concat (map read_key (alternatives [] hint))
      | None \<Rightarrow> [])"

lemma free_key_calls:
  assumes "names_agree e" and "de_target e = NoElement"
  shows "window_calls ov (KeyDown e) = dispatch_keyboard_message ov (send ''keydown'' (Some e) False)"
  using assms(2) unhandled_ignored [OF assms(1)]
  by (auto simp: window_calls_def listener_def onKeyDown_def)

text \<open>The two predicates of the next theorem by name, which lets them evaluate on concrete keys only.\<close>

definition triggers :: "string \<Rightarrow> dom_event \<Rightarrow> bool" where
  "triggers action e = (names_agree e \<and> de_target e = NoElement
     \<and> dispatch_keyboard_message no_overlays (send ''keydown'' (Some e) False) = emit_calculator_action action)"

lemmas button_defs = button_new_def button_icon_def with_colspan_def

lemmas triggers_eval =
  triggers_def names_agree_def plain_key_def send_def dispatch_keyboard_message_def is_key_up_def is_key_down_def
  shortcut_from_message_def has_blocked_modifier_def digit_action_from_key_def digit_action_from_code_def
  shortcut_from_code_def shortcut_from_key_def shortcut_from_letter_def to_ascii_lowercase_def char_of_def bit_0
  dispatch_shortcut_def close_top_overlay_def no_overlays_def overlay_is_open_def NUMPAD_def utf8_def

definition hint_ok :: "button_def \<Rightarrow> bool" where
  "hint_ok b = (hint_presses (bd_action b) \<noteq> [] \<and> list_all (triggers (bd_action b)) (hint_presses (bd_action b)))"

text \<open>
  The tooltips keep their promise. Every button has one, and every key it names, pressed
  while no panel is open, passes the listener and triggers exactly the action of the button,
  with the button highlighted.
\<close>

theorem tooltips_hold:
  "list_all (\<lambda>b. hint_presses (bd_action b) \<noteq> []
      \<and> list_all (\<lambda>e. window_calls no_overlays (KeyDown e)
            = [OnKeyboardPressed True, OnLastAction (bd_action b), OnKeyboardAction (bd_action b)])
          (hint_presses (bd_action b)))
     (concat BUTTON_ROWS)"
proof -
  have "list_all hint_ok (concat BUTTON_ROWS)"
    by (simp add: BUTTON_ROWS_def button_defs hint_ok_def hint_presses_def read_key_def keyboard_hint_for_action_def
        triggers_eval)
  then show ?thesis
    by (auto simp: list_all_iff hint_ok_def triggers_def emit_calculator_action_def free_key_calls)
qed

text \<open>
  The highlight of the pressed button follows \<open>on_keyboard_pressed\<close>. A key that is released
  while Ctrl, Alt or Meta is down is not reported, so its button stays highlighted until
  another key is released or the window loses the focus.
\<close>

definition highlight :: "window_event list \<Rightarrow> bool" where
  "highlight evs =
     foldl (\<lambda>h c. case c of OnKeyboardPressed p \<Rightarrow> p | _ \<Rightarrow> h) False
       (concat (map (window_calls no_overlays) evs))"

lemma release_lost_with_modifier:
  "highlight [KeyDown (plain_key ''5'' ''Digit5''), KeyUp ((plain_key ''5'' ''Digit5'')\<lparr>de_ctrl := True\<rparr>)]"
  "\<not> highlight [KeyDown (plain_key ''5'' ''Digit5''), KeyUp (plain_key ''5'' ''Digit5'')]"
  "\<not> highlight [KeyDown (plain_key ''5'' ''Digit5''), Blur]"
  by code_simp+

end
