(* ===== verification/Panels.thy ===== *)
theory Panels
  imports View Listener Bridge_Theorems
begin

text \<open>
  The large components of \<open>src/components\<close>: the button grid (\<open>button_grid.rs\<close>), the network panel
  (\<open>network_panel.rs\<close>), the settings panel (\<open>settings_panel.rs\<close>), the workbench, the split pane
  and the whole user interface (\<open>calculator.rs\<close>), with the callbacks \<open>src/main.rs\<close> connects to it.
\<close>

section \<open>The button grid\<close>

text \<open>\<open>call\<close> stands for the fifteen callbacks of \<open>ButtonGridProps\<close>.\<close>

definition ButtonGrid :: "(grid_call \<Rightarrow> 'e list) \<Rightarrow> bool \<Rightarrow> string \<Rightarrow> 'e element" where
  "ButtonGrid call keyboard_pressed last_keyboard_action =
     Element ''div'' (class_attr ''button-grid'') []
       (concat (map (map (\<lambda>button.
          let keyboard_active = (keyboard_pressed \<and> last_keyboard_action = bd_action button);
              colspan = (bd_colspan button > 1);
              title = map_option (\<lambda>hint. L_SHORTCUT @ hint) (keyboard_hint_for_action (bd_action button))
          in SkeuBtn (bd_label button) (bd_icon button) (bd_btn_type button) (Some colspan) (Some keyboard_active)
               title (case button_click (bd_action button) of Some c \<Rightarrow> call c | None \<Rightarrow> []))) BUTTON_ROWS))"

section \<open>The network panel\<close>

record peer_props =
  pp_name :: string
  pp_address :: string
  pp_is_connected :: bool
  pp_route_active :: bool
  pp_latency_ms :: int
  pp_index :: int
  pp_node_id_string :: string

record 'e network_props =
  np_network_status :: string
  np_remote_controlled :: bool
  np_executing_remotely :: bool
  np_scanning :: bool
  np_allow_remote_control :: bool
  np_audio_muted :: bool
  np_peers :: "peer_props list"
  np_connected_peer_index :: int
  np_onconnect :: "string \<Rightarrow> 'e list"
  np_ondisconnect :: "string \<Rightarrow> 'e list"
  np_onscan :: "'e list"
  np_ontoggle_remote_control :: "'e list"
  np_ontoggle_mute :: "'e list"

definition peer_row :: "'e network_props \<Rightarrow> peer_props \<Rightarrow> 'e element" where
  "peer_row p peer =
     (let is_connected = pp_is_connected peer;
          route_active = pp_route_active peer;
          row_class = (if route_active then ''peer-row peer-row--connected peer-row--route-active''
            else if is_connected then ''peer-row peer-row--connected'' else ''peer-row'');
          latency_display = (if pp_latency_ms peer < 0 then ''-'' else show_int (pp_latency_ms peer) @ ''ms'');
          node_id = pp_node_id_string peer;
          session_label = (if route_active then L_EXECUTING_NOW
            else if is_connected then L_CONNECTED else L_NOT_CONNECTED)
      in Element ''div'' (class_attr row_class) []
           [Element ''div'' (class_attr ''peer-row__info'') []
              [Element ''span''
                 (class_attr (if route_active then ''peer-row__status-icon peer-row__status-icon--route''
                    else if is_connected then ''peer-row__status-icon peer-row__status-icon--connected''
                    else ''peer-row__status-icon'')) []
                 (if route_active then [Icon IconBolt None] else if is_connected then [Icon IconCheck None] else []),
               Element ''span'' (class_attr ''peer-row__name'') [] [Text (pp_name peer)],
               Element ''span'' (class_attr ''peer-row__address'') [] [Text (pp_address peer)],
               Element ''span'' (class_attr ''peer-row__latency'') [] [Text (session_label @ L_DOT @ latency_display)]],
            Element ''div'' (class_attr ''peer-row__actions'') []
              [if route_active then
                 Element ''button'' [(''class'', ''network-action-btn''), (''type'', ''button'')]
                   (on_click (np_ondisconnect p node_id)) [Text L_STOP]
               else
                 Element ''button'' [(''class'', ''network-action-btn''), (''type'', ''button'')]
                   (on_click (np_onconnect p node_id))
                   [Text (if is_connected then L_EXECUTE_HERE else L_CONNECT_EXECUTE)]]])"

definition NetworkPanelContent :: "'e network_props \<Rightarrow> 'e element" where
  "NetworkPanelContent p =
     (let status_text = (if np_network_status p = [] then L_NOT_CONNECTED else np_network_status p);
          status_class = (if np_executing_remotely p then ''network-info-row__text executing-remotely''
            else if np_remote_controlled p then ''network-info-row__text remote-controlled''
            else ''network-info-row__text connected'')
      in Element ''div'' (class_attr ''network-panel-content'') []
           [Element ''div'' (class_attr ''network-info-row'') []
              [Element ''span'' (class_attr ''network-info-row__icon'') [] [Icon IconNetwork None],
               Element ''span'' (class_attr status_class) [] [Text status_text]],
            ToggleSwitch (np_allow_remote_control p) L_ALLOW_CONTROL (Some IconLock) (np_ontoggle_remote_control p),
            ToggleSwitch (np_audio_muted p) L_MUTE_MODE (Some IconVolumeMuted) (np_ontoggle_mute p),
            PanelSection L_DEVICES (Some IconUsers) (Some ''network-section network-section--peers'')
              [Element ''div'' (class_attr ''network-toolbar'') []
                 [Element ''button''
                    [(''class'', if np_scanning p then ''network-action-btn network-action-btn--scan is-active''
                        else ''network-action-btn network-action-btn--scan''),
                     (''type'', ''button''), (''title'', L_SCAN_F5)]
                    (on_click (np_onscan p))
                    [Icon IconSearch (Some ''network-action-btn__icon''),
                     Element ''span'' [] [] [Text (if np_scanning p then L_SCANNING else L_SCAN)]]],
               Element ''div'' (class_attr ''peer-list'') []
                 (if np_peers p = [] then [Element ''div'' (class_attr ''peer-list__empty'') [] [Text L_NO_DEVICES]]
                  else map (peer_row p) (np_peers p))]])"

definition NetworkPanel :: "bool \<Rightarrow> 'e list \<Rightarrow> 'e network_props \<Rightarrow> 'e element list" where
  "NetworkPanel visible onclose p =
     Overlay visible L_NETWORK_SETTINGS (Some IconNetwork) Large onclose [NetworkPanelContent p]"

section \<open>The settings panel\<close>

text \<open>\<open>input_value\<close> is the local signal of the name field, \<open>set_input\<close> what typing into it does.\<close>

record 'e settings_props =
  sp_display_name :: string
  sp_save_status :: string
  sp_audio :: "'e audio_props"
  sp_dark_mode :: bool
  sp_app_version :: string
  sp_on_save_name :: "string \<Rightarrow> 'e list"
  sp_on_toggle_theme :: "'e list"
  sp_on_show_about :: "'e list"

definition SettingsContent :: "string \<Rightarrow> (string \<Rightarrow> 'e list) \<Rightarrow> 'e settings_props \<Rightarrow> 'e element" where
  "SettingsContent input_value set_input p =
     (let status_class = (if sp_save_status p = L_SAVED
            then ''settings-save-status settings-save-status--success'' else ''settings-save-status'');
          theme_icon = (if sp_dark_mode p then IconSun else IconMoon);
          theme_text = (if sp_dark_mode p then L_LIGHT_THEME else L_DARK_THEME);
          theme_state = (if sp_dark_mode p then L_DARK else L_LIGHT)
      in Element ''div'' (class_attr ''settings-content'') []
           [PanelSection L_DEVICE (Some IconUser) None
              (ControlRow L_DEVICE_NAME (Some IconUser) None None
                 [Element ''input''
                    [(''class'', ''settings-input''), (''type'', ''text''), (''placeholder'', L_ENTER_NAME),
                     (''value'', input_value)]
                    [(''oninput'', Calls set_input)] []]
               # (if sp_save_status p \<noteq> [] then
                    [Element ''div'' (class_attr status_class) [] [Element ''span'' [] [] [Text (sp_save_status p)]]]
                  else [])
               @ [Element ''div'' (class_attr ''settings-save-row'') []
                    [Element ''button''
                       [(''class'', ''panel-action panel-action--with-icon''), (''type'', ''button'')]
                       (on_click (sp_on_save_name p input_value))
                       [Icon IconCheck (Some ''panel-action__icon''), Element ''span'' [] [] [Text L_SAVE]]]]),
            AudioControlGroup (sp_audio p),
            PanelSection L_APPEARANCE (Some theme_icon) None
              [ControlRow L_THEME (Some theme_icon) (Some theme_state) None
                 [panel_action (sp_on_toggle_theme p) theme_icon (L_SWITCH @ theme_text)]],
            PanelSection L_ABOUT (Some IconInfo) (Some ''panel-section--last'')
              [ControlRow L_VERSION (Some IconInfo) (Some (sp_app_version p)) None
                 [panel_action (sp_on_show_about p) IconInfo L_DETAILS]]])"

definition SettingsPanel :: "'e list \<Rightarrow> string \<Rightarrow> (string \<Rightarrow> 'e list) \<Rightarrow> 'e settings_props \<Rightarrow> 'e element list" where
  "SettingsPanel onclose input_value set_input p =
     Overlay True L_SETTINGS (Some IconSettings) Compact onclose [SettingsContent input_value set_input p]"

end
