(* ===== verification/Layout.thy ===== *)
theory Layout
  imports Panels
begin

text \<open>
  The whole user interface: \<open>CalculatorUI\<close>, \<open>AppChrome\<close> and \<open>Workbench\<close> of
  \<open>src/components/calculator.rs\<close> with their local state, what \<open>src/main.rs\<close> reads from the
  application state to render it, and the callbacks it connects. The desktop variant of
  \<open>AppChrome\<close> is modelled; on Android it renders nothing. The last section holds the rules of
  the style sheets that decide which of the elements the pointer can reach.
\<close>

section \<open>Calls and local state\<close>

datatype workbench_tab = Overview | SettingsTab | NetworkTab

datatype split_event = SplitMove rat | SplitUp | SplitLeave | SplitDown rat | SplitKey string

text \<open>
  The callbacks of \<open>CalculatorUIProps\<close> (those of the keyboard handler are \<open>key_call\<close>), and the
  calls to the local signals: the tab, the split, the two name fields, the window.
\<close>

datatype ui_call =
    Grid grid_call
  | SwitchAudioMode
  | ToggleMute
  | VolumeChanged f64_number
  | ToggleTheme
  | ShowAbout
  | CloseAbout
  | ShowSettings
  | CloseSettings
  | SaveDisplayName string
  | ShowNetworkSettings
  | CloseNetworkSettings
  | ConnectToPeer string
  | DisconnectPeer string
  | ScanPeers
  | ToggleRemoteControl
  | TabChange workbench_tab
  | Split split_event
  | WorkbenchName string
  | PanelName string
  | DragWindow
  | CloseWindow

record ui_local =
  ul_split_left_px :: "int option"
  ul_split_dragging :: bool
  ul_workbench_tab :: workbench_tab
  ul_workbench_name :: string
  ul_panel_name :: string

text \<open>The split between calculator and workbench; positions are clamped to the window.\<close>

definition clamp_int :: "int \<Rightarrow> int \<Rightarrow> int \<Rightarrow> int" where
  "clamp_int lo hi x = (if x < lo then lo else if hi < x then hi else x)"

definition split_position :: "rat \<Rightarrow> int" where
  "split_position x = clamp_int 280 1400 (f_round_i32 (Finite x))"

fun split_step :: "split_event \<Rightarrow> ui_local \<Rightarrow> ui_local" where
  "split_step (SplitMove x) l =
     (if ul_split_dragging l then l\<lparr>ul_split_left_px := Some (split_position x)\<rparr> else l)"
| "split_step SplitUp l = l\<lparr>ul_split_dragging := False\<rparr>"
| "split_step SplitLeave l = l\<lparr>ul_split_dragging := False\<rparr>"
| "split_step (SplitDown x) l = l\<lparr>ul_split_dragging := True, ul_split_left_px := Some (split_position x)\<rparr>"
| "split_step (SplitKey key) l =
     (let current = (case ul_split_left_px l of Some px \<Rightarrow> px | None \<Rightarrow> 520)
      in if key = ''ArrowLeft'' then l\<lparr>ul_split_left_px := Some (clamp_int 280 1400 (current - 24))\<rparr>
         else if key = ''ArrowRight'' then l\<lparr>ul_split_left_px := Some (clamp_int 280 1400 (current + 24))\<rparr>
         else l)"

definition local_step :: "ui_call \<Rightarrow> ui_local \<Rightarrow> ui_local" where
  "local_step c l =
     (case c of
        TabChange tab \<Rightarrow> l\<lparr>ul_workbench_tab := tab\<rparr>
      | Split ev \<Rightarrow> split_step ev l
      | WorkbenchName s \<Rightarrow> l\<lparr>ul_workbench_name := s\<rparr>
      | PanelName s \<Rightarrow> l\<lparr>ul_panel_name := s\<rparr>
      | _ \<Rightarrow> l)"

section \<open>The data the interface shows\<close>

record calculator_props =
  cp_display_text :: string
  cp_history_text :: string
  cp_memory_indicator :: string
  cp_mode_indicator :: string
  cp_error_state :: bool
  cp_audio_status :: string
  cp_audio_muted :: bool
  cp_audio_volume :: f64_number
  cp_dark_mode :: bool
  cp_network_status :: string
  cp_remote_controlled :: bool
  cp_executing_remotely :: bool
  cp_about_visible :: bool
  cp_settings_panel_visible :: bool
  cp_network_panel_visible :: bool
  cp_scanning :: bool
  cp_allow_remote_control :: bool
  cp_peers :: "peer_props list"
  cp_connected_peer_index :: int
  cp_app_version :: string
  cp_settings_display_name :: string
  cp_settings_save_status :: string
  cp_keyboard_pressed :: bool
  cp_last_keyboard_action :: string

definition audio_props_of :: "calculator_props \<Rightarrow> ui_call audio_props" where
  "audio_props_of p =
     \<lparr>ag_audio_status = cp_audio_status p, ag_audio_muted = cp_audio_muted p, ag_audio_volume = cp_audio_volume p,
      ag_mode_indicator = cp_mode_indicator p, ag_on_switch_audio_mode = [SwitchAudioMode],
      ag_on_toggle_mute = [ToggleMute], ag_on_volume_changed = (\<lambda>v. [VolumeChanged v])\<rparr>"

definition network_props_of :: "calculator_props \<Rightarrow> ui_call network_props" where
  "network_props_of p =
     \<lparr>np_network_status = cp_network_status p, np_remote_controlled = cp_remote_controlled p,
      np_executing_remotely = cp_executing_remotely p, np_scanning = cp_scanning p,
      np_allow_remote_control = cp_allow_remote_control p, np_audio_muted = cp_audio_muted p,
      np_peers = cp_peers p, np_connected_peer_index = cp_connected_peer_index p,
      np_onconnect = (\<lambda>i. [ConnectToPeer i]), np_ondisconnect = (\<lambda>i. [DisconnectPeer i]),
      np_onscan = [ScanPeers], np_ontoggle_remote_control = [ToggleRemoteControl], np_ontoggle_mute = [ToggleMute]\<rparr>"

definition settings_props_of :: "calculator_props \<Rightarrow> ui_call settings_props" where
  "settings_props_of p =
     \<lparr>sp_display_name = cp_settings_display_name p, sp_save_status = cp_settings_save_status p,
      sp_audio = audio_props_of p, sp_dark_mode = cp_dark_mode p, sp_app_version = cp_app_version p,
      sp_on_save_name = (\<lambda>s. [SaveDisplayName s]), sp_on_toggle_theme = [ToggleTheme],
      sp_on_show_about = [ShowAbout]\<rparr>"

section \<open>The workbench\<close>

definition tab_button :: "workbench_tab \<Rightarrow> workbench_tab \<Rightarrow> string \<Rightarrow> ui_call element" where
  "tab_button current tab label =
     Element ''button''
       [(''class'', if current = tab then ''workbench-tab is-active'' else ''workbench-tab''), (''role'', ''tab''),
        (''aria_selected'', if current = tab then ''true'' else ''false'')]
       (on_click [TabChange tab]) [Text label]"

definition metric :: "string \<Rightarrow> string \<Rightarrow> string \<Rightarrow> ui_call element" where
  "metric label val detail =
     Element ''div'' (class_attr ''workbench-metric'') []
       [Element ''span'' (class_attr ''workbench-metric__label'') [] [Text label],
        Element ''strong'' (class_attr ''workbench-metric__value'') [] [Text val],
        Element ''span'' (class_attr ''workbench-metric__detail'') [] [Text detail]]"

definition overview_panel :: "calculator_props \<Rightarrow> ui_call element" where
  "overview_panel p =
     (let net_state = (if cp_executing_remotely p then L_EXECUTING_REMOTELY
            else if cp_remote_controlled p then L_CONTROLLED
            else if cp_network_status p = [] then L_NOT_CONNECTED else cp_network_status p);
          status_class = (if cp_executing_remotely p then ''workbench-status workbench-status--executing''
            else if cp_remote_controlled p then ''workbench-status workbench-status--remote'' else ''workbench-status'');
          mute_text = (if cp_audio_muted p then L_UNMUTE else L_MUTE);
          mute_state_text = (if cp_audio_muted p then L_MUTED else L_PLAYING);
          remote_state_text = (if cp_allow_remote_control p then L_ALLOWED else L_FORBIDDEN);
          peer_count = length (cp_peers p);
          connected_count = length (filter pp_is_connected (cp_peers p));
          percent = f_round_i32 (f_scale 100 (cp_audio_volume p))
      in Element ''div'' (class_attr ''workbench-panel'') []
           [Element ''div'' (class_attr ''workbench-metric-grid'') []
              [metric L_AUDIO (cp_mode_indicator p) mute_state_text,
               metric L_VOLUME (show_int percent @ ''%'') (cp_audio_status p),
               metric L_NETWORK (show_int (int connected_count) @ ''/'' @ show_int (int peer_count)) net_state,
               metric L_REMOTE remote_state_text (cp_settings_display_name p)],
            Element ''section'' (class_attr ''workbench-section workbench-section--dense'') []
              [Element ''div'' (class_attr ''workbench-section__title'') [] [Text L_QUICK_CONTROL],
               Element ''div'' (class_attr ''workbench-actions'') []
                 [Element ''button'' (class_attr ''panel-action'') (on_click [SwitchAudioMode]) [Text L_SWITCH_AUDIO],
                  Element ''button'' (class_attr ''panel-action panel-action--secondary'') (on_click [ToggleMute])
                    [Text mute_text],
                  Element ''button'' (class_attr ''panel-action panel-action--secondary'')
                    (on_click [TabChange NetworkTab, ScanPeers])
                    [Text (if cp_scanning p then L_SCANNING else L_SCAN_NETWORK)]]],
            Element ''section'' (class_attr ''workbench-section workbench-section--dense'') []
              [Element ''div'' (class_attr ''workbench-section__title'') [] [Text L_STATE],
               Element ''div'' (class_attr status_class) [] [Text net_state],
               Element ''div'' (class_attr ''workbench-row'') []
                 [Element ''span'' (class_attr ''workbench-row__label'') [] [Text L_DEVICES_AVAILABLE],
                  Element ''span'' (class_attr ''workbench-row__value'') [] [Text (show_int (int peer_count))]]]])"

definition Workbench :: "ui_local \<Rightarrow> calculator_props \<Rightarrow> ui_call element" where
  "Workbench l p =
     (let current_tab = ul_workbench_tab l
      in Element ''aside'' [(''class'', ''workbench''), (''aria_label'', L_WORKBENCH)] []
           [Element ''div'' [(''class'', ''workbench-tabs''), (''role'', ''tablist''), (''aria_label'', L_TABS)] []
              [tab_button current_tab Overview L_OVERVIEW,
               tab_button current_tab SettingsTab L_SETTINGS,
               tab_button current_tab NetworkTab L_NETWORK],
            Element ''div'' (class_attr ''workbench-content'') []
              [case current_tab of
                 Overview \<Rightarrow> overview_panel p
               | SettingsTab \<Rightarrow>
                   Element ''div'' (class_attr ''workbench-panel workbench-panel--settings'') []
                     [SettingsContent (ul_workbench_name l) (\<lambda>s. [WorkbenchName s]) (settings_props_of p)]
               | NetworkTab \<Rightarrow>
                   Element ''div'' (class_attr ''workbench-panel workbench-panel--network'') []
                     [NetworkPanelContent (network_props_of p)]]])"

definition AppChrome :: "ui_call element" where
  "AppChrome =
     Element ''header'' [(''class'', ''app-chrome''), (''aria_label'', L_CHROME)] []
       [Element ''div'' [(''class'', ''app-chrome__drag-region''), (''title'', L_DRAG)]
          [(''onmousedown'', Calls (\<lambda>_. [DragWindow]))]
          [Element ''span'' (class_attr ''app-chrome__title'') [] [Text ''VocalCalculator'']],
        Element ''button'' [(''class'', ''app-chrome__close''), (''title'', L_CLOSE), (''aria_label'', L_CLOSE_WINDOW)]
          (on_click [CloseWindow]) [Icon IconX None]]"

section \<open>The root component\<close>

definition KeyboardHandler :: "'e element" where
  "KeyboardHandler = Element ''div'' [(''aria_hidden'', ''true''), (''class'', ''keyboard-focus-trap'')] [] []"

text \<open>The arrow keys on the split handle also prevent the default action of the browser.\<close>

definition CalculatorUI :: "ui_local \<Rightarrow> calculator_props \<Rightarrow> ui_call element" where
  "CalculatorUI l p =
     (let split_style = (case ul_split_left_px l of
              Some px \<Rightarrow> ''--split-left: '' @ show_int px @ ''px;'' | None \<Rightarrow> ''--split-left: 40vw;'');
          body_class = (if cp_executing_remotely p then ''calculator-body executing-remotely''
            else if cp_remote_controlled p then ''calculator-body remote-controlled'' else ''calculator-body'')
      in Element ''div''
           [(''class'', if ul_split_dragging l then ''calculator-window is-resizing'' else ''calculator-window''),
            (''style'', split_style)]
           [(''onmousemove'', PointerCalls (\<lambda>x. [Split (SplitMove x)])), (''onmouseup'', Calls (\<lambda>_. [Split SplitUp])),
            (''onmouseleave'', Calls (\<lambda>_. [Split SplitLeave]))]
           ([AppChrome,
             Element ''div'' (class_attr ''calculator-stage'') []
               [Element ''div'' (class_attr body_class) []
                  [Element ''div'' (class_attr ''calculator-body-inner'') []
                     [BrandLabel (cp_dark_mode p) (cp_mode_indicator p),
                      StatusBar \<lparr>sb_memory_indicator = cp_memory_indicator p, sb_audio_status = cp_audio_status p,
                        sb_mode_indicator = cp_mode_indicator p, sb_network_status = cp_network_status p,
                        sb_error_state = cp_error_state p, sb_remote_controlled = cp_remote_controlled p,
                        sb_executing_remotely = cp_executing_remotely p\<rparr>,
                      MobileQuickActions \<lparr>qa_dark_mode = cp_dark_mode p, qa_network_status = cp_network_status p,
                        qa_remote_controlled = cp_remote_controlled p, qa_executing_remotely = cp_executing_remotely p,
                        qa_on_toggle_theme = [ToggleTheme], qa_on_switch_audio_mode = [SwitchAudioMode],
                        qa_on_show_about = [ShowAbout], qa_on_show_network_settings = [ShowNetworkSettings],
                        qa_on_show_settings = [ShowSettings]\<rparr>,
                      HistoryText (cp_history_text p) (cp_dark_mode p),
                      LcdDisplay (cp_display_text p) (cp_error_state p) (cp_dark_mode p),
                      ButtonGrid (\<lambda>c. [Grid c]) (cp_keyboard_pressed p) (cp_last_keyboard_action p)]]],
             Element ''div''
               [(''class'', ''split-handle''), (''title'', L_WIDTHS), (''role'', ''separator''), (''tabindex'', ''0'')]
               [(''onmousedown'', PreventDefault), (''onmousedown'', PointerCalls (\<lambda>x. [Split (SplitDown x)])),
                (''onkeydown'', Calls (\<lambda>key. [Split (SplitKey key)]))]
               [Element ''span'' (class_attr ''split-handle__grip'') [] []],
             Workbench l p]
            @ (if cp_network_panel_visible p then NetworkPanel True [CloseNetworkSettings] (network_props_of p) else [])
            @ (if cp_settings_panel_visible p
               then SettingsPanel [CloseSettings] (ul_panel_name l) (\<lambda>s. [PanelName s]) (settings_props_of p) else [])
            @ (if cp_about_visible p then AboutDialog (cp_app_version p) [CloseAbout] else [])
            @ [KeyboardHandler]))"

section \<open>The application behind it\<close>

text \<open>
  What \<open>App\<close> in \<open>main.rs\<close> reads from the signals. The display signals are those of the router
  (\<open>shown_display\<close>, the initial display without one); \<open>id_text\<close> and \<open>address_text\<close> are the texts
  of node ids and socket addresses that the bridge stores in the rows.
\<close>

definition shown_display :: "('d, 'f) app \<Rightarrow> calc_display" where
  "shown_display a =
     (case ap_router a of
        Some r \<Rightarrow> rt_display r
      | None \<Rightarrow> \<lparr>dp_text = ''0'', dp_history = [], dp_memory_indicator = [], dp_is_error = False\<rparr>)"

definition peer_props_of :: "(node_id \<Rightarrow> string) \<Rightarrow> (socket_addr \<Rightarrow> string) \<Rightarrow> peer_display_info \<Rightarrow> peer_props" where
  "peer_props_of id_text address_text peer =
     \<lparr>pp_name = pv_name peer,
      pp_address = (case pv_address peer of Some addr \<Rightarrow> address_text addr | None \<Rightarrow> []),
      pp_is_connected = pv_is_connected peer, pp_route_active = pv_route_active peer,
      pp_latency_ms = pv_latency_ms peer, pp_index = pv_index peer,
      pp_node_id_string = id_text (pv_node_id peer)\<rparr>"

definition app_props ::
    "(node_id \<Rightarrow> string) \<Rightarrow> (socket_addr \<Rightarrow> string) \<Rightarrow> string \<Rightarrow> ('d, f64_number) app \<Rightarrow> calculator_props" where
  "app_props id_text address_text version a =
     (let d = shown_display a; audio = cx_audio (ap_ctx a); net = cx_net (ap_ctx a); settings = cx_settings (ap_ctx a)
      in \<lparr>cp_display_text = dp_text d, cp_history_text = dp_history d, cp_memory_indicator = dp_memory_indicator d,
          cp_mode_indicator = au_mode_indicator audio, cp_error_state = dp_is_error d,
          cp_audio_status = au_audio_status audio, cp_audio_muted = au_muted audio, cp_audio_volume = au_volume audio,
          cp_dark_mode = au_dark_mode audio, cp_network_status = nu_status net,
          cp_remote_controlled = nu_remote_controlled net, cp_executing_remotely = nu_executing_remotely net,
          cp_about_visible = au_about_visible audio, cp_settings_panel_visible = ss_panel_visible settings,
          cp_network_panel_visible = nu_panel_visible net, cp_scanning = nu_scanning net,
          cp_allow_remote_control = nu_allow_remote_control net,
          cp_peers = map (peer_props_of id_text address_text) (nu_peers net),
          cp_connected_peer_index = nu_connected_peer_index net, cp_app_version = version,
          cp_settings_display_name = ss_display_name settings, cp_settings_save_status = ss_save_status settings,
          cp_keyboard_pressed = cx_keyboard_pressed (ap_ctx a),
          cp_last_keyboard_action = cx_last_keyboard_action (ap_ctx a)\<rparr>)"

text \<open>
  The callbacks of \<open>App\<close>: the event of the application a call triggers; \<open>None\<close> for the calls to
  local state. \<open>parse_id\<close> is the parser of node ids the network handlers begin with.
\<close>

definition app_call ::
    "(string \<Rightarrow> node_id option) \<Rightarrow> u64 \<Rightarrow> config_io \<Rightarrow> ui_call \<Rightarrow> f64_number app_event option" where
  "app_call parse_id now_ms io c =
     (case c of
        Grid g \<Rightarrow> Some (U_Call now_ms (connected_handler g))
      | SwitchAudioMode \<Rightarrow> Some (U_SwitchAudioMode io)
      | ToggleMute \<Rightarrow> Some (U_ToggleMute io)
      | VolumeChanged v \<Rightarrow> Some (U_Volume v)
      | ToggleTheme \<Rightarrow> Some (U_ToggleTheme io)
      | ShowAbout \<Rightarrow> Some U_ShowAbout
      | CloseAbout \<Rightarrow> Some U_CloseAbout
      | ShowSettings \<Rightarrow> Some U_ShowSettings
      | CloseSettings \<Rightarrow> Some U_CloseSettings
      | SaveDisplayName s \<Rightarrow> Some (U_SaveName io s)
      | ShowNetworkSettings \<Rightarrow> Some U_ShowNetwork
      | CloseNetworkSettings \<Rightarrow> Some U_CloseNetwork
      | ConnectToPeer s \<Rightarrow> Some (U_Connect (parse_id s))
      | DisconnectPeer s \<Rightarrow> Some (U_Disconnect (parse_id s))
      | ScanPeers \<Rightarrow> Some U_Scan
      | ToggleRemoteControl \<Rightarrow> Some (U_ToggleRemoteControl io)
      | _ \<Rightarrow> None)"

text \<open>The interface of an application, and what the application does about a list of calls.\<close>

definition app_view ::
    "(node_id \<Rightarrow> string) \<Rightarrow> (socket_addr \<Rightarrow> string) \<Rightarrow> string \<Rightarrow> ui_local \<Rightarrow> ('d, f64_number) app \<Rightarrow> ui_call element" where
  "app_view id_text address_text version l a = CalculatorUI l (app_props id_text address_text version a)"

fun run_calls ::
    "'d decimal_ops \<Rightarrow> f64_number app_env \<Rightarrow> 'sk crypto \<Rightarrow> (string \<Rightarrow> node_id option) \<Rightarrow> u64 \<Rightarrow> config_io \<Rightarrow>
     ui_call list \<Rightarrow> ('d, f64_number) app \<Rightarrow> ('d, f64_number) app option" where
  "run_calls D E C parse_id now_ms io [] a = Some a"
| "run_calls D E C parse_id now_ms io (c # cs) a =
     (case app_call parse_id now_ms io c of
        Some ev \<Rightarrow> Option.bind (app_step D E C a ev) (run_calls D E C parse_id now_ms io cs)
      | None \<Rightarrow> run_calls D E C parse_id now_ms io cs a)"

section \<open>What can be clicked\<close>

text \<open>The calls of the click handlers, in document order; handlers that only act on the event make none.\<close>

definition click_calls :: "'e element \<Rightarrow> 'e list list" where
  "click_calls el = map (\<lambda>h. case h of Calls f \<Rightarrow> f [] | PointerCalls f \<Rightarrow> f 0 | _ \<Rightarrow> []) (clicks el)"

named_theorems click_simps \<open>the click handlers of the components\<close>

lemma click_calls_element [click_simps]:
  "click_calls (Text s) = []"
  "click_calls (Element tag attrs hs children) =
     map (\<lambda>(_, h). case h of Calls f \<Rightarrow> f [] | PointerCalls f \<Rightarrow> f 0 | _ \<Rightarrow> []) (filter (\<lambda>(name, _). name = ''onclick'') hs)
     @ concat (map click_calls children)"
  by (simp_all add: click_calls_def [abs_def] map_concat comp_def case_prod_beta)

lemma icon_no_clicks [click_simps]: "click_calls (Icon name c) = []"
proof -
  have "concat (map (\<lambda>x. click_calls (case x of (tag, attrs) \<Rightarrow> Element tag attrs [] [])) xs) = []" for xs
    by (induction xs) (auto simp: click_simps)
  then show ?thesis by (simp add: Icon_def click_simps comp_def)
qed

lemma small_clicks [click_simps]:
  "click_calls (ToggleSwitch b lab i c) = [c]"
  "click_calls (SkeuBtn l ic bt cs k ti c) = [c]"
  "click_calls (IconButton icn t ac vr cl c) = [c]"
  "click_calls (PanelSection t i cl els) = concat (map click_calls els)"
  "click_calls (ControlRow lab i vl cl els) = concat (map click_calls els)"
  by (auto simp: ToggleSwitch_def SkeuBtn_def IconButton_def PanelSection_def ControlRow_def Let_def click_simps
      split: option.split)

lemma audio_clicks [click_simps]: "click_calls (AudioControlGroup p) = [ag_on_switch_audio_mode p, ag_on_toggle_mute p]"
  by (simp add: AudioControlGroup_def Let_def click_simps)

lemma plain_clicks [click_simps]:
  "click_calls (BrandLabel b m) = []" "click_calls (HistoryText t b) = []" "click_calls (LcdDisplay t e b) = []"
  "click_calls (StatusBar sp) = []"
  by (simp_all add: BrandLabel_def HistoryText_def LcdDisplay_def StatusBar_def Let_def click_simps)

lemma quick_clicks [click_simps]:
  "click_calls (MobileQuickActions p) = [qa_on_toggle_theme p, qa_on_switch_audio_mode p, qa_on_show_about p,
     qa_on_show_network_settings p, qa_on_show_settings p]"
  by (simp add: MobileQuickActions_def Let_def click_simps)

lemma settings_clicks [click_simps]:
  "click_calls (SettingsContent inp set_inp p) =
     [sp_on_save_name p inp, ag_on_switch_audio_mode (sp_audio p), ag_on_toggle_mute (sp_audio p),
      sp_on_toggle_theme p, sp_on_show_about p]"
  by (simp add: SettingsContent_def Let_def click_simps)

lemma row_clicks [click_simps]:
  "click_calls (peer_row p peer) =
     [if pp_route_active peer then np_ondisconnect p (pp_node_id_string peer) else np_onconnect p (pp_node_id_string peer)]"
  by (simp add: peer_row_def Let_def click_simps)

lemma concat_row_clicks: "concat (map (\<lambda>x. click_calls (peer_row p x)) ps) =
    map (\<lambda>peer. if pp_route_active peer then np_ondisconnect p (pp_node_id_string peer)
       else np_onconnect p (pp_node_id_string peer)) ps"
  by (induction ps) (simp_all add: click_simps)

lemma network_clicks [click_simps]:
  "click_calls (NetworkPanelContent p) = [np_ontoggle_remote_control p, np_ontoggle_mute p, np_onscan p]
     @ map (\<lambda>peer. if pp_route_active peer then np_ondisconnect p (pp_node_id_string peer)
              else np_onconnect p (pp_node_id_string peer)) (np_peers p)"
  by (simp add: NetworkPanelContent_def Let_def click_simps comp_def concat_row_clicks)

text \<open>Around the content of an overlay: the backdrop, the card, which makes no calls, and the close button.\<close>

lemma overlay_clicks [click_simps]:
  "concat (map click_calls (Overlay visible t i v c els)) =
     (if visible then [c, [], c] @ concat (map click_calls els) else [])"
  by (auto simp: Overlay_def Let_def click_simps split: option.split)

section \<open>What the style sheet leaves on the screen\<close>

text \<open>
  Which of this can be reached with the pointer depends on the style sheet, by the size of the
  window in CSS pixels. The quick actions are displayed in narrow or tall windows only
  (\<open>styles/status_bar.css\<close>), workbench and split handle in neither those nor windows up to 940
  pixels wide (\<open>styles/calculator.css\<close>). These are the rules that hide something that can be
  clicked; each class stands alone in its attribute. Clipping is not modelled.
\<close>

record viewport =
  vp_width :: rat
  vp_height :: rat

definition narrow_window :: "viewport \<Rightarrow> bool" where
  "narrow_window vp = (vp_width vp \<le> 760 \<or> 5 * vp_width vp \<le> 4 * vp_height vp)"

definition medium_window :: "viewport \<Rightarrow> bool" where
  "medium_window vp = (761 \<le> vp_width vp \<and> vp_width vp \<le> 940)"

definition display_none :: "viewport \<Rightarrow> string \<Rightarrow> bool" where
  "display_none vp cls =
     (if cls = ''mobile-quick-actions'' then \<not> narrow_window vp
      else if cls = ''workbench'' \<or> cls = ''split-handle'' then narrow_window vp \<or> medium_window vp
      else False)"

definition class_hidden :: "viewport \<Rightarrow> (string \<times> string) list \<Rightarrow> bool" where
  "class_hidden vp attrs = (case map_of attrs ''class'' of Some cls \<Rightarrow> display_none vp cls | None \<Rightarrow> False)"

fun seen_handlers :: "viewport \<Rightarrow> string \<Rightarrow> 'e element \<Rightarrow> 'e handler list" where
  "seen_handlers vp ev (Text s) = []"
| "seen_handlers vp ev (Element tag attrs hs children) =
     (if class_hidden vp attrs then []
      else map snd (filter (\<lambda>(name, _). name = ev) hs) @ concat (map (seen_handlers vp ev) children))"

definition seen_calls :: "viewport \<Rightarrow> 'e element \<Rightarrow> 'e list list" where
  "seen_calls vp el =
     map (\<lambda>h. case h of Calls f \<Rightarrow> f [] | PointerCalls f \<Rightarrow> f 0 | _ \<Rightarrow> []) (seen_handlers vp ''onclick'' el)"

text \<open>
  A visible backdrop covers the whole window (\<open>styles/panels.css\<close>) and holds the card of its
  panel; of several backdrops, which have the same \<open>z-index\<close>, the last one is on top.
\<close>

fun is_backdrop :: "'e element \<Rightarrow> bool" where
  "is_backdrop (Text s) = False"
| "is_backdrop (Element tag attrs hs children) = (map_of attrs ''class'' = Some ''overlay-backdrop visible'')"

fun reachable :: "viewport \<Rightarrow> 'e element \<Rightarrow> 'e list list" where
  "reachable vp (Text s) = []"
| "reachable vp (Element tag attrs hs children) =
     (let backdrops = filter is_backdrop children
      in if backdrops = [] then seen_calls vp (Element tag attrs hs children)
         else seen_calls vp (last backdrops))"

text \<open>Elements that the rules leave alone.\<close>

fun plain :: "'e element \<Rightarrow> bool" where
  "plain (Text s) = True"
| "plain (Element tag attrs hs children) =
     ((case map_of attrs ''class'' of
         Some cls \<Rightarrow> cls \<noteq> ''mobile-quick-actions'' \<and> cls \<noteq> ''workbench'' \<and> cls \<noteq> ''split-handle''
       | None \<Rightarrow> True)
      \<and> list_all plain children)"

lemma seen_calls_element:
  "seen_calls vp (Text s) = []"
  "seen_calls vp (Element tag attrs hs children) =
     (if class_hidden vp attrs then []
      else map (\<lambda>(_, h). case h of Calls f \<Rightarrow> f [] | PointerCalls f \<Rightarrow> f 0 | _ \<Rightarrow> [])
             (filter (\<lambda>(name, _). name = ''onclick'') hs)
           @ concat (map (seen_calls vp) children))"
  by (simp_all add: seen_calls_def [abs_def] map_concat comp_def case_prod_beta)

lemma seen_plain: "plain el \<Longrightarrow> seen_calls vp el = click_calls el"
proof (induction el)
  case (Element tag attrs hs children)
  then have "map (seen_calls vp) children = map click_calls children"
    by (simp add: list_all_iff)
  moreover have "\<not> class_hidden vp attrs"
    using Element.prems by (auto simp: class_hidden_def display_none_def split: option.splits)
  ultimately show ?case
    by (simp add: seen_calls_element click_calls_element cong: map_cong)
qed (simp add: seen_calls_element click_calls_element)

named_theorems plain_simps \<open>the components without the three classes\<close>

lemma plain_icon [plain_simps]: "plain (Icon name c)"
  by (cases name; cases c) (simp_all add: Icon_def)

lemma plain_small [plain_simps]:
  "plain (ToggleSwitch b lab i c)"
  "plain (SkeuBtn l ic bt cs k ti c)"
  "plain (IconButton icn t ac vr cl c)"
  "list_all plain els \<Longrightarrow> plain (PanelSection t i cl els)"
  "list_all plain els \<Longrightarrow> plain (ControlRow lab i vl cl els)"
  by (auto simp: ToggleSwitch_def SkeuBtn_def IconButton_def PanelSection_def ControlRow_def Let_def
      plain_simps split: option.split)

lemma plain_parts [plain_simps]:
  "plain (AudioControlGroup ap)" "plain (BrandLabel b m)" "plain (HistoryText tx b)" "plain (LcdDisplay tx e b)"
  "plain (StatusBar sp)" "plain AppChrome" "plain KeyboardHandler" "plain (tab_button ct wt lab)"
  "plain (metric ml mv md)"
  by (auto simp: AudioControlGroup_def BrandLabel_def HistoryText_def LcdDisplay_def StatusBar_def AppChrome_def
      KeyboardHandler_def tab_button_def metric_def Let_def plain_simps)

lemma plain_rows [plain_simps]: "plain (peer_row p peer)"
  by (auto simp: peer_row_def Let_def plain_simps)

lemma plain_panels [plain_simps]:
  "plain (SettingsContent inp set_inp sp)" "plain (NetworkPanelContent np)" "plain (overview_panel cp)"
  by (auto simp: SettingsContent_def NetworkPanelContent_def overview_panel_def Let_def plain_simps list_all_iff)

lemma plain_grid [plain_simps]: "plain (ButtonGrid call k la)"
  by (auto simp: ButtonGrid_def Let_def plain_simps list_all_iff)

lemma plain_overlay [plain_simps]: "list_all plain els \<Longrightarrow> list_all plain (Overlay visible t i v c els)"
  by (auto simp: Overlay_def Let_def plain_simps split: overlay_variant.split option.split)

end
