(* ===== verification/Layout_Theorems.thy ===== *)
theory Layout_Theorems
  imports Layout
begin

text \<open>
  The interface and the application together: what the buttons of the screen do to the
  application, what the pointer reaches by window size and open panels, the volume slider,
  the split.
\<close>

section \<open>The rows of the network panel\<close>

lemma nth_row_click:
  assumes "i < length (nu_peers (cx_net (ap_ctx a)))"
  shows "click_calls (NetworkPanelContent (network_props_of (app_props id_text address_text version a))) ! (3 + i) =
     [if pv_route_active (nu_peers (cx_net (ap_ctx a)) ! i)
      then DisconnectPeer (id_text (pv_node_id (nu_peers (cx_net (ap_ctx a)) ! i)))
      else ConnectToPeer (id_text (pv_node_id (nu_peers (cx_net (ap_ctx a)) ! i)))]"
  using assms
  by (simp add: click_simps network_props_of_def app_props_def peer_props_of_def Let_def)

text \<open>What selecting and leaving a device does to the router and the rows.\<close>

lemma disconnect_leaves:
  assumes "ap_router a = Some r" and "ap_manager a = Some m" and "rt_active_executor r = Some nid" and "nid \<noteq> rt_local_node_id r"
    and "handle_disconnect_peer (Some nid) a = a'"
  shows "\<exists>r' m'. ap_router a' = Some r' \<and> ap_manager a' = Some m' \<and> rt_active_executor r' = None
    \<and> list_all (\<lambda>p. \<not> pv_route_active p) (nu_peers (cx_net (ap_ctx a')))"
  using assms
  by (auto simp: handle_disconnect_peer_def Let_def on_router_def set_status_def set_executing_def
      sync_network_state_def clear_remote_executor_if_def clear_remote_executor_def set_audio_muted_def
      peer_rows_def list_all_iff)

text \<open>The request that the manager queues for the runtime when it dials a known device.\<close>

definition dial_request :: "node_id \<Rightarrow> socket_addr \<Rightarrow> manager \<Rightarrow> network_command" where
  "dial_request nid addr m = network_command.ConnectToPeer
     \<lparr>oc_addr = addr,
      oc_expected_peer = Some \<lparr>ex_node_id = nid,
        ex_public_key_fingerprint = Option.bind (get_peer (ns_peers (nm_state m)) nid) pi_public_key_fingerprint\<rparr>,
      oc_report_errors = True\<rparr>"

definition can_request :: "socket_addr \<Rightarrow> manager \<Rightarrow> bool" where
  "can_request addr m =
     (outbound_addr_allowed (nm_network_mode m) addr
      \<and> \<not> ch_closed (nm_command_tx m) \<and> length (ch_buf (nm_command_tx m)) < ch_cap (nm_command_tx m))"

lemma connect_requests:
  assumes "hm_get (nm_sessions m) nid = None"
  shows "connect_to_peer addr (Some nid) m =
      (can_request addr m, snd (connect_to_peer addr (Some nid) m))"
    and "ch_buf (nm_command_tx (snd (connect_to_peer addr (Some nid) m))) =
      ch_buf (nm_command_tx m) @ (if can_request addr m then [dial_request nid addr m] else [])"
  using assms
  by (auto simp: connect_to_peer_def can_request_def dial_request_def manager_emit_def try_send_def hm_contains_def
      Let_def split: sum.split)

lemma connect_selects:
  assumes "ap_router a = Some r" and "ap_manager a = Some m" and "rt_active_executor r \<noteq> Some nid" and "nid \<noteq> rt_local_node_id r"
    and "handle_connect_peer (Some nid) a = a'"
  shows "\<exists>r' m'. ap_router a' = Some r' \<and> ap_manager a' = Some m'
    \<and> (if hm_get (nm_sessions m) nid \<noteq> None
       then rt_active_executor r' = Some nid \<and> (nid \<in> set (rt_connected_peers r) \<longrightarrow> remote_target r' = Some nid)
       else case Option.bind (get_peer (ns_peers (nm_state m)) nid) pi_service_endpoint of
         None \<Rightarrow> rt_active_executor r' = None \<and> nu_status (cx_net (ap_ctx a')) = TXT_NOT_FOUND
       | Some addr \<Rightarrow>
           if can_request addr m
           then rt_active_executor r' = Some nid \<and> nu_status (cx_net (ap_ctx a')) = TXT_CONNECTING
             \<and> ch_buf (nm_command_tx m') = ch_buf (nm_command_tx m) @ [dial_request nid addr m]
           else rt_active_executor r' = None \<and> nu_status (cx_net (ap_ctx a')) = TXT_CANNOT_CONNECT
             \<and> ch_buf (nm_command_tx m') = ch_buf (nm_command_tx m))"
proof -
  let ?a = "a\<lparr>ap_router := Some (r\<lparr>rt_active_executor := Some nid, rt_last_state_update_seq := 0\<rparr>)\<rparr>"
  have session: "nid \<in> set (active_sessions_of ?a) \<longleftrightarrow> hm_get (nm_sessions m) nid \<noteq> None"
    using assms(2) by (simp add: active_sessions_of_def active_session_ids_def hm_keys_get)
  note defs = handle_connect_peer_def select_remote_executor_def session set_status_def set_executing_def
    on_router_def clear_remote_executor_if_def clear_remote_executor_def
  show ?thesis
  proof (cases "hm_get (nm_sessions m) nid \<noteq> None")
    case True
    then show ?thesis
      unfolding assms(5) [symmetric] using assms(1-4) by (simp add: defs remote_target_def)
  next
    case False
    then have none: "hm_get (nm_sessions m) nid = None" by simp
    show ?thesis
    proof (cases "Option.bind (get_peer (ns_peers (nm_state m)) nid) pi_service_endpoint")
      case None
      then show ?thesis
        unfolding assms(5) [symmetric] using assms(1-4) False by (simp add: defs)
    next
      case (Some addr)
      obtain m' where m': "connect_to_peer addr (Some nid) m = (can_request addr m, m')"
          "ch_buf (nm_command_tx m') = ch_buf (nm_command_tx m) @ (if can_request addr m then [dial_request nid addr m] else [])"
        using connect_requests [OF none, of addr] by (metis prod.collapse)
      show ?thesis
        unfolding assms(5) [symmetric] using assms(1-4) False Some m'
        by (cases "can_request addr m") (simp_all add: defs)
    qed
  qed
qed

text \<open>
  C34: the buttons of the network panel do what they say. The panel of a synchronised
  application has one button per known device after its three switches. The button of the
  executor in use ends the remote execution, and no row is active any more. The button of any
  other device with a session makes it the executor: if the router has the session too, the
  next key goes there. The button of a device without a session makes the manager queue exactly
  one request that the runtime dial this device at its announced endpoint, if there is one that
  the network mode allows and the command queue has room; otherwise the router stays local, no
  request is queued and the panel says why.
\<close>

theorem peer_buttons_work:
  assumes "ap_router a = Some r" and "ap_manager a = Some m" and "mirrors a"
    and "i < length (nu_peers (cx_net (ap_ctx a)))" and "nid = pv_node_id (nu_peers (cx_net (ap_ctx a)) ! i)"
    and "nid \<noteq> rt_local_node_id r" and "parse_id (id_text nid) = Some nid"
  shows "\<exists>calls a' r' m'.
      click_calls (NetworkPanelContent (network_props_of (app_props id_text address_text version a))) ! (3 + i) = calls
    \<and> run_calls D E C parse_id now_ms io calls a = Some a' \<and> ap_router a' = Some r' \<and> ap_manager a' = Some m'
    \<and> (if rt_active_executor r = Some nid
       then rt_active_executor r' = None \<and> list_all (\<lambda>p. \<not> pv_route_active p) (nu_peers (cx_net (ap_ctx a')))
       else if hm_get (nm_sessions m) nid \<noteq> None
       then rt_active_executor r' = Some nid \<and> (nid \<in> set (rt_connected_peers r) \<longrightarrow> remote_target r' = Some nid)
       else case Option.bind (get_peer (ns_peers (nm_state m)) nid) pi_service_endpoint of
         None \<Rightarrow> rt_active_executor r' = None \<and> nu_status (cx_net (ap_ctx a')) = TXT_NOT_FOUND
       | Some addr \<Rightarrow>
           if can_request addr m
           then rt_active_executor r' = Some nid \<and> nu_status (cx_net (ap_ctx a')) = TXT_CONNECTING
             \<and> ch_buf (nm_command_tx m') = ch_buf (nm_command_tx m) @ [dial_request nid addr m]
           else rt_active_executor r' = None \<and> nu_status (cx_net (ap_ctx a')) = TXT_CANNOT_CONNECT
             \<and> ch_buf (nm_command_tx m') = ch_buf (nm_command_tx m))"
proof -
  have active: "pv_route_active (nu_peers (cx_net (ap_ctx a)) ! i) \<longleftrightarrow> rt_active_executor r = Some nid"
    using assms(1-5) by (simp add: mirrors_def Let_def)
  show ?thesis
  proof (cases "rt_active_executor r = Some nid")
    case True
    then show ?thesis
      using disconnect_leaves [OF assms(1,2) True assms(6) refl] nth_row_click [OF assms(4)] active assms(5,7)
      by (auto simp: app_call_def)
  next
    case False
    have row: "click_calls (NetworkPanelContent (network_props_of (app_props id_text address_text version a))) ! (3 + i)
        = [ConnectToPeer (id_text nid)]"
      using nth_row_click [OF assms(4)] active False assms(5) by simp
    have run: "run_calls D E C parse_id now_ms io [ConnectToPeer (id_text nid)] a = Some (handle_connect_peer (Some nid) a)"
      by (simp add: app_call_def assms(7))
    show ?thesis
      unfolding if_not_P [OF False] row
      using run connect_selects [OF assms(1,2) False assms(6) refl] by blast
  qed
qed

section \<open>The volume slider\<close>

lemma digits_not_words:
  assumes "list_all is_digit s" and "s \<noteq> []"
  shows "to_ascii_lowercase s \<notin> {''inf'', ''infinity'', ''nan''}"
proof -
  obtain c r where "s = c # r" "is_digit c" using assms by (cases s) auto
  then show ?thesis by (auto simp: to_ascii_lowercase_def is_digit_def)
qed

lemma parse_shown_int:
  assumes "0 \<le> n" and "n < 2 ^ 53"
  shows "parse_f64 (show_int n) = Some (Finite (of_int n))"
proof -
  let ?s = "num_to_string n"
  have d: "list_all is_digit ?s" "?s \<noteq> []"
    using num_to_string_digits [OF assms(1)] by auto
  obtain c r where s: "?s = c # r" "is_digit c" using d by (cases ?s) auto
  have sign: "c \<noteq> CHR ''-''" "c \<noteq> CHR ''+''" using s(2) by (auto simp: is_digit_def)
  have spans: "takeWhile is_digit ?s = ?s" "dropWhile is_digit ?s = []"
    using d(1) by (simp_all add: takeWhile_eq_all_conv dropWhile_eq_Nil_conv list_all_iff)
  have "f64 (of_int n) = of_int n"
    using assms by (intro round_to_int) simp
  then have "parse_f64 ?s = Some (Finite (of_int n))"
    using digits_not_words [OF d] spans sign s(1) string_val_num_to_string [OF assms(1)]
    by (simp add: parse_f64_def Let_def)
  then show ?thesis using assms(1) by (simp add: show_int_def)
qed

lemma percent_of_shown:
  assumes "0 \<le> n" and "n \<le> 100"
  shows "\<exists>y. f_clamp 0 1 (f_scale (1 / 100) (Finite (of_int n))) = Finite y \<and> 0 \<le> y \<and> y \<le> 1
    \<and> f_round_i32 (f_scale 100 (Finite y)) = n"
proof -
  define x :: rat where "x = of_int n * (1 / 100)"
  define y where "y = f64 x"
  define z where "z = f64 (y * 100)"
  have x: "0 \<le> x" "x \<le> 1" using assms by (simp_all add: x_def)
  have y: "0 \<le> y" "y \<le> 1"
    using f64_ge_int [of 0 x] f64_le_int [of x 1] x by (simp_all add: y_def)
  have "\<bar>y - x\<bar> \<le> 1 / 2 ^ 53"
    using round_to_error [of 53 x] x divide_right_mono [of x 1 "2 ^ 53"] by (simp add: y_def)
  then have e1: "\<bar>y * 100 - of_int n\<bar> \<le> 100 / 2 ^ 53"
  proof -
    have "y * 100 - of_int n = (y - x) * 100" by (simp add: x_def)
    then have "\<bar>y * 100 - of_int n\<bar> = \<bar>y - x\<bar> * 100" by (simp only: abs_mult abs_numeral)
    also have "\<dots> \<le> 1 / 2 ^ 53 * 100" using \<open>\<bar>y - x\<bar> \<le> 1 / 2 ^ 53\<close> by (intro mult_right_mono) simp_all
    finally show ?thesis by simp
  qed
  have "\<bar>z - y * 100\<bar> \<le> \<bar>y * 100\<bar> / 2 ^ 53"
    using round_to_error [of 53 "y * 100"] by (simp add: z_def)
  also have "\<dots> \<le> 100 / 2 ^ 53"
    using y by (intro divide_right_mono) simp_all
  finally have "\<bar>z - of_int n\<bar> \<le> 100 / 2 ^ 53 + 100 / 2 ^ 53"
    using e1 by linarith
  also have "\<dots> < (1 :: rat) / 2" by simp
  finally have near: "\<bar>z - of_int n\<bar> < 1 / 2" .
  have "0 \<le> z" using f64_ge_int [of 0 "y * 100"] y by (simp add: z_def)
  then have "round_away z = n"
    using near unfolding abs_less_iff by (simp add: round_away_def floor_eq_iff)
  then have "f_round_i32 (Finite z) = n"
    using assms by (simp add: f_round_i32_def as_signed_def)
  then show ?thesis
    using y by (intro exI [of _ y]) (simp add: f_scale_def f_clamp_def clamp_id x_def y_def z_def)
qed

text \<open>What the two places show that name the volume.\<close>

lemma icon_no_values: "attr_values ''input'' name (Icon icon c) = []"
  by (cases icon) (simp_all add: Icon_def Let_def)

lemma group_shows_volume:
  "attr_values ''input'' ''value'' (AudioControlGroup p) = [show_int (volume_percent (ag_audio_volume p))]"
  "show_int (volume_percent (ag_audio_volume p)) @ ''%'' \<in> set (texts (AudioControlGroup p))"
  by (simp_all add: AudioControlGroup_def PanelSection_def ControlRow_def Let_def icon_no_values)

lemma overview_shows_volume:
  "show_int (f_round_i32 (f_scale 100 (cp_audio_volume p))) @ ''%'' \<in> set (texts (overview_panel p))"
  by (simp add: overview_panel_def metric_def Let_def)

text \<open>
  C36: the volume slider stays where it is put. Moving it to any of its positions sets a volume
  between 0 and 1 with which the slider of the settings, the percentage beside it and the one
  of the overview all show exactly this position again; storing it, which clamps once more,
  changes nothing.
\<close>

theorem slider_roundtrip:
  assumes "0 \<le> n" and "n \<le> 100"
  shows "\<exists>v a'. slider_input (\<lambda>v. [VolumeChanged v]) (show_int n) = [VolumeChanged v]
    \<and> run_calls D E C parse_id now_ms io [VolumeChanged v] a = Some a'
    \<and> f_clamp 0 1 v = v
    \<and> attr_values ''input'' ''value'' (AudioControlGroup (audio_props_of (app_props id_text address_text version a')))
      = [show_int n]
    \<and> show_int n @ ''%'' \<in> set (texts (AudioControlGroup (audio_props_of (app_props id_text address_text version a'))))
    \<and> show_int n @ ''%'' \<in> set (texts (overview_panel (app_props id_text address_text version a')))"
proof -
  obtain y where y: "f_clamp 0 1 (f_scale (1 / 100) (Finite (of_int n))) = Finite y" "0 \<le> y" "y \<le> 1"
      "f_round_i32 (f_scale 100 (Finite y)) = n"
    using percent_of_shown [OF assms] by blast
  have input: "slider_input (\<lambda>v. [VolumeChanged v]) (show_int n) = [VolumeChanged (Finite y)]"
    using parse_shown_int [of n] assms y(1) by (simp add: slider_input_def)
  have cl: "f_clamp 0 1 (Finite y) = Finite y"
    using y(2,3) by (simp add: f_clamp_def clamp_id)
  define a' where "a' = snd (on_volume_changed (Finite y) a)"
  have run: "run_calls D E C parse_id now_ms io [VolumeChanged (Finite y)] a = Some a'"
    by (simp add: app_call_def a'_def)
  have vol: "cp_audio_volume (app_props id_text address_text version a') = Finite y"
    by (simp add: a'_def on_volume_changed_def schedule_volume_save_def app_props_def Let_def)
  show ?thesis
  proof (intro exI [of _ "Finite y"] exI [of _ a'] conjI)
    let ?p = "app_props id_text address_text version a'"
    have percent: "volume_percent (ag_audio_volume (audio_props_of ?p)) = n"
      using vol cl y(4) by (simp add: audio_props_of_def volume_percent_def)
    show "attr_values ''input'' ''value'' (AudioControlGroup (audio_props_of ?p)) = [show_int n]"
      and "show_int n @ ''%'' \<in> set (texts (AudioControlGroup (audio_props_of ?p)))"
      using group_shows_volume [of "audio_props_of ?p"] unfolding percent .
    show "show_int n @ ''%'' \<in> set (texts (overview_panel ?p))"
      using overview_shows_volume [of ?p] vol y(4) by simp
  qed (fact input run cl)+
qed

section \<open>The whole screen\<close>

definition key_calls :: "ui_call list list" where
  "key_calls = map (\<lambda>b. case button_click (bd_action b) of Some c \<Rightarrow> [Grid c] | None \<Rightarrow> []) (concat BUTTON_ROWS)"

lemma click_calls_rows:
  assumes "\<And>x. click_calls (f x) = [g x]"
  shows "concat (map click_calls (concat (map (map f) xss))) = map g (concat xss)"
proof -
  have "concat (map click_calls (map f xs)) = map g xs" for xs
    by (induction xs) (simp_all add: assms)
  then show ?thesis by (induction xss) simp_all
qed

lemma grid_clicks: "click_calls (ButtonGrid (\<lambda>c. [Grid c]) k la) = key_calls"
  unfolding ButtonGrid_def key_calls_def click_calls_element
  by (subst click_calls_rows [where g = "\<lambda>b. case button_click (bd_action b) of Some c \<Rightarrow> [Grid c] | None \<Rightarrow> []"])
    (simp_all add: Let_def click_simps)

text \<open>The clicks of the workbench, by its tab.\<close>

definition tab_calls :: "ui_local \<Rightarrow> calculator_props \<Rightarrow> ui_call list list" where
  "tab_calls l p =
     (case ul_workbench_tab l of
        Overview \<Rightarrow> [[SwitchAudioMode], [ToggleMute], [TabChange NetworkTab, ScanPeers]]
      | SettingsTab \<Rightarrow> click_calls (SettingsContent (ul_workbench_name l) (\<lambda>s. [WorkbenchName s]) (settings_props_of p))
      | NetworkTab \<Rightarrow> click_calls (NetworkPanelContent (network_props_of p)))"

lemma workbench_clicks:
  "click_calls (Workbench l p) =
     [[TabChange Overview], [TabChange SettingsTab], [TabChange NetworkTab]] @ tab_calls l p"
  by (cases "ul_workbench_tab l")
    (simp_all add: Workbench_def tab_button_def overview_panel_def metric_def tab_calls_def Let_def click_simps)

lemma map_filter_append: "List.map_filter f (xs @ ys) = List.map_filter f xs @ List.map_filter f ys"
  by (simp add: List.map_filter_def)

definition grid_call_of :: "ui_call list \<Rightarrow> grid_call option" where
  "grid_call_of cs = (case cs of [Grid g] \<Rightarrow> Some g | _ \<Rightarrow> None)"

lemma no_grid_calls:
  "List.map_filter grid_call_of (tab_calls l p) = []"
  "List.map_filter grid_call_of (click_calls (SettingsContent inp set_inp (settings_props_of p))) = []"
  "List.map_filter grid_call_of (click_calls (NetworkPanelContent (network_props_of p))) = []"
proof -
  have rows: "List.map_filter grid_call_of (map (\<lambda>peer. if pp_route_active peer then [DisconnectPeer (f peer)]
      else [ConnectToPeer (f peer)]) ps) = []" for f and ps :: "peer_props list"
    by (induction ps) (simp_all add: map_filter_simps grid_call_of_def)
  note defs = map_filter_append map_filter_simps grid_call_of_def network_props_of_def settings_props_of_def audio_props_of_def click_simps rows
  show "List.map_filter grid_call_of (tab_calls l p) = []"
    by (cases "ul_workbench_tab l") (simp_all add: tab_calls_def defs cong: if_cong)
  show "List.map_filter grid_call_of (click_calls (SettingsContent inp set_inp (settings_props_of p))) = []"
    "List.map_filter grid_call_of (click_calls (NetworkPanelContent (network_props_of p))) = []"
    by (simp_all add: defs cong: if_cong)
qed

lemma key_calls_eq: "key_calls = map (\<lambda>b. [Grid (the (button_click (bd_action b)))]) (concat BUTTON_ROWS)"
proof -
  have "list_all (\<lambda>b. button_click (bd_action b) \<noteq> None) (concat BUTTON_ROWS)"
    using keys_and_buttons_complete by (auto simp: list_all_iff)
  then show ?thesis
    by (force simp: key_calls_def list_all_iff intro!: map_cong)
qed

lemma key_grid_calls:
  "List.map_filter grid_call_of key_calls = map (\<lambda>b. the (button_click (bd_action b))) (concat BUTTON_ROWS)"
proof -
  have "List.map_filter grid_call_of (map (\<lambda>b. [Grid (f b)]) bs) = map f bs" for f and bs :: "button_def list"
    by (induction bs) (simp_all add: map_filter_simps grid_call_of_def)
  then show ?thesis
    unfolding key_calls_eq .
qed

text \<open>What is reachable, by the panels that are open and by the window.\<close>

lemma seen_screen:
  assumes "\<not> cp_about_visible p" and "\<not> cp_settings_panel_visible p" and "\<not> cp_network_panel_visible p"
  shows "reachable vp (CalculatorUI l p) =
     [[CloseWindow]]
     @ (if narrow_window vp then [[ToggleTheme], [SwitchAudioMode], [ShowAbout], [ShowNetworkSettings], [ShowSettings]] else [])
     @ key_calls
     @ (if narrow_window vp \<or> medium_window vp then []
        else [[TabChange Overview], [TabChange SettingsTab], [TabChange NetworkTab]] @ tab_calls l p)"
proof -
  have bench: "seen_calls vp (Workbench l p) = (if narrow_window vp \<or> medium_window vp then [] else click_calls (Workbench l p))"
    by (cases "ul_workbench_tab l")
      (simp_all add: Workbench_def Let_def seen_calls_element click_calls_element class_hidden_def display_none_def
        seen_plain plain_simps)
  have quick: "seen_calls vp (MobileQuickActions q) = (if narrow_window vp then click_calls (MobileQuickActions q) else [])" for q
    by (simp add: MobileQuickActions_def Let_def seen_calls_element click_calls_element class_hidden_def
        display_none_def seen_plain plain_simps split: prod.split)
  have none: "\<not> is_backdrop AppChrome" "\<not> is_backdrop (Workbench l p)" "\<not> is_backdrop (KeyboardHandler :: ui_call element)"
    by (simp_all add: AppChrome_def Workbench_def KeyboardHandler_def Let_def)
  show ?thesis
    using assms
    by (simp add: CalculatorUI_def Let_def none seen_calls_element class_hidden_def display_none_def
        seen_plain plain_simps quick bench workbench_clicks click_simps grid_clicks AppChrome_def KeyboardHandler_def)
qed

lemma filter_overlay: "filter is_backdrop (Overlay True t i v c els) = Overlay True t i v c els"
  by (simp add: Overlay_def Let_def)

lemma last_overlay_calls:
  "seen_calls vp (last (xs @ Overlay True t i v c els)) = [c, [], c] @ concat (map (seen_calls vp) els)"
  by (cases v; cases i) (simp_all add: Overlay_def Let_def seen_calls_element class_hidden_def display_none_def
      seen_plain plain_simps click_simps)

lemma overlay_nonempty: "Overlay True t i v c els \<noteq> []"
  by (simp add: Overlay_def Let_def)

lemma covered_screen:
  assumes "cp_about_visible p \<or> cp_settings_panel_visible p \<or> cp_network_panel_visible p"
  shows "reachable vp (CalculatorUI l p) =
     (if cp_about_visible p then [[CloseAbout], [], [CloseAbout]]
      else if cp_settings_panel_visible p
      then [[CloseSettings], [], [CloseSettings]]
        @ click_calls (SettingsContent (ul_panel_name l) (\<lambda>s. [PanelName s]) (settings_props_of p))
      else [[CloseNetworkSettings], [], [CloseNetworkSettings]] @ click_calls (NetworkPanelContent (network_props_of p)))"
proof -
  have none: "\<not> is_backdrop AppChrome" "\<not> is_backdrop (Workbench l p)" "\<not> is_backdrop (KeyboardHandler :: ui_call element)"
    by (simp_all add: AppChrome_def Workbench_def KeyboardHandler_def Let_def)
  show ?thesis
    using assms
    by (auto simp: CalculatorUI_def Let_def none NetworkPanel_def SettingsPanel_def AboutDialog_def filter_overlay
        overlay_nonempty last_overlay_calls last_overlay_calls [where xs = "[]", simplified]
        last_overlay_calls [where xs = "_ @ _", simplified] seen_calls_element class_hidden_def display_none_def
        seen_plain plain_simps)
qed

text \<open>What a tab of the workbench offers.\<close>

fun tab_offers :: "workbench_tab \<Rightarrow> ui_call list set" where
  "tab_offers Overview = {[SwitchAudioMode], [ToggleMute], [TabChange NetworkTab, ScanPeers]}"
| "tab_offers SettingsTab = {[SwitchAudioMode], [ToggleMute], [ToggleTheme], [ShowAbout]}"
| "tab_offers NetworkTab = {[ToggleRemoteControl], [ToggleMute], [ScanPeers]}"

text \<open>
  C35: what the screen offers to the pointer, by window size. While no panel is open, the keys
  dispatch exactly the valid calculator actions, each by exactly one button, and the window can
  be closed; a narrow or tall window adds theme, audio mode, about, network and settings as quick
  actions, a window wider than 940 pixels the three tabs of the workbench, whose contents offer
  audio mode, mute, theme, about, remote control and scanning; a window in between, from 761 to
  940 pixels, adds nothing at all. While a panel is open, it covers the keys, and the one on top
  can be closed.
\<close>

theorem screen_complete:
  "let clickable = reachable vp (app_view id_text address_text version l a);
       actions = map (\<lambda>g. dispatched_action (connected_handler g)) (List.map_filter grid_call_of clickable);
       about = au_about_visible (cx_audio (ap_ctx a)); settings = ss_panel_visible (cx_settings (ap_ctx a))
   in if about \<or> settings \<or> nu_panel_visible (cx_net (ap_ctx a))
      then actions = []
        \<and> [if about then CloseAbout else if settings then CloseSettings else CloseNetworkSettings] \<in> set clickable
      else set actions = Some ` {act. valid_action act} \<and> distinct actions \<and> [CloseWindow] \<in> set clickable
        \<and> (if narrow_window vp
           then {[ToggleTheme], [SwitchAudioMode], [ShowAbout], [ShowNetworkSettings], [ShowSettings]} \<subseteq> set clickable
           else if medium_window vp then set clickable \<subseteq> insert [CloseWindow] (range (\<lambda>g. [Grid g]))
           else {[TabChange Overview], [TabChange SettingsTab], [TabChange NetworkTab]}
             \<union> tab_offers (ul_workbench_tab l) \<subseteq> set clickable)"
proof -
  let ?p = "app_props id_text address_text version a"
  let ?acts = "map (\<lambda>b. dispatched_action (connected_handler (the (button_click (bd_action b))))) (concat BUTTON_ROWS)"
  have same: "?acts = map (\<lambda>b. parse_action (bd_action b)) (concat BUTTON_ROWS)"
    using keys_and_buttons_complete by (auto simp: list_all_iff)
  have none: "None \<notin> set (map (\<lambda>b. parse_action (bd_action b)) (concat BUTTON_ROWS))"
    by code_simp
  have "set ?acts = Some ` {act. Some act \<in> set ?acts}"
    using none unfolding same by (auto simp del: set_map set_concat) (metis image_eqI mem_Collect_eq not_None_eq)
  then have acts: "set ?acts = Some ` {act. valid_action act}"
    using keys_and_buttons_complete unfolding same by (simp del: set_map set_concat)
  have dist: "distinct ?acts"
    using keys_and_buttons_complete unfolding same by (simp del: set_map set_concat)
  have panels: "cp_about_visible ?p = au_about_visible (cx_audio (ap_ctx a))"
    "cp_settings_panel_visible ?p = ss_panel_visible (cx_settings (ap_ctx a))"
    "cp_network_panel_visible ?p = nu_panel_visible (cx_net (ap_ctx a))"
    by (simp_all add: app_props_def Let_def)
  show ?thesis
  proof (cases "cp_about_visible ?p \<or> cp_settings_panel_visible ?p \<or> cp_network_panel_visible ?p")
    case True
    have "List.map_filter grid_call_of (reachable vp (CalculatorUI l ?p)) = []"
      unfolding covered_screen [OF True] by (simp add: no_grid_calls map_filter_append map_filter_simps grid_call_of_def)
    then show ?thesis
      using True covered_screen [OF True, of vp l] by (auto simp: app_view_def panels)
  next
    case False
    have grid: "List.map_filter grid_call_of (reachable vp (CalculatorUI l ?p))
        = map (\<lambda>b. the (button_click (bd_action b))) (concat BUTTON_ROWS)"
      using False 
      by (simp add: seen_screen map_filter_append map_filter_simps grid_call_of_def key_grid_calls no_grid_calls del: map_concat)
    have keys: "set key_calls \<subseteq> range (\<lambda>g. [Grid g])"
      unfolding key_calls_eq by auto
    have offers: "if narrow_window vp
        then {[ToggleTheme], [SwitchAudioMode], [ShowAbout], [ShowNetworkSettings], [ShowSettings]}
          \<subseteq> set (reachable vp (CalculatorUI l ?p))
        else if medium_window vp
        then set (reachable vp (CalculatorUI l ?p)) \<subseteq> insert [CloseWindow] (range (\<lambda>g. [Grid g]))
        else {[TabChange Overview], [TabChange SettingsTab], [TabChange NetworkTab]}
          \<union> tab_offers (ul_workbench_tab l) \<subseteq> set (reachable vp (CalculatorUI l ?p))"
      using False keys
      by (cases "ul_workbench_tab l")
        (auto simp: seen_screen tab_calls_def click_simps settings_props_of_def network_props_of_def audio_props_of_def)
    have close: "[CloseWindow] \<in> set (reachable vp (CalculatorUI l ?p))"
      using False by (simp add: seen_screen)
    have none_open: "\<not> (au_about_visible (cx_audio (ap_ctx a)) \<or> ss_panel_visible (cx_settings (ap_ctx a))
        \<or> nu_panel_visible (cx_net (ap_ctx a)))"
      using False by (simp add: panels)
    show ?thesis
      unfolding app_view_def Let_def grid map_map comp_def acts if_not_P [OF none_open]
      using dist close offers by blast
  qed
qed

text \<open>
  The split stays inside the window: whatever the pointer and the keys do, the calculator keeps
  its initial width or gets one between 280 and 1400 pixels, and no step computes a position
  outside the range of \<open>i32\<close>.
\<close>

definition split_ok :: "ui_local \<Rightarrow> bool" where
  "split_ok l = (case ul_split_left_px l of None \<Rightarrow> True | Some px \<Rightarrow> 280 \<le> px \<and> px \<le> 1400)"

lemma split_step_ok: "split_ok l \<Longrightarrow> split_ok (split_step ev l)"
  by (cases ev) (auto simp: split_ok_def split_position_def clamp_int_def Let_def split: option.splits)

lemma local_step_ok: "split_ok l \<Longrightarrow> split_ok (local_step c l)"
  by (cases c) (simp_all add: local_step_def split_step_ok, simp_all add: split_ok_def)

interpretation ui: event_machine "\<lambda>l c. Some (local_step c l)" "\<lambda>_. True" split_ok
  by unfold_locales (auto intro: local_step_ok)

section \<open>Examples\<close>

definition demo_view_env :: "f64_number app_env" where
  "demo_view_env = \<lparr>ae_parse_toml = (\<lambda>_ _. None), ae_to_toml = (\<lambda>_. None), ae_half = Finite (1 / 2),
     ae_clamp = f_clamp 0 1, ae_session_error = (\<lambda>_. ''error'')\<rparr>"

definition demo_view_app :: "(int, f64_number) app" where
  "demo_view_app = sync_network_state
     \<lparr>ap_ctx = new_context (Finite 1), ap_router = Some demo_router,
      ap_manager = Some (demo_manager\<lparr>nm_state := \<lparr>ns_peers = [(7, demo_peer 7 0)], ns_is_connected = True, ns_latency_ms = None\<rparr>,
        nm_sessions := [(7, \<lparr>as_session_id = 1, as_task = 0, as_direction = Inbound\<rparr>)]\<rparr>),
      ap_mode = Some Lan, ap_audio = None, ap_has_dir = True, ap_file = NotFound, ap_volume_generation = 0\<rparr>"

definition demo_id_text :: "node_id \<Rightarrow> string" where
  "demo_id_text nid = num_to_string (uint nid)"

definition demo_parse_id :: "string \<Rightarrow> node_id option" where
  "demo_parse_id s = Some (of_int (string_val s))"

definition no_io :: config_io where
  "no_io = \<lparr>ci_random_name = [], ci_write_fails = None\<rparr>"

lemma demo_id_roundtrip: "demo_parse_id (demo_id_text nid) = Some nid"
  by (simp add: demo_parse_id_def demo_id_text_def string_val_num_to_string)

text \<open>A device with a session, and one that is only known: the click selects it, or has it dialed.\<close>

definition known_view_app :: "(int, f64_number) app" where
  "known_view_app = sync_network_state
     \<lparr>ap_ctx = new_context (Finite 1), ap_router = Some demo_router,
      ap_manager = Some (demo_manager\<lparr>nm_state := \<lparr>ns_peers = [(7, demo_peer 7 0)], ns_is_connected = True, ns_latency_ms = None\<rparr>,
        nm_network_mode := Lan, nm_command_tx := chan_new 4\<rparr>),
      ap_mode = Some Lan, ap_audio = None, ap_has_dir = True, ap_file = NotFound, ap_volume_generation = 0\<rparr>"

theorem peer_buttons_work_witness:
  "(\<exists>calls a' r'.
      click_calls (NetworkPanelContent (network_props_of (app_props demo_id_text (\<lambda>_. []) [] demo_view_app))) ! 3 = calls
    \<and> run_calls fx_ops demo_view_env demo_crypto demo_parse_id 0 no_io calls demo_view_app = Some a'
    \<and> ap_router a' = Some r' \<and> remote_target r' = Some 7)
   \<and> (\<exists>calls a' m'.
      click_calls (NetworkPanelContent (network_props_of (app_props demo_id_text (\<lambda>_. []) [] known_view_app))) ! 3 = calls
    \<and> run_calls fx_ops demo_view_env demo_crypto demo_parse_id 0 no_io calls known_view_app = Some a'
    \<and> ap_manager a' = Some m' \<and> length (ch_buf (nm_command_tx m')) = 1)"
proof
  have parse: "demo_parse_id (demo_id_text 7) = Some 7" by (rule demo_id_roundtrip)
  let ?m = "demo_manager\<lparr>nm_state := \<lparr>ns_peers = [(7, demo_peer 7 0)], ns_is_connected = True, ns_latency_ms = None\<rparr>,
      nm_sessions := [(7, \<lparr>as_session_id = 1, as_task = 0, as_direction = Inbound\<rparr>)]\<rparr>"
  let ?k = "demo_manager\<lparr>nm_state := \<lparr>ns_peers = [(7, demo_peer 7 0)], ns_is_connected = True, ns_latency_ms = None\<rparr>,
      nm_network_mode := Lan, nm_command_tx := chan_new 4\<rparr>"
  have app: "ap_router demo_view_app = Some (set_audio_muted False demo_router)" "ap_manager demo_view_app = Some ?m"
    and known: "ap_router known_view_app = Some (set_audio_muted False demo_router)" "ap_manager known_view_app = Some ?k"
    by (simp_all add: demo_view_app_def known_view_app_def sync_network_state_def Let_def new_context_def
        is_executing_remotely_def)
  have rows: "nu_peers (cx_net (ap_ctx demo_view_app)) = peer_rows None [7] \<lparr>ns_peers = [(7, demo_peer 7 0)], ns_is_connected = True, ns_latency_ms = None\<rparr>"
    "nu_peers (cx_net (ap_ctx known_view_app)) = peer_rows None [] \<lparr>ns_peers = [(7, demo_peer 7 0)], ns_is_connected = True, ns_latency_ms = None\<rparr>"
    by (simp_all add: demo_view_app_def known_view_app_def sync_network_state_def Let_def active_sessions_of_def
        active_session_ids_def hm_keys_def demo_manager_def manager_new_def)
  have mir: "mirrors demo_view_app" "mirrors known_view_app"
    by (simp_all add: demo_view_app_def known_view_app_def)
  have hyps: "0 < length (nu_peers (cx_net (ap_ctx demo_view_app)))" "7 = pv_node_id (nu_peers (cx_net (ap_ctx demo_view_app)) ! 0)"
    and known_hyps: "0 < length (nu_peers (cx_net (ap_ctx known_view_app)))"
    "7 = pv_node_id (nu_peers (cx_net (ap_ctx known_view_app)) ! 0)"
    and other: "7 \<noteq> rt_local_node_id (set_audio_muted False demo_router)"
    by (simp_all add: rows peer_rows_def set_audio_muted_def)
  have state: "rt_active_executor (set_audio_muted False demo_router) = None"
    "7 \<in> set (rt_connected_peers (set_audio_muted False demo_router))"
    "hm_get (nm_sessions ?m) 7 \<noteq> None"
    by (simp_all add: set_audio_muted_def hm_get_def)
  have unconnected: "hm_get (nm_sessions ?k) 7 = None" "can_request (IPv4 0xC0A80002, 42420) ?k"
    "ch_buf (nm_command_tx ?k) = []" "pi_service_endpoint (demo_peer 7 0) = Some (IPv4 0xC0A80002, 42420)"
    "get_peer (ns_peers (nm_state ?k)) 7 = Some (demo_peer 7 0)"
    by (simp_all add: demo_manager_def manager_new_def can_request_def outbound_addr_allowed_def chan_new_def
        demo_peer_def get_peer_def hm_get_def)
  note work = peer_buttons_work [where parse_id = demo_parse_id and id_text = demo_id_text and i = 0
      and address_text = "\<lambda>_. []" and version = "[]" and D = fx_ops and E = demo_view_env and C = demo_crypto
      and now_ms = 0 and io = no_io]
  show "\<exists>calls a' r'.
      click_calls (NetworkPanelContent (network_props_of (app_props demo_id_text (\<lambda>_. []) [] demo_view_app))) ! 3 = calls
    \<and> run_calls fx_ops demo_view_env demo_crypto demo_parse_id 0 no_io calls demo_view_app = Some a'
    \<and> ap_router a' = Some r' \<and> remote_target r' = Some 7"
    using work [OF app mir(1) hyps other parse] state by auto
  show "\<exists>calls a' m'.
      click_calls (NetworkPanelContent (network_props_of (app_props demo_id_text (\<lambda>_. []) [] known_view_app))) ! 3 = calls
    \<and> run_calls fx_ops demo_view_env demo_crypto demo_parse_id 0 no_io calls known_view_app = Some a'
    \<and> ap_manager a' = Some m' \<and> length (ch_buf (nm_command_tx m')) = 1"
    using work [OF known mir(2) known_hyps other parse] state(1) unconnected by auto
qed

theorem slider_roundtrip_witness:
  "\<exists>v a'. slider_input (\<lambda>v. [VolumeChanged v]) (show_int 37) = [VolumeChanged v]
    \<and> run_calls fx_ops demo_view_env demo_crypto demo_parse_id 0 no_io [VolumeChanged v] demo_view_app = Some a'
    \<and> attr_values ''input'' ''value'' (AudioControlGroup (audio_props_of (app_props demo_id_text (\<lambda>_. []) [] a')))
      = [show_int 37]"
proof -
  have n: "0 \<le> (37 :: int)" "(37 :: int) \<le> 100" by simp_all
  show ?thesis
    using slider_roundtrip [OF n, of fx_ops demo_view_env demo_crypto demo_parse_id 0 no_io demo_view_app
        demo_id_text "\<lambda>_. []" "[]"] by blast
qed


section \<open>Keys like clicks\<close>

text \<open>The keyboard callbacks of \<open>App\<close>.\<close>

definition app_key_call :: "u64 \<Rightarrow> config_io \<Rightarrow> key_call \<Rightarrow> 'f app_event" where
  "app_key_call now_ms io c =
     (case c of
        OnKeyboardAction s \<Rightarrow> U_Call now_ms (HandleAction s)
      | OnCloseAbout \<Rightarrow> U_CloseAbout
      | OnCloseSettings \<Rightarrow> U_CloseSettings
      | OnCloseNetworkSettings \<Rightarrow> U_CloseNetwork
      | OnSwitchAudioMode \<Rightarrow> U_SwitchAudioMode io
      | OnToggleMute \<Rightarrow> U_ToggleMute io
      | OnToggleTheme \<Rightarrow> U_ToggleTheme io
      | OnShowAbout \<Rightarrow> U_ShowAbout
      | OnShowSettings \<Rightarrow> U_ShowSettings
      | OnShowNetworkSettings \<Rightarrow> U_ShowNetwork
      | OnScanPeers \<Rightarrow> U_Scan
      | OnKeyboardPressed p \<Rightarrow> U_KeyboardPressed p
      | OnLastAction s \<Rightarrow> U_LastAction s)"

definition open_overlays :: "('d, 'f) app \<Rightarrow> overlays" where
  "open_overlays a = \<lparr>ov_about = au_about_visible (cx_audio (ap_ctx a)),
     ov_settings = ss_panel_visible (cx_settings (ap_ctx a)), ov_network = nu_panel_visible (cx_net (ap_ctx a))\<rparr>"

text \<open>A key event of the window, all the way to the application.\<close>

definition window_event_step ::
    "'d decimal_ops \<Rightarrow> 'f app_env \<Rightarrow> 'sk crypto \<Rightarrow> u64 \<Rightarrow> config_io \<Rightarrow> window_event \<Rightarrow> ('d, 'f) app \<Rightarrow> ('d, 'f) app option" where
  "window_event_step D E C now_ms io ev a =
     run_steps (app_step D E C) a (map (app_key_call now_ms io) (window_calls (open_overlays a) ev))"

lemma handle_call_action:
  "handle_call D now_ms c a =
     (case dispatched_action c of Some act \<Rightarrow> dispatch_to_router D now_ms act a | None \<Rightarrow> Some a)"
  by (cases c) (auto simp: handle_call_def handle_digit_def handle_operator_def handle_action_def
      dispatched_action_def split: option.split)

lemma dispatch_keeps_ctx:
  "dispatch_to_router D now_ms act (a\<lparr>ap_ctx := x\<rparr>) = map_option (\<lambda>a'. a'\<lparr>ap_ctx := x\<rparr>) (dispatch_to_router D now_ms act a)"
  by (cases a) (auto simp: dispatch_to_router_def option.map_comp comp_def split: option.split)

text \<open>
  C33: the keys named in the tooltips work like the buttons. While no panel is open, pressing
  any key a button's tooltip names, from the window event through the listener script, the
  shortcut tables and the callbacks, leads to the same router, with the same display, calculator,
  messages and sounds, as clicking the button, also when it panics; and the button is highlighted.
\<close>

theorem keys_work_like_buttons:
  assumes "b \<in> set (concat BUTTON_ROWS)" and "e \<in> set (hint_presses (bd_action b))" and "open_overlays a = no_overlays"
  shows "\<exists>g. button_click (bd_action b) = Some g
    \<and> map_option (\<lambda>a'. (ap_router a', cx_keyboard_pressed (ap_ctx a'), cx_last_keyboard_action (ap_ctx a')))
        (window_event_step D E C now_ms io (KeyDown e) a)
      = map_option (\<lambda>a'. (ap_router a', True, bd_action b)) (run_calls D E C parse_id now_ms io [Grid g] a)"
proof -
  have calls: "window_calls no_overlays (KeyDown e)
      = [OnKeyboardPressed True, OnLastAction (bd_action b), OnKeyboardAction (bd_action b)]"
    using tooltips_hold assms(1,2) unfolding list_all_iff by blast
  obtain g where g: "button_click (bd_action b) = Some g"
      "dispatched_action (connected_handler g) = parse_action (bd_action b)"
    using keys_and_buttons_complete assms(1) by (fastforce simp: list_all_iff)
  define x where "x = (ap_ctx a)\<lparr>cx_keyboard_pressed := True, cx_last_keyboard_action := bd_action b\<rparr>"
  let ?act = "parse_action (bd_action b)"
  have key: "window_event_step D E C now_ms io (KeyDown e) a
      = (case ?act of Some act \<Rightarrow> dispatch_to_router D now_ms act (a\<lparr>ap_ctx := x\<rparr>) | None \<Rightarrow> Some (a\<lparr>ap_ctx := x\<rparr>))"
    by (simp add: window_event_step_def assms(3) calls app_key_call_def handle_call_action dispatched_action_def x_def
        split: option.split)
  have click: "run_calls D E C parse_id now_ms io [Grid g] a
      = (case ?act of Some act \<Rightarrow> dispatch_to_router D now_ms act a | None \<Rightarrow> Some a)"
  proof -
    have "Option.bind m (run_calls D E C parse_id now_ms io []) = m" for m :: "('a, f64_number) app option"
      by (cases m) simp_all
    then show ?thesis
      by (simp add: app_call_def handle_call_action g(2) split: option.split)
  qed
  have "map_option (\<lambda>a'. (ap_router a', cx_keyboard_pressed (ap_ctx a'), cx_last_keyboard_action (ap_ctx a')))
        (window_event_step D E C now_ms io (KeyDown e) a)
      = map_option (\<lambda>a'. (ap_router a', True, bd_action b)) (run_calls D E C parse_id now_ms io [Grid g] a)"
    unfolding key click dispatch_keeps_ctx by (simp add: x_def option.map_comp comp_def split: option.split)
  then show ?thesis using g(1) by blast
qed

theorem keys_work_like_buttons_witness:
  "map_option ap_router
     (window_event_step fx_ops demo_view_env demo_crypto 0 no_io (KeyDown (plain_key ''5'' ''Numpad5'')) demo_view_app)
   = map_option ap_router
     (run_calls fx_ops demo_view_env demo_crypto demo_parse_id 0 no_io [Grid (OnDigitPressed 5)] demo_view_app)"
proof -
  let ?b = "button_new ''5'' ''digit'' ''digit:5''"
  have b: "?b \<in> set (concat BUTTON_ROWS)"
    by (simp add: BUTTON_ROWS_def)
  have e: "plain_key ''5'' ''Numpad5'' \<in> set (hint_presses (bd_action ?b))"
    by (simp add: button_defs hint_presses_def keyboard_hint_for_action_def read_key_def triggers_eval)
  have o: "open_overlays demo_view_app = no_overlays"
    by (simp add: open_overlays_def no_overlays_def demo_view_app_def sync_network_state_def new_context_def Let_def)
  have "button_click (bd_action ?b) = Some (OnDigitPressed 5)"
    by (simp add: button_defs button_click_def)
  with keys_work_like_buttons [OF b e o, of fx_ops demo_view_env demo_crypto 0 no_io demo_parse_id]
  have "map_option fst (map_option (\<lambda>a'. (ap_router a', cx_keyboard_pressed (ap_ctx a'), cx_last_keyboard_action (ap_ctx a')))
        (window_event_step fx_ops demo_view_env demo_crypto 0 no_io (KeyDown (plain_key ''5'' ''Numpad5'')) demo_view_app))
      = map_option fst (map_option (\<lambda>a'. (ap_router a', True, bd_action ?b))
        (run_calls fx_ops demo_view_env demo_crypto demo_parse_id 0 no_io [Grid (OnDigitPressed 5)] demo_view_app))"
    by simp
  then show ?thesis
    by (simp only: option.map_comp comp_def fst_conv)
qed

end
