(* ===== verification/Platform.thy ===== *)
theory Platform
  imports Transports
begin

text \<open>
  Where the application meets the platform: the Wi-Fi multicast lock of Android
  (\<open>src/net/android.rs\<close>) and the multicast transport that holds it
  (\<open>src/net/discovery/multicast.rs\<close>), the dark mode of the desktop (\<open>src/app/platform.rs\<close>), and
  the errors of the application (\<open>src/error.rs\<close>). What the Java virtual machine, the sockets and
  the other processes answer are arguments; the lock objects the system handed out and still
  holds are state.
\<close>

section \<open>The multicast lock\<close>

definition result_bind :: "'e + 'a \<Rightarrow> ('a \<Rightarrow> 'e + 'b) \<Rightarrow> 'e + 'b" where
  "result_bind m f = (case m of Inl e \<Rightarrow> Inl e | Inr x \<Rightarrow> f x)"

lemma result_bind_Inr: "result_bind m f = Inr y \<longleftrightarrow> (\<exists>x. m = Inr x \<and> f x = Inr y)"
  by (cases m) (simp_all add: result_bind_def)

text \<open>
  The answers of the virtual machine, in the order of the calls. A call that returns an object
  answers whether the object is not null.
\<close>

record jni_answers =
  jn_vm_null :: bool
  jn_from_raw :: "string + unit"
  jn_attach :: "string + unit"
  jn_wifi_string :: "string + unit"
  jn_wifi_service :: "string + bool"
  jn_lock_tag :: "string + unit"
  jn_create_lock :: "string + bool"
  jn_set_counted :: "string + unit"
  jn_acquire :: "string + unit"
  jn_global_ref :: "string + unit"

text \<open>
  Lock objects are numbered as the system creates them; \<open>ls_held\<close> are the acquired ones. The
  guards in use are the one of the legacy interface and those of the transports.
\<close>

record lock_state =
  ls_next :: nat
  ls_held :: "nat list"
  ls_global :: "nat option"
  ls_transports :: "nat list"

definition lock_state_init :: lock_state where
  "lock_state_init = \<lparr>ls_next = 0, ls_held = [], ls_global = None, ls_transports = []\<rparr>"

definition wifi_service :: "jni_answers \<Rightarrow> string + unit" where
  "wifi_service j =
     (if jn_vm_null j then Inl ''Android context VM is null''
      else
        result_bind (jn_from_raw j) (\<lambda>_.
        result_bind (jn_attach j) (\<lambda>_.
        result_bind (jn_wifi_string j) (\<lambda>_.
        result_bind (jn_wifi_service j) (\<lambda>found.
        if found then Inr () else Inl ''getSystemService(wifi) returned null'')))))"

definition guard_acquire :: "jni_answers \<Rightarrow> lock_state \<Rightarrow> (string + nat) \<times> lock_state" where
  "guard_acquire j s =
     (case result_bind (wifi_service j) (\<lambda>_.
             result_bind (jn_lock_tag j) (\<lambda>_.
             result_bind (jn_create_lock j) (\<lambda>created.
             if created then Inr (ls_next s) else Inl ''WifiManager.createMulticastLock returned null''))) of
        Inl e \<Rightarrow> (Inl e, s)
      | Inr lock \<Rightarrow>
          let s = s\<lparr>ls_next := Suc (ls_next s)\<rparr>
          in case result_bind (jn_set_counted j) (\<lambda>_. jn_acquire j) of
               Inl e \<Rightarrow> (Inl e, s)
             | Inr _ \<Rightarrow>
                 let s = s\<lparr>ls_held := lock # ls_held s\<rparr>
                 in (result_bind (jn_global_ref j) (\<lambda>_. Inr lock), s))"

text \<open>\<open>Drop\<close>: the answers are that the thread attaches and that the call succeeds.\<close>

definition guard_drop :: "bool \<times> bool \<Rightarrow> nat \<Rightarrow> lock_state \<Rightarrow> lock_state" where
  "guard_drop answers lock s =
     (if \<not> fst answers then s
      else if snd answers then s\<lparr>ls_held := removeAll lock (ls_held s)\<rparr>
      else s)"

text \<open>Assigning to the slot drops the guard that was in it.\<close>

definition acquire_multicast_lock ::
    "jni_answers \<Rightarrow> bool \<times> bool \<Rightarrow> lock_state \<Rightarrow> (string + unit) \<times> lock_state" where
  "acquire_multicast_lock j answers s =
     (case guard_acquire j s of
        (Inl e, s) \<Rightarrow> (Inl e, s)
      | (Inr guard, s) \<Rightarrow>
          let s = (case ls_global s of Some old \<Rightarrow> guard_drop answers old s | None \<Rightarrow> s)
          in (Inr (), s\<lparr>ls_global := Some guard\<rparr>))"

definition release_multicast_lock :: "bool \<times> bool \<Rightarrow> lock_state \<Rightarrow> lock_state" where
  "release_multicast_lock answers s =
     (case ls_global s of
        Some guard \<Rightarrow> guard_drop answers guard (s\<lparr>ls_global := None\<rparr>)
      | None \<Rightarrow> s)"

section \<open>The multicast transport\<close>

definition multicast_addr :: u32 where "multicast_addr = 0xE00000A7"

text \<open>The answers of the sockets, in the order of the calls.\<close>

record socket_answers =
  so_send_new :: "string + unit"
  so_send_bind :: "string + unit"
  so_send_nonblocking :: "string + unit"
  so_send_from_std :: "string + unit"
  so_send_loop :: "string + unit"
  so_send_ttl :: "string + unit"
  so_recv_new :: "string + unit"
  so_recv_reuse :: "string + unit"
  so_recv_bind :: "string + unit"
  so_recv_nonblocking :: "string + unit"
  so_recv_from_std :: "string + unit"
  so_recv_join :: "string + unit"

record multicast_transport =
  mt_target :: socket_addr
  mt_lock :: "nat option"

text \<open>The time to live may fail.\<close>

definition multicast_sockets :: "socket_answers \<Rightarrow> string + socket_addr" where
  "multicast_sockets a =
     (let multicast_target = (IPv4 multicast_addr, DISCOVERY_PORT) in
      result_bind (so_send_new a) (\<lambda>_.
      result_bind (so_send_bind a) (\<lambda>_.
      result_bind (so_send_nonblocking a) (\<lambda>_.
      result_bind (so_send_from_std a) (\<lambda>_.
      result_bind (so_send_loop a) (\<lambda>_.
      result_bind (so_recv_new a) (\<lambda>_.
      result_bind (so_recv_reuse a) (\<lambda>_.
      result_bind (so_recv_bind a) (\<lambda>_.
      result_bind (so_recv_nonblocking a) (\<lambda>_.
      result_bind (so_recv_from_std a) (\<lambda>_.
      result_bind (so_recv_join a) (\<lambda>_.
      Inr multicast_target))))))))))))"

text \<open>
  The lock comes first; an early return after it drops the guard. Elsewhere than on Android
  there is no lock.
\<close>

definition multicast_new ::
    "bool \<Rightarrow> jni_answers \<Rightarrow> socket_answers \<Rightarrow> bool \<times> bool \<Rightarrow> lock_state \<Rightarrow>
     (string + multicast_transport) \<times> lock_state" where
  "multicast_new android j a answers s =
     (if android
      then
        case guard_acquire j s of
          (Inl e, s) \<Rightarrow> (Inl (''MulticastLock acquisition failed: '' @ e), s)
        | (Inr guard, s) \<Rightarrow>
            (case multicast_sockets a of
               Inl e \<Rightarrow> (Inl e, guard_drop answers guard s)
             | Inr target \<Rightarrow>
                 (Inr \<lparr>mt_target = target, mt_lock = Some guard\<rparr>,
                  s\<lparr>ls_transports := guard # ls_transports s\<rparr>))
      else
        (case multicast_sockets a of
           Inl e \<Rightarrow> (Inl e, s)
         | Inr target \<Rightarrow> (Inr \<lparr>mt_target = target, mt_lock = None\<rparr>, s)))"

text \<open>Dropping a transport drops its guard.\<close>

definition multicast_drop :: "bool \<times> bool \<Rightarrow> nat \<Rightarrow> lock_state \<Rightarrow> lock_state" where
  "multicast_drop answers guard s =
     (if guard \<in> set (ls_transports s)
      then guard_drop answers guard (s\<lparr>ls_transports := removeAll guard (ls_transports s)\<rparr>)
      else s)"

section \<open>The lock is held exactly while it is used\<close>

datatype lock_event =
    LegacyAcquire jni_answers "bool \<times> bool"
  | LegacyRelease "bool \<times> bool"
  | NewTransport jni_answers socket_answers "bool \<times> bool"
  | DropTransport nat "bool \<times> bool"

fun lock_step :: "lock_state \<Rightarrow> lock_event \<Rightarrow> lock_state option" where
  "lock_step s (LegacyAcquire j d) = Some (snd (acquire_multicast_lock j d s))"
| "lock_step s (LegacyRelease d) = Some (release_multicast_lock d s)"
| "lock_step s (NewTransport j a d) = Some (snd (multicast_new True j a d s))"
| "lock_step s (DropTransport guard d) = Some (multicast_drop d guard s)"

text \<open>
  \<open>guards_ok\<close>: every guard in use stands for an acquired lock, and the slot for one of its own.
  \<open>only_guards\<close>: and no other lock is acquired.
\<close>

definition in_use :: "lock_state \<Rightarrow> nat set" where
  "in_use s = set (ls_transports s) \<union> set_option (ls_global s)"

definition guards_ok :: "lock_state \<Rightarrow> bool" where
  "guards_ok s =
     (in_use s \<subseteq> set (ls_held s)
      \<and> (\<forall>g. ls_global s = Some g \<longrightarrow> g \<notin> set (ls_transports s))
      \<and> (\<forall>l\<in>set (ls_held s). l < ls_next s))"

definition only_guards :: "lock_state \<Rightarrow> bool" where
  "only_guards s = (guards_ok s \<and> set (ls_held s) = in_use s)"

text \<open>The virtual machine never fails to make a global reference or to release a lock.\<close>

definition vm_reliable :: "lock_event \<Rightarrow> bool" where
  "vm_reliable ev =
     (case ev of
        LegacyAcquire j d \<Rightarrow> jn_global_ref j = Inr () \<and> d = (True, True)
      | LegacyRelease d \<Rightarrow> d = (True, True)
      | NewTransport j a d \<Rightarrow> jn_global_ref j = Inr () \<and> d = (True, True)
      | DropTransport guard d \<Rightarrow> d = (True, True))"

text \<open>What taking the lock may do.\<close>

lemma guard_acquire_cases:
  obtains (unchanged) e n where "guard_acquire j s = (Inl e, s\<lparr>ls_next := n\<rparr>)" "ls_next s \<le> n"
  | (lost) e where "guard_acquire j s =
      (Inl e, s\<lparr>ls_next := Suc (ls_next s), ls_held := ls_next s # ls_held s\<rparr>)" "jn_global_ref j = Inl e"
  | (acquired) "guard_acquire j s =
      (Inr (ls_next s), s\<lparr>ls_next := Suc (ls_next s), ls_held := ls_next s # ls_held s\<rparr>)"
proof -
  have "(\<exists>e n. guard_acquire j s = (Inl e, s\<lparr>ls_next := n\<rparr>) \<and> ls_next s \<le> n)
    \<or> (\<exists>e. guard_acquire j s = (Inl e, s\<lparr>ls_next := Suc (ls_next s), ls_held := ls_next s # ls_held s\<rparr>)
          \<and> jn_global_ref j = Inl e)
    \<or> guard_acquire j s = (Inr (ls_next s), s\<lparr>ls_next := Suc (ls_next s), ls_held := ls_next s # ls_held s\<rparr>)"
  proof (cases "result_bind (wifi_service j) (\<lambda>_. result_bind (jn_lock_tag j) (\<lambda>_.
      result_bind (jn_create_lock j) (\<lambda>created.
        if created then Inr (ls_next s) else Inl ''WifiManager.createMulticastLock returned null'')))")
    case (Inl e)
    then have "guard_acquire j s = (Inl e, s\<lparr>ls_next := ls_next s\<rparr>)"
      by (simp add: guard_acquire_def)
    then show ?thesis by blast
  next
    case (Inr lock)
    then have "lock = ls_next s" by (auto simp: result_bind_Inr split: if_splits)
    then show ?thesis
      using Inr by (cases "result_bind (jn_set_counted j) (\<lambda>_. jn_acquire j)"; cases "jn_global_ref j")
        (auto simp: guard_acquire_def Let_def result_bind_def intro: le_SucI)
  qed
  then show ?thesis using that by blast
qed

text \<open>
  Taking the lock changes no guard in use and gives a new one; only a refused global reference
  leaves a lock behind. Dropping a guard that is not in use any more does no harm.
\<close>

lemma acquire_ok:
  assumes "guards_ok s" and "guard_acquire j s = (r, s')"
  shows "guards_ok s'" and "ls_transports s' = ls_transports s" and "ls_global s' = ls_global s"
    and "r = Inr lock \<Longrightarrow> lock \<notin> in_use s' \<and> set (ls_held s') = insert lock (set (ls_held s))"
    and "r = Inl e \<Longrightarrow> jn_global_ref j = Inr () \<Longrightarrow> ls_held s' = ls_held s"
  using assms by (cases rule: guard_acquire_cases [of j s];
      fastforce simp: guards_ok_def in_use_def less_Suc_eq)+

lemma drop_frame [simp]:
  "ls_transports (guard_drop d l s) = ls_transports s" "ls_global (guard_drop d l s) = ls_global s"
  "in_use (guard_drop d l s) = in_use s"
  "set (ls_held (guard_drop (True, True) l s)) = set (ls_held s) - {l}"
  by (simp_all add: guard_drop_def in_use_def)

lemma drop_ok: "guards_ok s \<Longrightarrow> l \<notin> in_use s \<Longrightarrow> guards_ok (guard_drop d l s)"
  by (auto simp: guards_ok_def in_use_def guard_drop_def)

lemma in_use_update [simp]:
  "in_use (s\<lparr>ls_global := g\<rparr>) = set (ls_transports s) \<union> set_option g"
  "in_use (s\<lparr>ls_transports := ts\<rparr>) = set ts \<union> set_option (ls_global s)"
  by (simp_all add: in_use_def)

lemma legacy_acquire_ok:
  assumes "guards_ok s"
  shows "guards_ok (snd (acquire_multicast_lock j d s))"
    and "only_guards s \<Longrightarrow> jn_global_ref j = Inr () \<Longrightarrow> d = (True, True) \<Longrightarrow>
      only_guards (snd (acquire_multicast_lock j d s))"
proof -
  obtain r s1 where r: "guard_acquire j s = (r, s1)" by force
  note ok = acquire_ok [OF assms r]
  show one: "guards_ok (snd (acquire_multicast_lock j d s))"
    using ok(1,4) r by (cases r) (auto simp: acquire_multicast_lock_def Let_def guards_ok_def in_use_def guard_drop_def
        split: option.split)
  show "only_guards (snd (acquire_multicast_lock j d s))"
    if "only_guards s" "jn_global_ref j = Inr ()" "d = (True, True)"
    using that one ok r
    by (cases r) (auto simp: acquire_multicast_lock_def Let_def only_guards_def guards_ok_def in_use_def split: option.splits)
qed

lemma transport_ok:
  assumes "guards_ok s"
  shows "guards_ok (snd (multicast_new True j a d s))"
    and "only_guards s \<Longrightarrow> jn_global_ref j = Inr () \<Longrightarrow> d = (True, True) \<Longrightarrow>
      only_guards (snd (multicast_new True j a d s))"
proof -
  obtain r s1 where r: "guard_acquire j s = (r, s1)" by force
  note ok = acquire_ok [OF assms r]
  show one: "guards_ok (snd (multicast_new True j a d s))"
    using ok(1,4) r drop_ok [OF ok(1)]
    by (cases r; cases "multicast_sockets a") (auto simp: multicast_new_def guards_ok_def in_use_def)
  show "only_guards (snd (multicast_new True j a d s))"
    if "only_guards s" "jn_global_ref j = Inr ()" "d = (True, True)"
    using that one ok r
    by (cases r; cases "multicast_sockets a") (auto simp: multicast_new_def only_guards_def in_use_def)
qed

lemma release_ok:
  assumes "guards_ok s"
  shows "guards_ok (release_multicast_lock d s)" and "guards_ok (multicast_drop d g s)"
    and "only_guards s \<Longrightarrow> only_guards (release_multicast_lock (True, True) s)"
    and "only_guards s \<Longrightarrow> only_guards (multicast_drop (True, True) g s)"
proof -
  show one: "guards_ok (release_multicast_lock d s)" "guards_ok (multicast_drop d g s)" for d
    using assms by (auto simp: release_multicast_lock_def multicast_drop_def guards_ok_def in_use_def guard_drop_def
        split: option.split)
  show "only_guards (release_multicast_lock (True, True) s)" "only_guards (multicast_drop (True, True) g s)"
    if "only_guards s"
    using that one [of "(True, True)"]
    by (auto simp: release_multicast_lock_def multicast_drop_def only_guards_def guards_ok_def in_use_def
        split: option.split)
qed

interpretation lk: event_machine lock_step "\<lambda>_. True" guards_ok
proof
  show "guards_ok s'" if "guards_ok s" "lock_step s ev = Some s'" for s ev s'
    using that legacy_acquire_ok(1) transport_ok(1) release_ok(1,2) by (cases ev) auto
qed

interpretation lk_reliable: event_machine lock_step vm_reliable only_guards
proof
  show "only_guards s'" if "only_guards s" "vm_reliable ev" "lock_step s ev = Some s'" for s ev s'
    using that legacy_acquire_ok(2) transport_ok(2) release_ok(3,4)
    by (cases ev) (auto simp: vm_reliable_def only_guards_def)
qed

text \<open>
  However transports come and go and the legacy interface is used, the lock of every transport
  and of the legacy slot is held, so that their packets are not dropped. If the virtual machine
  neither refuses a global reference nor a release, nothing else is held, and none at all when
  all of them are gone.
\<close>

lemma lock_held_while_used:
  assumes "run_steps lock_step lock_state_init evs = Some s"
  shows "in_use s \<subseteq> set (ls_held s) \<and> (list_all vm_reliable evs \<longrightarrow> set (ls_held s) = in_use s)"
proof -
  have init: "guards_ok lock_state_init" "only_guards lock_state_init"
    by (simp_all add: guards_ok_def only_guards_def in_use_def lock_state_init_def)
  have "guards_ok s"
    using lk.run_inv [OF init(1) _ assms] by (simp add: list_all_iff)
  moreover have "list_all vm_reliable evs \<Longrightarrow> only_guards s"
    using lk_reliable.run_inv [OF init(2) _ assms] by simp
  ultimately show ?thesis by (auto simp: guards_ok_def only_guards_def)
qed

text \<open>
  A lock that was acquired but got no global reference is held by nobody: the caller is told
  that there is no lock, and releasing does nothing.
\<close>

definition refused_reference :: jni_answers where
  "refused_reference =
     \<lparr>jn_vm_null = False, jn_from_raw = Inr (), jn_attach = Inr (), jn_wifi_string = Inr (),
      jn_wifi_service = Inr True, jn_lock_tag = Inr (), jn_create_lock = Inr True,
      jn_set_counted = Inr (), jn_acquire = Inr (), jn_global_ref = Inl ''refused''\<rparr>"

lemma refused_reference_leaks:
  "fst (acquire_multicast_lock refused_reference (True, True) lock_state_init) = Inl ''refused''
   \<and> ls_held (release_multicast_lock (True, True)
        (snd (acquire_multicast_lock refused_reference (True, True) lock_state_init))) = [0]"
  by code_simp

section \<open>The dark mode of the desktop\<close>

text \<open>
  \<open>String::from_utf8_lossy\<close>: what is not UTF-8 becomes the replacement character, one for each
  longest beginning of a character.
\<close>

definition continuation :: "nat \<Rightarrow> char \<Rightarrow> bool" where
  "continuation lead c =
     (let (lo, hi) = (if lead = 0xE0 then (0xA0, 0xBF) else if lead = 0xED then (0x80, 0x9F)
        else if lead = 0xF0 then (0x90, 0xBF) else if lead = 0xF4 then (0x80, 0x8F) else (0x80, 0xBF))
      in lo \<le> code c \<and> code c \<le> hi)"

definition following :: "char \<Rightarrow> nat option" where
  "following c =
     (let n = code c in
      if n < 0x80 then Some 0 else if 0xC2 \<le> n \<and> n \<le> 0xDF then Some 1
      else if 0xE0 \<le> n \<and> n \<le> 0xEF then Some 2 else if 0xF0 \<le> n \<and> n \<le> 0xF4 then Some 3 else None)"

definition continued :: "char \<Rightarrow> nat \<Rightarrow> string \<Rightarrow> nat" where
  "continued lead n bs =
     (case take n bs of
        [] \<Rightarrow> 0
      | c # cs \<Rightarrow> if continuation (code lead) c then Suc (length (takeWhile (continuation 0) cs)) else 0)"

function from_utf8_lossy :: "string \<Rightarrow> string" where
  "from_utf8_lossy [] = []"
| "from_utf8_lossy (b # bs) =
     (case following b of
        None \<Rightarrow> utf8 [0xEF, 0xBF, 0xBD] @ from_utf8_lossy bs
      | Some n \<Rightarrow>
          (let k = continued b n bs
           in (if k = n then b # take k bs else utf8 [0xEF, 0xBF, 0xBD]) @ from_utf8_lossy (drop k bs)))"
  by pat_completeness auto
termination
  by (relation "measure length") auto

text \<open>\<open>str::lines\<close> and \<open>str::contains\<close>.\<close>

function str_lines :: "string \<Rightarrow> string list" where
  "str_lines [] = []"
| "str_lines (c # cs) =
     (let line = takeWhile (\<lambda>x. x \<noteq> byte 10) (c # cs);
          rest = dropWhile (\<lambda>x. x \<noteq> byte 10) (c # cs)
      in (if rest \<noteq> [] \<and> line \<noteq> [] \<and> last line = byte 13 then butlast line else line)
           # str_lines (tl rest))"
  by pat_completeness auto
termination
proof (relation "measure length")
  fix c :: char and cs line rest
  assume "rest = dropWhile (\<lambda>x. x \<noteq> byte 10) (c # cs)"
  then show "(tl rest, c # cs) \<in> measure length"
    using length_dropWhile_le [of "\<lambda>x. x \<noteq> byte 10" "c # cs"] by auto
qed simp

definition str_contains :: "string \<Rightarrow> string \<Rightarrow> bool" where
  "str_contains s p = list_ex (\<lambda>k. starts_with (drop k s) p) [0..<Suc (length s)]"

fun theme_from_lines :: "string list \<Rightarrow> bool option" where
  "theme_from_lines [] = None"
| "theme_from_lines (line # rest) =
     (if str_contains line ''AppsUseLightTheme''
      then if str_contains line ''0x0'' then Some True
           else if str_contains line ''0x1'' then Some False
           else theme_from_lines rest
      else theme_from_lines rest)"

text \<open>\<open>output\<close>: what \<open>reg query\<close> printed, if it ran.\<close>

definition detect_system_dark_mode :: "bool \<Rightarrow> string option \<Rightarrow> bool" where
  "detect_system_dark_mode windows output =
     (if windows
      then (case Option.bind output (\<lambda>bs. theme_from_lines (str_lines (from_utf8_lossy bs))) of
              Some dark \<Rightarrow> dark
            | None \<Rightarrow> False)
      else False)"

lemma ascii_kept: "ascii s \<Longrightarrow> from_utf8_lossy s = s"
proof (induction s)
  case (Cons b bs)
  then have "following b = Some 0" by (simp add: ascii_def following_def Let_def)
  then show ?case
    using Cons by (simp add: ascii_def continued_def)
qed simp

definition reg_output :: "string \<Rightarrow> string" where
  "reg_output shown_value =
     [byte 13, byte 10] @ ''HKEY_CURRENT_USER'' @ [byte 13, byte 10]
     @ ''    AppsUseLightTheme    REG_DWORD    '' @ shown_value @ [byte 13, byte 10, byte 13, byte 10]"

text \<open>The answer to the output of the registry tool for a dark, a light and a missing value.\<close>

lemma theme_detected:
  "detect_system_dark_mode True (Some (reg_output ''0x0''))
   \<and> \<not> detect_system_dark_mode True (Some (reg_output ''0x1''))
   \<and> \<not> detect_system_dark_mode True None"
  by code_simp

section \<open>Errors\<close>

text \<open>
  \<open>'io\<close> is the error type of the standard library's input and output, with the text
  \<open>io_text\<close>; bincode's and toml's errors are their texts.
\<close>

datatype 'io app_error =
    E_Calc calc_error
  | E_Audio string
  | E_Network 'io
  | E_Config string
  | E_Serialization string
  | E_Io 'io

fun app_error_to_string :: "('io \<Rightarrow> string) \<Rightarrow> 'io app_error \<Rightarrow> string" where
  "app_error_to_string io_text (E_Calc e) = ''calculation error: '' @ calc_error_to_string e"
| "app_error_to_string io_text (E_Audio msg) = ''audio error: '' @ msg"
| "app_error_to_string io_text (E_Network e) = ''network error: '' @ io_text e"
| "app_error_to_string io_text (E_Config msg) = ''config error: '' @ msg"
| "app_error_to_string io_text (E_Serialization msg) = ''serialization error: '' @ msg"
| "app_error_to_string io_text (E_Io e) = ''I/O error: '' @ io_text e"

text \<open>\<open>Error::source\<close>.\<close>

fun app_error_source :: "'io app_error \<Rightarrow> (calc_error + 'io) option" where
  "app_error_source (E_Calc e) = Some (Inl e)"
| "app_error_source (E_Network e) = Some (Inr e)"
| "app_error_source (E_Io e) = Some (Inr e)"
| "app_error_source _ = None"

text \<open>What \<open>From\<close> is implemented for.\<close>

datatype 'io convertible =
    CalcFault calc_error
  | IoFault 'io
  | BincodeEncodeFault string
  | BincodeDecodeFault string
  | TomlReadFault string
  | TomlWriteFault string

fun app_error_from :: "'io convertible \<Rightarrow> 'io app_error" where
  "app_error_from (CalcFault e) = E_Calc e"
| "app_error_from (IoFault e) = E_Io e"
| "app_error_from (BincodeEncodeFault text) = E_Serialization text"
| "app_error_from (BincodeDecodeFault text) = E_Serialization text"
| "app_error_from (TomlReadFault text) = E_Config text"
| "app_error_from (TomlWriteFault text) = E_Config text"

text \<open>The convenience constructors.\<close>

definition app_error_audio :: "string \<Rightarrow> 'io app_error" where "app_error_audio msg = E_Audio msg"

definition app_error_network :: "'io \<Rightarrow> 'io app_error" where "app_error_network e = E_Network e"

definition app_error_config :: "string \<Rightarrow> 'io app_error" where "app_error_config msg = E_Config msg"

text \<open>
  The text of an error determines it up to errors with the same text: no message hides
  the domain of another.
\<close>

lemma error_text_determines:
  "app_error_to_string io_text e = app_error_to_string io_text e' \<Longrightarrow> inj io_text \<Longrightarrow> e = e'"
  using error_texts_distinct by (cases e; cases e') (auto simp: inj_eq)

end
