(* ===== verification/Spec2Isabelle.thy ===== *)
theory Spec2Isabelle
  imports Calculator_Theorems Audio Router_Theorems Runtime_Theorems Convergence Storage Transports Tones Layout_Theorems
    Platform
begin

text \<open>
  A desk calculator that speaks, and that can be driven from another device on the local
  network. A key press goes from a button or the keyboard (\<open>src/components\<close>) through the bridge
  (\<open>src/ui/bridge.rs\<close>) to the router (\<open>src/net/router.rs\<close>). The router executes it on its own
  calculator (\<open>src/core\<close>) and has the result spoken (\<open>src/audio\<close>), or sends it to the device
  that was selected as executor: by way of the runtime (\<open>src/net/runtime.rs\<close>) and one
  authenticated session (\<open>src/net/session.rs\<close>, \<open>src/net/handshake.rs\<close>) to the runtime, the bridge and
  the router there, whose calculator executes it and whose state comes back as a snapshot.
  Devices find each other by mDNS and multicast (\<open>src/net/discovery\<close>); identity and
  configuration are stored on disk (\<open>src/app\<close>).

  \<^bold>\<open>Theories and code.\<close>

  \<^item> \<open>Prelude\<close>, \<open>Rust_Str\<close>: hash maps, hash sets, bounded channels, instants and saturating
    arithmetic; UTF-8 strings with the library functions the code calls. Three contracts are
    locales: \<open>finite_map_iface\<close> with \<open>evicting_table\<close> on top (interpreted on the hash map model),
    \<open>bounded_queue\<close> (on the channel model) and \<open>event_machine\<close>, a step function whose invariant
    every admissible event preserves (interpreted for the calculator, router, session, runtime,
    manager, peer table, storage, the whole application, the multicast lock and the width of
    the split screen).
  \<^item> \<open>Token\<close>, \<open>Format\<close>, \<open>Calculator\<close>: \<open>core/token.rs\<close>, \<open>core/action.rs\<close>, \<open>core/format.rs\<close>,
    \<open>core/calculator.rs\<close>. The record \<open>calculator\<close> is the struct, one definition per method,
    \<open>calc_dispatch\<close> is \<open>dispatch\<close>. \<open>Calculator_Theorems\<close>: key sequences against small reference
    semantics (left fold of a chain, repeated equals, percent and mark-up), the invariant of the
    typed input, the error state, and where a panic can come from.
  \<^item> \<open>Speech\<close>: \<open>core/speech.rs\<close>; a listener \<open>hear\<close> who accepts only well-formed Chinese
    numerals, and for which numbers of up to twelve digits he hears the number that was meant: not
    for all, since the code says "zero thousand" for a group that begins with zeros.
  \<^item> \<open>Wav\<close>, \<open>Floats\<close>, \<open>Convert\<close>, \<open>Audio\<close>, \<open>Tones\<close>: \<open>audio/\<close>. Parsing, joining and converting WAV
    buffers, the index sequences of the playback modes, the synthesis of the music tones, the
    loading of the recordings and the player. Floating-point results are exact: each operation
    is the rational result rounded to 53 (or 24) bits.
  \<^item> \<open>Protocol\<close>, \<open>Router\<close>, \<open>Router_Theorems\<close>: \<open>net/protocol.rs\<close>, \<open>net/router.rs\<close>. The record \<open>router\<close> is
    \<open>RouterInner\<close> with its display and audio collaborators as recorded effects. Boundedness of
    all tables, admission of remote actions, no replay while a peer's session lasts, the rate
    limit over whole runs with the events that reset it, exactly-once execution of a local key,
    agreement of controller and executor.
  \<^item> \<open>Handshake\<close>, \<open>Session\<close>: both sides of the handshake as functions over the connection's input
    and output; the relay loop of a session as a step function over its \<open>select!\<close> branches.
    Authentication, completion between honest nodes, faithful relay, the heartbeat.
  \<^item> \<open>Network_Mode\<close>, \<open>Discovery\<close>, \<open>Transports\<close>, \<open>Runtime\<close>, \<open>Runtime_Theorems\<close>, \<open>Manager\<close>:
    \<open>app/config.rs\<close>, \<open>app/network_mode.rs\<close>, \<open>net/discovery/\<close>, \<open>net/runtime.rs\<close>, \<open>net/mod.rs\<close>. The tasks of
    the runtime share one state, \<open>network_state\<close>; \<open>runtime_step\<close> takes one step of any of them, so
    that a run is an arbitrary interleaving. Bounds on every table and permit, the socket
    policy of the network modes, deduplication of simultaneous connections, one runtime thread.
  \<^item> \<open>Keyboard\<close>, \<open>Ui_Texts\<close>, \<open>Bridge\<close>, \<open>Bridge_Theorems\<close>: \<open>components/keyboard.rs\<close>,
    \<open>components/button_grid.rs\<close>, \<open>components/calculator.rs\<close>, \<open>ui/bridge.rs\<close>, \<open>ui/state.rs\<close>, \<open>main.rs\<close>.
    Shortcuts and buttons, the event loop, the handlers and callbacks, the start of the
    application. The view is a function of the state behind it, one panel is open at most,
    settings of a readable configuration file survive a restart. The start reads that file twice,
    in \<open>main\<close> for the network mode (\<open>boot\<close>) and when the interface comes up (\<open>io\<close>), and each read
    of a file without a device name draws a name of its own.
  \<^item> \<open>Storage\<close>: \<open>app/identity.rs\<close>, \<open>app/storage.rs\<close>. An identity that is stable as long
    as its files can be seen, migrations that keep the data.
  \<^item> \<open>Listener\<close>: the script of \<open>components/keyboard.rs\<close> that catches the browser's key events, and the
    tooltips of the buttons. It takes away the application's shortcuts, except what belongs to a
    field or a focused button, and every key a tooltip names triggers its button.
  \<^item> \<open>View_Texts\<close>, \<open>View\<close>, \<open>Panels\<close>, \<open>Layout\<close>, \<open>Layout_Theorems\<close>: the other files of \<open>src/components\<close> and
    \<open>App\<close> of \<open>main.rs\<close>. A component is a function from its props to a tree of elements whose
    handlers are the calls they make; \<open>app_view\<close> is the whole screen, \<open>run_calls\<close> what the
    application does on a click, \<open>window_event_step\<close> on a key. \<open>reachable\<close> adds the rules of
    \<open>styles/status_bar.css\<close>, \<open>styles/calculator.css\<close> and \<open>styles/panels.css\<close> that hide or cover what
    can be clicked, by window size. What the screen offers to the pointer in each kind of window,
    keys and buttons agree, the buttons of the peers do what they say down to the queued command,
    the volume slider stays where it is put.
  \<^item> \<open>Delivery\<close>: one key through router, runtime, session, peer and back.
  \<^item> \<open>Convergence\<close>: a controller and its executor with the two queues between them, any
    interleaving of keys, deliveries and other messages: they end up showing the same, once the
    last action that arrived was executed and answered and nobody else changed the display since.
  \<^item> \<open>Platform\<close>: \<open>net/android.rs\<close>, the sockets of \<open>net/discovery/multicast.rs\<close>, \<open>app/platform.rs\<close>,
    \<open>error.rs\<close>. The multicast lock is held exactly while a transport or the slot has its guard;
    the text of an error determines it.
  \<^item> \<open>Decimal_Instance\<close>: a fixed-point decimal on which the witnesses evaluate.

  \<^bold>\<open>Conventions.\<close> Errors are values: a panic is \<open>None\<close> or \<open>Panics\<close>, an \<open>Err\<close> is \<open>Inl\<close> or a
  constructor of an error type. Arithmetic that wraps or saturates is done on words or written
  out; arithmetic that is checked panics. The clock, random numbers, the outcome of file,
  database and socket operations and of a full queue are arguments of the operation that meets
  them, so that every theorem holds for every outcome. \<open>async\<close> tasks are step functions: what
  happens between two awaits is one step. Loops are structural recursions or come with a
  measure; the chunk loop of the sample conversion is a \<open>while\<close> loop that is proved to end. No
  definition uses fuel.

  \<^bold>\<open>Parameters.\<close> Code outside the repository is an argument: \<open>decimal_ops\<close> (rust_decimal), \<open>kira\<close>
  (the sound engine), \<open>libm\<close> (sine, cosine, logarithm and power, whose precision Rust leaves
  open), the codec and cryptography of the handshake (bincode, HMAC, SHA-256, Ed25519),
  \<open>discovery_codec\<close>, \<open>uuid_text\<close>, the TOML reader and writer, the database. Where a theorem needs
  their documented behaviour (decoding what was encoded, a decimal printing its digits,
  a signature that verifies was made with the key), it is a named hypothesis, and a witness
  applies the theorem to a concrete function.

  \<^bold>\<open>Bounds.\<close> The constants are the code's: 64 tracked and 64 discovered peers, 16 inbound
  sessions, 32 connects in flight, 256 messages per channel, 120 actions per second and peer,
  actions from five minutes back to 30 seconds ahead, 90 seconds until a silent peer expires,
  15 until a silent session ends, frames of 4096 and datagrams of 1024 bytes. Theorems about joined sound take
  at most 4000 sounds of at most a megabyte, which is below the 4 GB a WAV header can say.

  \<^bold>\<open>Not modelled.\<close> The rest of the style sheets and the way Dioxus and the browser turn an element tree into
  pixels and events; logging; socket options other than the order and failure of the calls
  that set them; the timers' scheduling, of which only the steps are modelled. The file
  \<open>net/discovery/broadcast.rs\<close> is no part of the program: no module includes it, and it imports a
  constant that does not exist. The ends of the double exponent range (subnormal numbers and
  overflow) are outside the exact floating-point model; NaN and infinities are values of it only
  where the code can meet them, in recordings and as a slider position.
\<close>

end
